(* ===== verification/Hist_Prelude.thy ===== *)
theory Hist_Prelude
  imports Main "HOL-Library.Word"
begin

unbundle bit_operations_syntax

text \<open>
  Shared vocabulary of the development: the machine types of the Rust code, the result of a
  Rust computation (a value, an \<open>Err\<close>, or a panic), little-endian byte encodings, and the list
  and word lemmas every component uses.

  Arithmetic follows the checked profile of the language (the one the test-suite runs):
  an overflowing shift, subtraction or power panics, and \<open>debug_assert!\<close> is evaluated.  Every
  lemma that shows that no panic arises therefore also covers the unchecked profile.
\<close>

named_theorems res_defs "the combinators of Rust results"
named_theorems len32 "facts about the length of 32-byte values"

subsection \<open>Machine types\<close>

type_synonym byte = "8 word"
type_synonym u64 = "64 word"
type_synonym usize = "64 word"
type_synonym u256 = "256 word"
type_synonym bytes = "byte list"
type_synonym b256 = bytes
type_synonym address = bytes

abbreviation is_b256 :: "bytes \<Rightarrow> bool" where
  "is_b256 b \<equiv> length b = 32"

definition b256_ZERO :: b256 where
  "b256_ZERO = replicate 32 0"

lemma length_b256_ZERO [simp, len32]: "length b256_ZERO = 32"
  by (simp add: b256_ZERO_def)

subsection \<open>Messages\<close>

text \<open>
  An error message of the code is the template given to \<open>format!\<close> (or the literal) with the
  values put into its holes; the text it prints is not modelled further.
\<close>

datatype arg = ANat nat | AInt int | ABytes bytes | AStr string

datatype msg = Msg string "arg list"

abbreviation lit :: "string \<Rightarrow> msg" where
  "lit s \<equiv> Msg s []"

subsection \<open>Results of Rust computations\<close>

datatype ('a, 'e) res = Ok 'a | Err 'e | Panic string

text \<open>The operator \<open>?\<close>: go on with the value, leave on an error or a panic.\<close>

primrec and_then :: "('a, 'e) res \<Rightarrow> ('a \<Rightarrow> ('b, 'e) res) \<Rightarrow> ('b, 'e) res" where
  "and_then (Ok a) f = f a"
| "and_then (Err e) f = Err e"
| "and_then (Panic p) f = Panic p"

primrec map_err :: "('e \<Rightarrow> 'f) \<Rightarrow> ('a, 'e) res \<Rightarrow> ('a, 'f) res" where
  "map_err g (Ok a) = Ok a"
| "map_err g (Err e) = Err (g e)"
| "map_err g (Panic p) = Panic p"

primrec map_ok :: "('a \<Rightarrow> 'b) \<Rightarrow> ('a, 'e) res \<Rightarrow> ('b, 'e) res" where
  "map_ok f (Ok a) = Ok (f a)"
| "map_ok f (Err e) = Err e"
| "map_ok f (Panic p) = Panic p"

text \<open>\<open>Result::expect\<close> and \<open>Result::unwrap\<close>: an error becomes a panic.\<close>

primrec expect :: "string \<Rightarrow> ('a, 'e) res \<Rightarrow> ('a, 'f) res" where
  "expect m (Ok a) = Ok a"
| "expect m (Err e) = Panic m"
| "expect m (Panic p) = Panic p"

definition ok_or :: "'a option \<Rightarrow> 'e \<Rightarrow> ('a, 'e) res" where
  "ok_or x e = (case x of None \<Rightarrow> Err e | Some a \<Rightarrow> Ok a)"

definition is_panic :: "('a, 'e) res \<Rightarrow> bool" where
  "is_panic r = (case r of Panic _ \<Rightarrow> True | _ \<Rightarrow> False)"

definition is_Ok :: "('a, 'e) res \<Rightarrow> bool" where
  "is_Ok r = (case r of Ok _ \<Rightarrow> True | _ \<Rightarrow> False)"

lemma and_then_Ok_iff: "and_then r f = Ok b \<longleftrightarrow> (\<exists>a. r = Ok a \<and> f a = Ok b)"
  by (cases r) auto

lemma and_then_Err_iff:
  "and_then r f = Err e \<longleftrightarrow> r = Err e \<or> (\<exists>a. r = Ok a \<and> f a = Err e)"
  by (cases r) auto

lemma and_then_Panic_iff:
  "and_then r f = Panic p \<longleftrightarrow> r = Panic p \<or> (\<exists>a. r = Ok a \<and> f a = Panic p)"
  by (cases r) auto

lemma and_then_assoc: "and_then (and_then r f) g = and_then r (\<lambda>a. and_then (f a) g)"
  by (cases r) auto

lemma and_then_Ok_right [simp]: "and_then r Ok = r"
  by (cases r) auto

lemma map_err_Ok_iff [simp]: "map_err g r = Ok a \<longleftrightarrow> r = Ok a"
  by (cases r) auto

lemma map_err_Err_iff: "map_err g r = Err e \<longleftrightarrow> (\<exists>e'. r = Err e' \<and> e = g e')"
  by (cases r) auto

lemma map_err_Panic_iff [simp]: "map_err g r = Panic p \<longleftrightarrow> r = Panic p"
  by (cases r) auto

lemma map_ok_Ok_iff: "map_ok f r = Ok b \<longleftrightarrow> (\<exists>a. r = Ok a \<and> b = f a)"
  by (cases r) auto

lemma map_ok_Err_iff [simp]: "map_ok f r = Err e \<longleftrightarrow> r = Err e"
  by (cases r) auto

lemma map_ok_Panic_iff [simp]: "map_ok f r = Panic p \<longleftrightarrow> r = Panic p"
  by (cases r) auto

lemma expect_Ok_iff [simp]: "expect m r = Ok a \<longleftrightarrow> r = Ok a"
  by (cases r) auto

lemma expect_not_Err [simp]: "expect m r \<noteq> Err e"
  by (cases r) auto

lemma ok_or_simps [simp]:
  "ok_or None e = Err e" "ok_or (Some a) e = Ok a"
  by (simp_all add: ok_or_def)

lemma ok_or_Ok_iff [simp]: "ok_or x e = Ok a \<longleftrightarrow> x = Some a"
  by (cases x) auto

lemma is_panic_simps [simp]:
  "\<not> is_panic (Ok a)" "\<not> is_panic (Err e)" "is_panic (Panic p)"
  by (simp_all add: is_panic_def)

lemma is_Ok_simps [simp]:
  "is_Ok (Ok a)" "\<not> is_Ok (Err e)" "\<not> is_Ok (Panic p)"
  by (simp_all add: is_Ok_def)

lemma is_Ok_iff: "is_Ok r \<longleftrightarrow> (\<exists>a. r = Ok a)"
  by (cases r) auto

lemma is_panic_iff: "is_panic r \<longleftrightarrow> (\<exists>p. r = Panic p)"
  by (cases r) auto

lemma is_panic_map_err [simp]: "is_panic (map_err g r) = is_panic r"
  by (cases r) auto

lemma is_panic_and_then:
  "is_panic (and_then r f) \<longleftrightarrow> is_panic r \<or> (\<exists>a. r = Ok a \<and> is_panic (f a))"
  by (cases r) auto

lemmas and_then_iffs = and_then_Ok_iff and_then_Err_iff and_then_Panic_iff

subsection \<open>Checked operations of the language\<close>

definition usize_shr :: "usize \<Rightarrow> nat \<Rightarrow> (usize, 'e) res" where
  "usize_shr w n =
     (if n < 64 then Ok (drop_bit n w) else Panic ''attempt to shift right with overflow'')"

definition usize_pow2 :: "nat \<Rightarrow> (nat, 'e) res" where
  "usize_pow2 n = (if n < 64 then Ok (2 ^ n) else Panic ''attempt to multiply with overflow'')"

definition index_list :: "'a list \<Rightarrow> nat \<Rightarrow> ('a, 'e) res" where
  "index_list xs i = (if i < length xs then Ok (xs ! i) else Panic ''index out of bounds'')"

text \<open>\<open>B256::from_slice\<close> and its siblings: the slice must have the length of the target.\<close>

definition fixed_from_slice :: "nat \<Rightarrow> bytes \<Rightarrow> (bytes, 'e) res" where
  "fixed_from_slice n bs =
     (if length bs = n then Ok bs else Panic ''slice length does not match the fixed size'')"

abbreviation b256_from_slice :: "bytes \<Rightarrow> (b256, 'e) res" where
  "b256_from_slice \<equiv> fixed_from_slice 32"

definition checked_sub :: "u64 \<Rightarrow> u64 \<Rightarrow> u64 option" where
  "checked_sub a b = (if b \<le> a then Some (a - b) else None)"

definition checked_add :: "u64 \<Rightarrow> u64 \<Rightarrow> (u64, 'e) res" where
  "checked_add a b =
     (if unat a + unat b < 2 ^ 64 then Ok (a + b) else Panic ''attempt to add with overflow'')"

definition saturating_sub :: "u64 \<Rightarrow> u64 \<Rightarrow> u64" where
  "saturating_sub a b = (if b \<le> a then a - b else 0)"

lemma usize_shr_Ok [simp]: "n < 64 \<Longrightarrow> usize_shr w n = Ok (drop_bit n w)"
  by (simp add: usize_shr_def)

lemma usize_pow2_Ok [simp]: "n < 64 \<Longrightarrow> usize_pow2 n = Ok (2 ^ n)"
  by (simp add: usize_pow2_def)

lemma index_list_Ok [simp]: "i < length xs \<Longrightarrow> index_list xs i = Ok (xs ! i)"
  by (simp add: index_list_def)

lemma index_list_Ok_iff: "index_list xs i = Ok x \<longleftrightarrow> i < length xs \<and> x = xs ! i"
  by (auto simp: index_list_def)

lemma index_list_not_Err [simp]: "index_list xs i \<noteq> Err e"
  by (simp add: index_list_def)

lemma fixed_from_slice_Ok [simp]: "length bs = n \<Longrightarrow> fixed_from_slice n bs = Ok bs"
  by (simp add: fixed_from_slice_def)

lemma fixed_from_slice_Ok_iff: "fixed_from_slice n bs = Ok c \<longleftrightarrow> length bs = n \<and> c = bs"
  by (auto simp: fixed_from_slice_def)

subsection \<open>Bits of an index\<close>

text \<open>The code tests bit \<open>i\<close> of an index with \<open>(index >> i) & 0x01 == 1\<close>.\<close>

lemma shr_and_one: "(drop_bit n (w :: usize) AND 1 = 1) \<longleftrightarrow> odd (unat w div 2 ^ n)"
proof -
  have "(drop_bit n w AND 1 = 1) \<longleftrightarrow> bit w n"
    by (simp add: and_one_eq odd_iff_mod_2_eq_one [symmetric] bit_iff_odd_drop_bit)
  also have "\<dots> \<longleftrightarrow> bit (unat w) n"
    by (simp add: bit_unsigned_iff)
  also have "\<dots> \<longleftrightarrow> odd (unat w div 2 ^ n)"
    by (simp add: bit_iff_odd)
  finally show ?thesis .
qed

subsection \<open>Little-endian bytes\<close>

definition to_le :: "nat \<Rightarrow> 'a::len word \<Rightarrow> bytes" where
  "to_le n w = map (\<lambda>i. ucast (drop_bit (8 * i) w)) [0..<n]"

primrec from_le :: "bytes \<Rightarrow> 'a::len word" where
  "from_le [] = 0"
| "from_le (b # bs) = ucast b OR push_bit 8 (from_le bs)"

lemma length_to_le [simp]: "length (to_le n w) = n"
  by (simp add: to_le_def)

lemma to_le_Suc: "to_le (Suc n) w = ucast w # to_le n (drop_bit 8 w)"
  by (simp add: to_le_def upt_conv_Cons map_Suc_upt [symmetric] del: upt_Suc)
    (simp add: add.commute)

lemma bit_from_le:
  "bit (from_le bs :: 'a::len word) n
     \<longleftrightarrow> n < LENGTH('a) \<and> n div 8 < length bs \<and> bit (bs ! (n div 8)) (n mod 8)"
proof (induction bs arbitrary: n)
  case Nil
  then show ?case by simp
next
  case (Cons b bs)
  show ?case
  proof (cases "n < 8")
    case True
    then show ?thesis
      by (auto simp: bit_simps)
  next
    case False
    then obtain m where n: "n = m + 8" by (metis add.commute le_Suc_ex not_less)
    have "\<not> bit b (m + 8)" by (simp add: bit_word.rep_eq)
    moreover have "(m + 8) div 8 = Suc (m div 8)" by simp
    ultimately show ?thesis
      using n Cons.IH [of m] by (auto simp: bit_simps simp del: div_add_self2)
  qed
qed

theorem from_le_to_le: "LENGTH('a) \<le> 8 * n \<Longrightarrow> from_le (to_le n (w :: 'a::len word)) = w"
proof (rule bit_word_eqI)
  fix k
  assume n: "LENGTH('a) \<le> 8 * n" and k: "k < LENGTH('a)"
  then have "k div 8 < n" by linarith
  moreover from k have "8 * (k div 8) + k mod 8 < LENGTH('a)" by simp
  ultimately show "bit (from_le (to_le n w) :: 'a word) k = bit w k"
    using k by (simp add: bit_from_le to_le_def bit_simps)
qed

theorem to_le_from_le:
  assumes "length bs = n" "8 * n \<le> LENGTH('a::len)"
  shows "to_le n (from_le bs :: 'a word) = bs"
proof (rule nth_equalityI)
  show "length (to_le n (from_le bs :: 'a word)) = length bs"
    using assms by simp
next
  fix i
  assume "i < length (to_le n (from_le bs :: 'a word))"
  then have i: "i < n" by simp
  show "to_le n (from_le bs :: 'a word) ! i = bs ! i"
  proof (rule bit_word_eqI)
    fix k :: nat
    assume k: "k < LENGTH(8)"
    then have "8 * i + k < LENGTH('a)" "(8 * i + k) div 8 = i" "(8 * i + k) mod 8 = k"
      using i assms by auto
    with i k assms show "bit (to_le n (from_le bs :: 'a word) ! i) k = bit (bs ! i) k"
      by (simp add: to_le_def bit_simps bit_from_le)
  qed
qed

subsection \<open>Encodings\<close>

text \<open>
  The contract of a pair of conversions: decoding gives back what was encoded; for a strict
  pair, also only canonical encodings decode.
\<close>

locale codec =
  fixes enc :: "'a \<Rightarrow> 'b"
    and dec :: "'b \<Rightarrow> ('a, 'e) res"
  assumes dec_enc: "dec (enc x) = Ok x"
begin

lemma enc_inject: "enc x = enc y \<longleftrightarrow> x = y"
  by (metis dec_enc res.inject(1))

lemma dec_surj: "\<exists>b. dec b = Ok x"
  using dec_enc by blast

end

locale strict_codec = codec enc dec
  for enc :: "'a \<Rightarrow> 'b" and dec :: "'b \<Rightarrow> ('a, 'e) res" +
  assumes enc_dec: "dec b = Ok x \<Longrightarrow> enc x = b"
begin

lemma dec_Ok_iff: "dec b = Ok x \<longleftrightarrow> b = enc x"
  using dec_enc enc_dec by blast

lemma dec_inject: "dec b = Ok x \<Longrightarrow> dec c = Ok x \<Longrightarrow> b = c"
  by (simp add: dec_Ok_iff)

end

text \<open>\<open>u64::to_le_bytes\<close> and its inverse on eight bytes.\<close>

definition u64_to_le_bytes :: "u64 \<Rightarrow> bytes" where
  "u64_to_le_bytes w = to_le 8 w"

definition u64_from_le_bytes :: "bytes \<Rightarrow> (u64, unit) res" where
  "u64_from_le_bytes bs = (if length bs = 8 then Ok (from_le bs) else Err ())"

interpretation u64_le: strict_codec u64_to_le_bytes u64_from_le_bytes
  by unfold_locales
    (auto simp: u64_to_le_bytes_def u64_from_le_bytes_def from_le_to_le to_le_from_le
      split: if_splits)

lemma length_u64_to_le_bytes [simp]: "length (u64_to_le_bytes w) = 8"
  by (simp add: u64_to_le_bytes_def)

end
