(* ===== verification/Merkle_Spec.thy ===== *)
theory Merkle_Spec
  imports Hist_Prelude
begin

text \<open>
  The abstract specification that the Merkle code of the crate refines: the root of a perfect
  binary tree over a leaf function, the sibling path of an index, the climb from a leaf to the
  root, and a search that turns two climbs to one root into an explicit collision of the node
  function.  Nothing here depends on the code or on the hash function: \<open>cmp\<close> is any function
  from two nodes to their parent.
\<close>

subsection \<open>Roots, paths and climbs\<close>

fun mroot :: "('a \<Rightarrow> 'a \<Rightarrow> 'a) \<Rightarrow> nat \<Rightarrow> (nat \<Rightarrow> 'a) \<Rightarrow> 'a" where
  "mroot cmp 0 f = f 0"
| "mroot cmp (Suc d) f = cmp (mroot cmp d f) (mroot cmp d (\<lambda>j. f (j + 2 ^ d)))"

text \<open>Siblings are listed from the leaf upwards.\<close>

fun mpath :: "('a \<Rightarrow> 'a \<Rightarrow> 'a) \<Rightarrow> nat \<Rightarrow> (nat \<Rightarrow> 'a) \<Rightarrow> nat \<Rightarrow> 'a list" where
  "mpath cmp 0 f i = []"
| "mpath cmp (Suc d) f i =
     (if i < 2 ^ d then mpath cmp d f i @ [mroot cmp d (\<lambda>j. f (j + 2 ^ d))]
      else mpath cmp d (\<lambda>j. f (j + 2 ^ d)) (i - 2 ^ d) @ [mroot cmp d f])"

fun climb :: "('a \<Rightarrow> 'a \<Rightarrow> 'a) \<Rightarrow> 'a \<Rightarrow> 'a list \<Rightarrow> nat \<Rightarrow> 'a" where
  "climb cmp x [] i = x"
| "climb cmp x (s # ss) i = climb cmp (if odd i then cmp s x else cmp x s) ss (i div 2)"

lemma length_mpath [simp]: "length (mpath cmp d f i) = d"
  by (induction d arbitrary: f i) auto

lemma mroot_cong: "(\<And>j. j < 2 ^ d \<Longrightarrow> f j = g j) \<Longrightarrow> mroot cmp d f = mroot cmp d g"
proof (induction d arbitrary: f g)
  case 0
  then show ?case by simp
next
  case (Suc d)
  have "mroot cmp d f = mroot cmp d g"
    by (rule Suc.IH) (simp add: Suc.prems)
  moreover have "mroot cmp d (\<lambda>j. f (j + 2 ^ d)) = mroot cmp d (\<lambda>j. g (j + 2 ^ d))"
    by (rule Suc.IH) (simp add: Suc.prems)
  ultimately show ?case by simp
qed

lemma mpath_cong: "(\<And>j. j < 2 ^ d \<Longrightarrow> f j = g j) \<Longrightarrow> mpath cmp d f i = mpath cmp d g i"
proof (induction d arbitrary: f g i)
  case 0
  then show ?case by simp
next
  case (Suc d)
  have "mroot cmp d f = mroot cmp d g"
    by (rule mroot_cong) (simp add: Suc.prems)
  moreover have "mroot cmp d (\<lambda>j. f (j + 2 ^ d)) = mroot cmp d (\<lambda>j. g (j + 2 ^ d))"
    by (rule mroot_cong) (simp add: Suc.prems)
  moreover have "mpath cmp d f i = mpath cmp d g i" for i
    by (rule Suc.IH) (simp add: Suc.prems)
  moreover have "mpath cmp d (\<lambda>j. f (j + 2 ^ d)) i = mpath cmp d (\<lambda>j. g (j + 2 ^ d)) i" for i
    by (rule Suc.IH) (simp add: Suc.prems)
  ultimately show ?case by simp
qed

lemma mroot_length: "(\<And>j. length (f j) = n) \<Longrightarrow> (\<And>a b. length (cmp a b) = n) \<Longrightarrow>
    length (mroot cmp d f) = n"
  by (cases d) auto

lemma mpath_length:
  "(\<And>j. length (f j) = n) \<Longrightarrow> (\<And>a b. length (cmp a b) = n) \<Longrightarrow> s \<in> set (mpath cmp d f i) \<Longrightarrow>
    length s = n"
proof (induction d arbitrary: f i)
  case 0
  then show ?case by simp
next
  case (Suc d)
  have root: "length (mroot cmp d g) = n" if "\<And>j. length (g j) = n" for g
    by (rule mroot_length) (use that Suc.prems in auto)
  have path: "length s = n" if "\<And>j. length (g j) = n" "s \<in> set (mpath cmp d g k)" for g k
    using Suc.IH [of g k] that Suc.prems by auto
  show ?case
    using Suc.prems(3) root path Suc.prems(1)
    by (auto split: if_splits intro: path [of "\<lambda>j. f (j + 2 ^ d)"])
qed

subsection \<open>Climbing along a path\<close>

lemma climb_append: "climb cmp x (p @ q) i = climb cmp (climb cmp x p i) q (i div 2 ^ length p)"
  by (induction p arbitrary: x i) (simp_all add: div_mult2_eq)

lemma odd_mod_pow2: "0 < d \<Longrightarrow> odd ((i :: nat) mod 2 ^ d) \<longleftrightarrow> odd i"
  by (cases d) (simp_all add: mod_mult2_eq)

lemma mod_pow2_div2: "((i :: nat) mod 2 ^ Suc d) div 2 = (i div 2) mod 2 ^ d"
  by (simp add: mod_mult2_eq)

lemma climb_mod: "climb cmp x p (i mod 2 ^ length p) = climb cmp x p i"
proof (induction p arbitrary: x i)
  case Nil
  then show ?case by simp
next
  case (Cons s p)
  have "odd (i mod 2 ^ Suc (length p)) \<longleftrightarrow> odd i"
    by (rule odd_mod_pow2) simp
  moreover have "(i mod 2 ^ Suc (length p)) div 2 = (i div 2) mod 2 ^ length p"
    by (rule mod_pow2_div2)
  ultimately show ?case
    using Cons.IH by (simp del: power_Suc)
qed

lemma climb_mod_eq:
  "i mod 2 ^ length p = j mod 2 ^ length p \<Longrightarrow> climb cmp x p i = climb cmp x p j"
  by (metis climb_mod)

lemma climb_length:
  "length x = n \<Longrightarrow> (\<And>a b. length (cmp a b) = n) \<Longrightarrow> length (climb cmp x p i) = n"
  by (induction p arbitrary: x i) auto

text \<open>Completeness: the path of an index leads from its leaf to the root.\<close>

theorem climb_mpath: "i < 2 ^ d \<Longrightarrow> climb cmp (f i) (mpath cmp d f i) i = mroot cmp d f"
proof (induction d arbitrary: f i)
  case 0
  then show ?case by simp
next
  case (Suc d)
  show ?case
  proof (cases "i < 2 ^ d")
    case True
    then show ?thesis using Suc.IH [of i f] by (simp add: climb_append)
  next
    case False
    define k where "k = i - 2 ^ d"
    have i: "i = k + 2 ^ d" and k: "k < 2 ^ d"
      using False Suc.prems by (auto simp: k_def)
    have "climb cmp (f i) (mpath cmp d (\<lambda>j. f (j + 2 ^ d)) k) i
        = climb cmp (f i) (mpath cmp d (\<lambda>j. f (j + 2 ^ d)) k) k"
      by (rule climb_mod_eq) (simp add: i)
    also have "\<dots> = mroot cmp d (\<lambda>j. f (j + 2 ^ d))"
      using Suc.IH [OF k, of "\<lambda>j. f (j + 2 ^ d)"] by (simp add: i)
    finally have "climb cmp (f i) (mpath cmp d (\<lambda>j. f (j + 2 ^ d)) k) i
        = mroot cmp d (\<lambda>j. f (j + 2 ^ d))" .
    moreover have "(k + 2 ^ d) div 2 ^ d = 1" using k by (simp add: div_add_self2)
    ultimately show ?thesis using False k by (simp add: climb_append i)
  qed
qed

subsection \<open>Binding: two climbs to one root give a collision\<close>

fun find_collision ::
  "('a \<Rightarrow> 'a \<Rightarrow> 'a) \<Rightarrow> nat \<Rightarrow> 'a \<Rightarrow> 'a list \<Rightarrow> 'a \<Rightarrow> 'a list \<Rightarrow> (('a \<times> 'a) \<times> ('a \<times> 'a)) option" where
  "find_collision cmp i x (s # ss) y (t # ts) =
     (let p = (if odd i then (s, x) else (x, s)); q = (if odd i then (t, y) else (y, t))
      in if p \<noteq> q \<and> cmp (fst p) (snd p) = cmp (fst q) (snd q) then Some (p, q)
         else find_collision cmp (i div 2) (cmp (fst p) (snd p)) ss (cmp (fst q) (snd q)) ts)"
| "find_collision cmp i x _ y _ = None"

theorem find_collision_Some:
  assumes "length ss = length ts" "x \<noteq> y" "climb cmp x ss i = climb cmp y ts i"
  shows "\<exists>p q. find_collision cmp i x ss y ts = Some (p, q) \<and> p \<noteq> q
          \<and> cmp (fst p) (snd p) = cmp (fst q) (snd q)"
  using assms
proof (induction ss ts arbitrary: x y i rule: list_induct2)
  case Nil
  then show ?case by simp
next
  case (Cons s ss t ts)
  define p where "p = (if odd i then (s, x) else (x, s))"
  define q where "q = (if odd i then (t, y) else (y, t))"
  have pq: "p \<noteq> q" using Cons.prems(1) by (auto simp: p_def q_def)
  have climbs: "climb cmp (cmp (fst p) (snd p)) ss (i div 2)
      = climb cmp (cmp (fst q) (snd q)) ts (i div 2)"
    using Cons.prems(2) by (simp add: p_def q_def split: if_splits)
  show ?case
  proof (cases "cmp (fst p) (snd p) = cmp (fst q) (snd q)")
    case True
    with pq show ?thesis by (auto simp: p_def q_def Let_def)
  next
    case False
    from Cons.IH [OF False climbs] show ?thesis
      using False by (auto simp: p_def q_def Let_def)
  qed
qed

lemma find_collision_lengths:
  assumes "find_collision cmp i x ss y ts = Some ((a, b), (c, d))"
    and "length x = n" "length y = n" "\<And>u v. length (cmp u v) = n"
    and "\<forall>s \<in> set ss. length s = n" "\<forall>t \<in> set ts. length t = n"
  shows "length a = n \<and> length b = n \<and> length c = n \<and> length d = n"
  using assms
  by (induction cmp i x ss y ts rule: find_collision.induct)
    (auto simp: Let_def split: if_splits)

subsection \<open>Trees over a finite list of leaves\<close>

definition padded :: "'a \<Rightarrow> 'a list \<Rightarrow> nat \<Rightarrow> 'a" where
  "padded z xs i = (if i < length xs then xs ! i else z)"

lemma padded_nth [simp]: "i < length xs \<Longrightarrow> padded z xs i = xs ! i"
  by (simp add: padded_def)

lemma padded_beyond [simp]: "length xs \<le> i \<Longrightarrow> padded z xs i = z"
  by (simp add: padded_def)

lemma padded_length: "length z = n \<Longrightarrow> \<forall>x \<in> set xs. length x = n \<Longrightarrow> length (padded z xs i) = n"
  by (simp add: padded_def)

lemma padded_take: "i < n \<Longrightarrow> padded z (take n xs) i = padded z xs i"
  by (simp add: padded_def)

lemma padded_drop: "padded z (drop n xs) i = padded z xs (i + n)"
  by (auto simp: padded_def add.commute)

text \<open>The root of a subtree without leaves.\<close>

fun zero_root :: "('a \<Rightarrow> 'a \<Rightarrow> 'a) \<Rightarrow> 'a \<Rightarrow> nat \<Rightarrow> 'a" where
  "zero_root cmp z 0 = z"
| "zero_root cmp z (Suc d) = cmp (zero_root cmp z d) (zero_root cmp z d)"

lemma mroot_const: "mroot cmp d (\<lambda>_. z) = zero_root cmp z d"
  by (induction d) simp_all

lemma mroot_padded_Nil [simp]: "mroot cmp d (padded z []) = zero_root cmp z d"
proof -
  have "padded z [] = (\<lambda>_. z)" by (auto simp: padded_def)
  then show ?thesis by (simp add: mroot_const)
qed

text \<open>The split that the construction of a tree makes at every level.\<close>

lemma mroot_padded_split:
  "mroot cmp (Suc d) (padded z xs)
     = cmp (mroot cmp d (padded z (take (2 ^ d) xs))) (mroot cmp d (padded z (drop (2 ^ d) xs)))"
proof -
  have "mroot cmp d (padded z xs) = mroot cmp d (padded z (take (2 ^ d) xs))"
    by (rule mroot_cong) (simp add: padded_take)
  moreover have "(\<lambda>j. padded z xs (j + 2 ^ d)) = padded z (drop (2 ^ d) xs)"
    by (simp add: padded_drop fun_eq_iff)
  ultimately show ?thesis by simp
qed

lemma mpath_padded_split:
  "mpath cmp (Suc d) (padded z xs) i =
     (if i < 2 ^ d
      then mpath cmp d (padded z (take (2 ^ d) xs)) i @ [mroot cmp d (padded z (drop (2 ^ d) xs))]
      else mpath cmp d (padded z (drop (2 ^ d) xs)) (i - 2 ^ d)
             @ [mroot cmp d (padded z (take (2 ^ d) xs))])"
proof -
  have "mroot cmp d (padded z xs) = mroot cmp d (padded z (take (2 ^ d) xs))"
    by (rule mroot_cong) (simp add: padded_take)
  moreover have "mpath cmp d (padded z xs) i = mpath cmp d (padded z (take (2 ^ d) xs)) i"
    by (rule mpath_cong) (simp add: padded_take)
  moreover have "(\<lambda>j. padded z xs (j + 2 ^ d)) = padded z (drop (2 ^ d) xs)"
    by (simp add: padded_drop fun_eq_iff)
  ultimately show ?thesis by simp
qed

end
