(* ===== verification/Merkle_Tree.thy ===== *)
theory Merkle_Tree
  imports Merkle_Spec
begin

text \<open>
  The Merkle component (\<open>src/merkle/proof.rs\<close>): the right-sparse tree \<open>MerkleTree\<close> with its
  construction and proof generation, and the verification of a branch.  The first part translates
  the code; the second shows that it refines the abstract trees of \<open>Merkle_Spec\<close>.

  SHA-256 is a parameter: the record \<open>hashing\<close> stands for the crates \<open>ethereum_hashing\<close> (the
  functions \<open>hash\<close> and \<open>hash32_concat\<close> and the table \<open>ZERO_HASHES\<close>) and \<open>rs_merkle\<close>
  (\<open>rs_merkle_proof_hashes xs is\<close> is \<open>MerkleTree::<Sha256>::from_leaves(xs).proof(is).proof_hashes()\<close>).
  \<open>hashing_ok\<close> states their documented behaviour: 32-byte digests, concatenation before hashing,
  the roots of the all-zero trees, and, for a power-of-two number of leaves, a proof that lists the
  sibling subtrees of the one index from the leaf upwards.
\<close>

subsection \<open>The hashing crate\<close>

record hashing =
  hash :: "bytes \<Rightarrow> bytes"
  hash32_concat :: "bytes \<Rightarrow> bytes \<Rightarrow> bytes"
  ZERO_HASHES :: "b256 list"
  rs_merkle_proof_hashes :: "b256 list \<Rightarrow> nat list \<Rightarrow> b256 list"

definition hashing_ok :: "hashing \<Rightarrow> bool" where
  "hashing_ok H \<longleftrightarrow>
     (\<forall>bs. length (hash H bs) = 32) \<and>
     (\<forall>a b. hash32_concat H a b = hash H (a @ b)) \<and>
     length (ZERO_HASHES H) = 49 \<and>
     ZERO_HASHES H ! 0 = b256_ZERO \<and>
     (\<forall>i < 48. ZERO_HASHES H ! Suc i = hash H (ZERO_HASHES H ! i @ ZERO_HASHES H ! i)) \<and>
     (\<forall>d xs i. length xs = 2 ^ d \<longrightarrow> i < 2 ^ d \<longrightarrow>
        rs_merkle_proof_hashes H xs [i] = mpath (\<lambda>a b. hash H (a @ b)) d ((!) xs) i)"

text \<open>The parent of two nodes.\<close>

definition node_hash :: "hashing \<Rightarrow> b256 \<Rightarrow> b256 \<Rightarrow> b256" where
  "node_hash H a b = hash H (a @ b)"

subsection \<open>The code: data\<close>

definition MAX_TREE_DEPTH :: nat where
  "MAX_TREE_DEPTH = 32"

datatype MerkleTree =
    Finalized b256
  | Leaf b256
  | Node b256 MerkleTree MerkleTree
  | Zero nat

datatype InvalidSnapshot = EmptyBranchWithNonZeroDeposits nat | EndOfTree

datatype MerkleTreeError =
    LeafReached
  | MerkleTreeFull
  | Invalid
  | DepthTooSmall
  | MerkleArithError
  | ZeroNodeFinalized
  | FinalizedNodePushed
  | InvalidSnapshotError InvalidSnapshot
  | ProofEncounteredFinalizedNode
  | PleaseNotifyTheDevs

definition merkle_error_from_snapshot :: "InvalidSnapshot \<Rightarrow> MerkleTreeError" where
  "merkle_error_from_snapshot e = InvalidSnapshotError e"

definition ZERO_NODES :: "MerkleTree list" where
  "ZERO_NODES = map Zero [0..<Suc MAX_TREE_DEPTH]"

subsection \<open>The code: trees\<close>

fun mt_hash :: "hashing \<Rightarrow> MerkleTree \<Rightarrow> (b256, 'e) res" where
  "mt_hash H (Finalized h) = Ok h"
| "mt_hash H (Leaf h) = Ok h"
| "mt_hash H (Node h _ _) = Ok h"
| "mt_hash H (Zero depth) = and_then (index_list (ZERO_HASHES H) depth) b256_from_slice"

fun create :: "hashing \<Rightarrow> b256 list \<Rightarrow> nat \<Rightarrow> (MerkleTree, 'e) res" where
  "create H leaves 0 =
     (if leaves = [] then Ok (Zero 0)
      else if length leaves = 1 then Ok (Leaf (leaves ! 0))
      else Panic ''debug_assert_eq!(leaves.len(), 1)'')"
| "create H leaves (Suc d) =
     (if leaves = [] then Ok (Zero (Suc d))
      else and_then (usize_pow2 d) (\<lambda>subtree_capacity.
        let left_leaves = (if length leaves \<le> subtree_capacity then leaves
                           else take subtree_capacity leaves);
            right_leaves = (if length leaves \<le> subtree_capacity then []
                            else drop subtree_capacity leaves)
        in and_then (create H left_leaves d) (\<lambda>left_subtree.
           and_then (create H right_leaves d) (\<lambda>right_subtree.
           and_then (mt_hash H left_subtree) (\<lambda>hl.
           and_then (mt_hash H right_subtree) (\<lambda>hr.
           and_then (b256_from_slice (hash32_concat H hl hr)) (\<lambda>h.
           Ok (Node h left_subtree right_subtree))))))))"

fun left_and_right_branches :: "MerkleTree \<Rightarrow> ((MerkleTree \<times> MerkleTree) option, 'e) res" where
  "left_and_right_branches (Finalized _) = Ok None"
| "left_and_right_branches (Leaf _) = Ok None"
| "left_and_right_branches (Zero 0) = Ok None"
| "left_and_right_branches (Node _ l r) = Ok (Some (l, r))"
| "left_and_right_branches (Zero (Suc d)) =
     and_then (index_list ZERO_NODES d) (\<lambda>n. Ok (Some (n, n)))"

fun is_leaf :: "MerkleTree \<Rightarrow> bool" where
  "is_leaf (Leaf _) = True"
| "is_leaf _ = False"

text \<open>
  The loop of \<open>generate_proof\<close>: its counter \<open>current_depth\<close> is the recursion argument, its state
  is the current node and the siblings pushed so far.
\<close>

fun proof_loop ::
  "hashing \<Rightarrow> usize \<Rightarrow> nat \<Rightarrow> MerkleTree \<Rightarrow> b256 list \<Rightarrow> (MerkleTree \<times> b256 list, MerkleTreeError) res" where
  "proof_loop H index 0 current_node proof = Ok (current_node, proof)"
| "proof_loop H index (Suc d) current_node proof =
     and_then (usize_shr index d) (\<lambda>s.
     case current_node of
       Finalized _ \<Rightarrow> Err ProofEncounteredFinalizedNode
     | _ \<Rightarrow> and_then (left_and_right_branches current_node) (\<lambda>branches.
         case branches of
           None \<Rightarrow> Panic ''called `Option::unwrap()` on a `None` value''
         | Some (left, right) \<Rightarrow>
             if s AND 1 = 1
             then and_then (mt_hash H left) (\<lambda>h. proof_loop H index d right (proof @ [h]))
             else and_then (mt_hash H right) (\<lambda>h. proof_loop H index d left (proof @ [h]))))"

definition generate_proof ::
  "hashing \<Rightarrow> MerkleTree \<Rightarrow> usize \<Rightarrow> nat \<Rightarrow> (b256 \<times> b256 list, MerkleTreeError) res" where
  "generate_proof H self index depth =
     and_then (proof_loop H index depth self []) (\<lambda>(current_node, proof).
       if length proof \<noteq> depth then Panic ''debug_assert_eq!(proof.len(), depth)''
       else if \<not> is_leaf current_node then Panic ''debug_assert!(current_node.is_leaf())''
       else and_then (mt_hash H current_node) (\<lambda>h. Ok (h, rev proof)))"

subsection \<open>The code: verification\<close>

fun branch_loop :: "hashing \<Rightarrow> usize \<Rightarrow> nat \<Rightarrow> b256 list \<Rightarrow> bytes \<Rightarrow> (bytes, 'e) res" where
  "branch_loop H index i [] merkle_root = Ok merkle_root"
| "branch_loop H index i (leaf # rest) merkle_root =
     and_then (usize_shr index i) (\<lambda>s.
       if s AND 1 = 1
       then branch_loop H index (Suc i) rest (hash32_concat H leaf merkle_root)
       else branch_loop H index (Suc i) rest (hash H (merkle_root @ leaf)))"

definition merkle_root_from_branch ::
  "hashing \<Rightarrow> b256 \<Rightarrow> b256 list \<Rightarrow> nat \<Rightarrow> usize \<Rightarrow> (b256, 'e) res" where
  "merkle_root_from_branch H leaf branch depth index =
     (if length branch = depth
      then and_then (branch_loop H index 0 (take depth branch) leaf) b256_from_slice
      else Panic ''proof length should equal depth'')"

definition verify_merkle_proof ::
  "hashing \<Rightarrow> b256 \<Rightarrow> b256 list \<Rightarrow> nat \<Rightarrow> usize \<Rightarrow> b256 \<Rightarrow> (bool, 'e) res" where
  "verify_merkle_proof H leaf branch depth index root =
     (if length branch = depth
      then map_ok (\<lambda>r. r = root) (merkle_root_from_branch H leaf branch depth index)
      else Ok False)"

subsection \<open>Verification refines the climb\<close>

lemma hashing_okD:
  assumes "hashing_ok H"
  shows "length (hash H bs) = 32" "hash32_concat H a b = node_hash H a b"
    "hash H (a @ b) = node_hash H a b" "length (node_hash H a b) = 32"
  using assms by (simp_all add: hashing_ok_def node_hash_def)

lemma branch_loop_climb:
  assumes H: "hashing_ok H"
  shows "k + length branch \<le> 64 \<Longrightarrow>
    branch_loop H index k branch x
      = Ok (climb (node_hash H) x branch (unat index div 2 ^ k))"
proof (induction branch arbitrary: k x)
  case Nil
  then show ?case by simp
next
  case (Cons s branch)
  have "unat index div 2 ^ k div 2 = unat index div 2 ^ Suc k"
    by (simp only: power_Suc2 div_mult2_eq)
  with Cons show ?case
    by (simp add: shr_and_one hashing_okD [OF H])
qed

theorem merkle_root_from_branch_climb:
  assumes "hashing_ok H" "length branch = depth" "depth \<le> 64" "is_b256 leaf"
  shows "merkle_root_from_branch H leaf branch depth index
    = Ok (climb (node_hash H) leaf branch (unat index))"
proof -
  have "length (climb (node_hash H) leaf branch (unat index)) = 32"
    by (rule climb_length) (simp_all add: assms hashing_okD [OF assms(1)])
  then show ?thesis
    using assms by (simp add: merkle_root_from_branch_def branch_loop_climb)
qed

theorem verify_merkle_proof_climb:
  assumes "hashing_ok H" "depth \<le> 64" "is_b256 leaf"
  shows "verify_merkle_proof H leaf branch depth index root
    = Ok (length branch = depth \<and> climb (node_hash H) leaf branch (unat index) = root)"
  using assms by (simp add: verify_merkle_proof_def merkle_root_from_branch_climb)

subsection \<open>Trees refine the abstract trees\<close>

text \<open>The tree that represents a list of leaves at depth \<open>d\<close>, padded on the right with zeros.\<close>

fun tree_of :: "hashing \<Rightarrow> nat \<Rightarrow> b256 list \<Rightarrow> MerkleTree" where
  "tree_of H 0 leaves = (if leaves = [] then Zero 0 else Leaf (leaves ! 0))"
| "tree_of H (Suc d) leaves =
     (if leaves = [] then Zero (Suc d)
      else Node (mroot (node_hash H) (Suc d) (padded b256_ZERO leaves))
             (tree_of H d (take (2 ^ d) leaves)) (tree_of H d (drop (2 ^ d) leaves)))"

lemma tree_of_Nil [simp]: "tree_of H d [] = Zero d"
  by (cases d) simp_all

lemma length_ZERO_HASHES: "hashing_ok H \<Longrightarrow> length (ZERO_HASHES H) = 49"
  by (simp add: hashing_ok_def)

lemma ZERO_HASHES_zero_root:
  "hashing_ok H \<Longrightarrow> d \<le> 48 \<Longrightarrow> ZERO_HASHES H ! d = zero_root (node_hash H) b256_ZERO d"
  by (induction d) (simp_all add: hashing_ok_def node_hash_def)

lemma length_zero_root:
  "hashing_ok H \<Longrightarrow> length (zero_root (node_hash H) b256_ZERO d) = 32"
  by (cases d) (simp_all add: hashing_okD)

lemma mt_hash_Zero:
  "hashing_ok H \<Longrightarrow> d \<le> 48 \<Longrightarrow> mt_hash H (Zero d) = Ok (zero_root (node_hash H) b256_ZERO d)"
  by (simp add: length_ZERO_HASHES ZERO_HASHES_zero_root length_zero_root)

lemma mt_hash_tree_of:
  assumes "hashing_ok H" "d \<le> 48" "length leaves \<le> 2 ^ d"
  shows "mt_hash H (tree_of H d leaves) = Ok (mroot (node_hash H) d (padded b256_ZERO leaves))"
proof (cases "leaves = []")
  case True
  with assms show ?thesis by (simp add: mt_hash_Zero del: mt_hash.simps)
next
  case False
  then show ?thesis by (cases d) simp_all
qed

text \<open>The construction is total up to depth 48 and builds that tree.\<close>

theorem create_tree_of:
  assumes H: "hashing_ok H"
  shows "d \<le> 48 \<Longrightarrow> length leaves \<le> 2 ^ d \<Longrightarrow> create H leaves d = Ok (tree_of H d leaves)"
proof (induction d arbitrary: leaves)
  case 0
  then show ?case by (cases leaves) auto
next
  case (Suc d)
  define ls where "ls = take (2 ^ d) leaves"
  define rs where "rs = drop (2 ^ d) leaves"
  have len: "length ls \<le> 2 ^ d" "length rs \<le> 2 ^ d"
    using Suc.prems by (auto simp: ls_def rs_def)
  have split: "(if length leaves \<le> 2 ^ d then leaves else ls) = ls"
    "(if length leaves \<le> 2 ^ d then [] else rs) = rs"
    by (auto simp: ls_def rs_def)
  have d: "d \<le> 48" "d < 64" using Suc.prems by simp_all
  note subtrees = Suc.IH [OF d(1) len(1)] Suc.IH [OF d(1) len(2)]
    mt_hash_tree_of [OF H d(1) len(1)] mt_hash_tree_of [OF H d(1) len(2)]
  show ?case
  proof (cases "leaves = []")
    case True
    then show ?thesis by simp
  next
    case False
    then show ?thesis
      using d by (simp only: create.simps tree_of.simps if_False usize_pow2_Ok and_then.simps
          Let_def split subtrees mroot_padded_split hashing_okD [OF H] fixed_from_slice_Ok
          ls_def [symmetric] rs_def [symmetric])
  qed
qed

text \<open>The loop of \<open>generate_proof\<close> walks down to the leaf and collects its path.\<close>

lemma mod_pow2_lt_iff: "(i :: nat) mod 2 ^ Suc d < 2 ^ d \<longleftrightarrow> even (i div 2 ^ d)"
proof -
  have "i mod 2 ^ Suc d = 2 ^ d * (i div 2 ^ d mod 2) + i mod 2 ^ d"
    by (simp only: power_Suc2 mod_mult2_eq)
  then show ?thesis by (cases "even (i div 2 ^ d)") (simp_all add: even_iff_mod_2_eq_zero)
qed

lemma mod_pow2_even: "even ((i :: nat) div 2 ^ d) \<Longrightarrow> i mod 2 ^ Suc d = i mod 2 ^ d"
  by (simp only: power_Suc2 mod_mult2_eq even_iff_mod_2_eq_zero)

lemma mod_pow2_odd: "odd ((i :: nat) div 2 ^ d) \<Longrightarrow> i mod 2 ^ Suc d = i mod 2 ^ d + 2 ^ d"
  by (simp only: power_Suc2 mod_mult2_eq odd_iff_mod_2_eq_one)

definition leaf_at :: "b256 list \<Rightarrow> nat \<Rightarrow> MerkleTree" where
  "leaf_at leaves i = (if i < length leaves then Leaf (leaves ! i) else Zero 0)"

lemma leaf_at_Nil [simp]: "leaf_at [] i = Zero 0"
  by (simp add: leaf_at_def)

lemma branches_tree_of:
  assumes "d \<le> 32"
  shows "left_and_right_branches (tree_of H (Suc d) leaves)
    = Ok (Some (tree_of H d (take (2 ^ d) leaves), tree_of H d (drop (2 ^ d) leaves)))"
  using assms by (simp add: index_list_def ZERO_NODES_def MAX_TREE_DEPTH_def del: upt_Suc)

lemma proof_loop_step:
  assumes "(left_and_right_branches node :: (_, MerkleTreeError) res) = Ok (Some (l, r))" "d < 64"
  shows "proof_loop H index (Suc d) node proof =
    (if odd (unat index div 2 ^ d)
     then and_then (mt_hash H l) (\<lambda>h. proof_loop H index d r (proof @ [h]))
     else and_then (mt_hash H r) (\<lambda>h. proof_loop H index d l (proof @ [h])))"
  using assms by (cases node) (simp_all add: shr_and_one)

lemma proof_loop_tree_of:
  assumes H: "hashing_ok H"
  shows "d \<le> 33 \<Longrightarrow> length leaves \<le> 2 ^ d \<Longrightarrow>
    proof_loop H index d (tree_of H d leaves) proof
      = Ok (leaf_at leaves (unat index mod 2 ^ d),
            proof @ rev (mpath (node_hash H) d (padded b256_ZERO leaves) (unat index mod 2 ^ d)))"
proof (induction d arbitrary: leaves "proof")
  case 0
  then show ?case by (simp add: leaf_at_def)
next
  case (Suc d)
  let ?c = "node_hash H"
  define i where "i = unat index"
  define ls where "ls = take (2 ^ d) leaves"
  define rs where "rs = drop (2 ^ d) leaves"
  have len: "length ls \<le> 2 ^ d" "length rs \<le> 2 ^ d"
    using Suc.prems by (auto simp: ls_def rs_def)
  have hashes: "mt_hash H (tree_of H d ls) = Ok (mroot ?c d (padded b256_ZERO ls))"
    "mt_hash H (tree_of H d rs) = Ok (mroot ?c d (padded b256_ZERO rs))"
    using Suc.prems len by (simp_all add: mt_hash_tree_of [OF H])
  have step: "proof_loop H index (Suc d) (tree_of H (Suc d) leaves) proof =
      (if odd (i div 2 ^ d)
       then proof_loop H index d (tree_of H d rs) (proof @ [mroot ?c d (padded b256_ZERO ls)])
       else proof_loop H index d (tree_of H d ls) (proof @ [mroot ?c d (padded b256_ZERO rs)]))"
    using Suc.prems(1)
    by (subst proof_loop_step [OF branches_tree_of])
      (simp_all add: i_def ls_def [symmetric] rs_def [symmetric] hashes)
  show ?case
  proof (cases "odd (i div 2 ^ d)")
    case True
    then have "leaf_at rs (i mod 2 ^ d) = leaf_at leaves (i mod 2 ^ Suc d)"
      by (auto simp: leaf_at_def rs_def mod_pow2_odd add.commute simp del: power_Suc)
    with True show ?thesis
      using Suc.prems len mod_pow2_odd [OF True] mod_pow2_lt_iff [of i d]
      by (simp only: step) (simp add: Suc.IH i_def [symmetric] mpath_padded_split ls_def [symmetric]
            rs_def [symmetric] del: mpath.simps power_Suc)
  next
    case False
    then have "leaf_at ls (i mod 2 ^ d) = leaf_at leaves (i mod 2 ^ Suc d)"
      by (auto simp: leaf_at_def ls_def mod_pow2_even simp del: power_Suc)
    with False show ?thesis
      using Suc.prems len mod_pow2_even [of i d] mod_pow2_lt_iff [of i d]
      by (simp only: step) (simp add: Suc.IH i_def [symmetric] mpath_padded_split ls_def [symmetric]
            rs_def [symmetric] del: mpath.simps power_Suc)
  qed
qed

theorem generate_proof_tree_of:
  assumes "hashing_ok H" "depth \<le> 33" "length leaves \<le> 2 ^ depth" "unat index < length leaves"
  shows "generate_proof H (tree_of H depth leaves) index depth
    = Ok (leaves ! unat index, mpath (node_hash H) depth (padded b256_ZERO leaves) (unat index))"
  using assms
  by (simp add: generate_proof_def proof_loop_tree_of leaf_at_def)

subsection \<open>Totality and the role of the index\<close>

lemma verify_merkle_proof_total:
  "hashing_ok H \<Longrightarrow> depth \<le> 64 \<Longrightarrow> is_b256 leaf \<Longrightarrow>
   \<exists>b. verify_merkle_proof H leaf branch depth index root = Ok b"
  by (simp add: verify_merkle_proof_climb)

lemma verify_merkle_proof_index_mod:
  assumes "hashing_ok H" "depth \<le> 64" "is_b256 leaf"
    and "unat i mod 2 ^ depth = unat j mod 2 ^ depth"
  shows "verify_merkle_proof H leaf branch depth i root
       = verify_merkle_proof H leaf branch depth j root"
  using assms climb_mod_eq [of "unat i" branch "unat j" "node_hash H" leaf]
  by (auto simp: verify_merkle_proof_climb)

subsection \<open>Collisions of the hash\<close>

text \<open>
  A digest is shorter than the input of a node, so collisions exist; what a proof can give is one
  in the hand.  \<open>collides H c\<close> says that \<open>c\<close> is a pair of different 64-byte inputs with one digest.
\<close>

definition collides :: "hashing \<Rightarrow> ((b256 \<times> b256) \<times> (b256 \<times> b256)) option \<Rightarrow> bool" where
  "collides H c = (case c of None \<Rightarrow> False
     | Some ((a, b), (a', b')) \<Rightarrow>
         length (a @ b) = 64 \<and> length (a' @ b') = 64 \<and> a @ b \<noteq> a' @ b' \<and>
         hash H (a @ b) = hash H (a' @ b'))"

lemma climb_binding:
  assumes H: "hashing_ok H"
    and "is_b256 x" "is_b256 y" "\<forall>s \<in> set ss. is_b256 s" "\<forall>t \<in> set ts. is_b256 t"
    and "length ss = length ts" "climb (node_hash H) x ss i = climb (node_hash H) y ts i"
  shows "x = y \<or> collides H (find_collision (node_hash H) i x ss y ts)"
proof (cases "x = y")
  case False
  from find_collision_Some [OF assms(6) False assms(7)]
  obtain a b a' b' where
    found: "find_collision (node_hash H) i x ss y ts = Some ((a, b), (a', b'))"
    and neq: "(a, b) \<noteq> (a', b')" and eq: "node_hash H a b = node_hash H a' b'"
    by fastforce
  have "is_b256 a \<and> is_b256 b \<and> is_b256 a' \<and> is_b256 b'"
    by (rule find_collision_lengths [OF found]) (use assms hashing_okD [OF H] in auto)
  with found neq eq show ?thesis
    by (auto simp: collides_def node_hash_def)
qed simp

text \<open>Two accepted leaves at one index under one root are equal, or give a collision.\<close>

theorem verify_merkle_proof_binding:
  assumes "hashing_ok H" "depth \<le> 64" "is_b256 x" "is_b256 y"
    and "\<forall>s \<in> set bx. is_b256 s" "\<forall>s \<in> set by. is_b256 s"
    and "(verify_merkle_proof H x bx depth index root :: (bool, 'e) res) = Ok True"
    and "(verify_merkle_proof H y by depth index root :: (bool, 'e) res) = Ok True"
  shows "x = y \<or> collides H (find_collision (node_hash H) (unat index) x bx y by)"
  using assms by (intro climb_binding) (simp_all add: verify_merkle_proof_climb)

end
