(* ===== verification/Merkle_Provider.thy ===== *)
theory Merkle_Provider
  imports Merkle_Tree
begin

text \<open>
  The two routines of the crate that produce Merkle branches share one contract: given leaves, a
  depth and an index they return the sibling path of the padded tree.  \<open>path_provider\<close> states the
  contract; what a branch is good for (it verifies, at any index with the same low bits; it binds
  the leaf; branches of nested trees can be joined) is proved once from it.  The contract is
  discharged for \<open>MerkleTree::create\<close> with \<open>generate_proof\<close> (\<open>src/merkle/proof.rs\<close>) and for
  \<open>build_merkle_proof_for_index\<close> (\<open>src/portal_types/consensus/proof.rs\<close>).
\<close>

subsection \<open>The routine over \<open>rs_merkle\<close>\<close>

fun log2_ceil :: "nat \<Rightarrow> nat" where
  "log2_ceil n = (if n \<le> 1 then 0 else Suc (log2_ceil ((n + 1) div 2)))"

declare log2_ceil.simps [simp del]

text \<open>\<open>usize::next_power_of_two\<close>: the smallest power of two greater than or equal to the value.\<close>

definition next_power_of_two :: "nat \<Rightarrow> nat" where
  "next_power_of_two n = 2 ^ log2_ceil n"

definition build_merkle_proof_for_index :: "hashing \<Rightarrow> b256 list \<Rightarrow> nat \<Rightarrow> b256 list" where
  "build_merkle_proof_for_index H leaves index_to_prove =
     (let full_tree_len = next_power_of_two (length leaves);
          padded_leaves = take full_tree_len (leaves @ replicate full_tree_len b256_ZERO)
      in rs_merkle_proof_hashes H padded_leaves [index_to_prove])"

lemma next_power_of_two_ge: "n \<le> next_power_of_two n"
  unfolding next_power_of_two_def
proof (induction n rule: log2_ceil.induct)
  case (1 n)
  show ?case
  proof (cases "n \<le> 1")
    case True
    then show ?thesis by (simp add: log2_ceil.simps [of n])
  next
    case False
    with 1 have "(n + 1) div 2 \<le> 2 ^ log2_ceil ((n + 1) div 2)" by simp
    with False show ?thesis by (simp add: log2_ceil.simps [of n])
  qed
qed

lemma next_power_of_two_least:
  "2 ^ d < 2 * n \<Longrightarrow> n \<le> 2 ^ d \<Longrightarrow> next_power_of_two n = 2 ^ d"
  unfolding next_power_of_two_def
proof (induction n arbitrary: d rule: log2_ceil.induct)
  case (1 n)
  show ?case
  proof (cases d)
    case 0
    with 1 show ?thesis by (simp add: log2_ceil.simps [of n])
  next
    case (Suc e)
    with 1 have "\<not> n \<le> 1" by (cases e) auto
    moreover from this Suc 1 have "(2 :: nat) ^ log2_ceil ((n + 1) div 2) = 2 ^ e" by auto
    ultimately show ?thesis using Suc by (simp add: log2_ceil.simps [of n])
  qed
qed

lemma nth_padded_list:
  "i < n \<Longrightarrow> length xs \<le> n \<Longrightarrow> take n (xs @ replicate n z) ! i = padded z xs i"
  by (auto simp: padded_def nth_append)

theorem build_merkle_proof_mpath:
  assumes "hashing_ok H" "2 ^ d < 2 * length leaves" "length leaves \<le> 2 ^ d" "i < length leaves"
  shows "build_merkle_proof_for_index H leaves i
    = mpath (node_hash H) d (padded b256_ZERO leaves) i"
proof -
  define xs where "xs = take (2 ^ d) (leaves @ replicate (2 ^ d) b256_ZERO)"
  have n: "next_power_of_two (length leaves) = 2 ^ d"
    using assms by (intro next_power_of_two_least)
  have "length xs = 2 ^ d" by (simp add: xs_def)
  moreover have "i < 2 ^ d" using assms by simp
  ultimately have "rs_merkle_proof_hashes H xs [i] = mpath (\<lambda>a b. hash H (a @ b)) d ((!) xs) i"
    using assms(1) by (simp add: hashing_ok_def)
  also have "\<dots> = mpath (node_hash H) d (padded b256_ZERO leaves) i"
    unfolding node_hash_def
    by (rule mpath_cong) (use assms(3) in \<open>simp only: xs_def nth_padded_list\<close>)
  finally show ?thesis
    by (simp add: build_merkle_proof_for_index_def n xs_def)
qed

subsection \<open>The contract of a branch producer\<close>

definition root_of :: "hashing \<Rightarrow> nat \<Rightarrow> b256 list \<Rightarrow> b256" where
  "root_of H d leaves = mroot (node_hash H) d (padded b256_ZERO leaves)"

lemma length_root_of [len32]:
  "hashing_ok H \<Longrightarrow> \<forall>l \<in> set leaves. is_b256 l \<Longrightarrow> length (root_of H d leaves) = 32"
  by (simp add: root_of_def mroot_length padded_length hashing_okD)

locale path_provider =
  fixes prove :: "hashing \<Rightarrow> b256 list \<Rightarrow> nat \<Rightarrow> usize \<Rightarrow> (b256 list, MerkleTreeError) res"
    and admits :: "nat \<Rightarrow> nat \<Rightarrow> bool"
  assumes admits_le: "admits n d \<Longrightarrow> n \<le> 2 ^ d \<and> d \<le> 33"
    and prove_path: "hashing_ok H \<Longrightarrow> admits (length leaves) d \<Longrightarrow> unat i < length leaves \<Longrightarrow>
      prove H leaves d i = Ok (mpath (node_hash H) d (padded b256_ZERO leaves) (unat i))"
begin

lemma prove_length:
  "hashing_ok H \<Longrightarrow> admits (length leaves) d \<Longrightarrow> unat i < length leaves \<Longrightarrow>
   prove H leaves d i = Ok p \<Longrightarrow> length p = d"
  by (simp add: prove_path) auto

lemma prove_b256:
  "hashing_ok H \<Longrightarrow> admits (length leaves) d \<Longrightarrow> unat i < length leaves \<Longrightarrow>
   \<forall>l \<in> set leaves. is_b256 l \<Longrightarrow> prove H leaves d i = Ok p \<Longrightarrow> \<forall>s \<in> set p. is_b256 s"
  by (simp add: prove_path)
    (metis hashing_okD(4) length_b256_ZERO mpath_length padded_length)

lemma prove_climb:
  assumes "hashing_ok H" "admits (length leaves) d" "unat i < length leaves"
    and "prove H leaves d i = Ok p" "g mod 2 ^ d = unat i"
  shows "climb (node_hash H) (leaves ! unat i) p g = root_of H d leaves"
proof -
  have p: "p = mpath (node_hash H) d (padded b256_ZERO leaves) (unat i)"
    using assms by (simp add: prove_path)
  have "unat i < 2 ^ d" using admits_le [OF assms(2)] assms(3) by linarith
  then have "climb (node_hash H) (padded b256_ZERO leaves (unat i)) p (unat i) = root_of H d leaves"
    unfolding p root_of_def by (rule climb_mpath)
  moreover have "climb (node_hash H) x p g = climb (node_hash H) x p (unat i)" for x
    by (rule climb_mod_eq) (use assms(5) \<open>unat i < 2 ^ d\<close> in \<open>simp add: p\<close>)
  ultimately show ?thesis using assms(3) by simp
qed

lemma prove_verifies:
  assumes "hashing_ok H" "admits (length leaves) d" "unat i < length leaves"
    and "prove H leaves d i = Ok p" "unat g mod 2 ^ d = unat i" "\<forall>l \<in> set leaves. is_b256 l"
  shows "verify_merkle_proof H (leaves ! unat i) p d g (root_of H d leaves) = Ok True"
proof -
  have "d \<le> 64" using admits_le [OF assms(2)] by simp
  moreover have "is_b256 (leaves ! unat i)" using assms(3,6) by simp
  moreover have "length p = d" by (rule prove_length [OF assms(1-4)])
  moreover have "climb (node_hash H) (leaves ! unat i) p (unat g) = root_of H d leaves"
    by (rule prove_climb [OF assms(1-5)])
  ultimately show ?thesis by (simp add: verify_merkle_proof_climb assms(1))
qed

lemma prove_binds:
  assumes "hashing_ok H" "admits (length leaves) d" "unat i < length leaves"
    and "\<forall>l \<in> set leaves. is_b256 l" "prove H leaves d i = Ok p" "unat g mod 2 ^ d = unat i"
    and "is_b256 x" "\<forall>s \<in> set b. is_b256 s"
    and "(verify_merkle_proof H x b d g (root_of H d leaves) :: (bool, 'e) res) = Ok True"
  shows "x = leaves ! unat i
    \<or> collides H (find_collision (node_hash H) (unat g) x b (leaves ! unat i) p)"
proof -
  have "d \<le> 64" using admits_le [OF assms(2)] by simp
  then have "length b = d" "climb (node_hash H) x b (unat g) = root_of H d leaves"
    using assms by (simp_all add: verify_merkle_proof_climb)
  moreover have "climb (node_hash H) (leaves ! unat i) p (unat g) = root_of H d leaves"
    using assms by (intro prove_climb)
  moreover have "length p = d" "\<forall>s \<in> set p. is_b256 s"
    using assms prove_length prove_b256 by blast+
  ultimately show ?thesis
    using assms by (intro climb_binding) auto
qed

text \<open>A branch of a subtree followed by a branch from the root of that subtree.\<close>

lemma prove_extends:
  assumes "hashing_ok H" "admits (length leaves) d" "unat i < length leaves"
    and "prove H leaves d i = Ok p" "g mod 2 ^ d = unat i"
  shows "climb (node_hash H) (leaves ! unat i) (p @ q) g
    = climb (node_hash H) (root_of H d leaves) q (g div 2 ^ d)"
  using assms prove_climb [OF assms] prove_length [OF assms(1-4)] by (simp add: climb_append)

end

subsection \<open>Both routines keep the contract\<close>

definition tree_prove ::
  "hashing \<Rightarrow> b256 list \<Rightarrow> nat \<Rightarrow> usize \<Rightarrow> (b256 list, MerkleTreeError) res" where
  "tree_prove H leaves d i =
     and_then (create H leaves d) (\<lambda>t. map_ok snd (generate_proof H t i d))"

definition rs_prove ::
  "hashing \<Rightarrow> b256 list \<Rightarrow> nat \<Rightarrow> usize \<Rightarrow> (b256 list, MerkleTreeError) res" where
  "rs_prove H leaves d i = Ok (build_merkle_proof_for_index H leaves (unat i))"

interpretation own_tree: path_provider tree_prove "\<lambda>n d. n \<le> 2 ^ d \<and> d \<le> 33"
  by unfold_locales
    (simp_all add: tree_prove_def create_tree_of generate_proof_tree_of)

interpretation rs_tree: path_provider rs_prove "\<lambda>n d. 2 ^ d < 2 * n \<and> n \<le> 2 ^ d \<and> d \<le> 33"
  by unfold_locales (simp_all add: rs_prove_def build_merkle_proof_mpath)

end
