(* ===== verification/Sample_Hashing.thy ===== *)
theory Sample_Hashing
  imports Merkle_Provider
begin

text \<open>
  A concrete instance of the parameter \<open>hashing\<close>, on which the theorems about any hashing crate are
  applied: a digest that rotates its input by sixteen bytes and cuts or fills it to 32 bytes, and
  an \<open>rs_merkle\<close> that lists the sibling path of a power-of-two number of leaves.  The digest of an
  all-zero input is all zeros, so the table of zero hashes is constant.
\<close>

definition sample_hash :: "bytes \<Rightarrow> bytes" where
  "sample_hash bs = take 32 (drop 16 bs @ take 16 bs @ replicate 32 0)"

definition sample_hashing :: hashing where
  "sample_hashing =
     \<lparr>hash = sample_hash,
      hash32_concat = (\<lambda>a b. sample_hash (a @ b)),
      ZERO_HASHES = replicate 49 b256_ZERO,
      rs_merkle_proof_hashes = (\<lambda>xs is.
        mpath (\<lambda>a b. sample_hash (a @ b)) (log2_ceil (length xs)) ((!) xs) (hd is))\<rparr>"

lemma length_sample_hash [simp]: "length (sample_hash bs) = 32"
  by (simp add: sample_hash_def)

lemma log2_ceil_pow2: "log2_ceil (2 ^ d) = d"
proof (induction d)
  case 0
  then show ?case by (simp add: log2_ceil.simps)
next
  case (Suc d)
  have "(2 ^ Suc d + 1) div 2 = (2 ^ d :: nat)" by simp
  moreover have "\<not> (2 :: nat) ^ Suc d \<le> 1" using one_less_power [of "2 :: nat" "Suc d"] by linarith
  ultimately show ?case using Suc by (simp add: log2_ceil.simps [of "2 ^ Suc d"] del: power_Suc)
qed

lemma sample_hash_ZERO: "sample_hash (b256_ZERO @ b256_ZERO) = b256_ZERO"
  by (simp add: sample_hash_def b256_ZERO_def replicate_add [symmetric])

lemma hashing_ok_sample [simp]: "hashing_ok sample_hashing"
  by (simp add: hashing_ok_def sample_hashing_def sample_hash_ZERO log2_ceil_pow2)

text \<open>The node above a left child forgets its first half.\<close>

lemma sample_node_hash:
  "is_b256 a \<Longrightarrow> is_b256 s \<Longrightarrow> node_hash sample_hashing a s = drop 16 a @ take 16 s"
  by (simp add: node_hash_def sample_hashing_def sample_hash_def)

definition sample_leaf :: "nat \<Rightarrow> b256" where
  "sample_leaf n = replicate 31 0 @ [word_of_nat n]"

lemma sample_leaf_Cons: "sample_leaf n = 0 # replicate 30 0 @ [word_of_nat n]"
  by (simp add: sample_leaf_def numeral_eq_Suc)

lemma length_sample_leaf [simp]: "length (sample_leaf n) = 32"
  by (simp add: sample_leaf_def)

end
