(* ===== verification/Merkle_Properties.thy ===== *)
theory Merkle_Properties
  imports Sample_Hashing
begin

text \<open>
  What the Merkle component promises, stated over the code: every generated proof verifies, an
  accepted proof pins the leaf down, only the low bits of the index count, and the two routines
  that produce branches agree.
\<close>

lemma mt_hash_root_of:
  "hashing_ok H \<Longrightarrow> depth \<le> 33 \<Longrightarrow> length leaves \<le> 2 ^ depth \<Longrightarrow>
   mt_hash H (tree_of H depth leaves) = Ok (root_of H depth leaves)"
  by (simp add: mt_hash_tree_of root_of_def)

lemma generate_proof_verifies:
  assumes "hashing_ok H" "depth \<le> 33" "length leaves \<le> 2 ^ depth" "unat i < length leaves"
    and "\<forall>l \<in> set leaves. is_b256 l"
    and "generate_proof H (tree_of H depth leaves) i depth = Ok (l, p)"
  shows "verify_merkle_proof H l p depth i (root_of H depth leaves) = Ok True"
proof -
  have "unat i < 2 ^ depth" using assms(3,4) by linarith
  moreover have "tree_prove H leaves depth i = Ok p" "l = leaves ! unat i"
    using assms(1-4,6) by (simp_all add: tree_prove_def create_tree_of generate_proof_tree_of)
  ultimately show ?thesis
    using own_tree.prove_verifies [of H leaves depth i p i] assms by simp
qed

text \<open>
  C17.  Completeness of the Merkle tree: for at most \<open>2 ^ depth\<close> leaves (depth up to 33), building
  the tree and asking for the proof of any present leaf succeeds, returns that leaf, and the proof
  is accepted by \<open>verify_merkle_proof\<close> against the hash of the tree.
\<close>

theorem merkle_proof_complete:
  assumes "hashing_ok H" "depth \<le> 33" "length leaves \<le> 2 ^ depth" "unat i < length leaves"
    and "\<forall>l \<in> set leaves. is_b256 l"
  shows "\<exists>tree root p. create H leaves depth = Ok tree \<and> mt_hash H tree = Ok root \<and>
    generate_proof H tree i depth = Ok (leaves ! unat i, p) \<and> length p = depth \<and>
    verify_merkle_proof H (leaves ! unat i) p depth i root = Ok True"
proof -
  note gen = generate_proof_tree_of [OF assms(1-4)]
  have "create H leaves depth = Ok (tree_of H depth leaves)"
    by (rule create_tree_of) (use assms in simp_all)
  then show ?thesis
    using gen length_mpath generate_proof_verifies [OF assms gen] mt_hash_root_of [OF assms(1-3)]
    by blast
qed

theorem merkle_proof_complete_witness:
  "\<exists>tree root p. create sample_hashing (map sample_leaf [0..<3]) 5 = Ok tree \<and>
    mt_hash sample_hashing tree = Ok root \<and>
    generate_proof sample_hashing tree 2 5 = Ok (map sample_leaf [0..<3] ! unat (2 :: usize), p) \<and>
    length p = 5 \<and>
    verify_merkle_proof sample_hashing (map sample_leaf [0..<3] ! unat (2 :: usize)) p 5 2 root
      = Ok True"
  by (rule merkle_proof_complete) simp_all

text \<open>
  C18.  Soundness of the Merkle tree: a leaf accepted at an index below the number of leaves,
  against the hash of the tree over these leaves, is the leaf at that index, or the accepted branch
  and the generated one contain an explicit pair of 64-byte inputs with the same digest.
\<close>

theorem merkle_proof_sound:
  assumes "hashing_ok H" "depth \<le> 33" "length leaves \<le> 2 ^ depth" "unat i < length leaves"
    and "\<forall>l \<in> set leaves. is_b256 l" "is_b256 x" "\<forall>s \<in> set b. is_b256 s"
    and "create H leaves depth = Ok tree" "mt_hash H tree = Ok root"
    and "generate_proof H tree i depth = Ok (l, p)"
    and "(verify_merkle_proof H x b depth i root :: (bool, MerkleTreeError) res) = Ok True"
  shows "x = leaves ! unat i \<or>
    collides H (find_collision (node_hash H) (unat i) x b (leaves ! unat i) p)"
proof -
  have tree: "tree = tree_of H depth leaves" "root = root_of H depth leaves"
    using assms(1-3,8,9)
    by (auto simp add: create_tree_of mt_hash_root_of simp del: mt_hash.simps)
  have "unat i < 2 ^ depth" using assms(3,4) by linarith
  moreover have "tree_prove H leaves depth i = Ok p"
    using assms(1-3,10) by (simp add: tree_prove_def create_tree_of tree)
  ultimately show ?thesis
    using own_tree.prove_binds [of H leaves depth i p i x b] assms tree by simp
qed

text \<open>
  The sample digest drops the first half of a left child.  So a wrong leaf is accepted with the branch
  of the first leaf, and the branches contain a collision.
\<close>

theorem merkle_proof_sound_witness:
  "\<exists>tree root p. create sample_hashing (map sample_leaf [0..<3]) 5 = Ok tree \<and>
    mt_hash sample_hashing tree = Ok root \<and>
    (verify_merkle_proof sample_hashing (1 # replicate 31 0) p 5 0 root :: (bool, MerkleTreeError) res) = Ok True \<and>
    collides sample_hashing (find_collision (node_hash sample_hashing) (unat (0 :: usize))
      (1 # replicate 31 0) p (sample_leaf 0) p)"
proof -
  let ?H = sample_hashing and ?leaves = "map sample_leaf [0..<3]"
  let ?x = "1 # replicate 31 0 :: bytes" and ?tree = "tree_of sample_hashing 5 (map sample_leaf [0..<3])"
  let ?root = "root_of sample_hashing 5 (map sample_leaf [0..<3])"
  have create: "create ?H ?leaves 5 = Ok ?tree" by (rule create_tree_of) simp_all
  have root: "mt_hash ?H ?tree = Ok ?root" by (rule mt_hash_root_of) simp_all
  obtain p where gen: "generate_proof ?H ?tree (0 :: usize) 5 = Ok (sample_leaf 0, p)" and p: "length p = 5"
    using generate_proof_tree_of [OF hashing_ok_sample, of 5 ?leaves 0] length_mpath by fastforce
  have wf: "\<forall>s \<in> set p. is_b256 s"
    by (rule own_tree.prove_b256 [OF hashing_ok_sample, of ?leaves 5 0])
      (simp_all add: tree_prove_def create gen)
  have "verify_merkle_proof ?H (sample_leaf 0) p 5 (0 :: usize) ?root = (Ok True :: (bool, MerkleTreeError) res)"
    by (rule generate_proof_verifies [OF hashing_ok_sample _ _ _ _ gen]) simp_all
  moreover have "climb (node_hash ?H) ?x p 0 = climb (node_hash ?H) (sample_leaf 0) p 0"
  proof (cases p)
    case (Cons t ts)
    have "drop 16 ?x = drop 16 (sample_leaf 0)" by (simp add: sample_leaf_def numeral_eq_Suc)
    then have "node_hash ?H ?x t = node_hash ?H (sample_leaf 0) t"
      using wf Cons sample_node_hash [of ?x t] sample_node_hash [of "sample_leaf 0" t] by simp
    then show ?thesis by (simp add: Cons)
  qed (use p in simp)
  ultimately have accepted: "verify_merkle_proof ?H ?x p 5 (0 :: usize) ?root = (Ok True :: (bool, MerkleTreeError) res)"
    using p by (simp add: verify_merkle_proof_climb)
  from merkle_proof_sound [OF hashing_ok_sample _ _ _ _ _ wf create root gen accepted]
  have "collides ?H (find_collision (node_hash ?H) (unat (0 :: usize)) ?x p (sample_leaf 0) p)"
    by (simp add: sample_leaf_def numeral_eq_Suc)
  with create root accepted show ?thesis by blast
qed

text \<open>
  \<open>verify_merkle_proof\<close> is total for depths up to 64 (no panic, no error) and depends on its
  index only through the low \<open>depth\<close> bits: this is what allows the validator to pass a
  generalized index where an index is expected.
\<close>

theorem verify_merkle_proof_low_bits:
  assumes "hashing_ok H" "depth \<le> 64" "is_b256 leaf"
    and "unat i mod 2 ^ depth = unat j mod 2 ^ depth"
  shows "\<exists>accepted. verify_merkle_proof H leaf branch depth i root = Ok accepted \<and>
    verify_merkle_proof H leaf branch depth j root = Ok accepted \<and>
    (accepted \<longrightarrow> length branch = depth)"
  using verify_merkle_proof_index_mod [OF assms] by (simp add: verify_merkle_proof_climb assms(1-3))

theorem verify_merkle_proof_low_bits_witness:
  "\<exists>accepted. verify_merkle_proof sample_hashing (sample_leaf 1) [sample_leaf 2] 1 3 (sample_leaf 0)
      = Ok accepted \<and>
    verify_merkle_proof sample_hashing (sample_leaf 1) [sample_leaf 2] 1 1 (sample_leaf 0)
      = Ok accepted \<and>
    (accepted \<longrightarrow> length [sample_leaf 2] = 1)"
  by (rule verify_merkle_proof_low_bits) simp_all

text \<open>
  C19.  The two routines that produce branches agree: for a number of leaves whose next power of
  two is \<open>2 ^ d\<close>, \<open>build_merkle_proof_for_index\<close> returns the siblings that \<open>generate_proof\<close> returns on
  the tree created at depth \<open>d\<close>.
\<close>

theorem branch_producers_agree:
  assumes "hashing_ok H" "d \<le> 33" "2 ^ d < 2 * length leaves" "length leaves \<le> 2 ^ d"
    and "unat i < length leaves"
  shows "\<exists>tree. create H leaves d = Ok tree \<and>
    generate_proof H tree i d
      = Ok (leaves ! unat i, build_merkle_proof_for_index H leaves (unat i))"
  using assms
  by (simp add: create_tree_of generate_proof_tree_of build_merkle_proof_mpath)

theorem branch_producers_agree_witness:
  "\<exists>tree. create sample_hashing (map sample_leaf [0..<14]) 4 = Ok tree \<and>
    generate_proof sample_hashing tree 12 4
      = Ok (map sample_leaf [0..<14] ! unat (12 :: usize),
            build_merkle_proof_for_index sample_hashing (map sample_leaf [0..<14])
              (unat (12 :: usize)))"
  by (rule branch_producers_agree) simp_all

end
