(* ===== verification/Hex_Bytes.thy ===== *)
theory Hex_Bytes
  imports Hist_Prelude
begin

text \<open>
  The \<open>0x\<close>-prefixed hex helpers (\<open>src/portal_types/utils/bytes.rs\<close>).  A Rust string is the list of
  its UTF-8 bytes, so \<open>str::get\<close> on a range checks the boundary of a character.  The crate \<open>hex\<close> is
  the parameter \<open>hex_api\<close>; \<open>hex_ok\<close> states what it documents.
\<close>

subsection \<open>The crate \<open>hex\<close>\<close>

datatype FromHexError = InvalidHexCharacter char nat | OddLength | InvalidStringLength

record hex_api =
  hex_crate_encode :: "bytes \<Rightarrow> string"
  hex_crate_decode :: "string \<Rightarrow> (bytes, FromHexError) res"

text \<open>\<open>hex::encode\<close> writes two lower-case digits for each byte.\<close>

definition hex_digit_char :: "nat \<Rightarrow> char" where
  "hex_digit_char n = ''0123456789abcdef'' ! n"

definition hex_pairs :: "bytes \<Rightarrow> string" where
  "hex_pairs bs = concat (map (\<lambda>b. [hex_digit_char (unat b div 16), hex_digit_char (unat b mod 16)]) bs)"

definition hex_ok :: "hex_api \<Rightarrow> bool" where
  "hex_ok X \<longleftrightarrow>
     (\<forall>bs. hex_crate_encode X bs = hex_pairs bs) \<and>
     (\<forall>bs. hex_crate_decode X (hex_pairs bs) = Ok bs) \<and>
     (\<forall>s. \<not> is_panic (hex_crate_decode X s)) \<and>
     (\<forall>s bs. hex_crate_decode X s = Ok bs \<longrightarrow> length s = 2 * length bs)"

lemma hex_pairs_simps [simp]:
  "hex_pairs [] = []"
  "hex_pairs (b # bs) = hex_digit_char (unat b div 16) # hex_digit_char (unat b mod 16) # hex_pairs bs"
  "hex_pairs (bs @ cs) = hex_pairs bs @ hex_pairs cs"
  by (simp_all add: hex_pairs_def)

lemma length_hex_pairs [simp]: "length (hex_pairs bs) = 2 * length bs"
  by (induction bs) simp_all

lemma hex_digit_char_in: "n < 16 \<Longrightarrow> hex_digit_char n \<in> set ''0123456789abcdef''"
  unfolding hex_digit_char_def by (rule nth_mem) simp

lemma hex_pairs_chars: "set (hex_pairs bs) \<subseteq> set ''0123456789abcdef''"
proof (induction bs)
  case (Cons b bs)
  have "unat b < 2 ^ LENGTH(8)" by (rule unsigned_less)
  then have "unat b div 16 < 16" "unat b mod 16 < 16" by simp_all
  from this [THEN hex_digit_char_in] Cons show ?case by simp
qed simp

lemma hex_okD:
  assumes "hex_ok X"
  shows "hex_crate_encode X bs = hex_pairs bs" "hex_crate_decode X (hex_pairs bs) = Ok bs"
    "\<not> is_panic (hex_crate_decode X s)"
  using assms by (simp_all add: hex_ok_def)

subsection \<open>Strings\<close>

definition is_continuation :: "char \<Rightarrow> bool" where
  "is_continuation c \<longleftrightarrow> 128 \<le> (of_char c :: nat) \<and> (of_char c :: nat) < 192"

definition is_char_boundary :: "string \<Rightarrow> nat \<Rightarrow> bool" where
  "is_char_boundary s i \<longleftrightarrow> i = 0 \<or> i = length s \<or> (i < length s \<and> \<not> is_continuation (s ! i))"

text \<open>\<open>str::get(..n)\<close> and \<open>str::get(n..)\<close>.\<close>

definition str_get_to :: "string \<Rightarrow> nat \<Rightarrow> string option" where
  "str_get_to s n = (if n \<le> length s \<and> is_char_boundary s n then Some (take n s) else None)"

definition str_get_from :: "string \<Rightarrow> nat \<Rightarrow> string option" where
  "str_get_from s n = (if n \<le> length s \<and> is_char_boundary s n then Some (drop n s) else None)"

text \<open>
  \<open>str::to_lowercase\<close> on ASCII text.  The texts it is compared with consist of letters and digits to
  which no character outside ASCII is lowered, so other text is refused either way.
\<close>

definition ascii_lower :: "char \<Rightarrow> char" where
  "ascii_lower c = (if 65 \<le> (of_char c :: nat) \<and> (of_char c :: nat) \<le> 90
                    then char_of ((of_char c :: nat) + 32) else c)"

definition to_lowercase :: "string \<Rightarrow> string" where
  "to_lowercase s = map ascii_lower s"

subsection \<open>The helpers\<close>

datatype ByteUtilsError =
    WrongPrefix string
  | HexDecode FromHexError string
  | NoPrefix string

definition hex_encode :: "hex_api \<Rightarrow> bytes \<Rightarrow> string" where
  "hex_encode X data = ''0x'' @ hex_crate_encode X data"

definition hex_decode :: "hex_api \<Rightarrow> string \<Rightarrow> (bytes, ByteUtilsError) res" where
  "hex_decode X data =
     and_then (ok_or (str_get_to data 2) (NoPrefix data)) (\<lambda>first_two.
     if to_lowercase first_two \<noteq> ''0x'' then Err (WrongPrefix first_two)
     else
       let post_prefix = (case str_get_from data 2 of None \<Rightarrow> '''' | Some s \<Rightarrow> s)
       in map_err (\<lambda>e. HexDecode e data) (hex_crate_decode X post_prefix))"

subsection \<open>Round trip\<close>

lemma lower_0x: "to_lowercase ''0x'' = ''0x''"
  by (simp add: to_lowercase_def ascii_lower_def)

lemma str_get_ascii_prefix:
  assumes "\<forall>c \<in> set s. (of_char c :: nat) < 128"
  shows "str_get_to (''0x'' @ s) 2 = Some ''0x''" "str_get_from (''0x'' @ s) 2 = Some s"
  using assms
  by (cases s; force simp: str_get_to_def str_get_from_def is_char_boundary_def is_continuation_def
      numeral_2_eq_2)+

lemma hex_roundtrip:
  assumes "hex_ok X"
  shows "hex_decode X (hex_encode X bs) = Ok bs"
proof -
  have "\<forall>c \<in> set (hex_pairs bs). (of_char c :: nat) < 128"
    using hex_pairs_chars [of bs] by fastforce
  then show ?thesis
    unfolding hex_decode_def hex_encode_def
    by (simp add: str_get_ascii_prefix [simplified] lower_0x hex_okD [OF assms])
qed

lemma hex_decode_not_Panic: "hex_ok X \<Longrightarrow> \<not> is_panic (hex_decode X s)"
  by (cases "str_get_to s 2") (auto simp: hex_decode_def hex_ok_def Let_def)

lemma hex_decode_length:
  assumes "hex_ok X" "hex_decode X s = Ok bs"
  shows "length s = 2 + 2 * length bs"
proof -
  have get: "length s = 2 + length t" if "str_get_from s 2 = Some t" for t
    using that by (auto simp: str_get_from_def split: if_splits)
  have to_from: "str_get_to s 2 = None \<longleftrightarrow> str_get_from s 2 = None"
    by (simp add: str_get_to_def str_get_from_def)
  show ?thesis
    using assms get to_from
    by (cases "str_get_from s 2")
      (auto simp: hex_decode_def hex_ok_def and_then_Ok_iff Let_def split: if_splits)
qed

end
