(* ===== verification/Network_Spec.thy ===== *)
theory Network_Spec
  imports Hex_Bytes
begin

text \<open>
  Time, slots and forks: the activation predicates of \<open>src/portal_types/network_spec.rs\<close>, the
  constants of \<open>src/portal_types/consensus/constants.rs\<close>, the fork of a slot
  (\<open>fork_for_slot\<close> in \<open>src/sources/beacon_rpc.rs\<close>), the index of a historical summary
  (\<open>src/portal_types/consensus/historical_summaries.rs\<close>), and the names and digests of the forks
  (\<open>src/portal_types/consensus/fork.rs\<close>).  The lemmas show that the four modules, each with
  constants of its own, draw the same fork boundaries.
\<close>

subsection \<open>Constants\<close>

definition MAINNET_PARIS_BLOCK :: u64 where "MAINNET_PARIS_BLOCK = 15537394"
definition MAINNET_SHANGHAI_TIMESTAMP :: u64 where "MAINNET_SHANGHAI_TIMESTAMP = 1681338455"
definition MAINNET_CANCUN_TIMESTAMP :: u64 where "MAINNET_CANCUN_TIMESTAMP = 1710338135"
definition MAINNET_BEACON_GENESIS_TIMESTAMP :: u64 where
  "MAINNET_BEACON_GENESIS_TIMESTAMP = 1606824023"
definition MAINNET_SECONDS_PER_SLOT :: u64 where "MAINNET_SECONDS_PER_SLOT = 12"

definition SLOTS_PER_EPOCH :: u64 where "SLOTS_PER_EPOCH = 32"
definition SLOTS_PER_HISTORICAL_ROOT :: u64 where "SLOTS_PER_HISTORICAL_ROOT = 8192"
definition SECONDS_PER_SLOT :: u64 where "SECONDS_PER_SLOT = 12"
definition CAPELLA_FORK_EPOCH :: u64 where "CAPELLA_FORK_EPOCH = 194048"
definition DENEB_FORK_EPOCH :: u64 where "DENEB_FORK_EPOCH = 269568"
definition ELECTRA_FORK_EPOCH :: u64 where "ELECTRA_FORK_EPOCH = 364032"

lemmas network_constants =
  MAINNET_PARIS_BLOCK_def MAINNET_SHANGHAI_TIMESTAMP_def MAINNET_CANCUN_TIMESTAMP_def
  MAINNET_BEACON_GENESIS_TIMESTAMP_def MAINNET_SECONDS_PER_SLOT_def SLOTS_PER_EPOCH_def
  SLOTS_PER_HISTORICAL_ROOT_def SECONDS_PER_SLOT_def CAPELLA_FORK_EPOCH_def
  DENEB_FORK_EPOCH_def ELECTRA_FORK_EPOCH_def

subsection \<open>Activation predicates and slots\<close>

definition is_paris_active_at_block :: "u64 \<Rightarrow> bool" where
  "is_paris_active_at_block block_number \<longleftrightarrow> block_number \<ge> MAINNET_PARIS_BLOCK"

definition is_shanghai_active_at_timestamp :: "u64 \<Rightarrow> bool" where
  "is_shanghai_active_at_timestamp timestamp \<longleftrightarrow> timestamp \<ge> MAINNET_SHANGHAI_TIMESTAMP"

definition is_cancun_active_at_timestamp :: "u64 \<Rightarrow> bool" where
  "is_cancun_active_at_timestamp timestamp \<longleftrightarrow> timestamp \<ge> MAINNET_CANCUN_TIMESTAMP"

definition slot_for_execution_timestamp :: "u64 \<Rightarrow> u64 option" where
  "slot_for_execution_timestamp timestamp =
     map_option (\<lambda>secs_since_genesis. secs_since_genesis div MAINNET_SECONDS_PER_SLOT)
       (checked_sub timestamp MAINNET_BEACON_GENESIS_TIMESTAMP)"

definition historical_summary_index :: "u64 \<Rightarrow> usize option" where
  "historical_summary_index slot =
     (let capella_slot = CAPELLA_FORK_EPOCH * SLOTS_PER_EPOCH
      in if slot < capella_slot then None
         else Some ((slot - capella_slot) div SLOTS_PER_HISTORICAL_ROOT))"

definition epoch_index_of_block :: "u64 \<Rightarrow> u64" where
  "epoch_index_of_block block_number = block_number div SLOTS_PER_HISTORICAL_ROOT"

subsection \<open>Fork names\<close>

datatype ForkName = Bellatrix | Capella | Deneb | Electra

text \<open>Forks in the order of their activation.\<close>

instantiation ForkName :: linorder
begin

definition fork_rank :: "ForkName \<Rightarrow> nat" where
  "fork_rank f = (case f of Bellatrix \<Rightarrow> 0 | Capella \<Rightarrow> 1 | Deneb \<Rightarrow> 2 | Electra \<Rightarrow> 3)"

definition less_eq_ForkName :: "ForkName \<Rightarrow> ForkName \<Rightarrow> bool" where
  "less_eq_ForkName f g \<longleftrightarrow> fork_rank f \<le> fork_rank g"

definition less_ForkName :: "ForkName \<Rightarrow> ForkName \<Rightarrow> bool" where
  "less_ForkName f g \<longleftrightarrow> fork_rank f < fork_rank g"

instance
  by standard
    (auto simp: less_eq_ForkName_def less_ForkName_def fork_rank_def split: ForkName.splits)

end

definition fork_for_slot :: "u64 \<Rightarrow> ForkName" where
  "fork_for_slot slot =
     (let epoch = slot div SLOTS_PER_EPOCH
      in if epoch \<ge> ELECTRA_FORK_EPOCH then Electra
         else if epoch \<ge> DENEB_FORK_EPOCH then Deneb
         else if epoch \<ge> CAPELLA_FORK_EPOCH then Capella
         else Bellatrix)"

fun as_fork_digest :: "ForkName \<Rightarrow> bytes" where
  "as_fork_digest Bellatrix = [0x4a, 0x26, 0xc5, 0x8b]"
| "as_fork_digest Capella = [0xbb, 0xa4, 0xda, 0x96]"
| "as_fork_digest Deneb = [0x6a, 0x95, 0xa1, 0xa9]"
| "as_fork_digest Electra = [0xad, 0x53, 0x2c, 0xeb]"

text \<open>The error carries the digest; the code stores its hexadecimal form.\<close>

datatype ParseForkNameError = ParseForkNameError string

definition fork_from_digest :: "hex_api \<Rightarrow> bytes \<Rightarrow> (ForkName, ParseForkNameError) res" where
  "fork_from_digest X fork_digest =
     (if fork_digest = [0x4a, 0x26, 0xc5, 0x8b] then Ok Bellatrix
      else if fork_digest = [0xbb, 0xa4, 0xda, 0x96] then Ok Capella
      else if fork_digest = [0x6a, 0x95, 0xa1, 0xa9] then Ok Deneb
      else if fork_digest = [0xad, 0x53, 0x2c, 0xeb] then Ok Electra
      else Err (ParseForkNameError (hex_encode X fork_digest)))"

fun as_capitalized_str :: "ForkName \<Rightarrow> string" where
  "as_capitalized_str Bellatrix = ''Bellatrix''"
| "as_capitalized_str Capella = ''Capella''"
| "as_capitalized_str Deneb = ''Deneb''"
| "as_capitalized_str Electra = ''Electra''"

fun fork_to_string :: "ForkName \<Rightarrow> string" where
  "fork_to_string Bellatrix = ''bellatrix''"
| "fork_to_string Capella = ''capella''"
| "fork_to_string Deneb = ''deneb''"
| "fork_to_string Electra = ''electra''"

definition fork_from_str :: "string \<Rightarrow> (ForkName, msg) res" where
  "fork_from_str fork_name =
     (let name = to_lowercase fork_name
      in if name = ''bellatrix'' \<or> name = ''merge'' then Ok Bellatrix
         else if name = ''capella'' then Ok Capella
         else if name = ''deneb'' then Ok Deneb
         else if name = ''electra'' then Ok Electra
         else Err (Msg ''unknown fork name: {fork_name}'' [AStr fork_name]))"

definition string_from_fork :: "ForkName \<Rightarrow> string" where
  "string_from_fork fork = fork_to_string fork"

definition fork_try_from_string :: "string \<Rightarrow> (ForkName, msg) res" where
  "fork_try_from_string s = fork_from_str s"

subsection \<open>The encodings of a fork\<close>

interpretation fork_digest: strict_codec as_fork_digest "fork_from_digest X" for X
proof unfold_locales
  show "fork_from_digest X (as_fork_digest x) = Ok x" for x
    by (cases x) (simp_all add: fork_from_digest_def)
  show "as_fork_digest x = b" if "fork_from_digest X b = Ok x" for b x
    using that by (auto simp: fork_from_digest_def split: if_splits)
qed

interpretation fork_string: codec fork_to_string fork_from_str
proof unfold_locales
  show "fork_from_str (fork_to_string x) = Ok x" for x
    by (cases x) (simp_all add: fork_from_str_def to_lowercase_def ascii_lower_def char_of_def bit_0 Let_def)
qed

interpretation fork_serde: codec string_from_fork fork_try_from_string
  by unfold_locales (simp add: string_from_fork_def fork_try_from_string_def fork_string.dec_enc)

interpretation fork_capitalized: codec as_capitalized_str fork_from_str
proof unfold_locales
  show "fork_from_str (as_capitalized_str x) = Ok x" for x
    by (cases x) (simp_all add: fork_from_str_def to_lowercase_def ascii_lower_def char_of_def bit_0 Let_def)
qed

subsection \<open>Boundaries as numbers\<close>

lemma unat_div_const: "unat ((a :: u64) div numeral n) = unat a div unat (numeral n :: u64)"
  by (simp add: unat_div)

lemma fork_for_slot_unat:
  "fork_for_slot slot =
     (if unat slot \<ge> 11649024 then Electra else if unat slot \<ge> 8626176 then Deneb
      else if unat slot \<ge> 6209536 then Capella else Bellatrix)"
proof -
  have "unat (slot div 32) = unat slot div 32" by (simp add: unat_div)
  then show ?thesis
    by (auto simp: fork_for_slot_def network_constants word_le_nat_alt Let_def)
qed

lemma historical_summary_index_unat:
  "historical_summary_index slot =
     (if unat slot < 6209536 then None else Some ((slot - 6209536) div 8192))"
  by (simp add: historical_summary_index_def network_constants word_less_nat_alt)

lemma unat_summary_index:
  "historical_summary_index slot = Some i \<Longrightarrow> unat i = (unat slot - 6209536) div 8192"
  by (auto simp: historical_summary_index_unat unat_div unat_sub word_le_nat_alt split: if_splits)

lemma slot_for_execution_timestamp_unat:
  "slot_for_execution_timestamp ts = (if unat ts < 1606824023 then None
     else Some ((ts - 1606824023) div 12))"
  by (simp add: slot_for_execution_timestamp_def checked_sub_def network_constants word_le_nat_alt)

lemma unat_slot_for_timestamp:
  "slot_for_execution_timestamp ts = Some slot \<Longrightarrow>
   1606824023 \<le> unat ts \<and> unat slot = (unat ts - 1606824023) div 12"
  by (auto simp: slot_for_execution_timestamp_unat unat_div unat_sub word_le_nat_alt split: if_splits)

lemma activation_unat:
  "is_paris_active_at_block n \<longleftrightarrow> 15537394 \<le> unat n"
  "is_shanghai_active_at_timestamp ts \<longleftrightarrow> 1681338455 \<le> unat ts"
  "is_cancun_active_at_timestamp ts \<longleftrightarrow> 1710338135 \<le> unat ts"
  by (simp_all add: is_paris_active_at_block_def is_shanghai_active_at_timestamp_def
      is_cancun_active_at_timestamp_def network_constants word_le_nat_alt)

lemma cancun_imp_shanghai:
  "is_cancun_active_at_timestamp ts \<Longrightarrow> is_shanghai_active_at_timestamp ts"
  by (simp add: activation_unat)

subsection \<open>The modules agree on the boundaries\<close>

lemma shanghai_iff_capella_slot:
  "slot_for_execution_timestamp ts = Some slot \<Longrightarrow>
   is_shanghai_active_at_timestamp ts \<longleftrightarrow> Capella \<le> fork_for_slot slot"
  by (drule unat_slot_for_timestamp)
    (auto simp: activation_unat fork_for_slot_unat less_eq_ForkName_def fork_rank_def)

lemma cancun_iff_deneb_slot:
  "slot_for_execution_timestamp ts = Some slot \<Longrightarrow>
   is_cancun_active_at_timestamp ts \<longleftrightarrow> Deneb \<le> fork_for_slot slot"
  by (drule unat_slot_for_timestamp)
    (auto simp: activation_unat fork_for_slot_unat less_eq_ForkName_def fork_rank_def)

lemma summary_index_iff_capella_slot:
  "historical_summary_index slot \<noteq> None \<longleftrightarrow> Capella \<le> fork_for_slot slot"
  by (auto simp: historical_summary_index_unat fork_for_slot_unat less_eq_ForkName_def fork_rank_def)

lemma fork_for_slot_mono: "slot \<le> slot' \<Longrightarrow> fork_for_slot slot \<le> fork_for_slot slot'"
  by (auto simp: fork_for_slot_unat word_le_nat_alt less_eq_ForkName_def fork_rank_def)

end
