(* ===== verification/Header_Proof.thy ===== *)
theory Header_Proof
  imports Network_Spec
begin

text \<open>
  Headers with their proofs (\<open>src/portal_types/execution/header_with_proof.rs\<close>) and the codec of a
  header inside SSZ (\<open>src/portal_types/execution/ssz_header.rs\<close>).

  \<open>Header\<close> is \<open>alloy::consensus::Header\<close> with the fields the crate reads or writes.  Its hash and
  its RLP codec belong to \<open>alloy\<close>, the SSZ primitives to \<open>ethereum_ssz\<close> and \<open>ssz_types\<close>; they are
  the parameters \<open>alloy_api\<close> and \<open>ssz_api\<close>, and \<open>alloy_ok\<close>, \<open>ssz_ok\<close> state what is documented of
  them.  A vector of a fixed size is a list; its size is part of a well-formedness predicate.
\<close>

subsection \<open>Headers\<close>

record Header =
  parent_hash :: b256
  ommers_hash :: b256
  beneficiary :: address
  state_root :: b256
  transactions_root :: b256
  receipts_root :: b256
  logs_bloom :: bytes
  difficulty :: u256
  number :: u64
  gas_limit :: u64
  gas_used :: u64
  timestamp :: u64
  extra_data :: bytes
  mix_hash :: b256
  nonce :: bytes
  base_fee_per_gas :: "u64 option"
  withdrawals_root :: "b256 option"
  blob_gas_used :: "u64 option"
  excess_blob_gas :: "u64 option"
  parent_beacon_block_root :: "b256 option"
  requests_hash :: "b256 option"

record alloy_api =
  hash_slow :: "Header \<Rightarrow> b256"
  rlp_encode_header :: "Header \<Rightarrow> bytes"
  rlp_decode_header :: "bytes \<Rightarrow> (Header \<times> bytes) option"

text \<open>A header hash has 32 bytes.\<close>

definition alloy_ok :: "alloy_api \<Rightarrow> bool" where
  "alloy_ok A \<longleftrightarrow> (\<forall>h. length (hash_slow A h) = 32)"

text \<open>
  \<open>Header::decode\<close> reads an encoded header from the front of the buffer and leaves the rest.  This
  holds of headers whose optional fields are set in the order of their forks, so it is assumed of
  the header at hand and not of all values of the record.
\<close>

definition header_rlp_ok :: "alloy_api \<Rightarrow> Header \<Rightarrow> bool" where
  "header_rlp_ok A h \<longleftrightarrow>
     (\<forall>rest. rlp_decode_header A (rlp_encode_header A h @ rest) = Some (h, rest))"

subsection \<open>Proofs\<close>

text \<open>
  The three structs of the post-merge eras have the same four fields and differ in the sizes of
  the two vectors; they are one record here, and the constructor of \<open>BlockHeaderProof\<close> says which
  struct it is.
\<close>

record BlockProofHistorical =
  beacon_block_proof :: "b256 list"
  beacon_block_root :: b256
  execution_block_proof :: "b256 list"
  slot :: u64

datatype BlockHeaderProof =
    HistoricalHashes "b256 list"
  | HistoricalRoots BlockProofHistorical
  | HistoricalSummariesCapella BlockProofHistorical
  | HistoricalSummariesDeneb BlockProofHistorical

record HeaderWithProof =
  header :: Header
  hwp_proof :: BlockHeaderProof

definition fixed_vector_wf :: "nat \<Rightarrow> b256 list \<Rightarrow> bool" where
  "fixed_vector_wf n xs \<longleftrightarrow> length xs = n \<and> (\<forall>x \<in> set xs. is_b256 x)"

definition historical_proof_wf :: "nat \<Rightarrow> nat \<Rightarrow> BlockProofHistorical \<Rightarrow> bool" where
  "historical_proof_wf nb ne p \<longleftrightarrow>
     fixed_vector_wf nb (beacon_block_proof p) \<and> is_b256 (beacon_block_root p) \<and>
     fixed_vector_wf ne (execution_block_proof p)"

text \<open>The sizes in the types of the code: 15; 14 and 11; 13 and 11; 13 and 12.\<close>

fun proof_wf :: "BlockHeaderProof \<Rightarrow> bool" where
  "proof_wf (HistoricalHashes p) \<longleftrightarrow> fixed_vector_wf 15 p"
| "proof_wf (HistoricalRoots p) \<longleftrightarrow> historical_proof_wf 14 11 p"
| "proof_wf (HistoricalSummariesCapella p) \<longleftrightarrow> historical_proof_wf 13 11 p"
| "proof_wf (HistoricalSummariesDeneb p) \<longleftrightarrow> historical_proof_wf 13 12 p"

lemma fixed_vector_wfD:
  "fixed_vector_wf n xs \<Longrightarrow> length xs = n"
  "fixed_vector_wf n xs \<Longrightarrow> \<forall>x \<in> set xs. is_b256 x"
  by (simp_all add: fixed_vector_wf_def)

subsection \<open>SSZ\<close>

datatype DecodeError = BytesInvalid string | OtherDecodeError nat

record ssz_api =
  ssz_decode_pair :: "bytes \<Rightarrow> (bytes \<times> bytes, DecodeError) res"
  ssz_encode_pair :: "bytes \<Rightarrow> bytes \<Rightarrow> bytes"
  bytelist_from_ssz :: "nat \<Rightarrow> bytes \<Rightarrow> (bytes, DecodeError) res"
  bytelist_from_vec :: "nat \<Rightarrow> bytes \<Rightarrow> bytes"
  hashes_from_ssz :: "bytes \<Rightarrow> (b256 list, DecodeError) res"
  hashes_as_ssz :: "b256 list \<Rightarrow> bytes"
  historical_from_ssz :: "nat \<Rightarrow> nat \<Rightarrow> bytes \<Rightarrow> (BlockProofHistorical, DecodeError) res"
  historical_as_ssz :: "BlockProofHistorical \<Rightarrow> bytes"

text \<open>
  \<open>ssz_decode_pair\<close> is the \<open>SszDecoderBuilder\<close> with two anonymous variable-length items registered
  and built, giving the bytes of the items; \<open>ssz_encode_pair\<close> is the derived encoding of a
  container of two such fields.  \<open>bytelist_from_vec n\<close> is \<open>VariableList::from\<close>, which truncates.
  \<open>hashes_*\<close> and \<open>historical_* nb ne\<close> are the derived codecs of the vector of 15 roots and of the
  structs with vectors of \<open>nb\<close> and \<open>ne\<close> roots: fixed-size, \<open>32\<close> bytes a root and \<open>8\<close> the slot.
\<close>

definition ssz_ok :: "ssz_api \<Rightarrow> bool" where
  "ssz_ok S \<longleftrightarrow>
     (\<forall>a b. length a + length b < 2 ^ 31 \<longrightarrow> ssz_decode_pair S (ssz_encode_pair S a b) = Ok (a, b)) \<and>
     (\<forall>n bs. length bs \<le> n \<longrightarrow> bytelist_from_ssz S n bs = Ok bs) \<and>
     (\<forall>n bs. bytelist_from_vec S n bs = take n bs) \<and>
     (\<forall>bs xs. hashes_from_ssz S bs = Ok xs \<longrightarrow> fixed_vector_wf 15 xs) \<and>
     (\<forall>xs. fixed_vector_wf 15 xs \<longrightarrow>
        hashes_from_ssz S (hashes_as_ssz S xs) = Ok xs \<and> length (hashes_as_ssz S xs) = 32 * 15) \<and>
     (\<forall>nb ne bs p. historical_from_ssz S nb ne bs = Ok p \<longrightarrow> historical_proof_wf nb ne p) \<and>
     (\<forall>nb ne p. historical_proof_wf nb ne p \<longrightarrow>
        historical_from_ssz S nb ne (historical_as_ssz S p) = Ok p \<and>
        length (historical_as_ssz S p) = 32 * nb + 32 + 32 * ne + 8)"

subsection \<open>The codec of a header\<close>

definition header_ssz_append :: "alloy_api \<Rightarrow> ssz_api \<Rightarrow> Header \<Rightarrow> bytes \<Rightarrow> bytes" where
  "header_ssz_append A S h buf = buf @ bytelist_from_vec S 2048 (rlp_encode_header A h)"

definition header_from_ssz_bytes ::
  "alloy_api \<Rightarrow> ssz_api \<Rightarrow> bytes \<Rightarrow> (Header, DecodeError) res" where
  "header_from_ssz_bytes A S bs =
     and_then (bytelist_from_ssz S 2048 bs) (\<lambda>rlp_encoded_header.
       case rlp_decode_header A rlp_encoded_header of
         None \<Rightarrow> Err (BytesInvalid ''Unable to decode bytes into header.'')
       | Some (h, _) \<Rightarrow> Ok h)"

subsection \<open>The codec of a header with its proof\<close>

fun proof_ssz_append :: "ssz_api \<Rightarrow> BlockHeaderProof \<Rightarrow> bytes \<Rightarrow> bytes" where
  "proof_ssz_append S (HistoricalHashes p) buf = buf @ hashes_as_ssz S p"
| "proof_ssz_append S (HistoricalRoots p) buf = buf @ historical_as_ssz S p"
| "proof_ssz_append S (HistoricalSummariesCapella p) buf = buf @ historical_as_ssz S p"
| "proof_ssz_append S (HistoricalSummariesDeneb p) buf = buf @ historical_as_ssz S p"

definition hwp_as_ssz_bytes :: "alloy_api \<Rightarrow> ssz_api \<Rightarrow> HeaderWithProof \<Rightarrow> bytes" where
  "hwp_as_ssz_bytes A S hwp =
     ssz_encode_pair S (header_ssz_append A S (header hwp) []) (proof_ssz_append S (hwp_proof hwp) [])"

definition hwp_from_ssz_bytes ::
  "alloy_api \<Rightarrow> ssz_api \<Rightarrow> bytes \<Rightarrow> (HeaderWithProof, DecodeError) res" where
  "hwp_from_ssz_bytes A S bs =
     and_then (ssz_decode_pair S bs) (\<lambda>(header_bytes, proof_bytes).
     and_then (header_from_ssz_bytes A S header_bytes) (\<lambda>h.
     and_then (bytelist_from_ssz S 1024 proof_bytes) (\<lambda>proof.
     and_then
       (if is_cancun_active_at_timestamp (timestamp h)
        then map_ok HistoricalSummariesDeneb (historical_from_ssz S 13 12 proof)
        else if is_shanghai_active_at_timestamp (timestamp h)
        then map_ok HistoricalSummariesCapella (historical_from_ssz S 13 11 proof)
        else if is_paris_active_at_block (number h)
        then map_ok HistoricalRoots (historical_from_ssz S 14 11 proof)
        else map_ok HistoricalHashes (hashes_from_ssz S proof))
     (\<lambda>p. Ok \<lparr>header = h, hwp_proof = p\<rparr>))))"

subsection \<open>The proof of an era\<close>

datatype AuthPath =
    AuthHistoricalHashes
  | AuthHistoricalRoots
  | AuthHistoricalSummariesCapella
  | AuthHistoricalSummariesDeneb

text \<open>The era a header belongs to, by its number and timestamp.\<close>

definition era_of :: "Header \<Rightarrow> AuthPath" where
  "era_of h =
     (if is_cancun_active_at_timestamp (timestamp h) then AuthHistoricalSummariesDeneb
      else if is_shanghai_active_at_timestamp (timestamp h) then AuthHistoricalSummariesCapella
      else if is_paris_active_at_block (number h) then AuthHistoricalRoots
      else AuthHistoricalHashes)"

text \<open>\<open>auth_path_for\<close> of \<open>src/api.rs\<close>.\<close>

fun auth_path_for :: "BlockHeaderProof \<Rightarrow> AuthPath" where
  "auth_path_for (HistoricalHashes _) = AuthHistoricalHashes"
| "auth_path_for (HistoricalRoots _) = AuthHistoricalRoots"
| "auth_path_for (HistoricalSummariesCapella _) = AuthHistoricalSummariesCapella"
| "auth_path_for (HistoricalSummariesDeneb _) = AuthHistoricalSummariesDeneb"

lemma hwp_from_ssz_Ok:
  assumes "hwp_from_ssz_bytes A S bs = Ok hwp"
  obtains hb pb where "ssz_decode_pair S bs = Ok (hb, pb)"
    and "header_from_ssz_bytes A S hb = Ok (header hwp)"
    and "auth_path_for (hwp_proof hwp) = era_of (header hwp)"
    and "ssz_ok S \<Longrightarrow> proof_wf (hwp_proof hwp)"
proof -
  from assms obtain hb pb h pr p where
    pair: "ssz_decode_pair S bs = Ok (hb, pb)" and h: "header_from_ssz_bytes A S hb = Ok h"
    and p: "(if is_cancun_active_at_timestamp (timestamp h)
        then map_ok HistoricalSummariesDeneb (historical_from_ssz S 13 12 pr)
        else if is_shanghai_active_at_timestamp (timestamp h)
        then map_ok HistoricalSummariesCapella (historical_from_ssz S 13 11 pr)
        else if is_paris_active_at_block (number h)
        then map_ok HistoricalRoots (historical_from_ssz S 14 11 pr)
        else map_ok HistoricalHashes (hashes_from_ssz S pr)) = Ok p"
    and hwp: "hwp = \<lparr>header = h, hwp_proof = p\<rparr>"
    by (auto simp: hwp_from_ssz_bytes_def and_then_Ok_iff split: prod.splits)
  have "auth_path_for p = era_of h"
    using p by (auto simp: era_of_def map_ok_Ok_iff split: if_splits)
  moreover have "proof_wf p" if "ssz_ok S"
    using p that by (auto simp: ssz_ok_def map_ok_Ok_iff split: if_splits)
  ultimately show thesis
    using that [OF pair] h hwp by simp
qed

lemma proof_ssz_roundtrip:
  assumes "ssz_ok S" "proof_wf p"
  shows "length (proof_ssz_append S p []) \<le> 1024"
    and "(case p of
        HistoricalHashes x \<Rightarrow> hashes_from_ssz S (proof_ssz_append S p []) = Ok x
      | HistoricalRoots x \<Rightarrow> historical_from_ssz S 14 11 (proof_ssz_append S p []) = Ok x
      | HistoricalSummariesCapella x \<Rightarrow> historical_from_ssz S 13 11 (proof_ssz_append S p []) = Ok x
      | HistoricalSummariesDeneb x \<Rightarrow> historical_from_ssz S 13 12 (proof_ssz_append S p []) = Ok x)"
  using assms by (cases p; simp add: ssz_ok_def)+

lemma header_ssz_roundtrip:
  assumes "header_rlp_ok A h" "ssz_ok S" "length (rlp_encode_header A h) \<le> 2048"
  shows "header_from_ssz_bytes A S (header_ssz_append A S h []) = Ok h"
proof -
  have "rlp_decode_header A (rlp_encode_header A h @ []) = Some (h, [])"
    using assms(1) by (simp only: header_rlp_ok_def)
  then show ?thesis
    using assms by (simp add: header_from_ssz_bytes_def header_ssz_append_def ssz_ok_def)
qed

lemma hwp_ssz_roundtrip:
  assumes A: "header_rlp_ok A (header hwp)" and S: "ssz_ok S"
    and wf: "proof_wf (hwp_proof hwp)" and era: "auth_path_for (hwp_proof hwp) = era_of (header hwp)"
    and size: "length (rlp_encode_header A (header hwp)) \<le> 2048"
  shows "hwp_from_ssz_bytes A S (hwp_as_ssz_bytes A S hwp) = Ok hwp"
proof -
  define hb where "hb = header_ssz_append A S (header hwp) []"
  define pb where "pb = proof_ssz_append S (hwp_proof hwp) []"
  have "length hb \<le> 2048" "length pb \<le> 1024"
    using S size proof_ssz_roundtrip [OF S wf]
    by (simp_all add: hb_def pb_def header_ssz_append_def ssz_ok_def)
  then have pair: "ssz_decode_pair S (ssz_encode_pair S hb pb) = Ok (hb, pb)"
    and list: "bytelist_from_ssz S 1024 pb = Ok pb"
    using S by (simp_all add: ssz_ok_def)
  have h: "header_from_ssz_bytes A S hb = Ok (header hwp)"
    unfolding hb_def by (rule header_ssz_roundtrip [OF A S size])
  have "(if is_cancun_active_at_timestamp (timestamp (header hwp))
        then map_ok HistoricalSummariesDeneb (historical_from_ssz S 13 12 pb)
        else if is_shanghai_active_at_timestamp (timestamp (header hwp))
        then map_ok HistoricalSummariesCapella (historical_from_ssz S 13 11 pb)
        else if is_paris_active_at_block (number (header hwp))
        then map_ok HistoricalRoots (historical_from_ssz S 14 11 pb)
        else map_ok HistoricalHashes (hashes_from_ssz S pb)) = Ok (hwp_proof hwp)"
    using era proof_ssz_roundtrip(2) [OF S wf]
    by (cases "hwp_proof hwp") (auto simp: era_of_def pb_def split: if_splits)
  with pair list h show ?thesis
    by (simp add: hwp_from_ssz_bytes_def hwp_as_ssz_bytes_def hb_def [symmetric] pb_def [symmetric])
qed

end
