(* ===== verification/Accumulators.thy ===== *)
theory Accumulators
  imports Header_Proof
begin

text \<open>
  The roots of trust: the embedded accumulators (\<open>src/accumulator.rs\<close>,
  \<open>src/historical_roots_acc.rs\<close>) with the integrity check of \<open>src/lib.rs\<close> against
  \<open>src/constants.rs\<close>, and the provider of the live historical summaries
  (\<open>src/historical_summaries_provider.rs\<close>).

  The embedded files, SHA-256, the derived SSZ decoders and the derived tree hashes are the
  parameter \<open>assets_api\<close>.  The provider holds an \<open>Arc<RwLock<..>>\<close>: clones of a validator share
  one snapshot, so the snapshots live in an explicit store and a provider is an address in it.
\<close>

subsection \<open>Constants\<close>

definition DEFAULT_PRE_MERGE_ACC_HASH :: b256 where
  "DEFAULT_PRE_MERGE_ACC_HASH =
    [0x8e, 0xac, 0x39, 0x9e, 0x24, 0x48, 0x0d, 0xce, 0x3c, 0xfe, 0x06, 0xf4, 0xbd, 0xec, 0xba, 0x51,
     0xc6, 0xe5, 0xd0, 0xc4, 0x62, 0x00, 0xe3, 0xe8, 0x61, 0x1a, 0x0b, 0x44, 0xa3, 0xa6, 0x9f, 0xf9]"

definition DEFAULT_HISTORICAL_ROOTS_HASH :: b256 where
  "DEFAULT_HISTORICAL_ROOTS_HASH =
    [0x4d, 0xf6, 0xb8, 0x97, 0x55, 0x12, 0x5d, 0x4f, 0x6c, 0x55, 0x75, 0x03, 0x9a, 0x04, 0xe2, 0x23,
     0x01, 0xa5, 0xa4, 0x9e, 0xe8, 0x93, 0xc1, 0xd2, 0x7e, 0x55, 0x9e, 0x3e, 0xea, 0xb7, 0x3d, 0xa7]"

definition MERGE_MACC_BIN_SHA256 :: bytes where
  "MERGE_MACC_BIN_SHA256 =
    [0xa2, 0x36, 0x8b, 0xfa, 0x82, 0xa8, 0x9a, 0x89, 0x8b, 0x31, 0xdc, 0xa6, 0xf3, 0x7a, 0xa2, 0x87,
     0x91, 0x8b, 0xd6, 0x71, 0xbd, 0x74, 0x05, 0x89, 0x12, 0xbc, 0x44, 0x0c, 0x22, 0x88, 0xd7, 0x91]"

definition HISTORICAL_ROOTS_SSZ_SHA256 :: bytes where
  "HISTORICAL_ROOTS_SSZ_SHA256 =
    [0x64, 0xed, 0x2c, 0xbe, 0xd1, 0x3a, 0x65, 0xc2, 0x24, 0xb4, 0x71, 0xf5, 0x3b, 0x5f, 0x83, 0x20,
     0x30, 0xc1, 0x1e, 0x73, 0x71, 0x0e, 0x27, 0x02, 0x12, 0x1e, 0x7b, 0x1a, 0x50, 0x82, 0xa3, 0x16]"

subsection \<open>Accumulators\<close>

record PreMergeAccumulator =
  historical_epochs :: "b256 list"

record HistoricalRootsAccumulator =
  historical_roots :: "b256 list"

record assets_api =
  EmbeddedAssets_get :: "string \<Rightarrow> bytes option"
  sha256_digest :: "bytes \<Rightarrow> bytes"
  pre_merge_from_ssz :: "bytes \<Rightarrow> (PreMergeAccumulator, DecodeError) res"
  roots_list_from_ssz :: "bytes \<Rightarrow> (b256 list, DecodeError) res"
  pre_merge_tree_hash_root :: "PreMergeAccumulator \<Rightarrow> b256"
  roots_list_tree_hash_root :: "b256 list \<Rightarrow> b256"

definition pre_merge_default :: "assets_api \<Rightarrow> (PreMergeAccumulator, 'e) res" where
  "pre_merge_default E =
     (case EmbeddedAssets_get E ''validation_assets/merge_macc.bin'' of
        None \<Rightarrow> Panic ''embedded merge_macc.bin missing -- build broken''
      | Some raw \<Rightarrow> expect ''embedded merge_macc.bin failed SSZ decode -- vendored asset corrupted''
                     (pre_merge_from_ssz E raw))"

definition get_epoch_index_of_header :: "PreMergeAccumulator \<Rightarrow> Header \<Rightarrow> u64" where
  "get_epoch_index_of_header acc h = number h div SLOTS_PER_HISTORICAL_ROOT"

definition historical_roots_acc_from_ssz ::
  "assets_api \<Rightarrow> bytes \<Rightarrow> (HistoricalRootsAccumulator, DecodeError) res" where
  "historical_roots_acc_from_ssz E bs =
     and_then (roots_list_from_ssz E bs) (\<lambda>r. Ok \<lparr>historical_roots = r\<rparr>)"

text \<open>The trait \<open>Encode\<close> of \<open>ethereum_ssz\<close>; the accumulator encodes as its list.\<close>

record 'x ssz_encode =
  is_ssz_fixed_len :: bool
  enc_ssz_append :: "'x \<Rightarrow> bytes \<Rightarrow> bytes"
  ssz_bytes_len :: "'x \<Rightarrow> nat"

definition historical_roots_acc_encode ::
  "b256 list ssz_encode \<Rightarrow> HistoricalRootsAccumulator ssz_encode" where
  "historical_roots_acc_encode R =
     \<lparr>is_ssz_fixed_len = is_ssz_fixed_len R,
      enc_ssz_append = (\<lambda>self buf. enc_ssz_append R (historical_roots self) buf),
      ssz_bytes_len = (\<lambda>self. ssz_bytes_len R (historical_roots self))\<rparr>"

lemma historical_roots_acc_roundtrip:
  assumes "\<And>r. roots_list_from_ssz E (enc_ssz_append R r []) = Ok r"
  shows "historical_roots_acc_from_ssz E (enc_ssz_append (historical_roots_acc_encode R) acc []) = Ok acc"
  by (simp add: historical_roots_acc_from_ssz_def historical_roots_acc_encode_def assms)

definition historical_roots_acc_tree_hash_root ::
  "assets_api \<Rightarrow> HistoricalRootsAccumulator \<Rightarrow> b256" where
  "historical_roots_acc_tree_hash_root E acc = roots_list_tree_hash_root E (historical_roots acc)"

definition historical_roots_acc_new :: "assets_api \<Rightarrow> (HistoricalRootsAccumulator, 'e) res" where
  "historical_roots_acc_new E =
     (case EmbeddedAssets_get E ''validation_assets/historical_roots.ssz'' of
        None \<Rightarrow> Panic ''embedded historical_roots.ssz missing -- build broken''
      | Some raw_bytes \<Rightarrow>
          and_then (expect
             ''embedded historical_roots.ssz failed SSZ decode -- vendored asset corrupted''
             (roots_list_from_ssz E raw_bytes)) (\<lambda>r. Ok \<lparr>historical_roots = r\<rparr>))"

definition assert_eq :: "string \<Rightarrow> 'a \<Rightarrow> 'a \<Rightarrow> (unit, 'e) res" where
  "assert_eq m a b = (if a = b then Ok () else Panic m)"

lemma assert_eq_Ok_iff [simp]: "assert_eq m a b = Ok u \<longleftrightarrow> a = b"
  by (auto simp: assert_eq_def)

lemma assert_eq_not_Err [simp]: "assert_eq m a b \<noteq> Err e"
  by (auto simp: assert_eq_def)

definition assert_canonized_accumulator_fingerprints :: "assets_api \<Rightarrow> (unit, 'e) res" where
  "assert_canonized_accumulator_fingerprints E =
     (case EmbeddedAssets_get E ''validation_assets/merge_macc.bin'' of
        None \<Rightarrow> Panic ''merge_macc.bin missing from embedded assets''
      | Some merge_macc_bytes \<Rightarrow>
        and_then (assert_eq ''merge_macc.bin SHA-256 mismatch''
                    (sha256_digest E merge_macc_bytes) MERGE_MACC_BIN_SHA256) (\<lambda>_.
        (case EmbeddedAssets_get E ''validation_assets/historical_roots.ssz'' of
           None \<Rightarrow> Panic ''historical_roots.ssz missing from embedded assets''
         | Some historical_roots_bytes \<Rightarrow>
           and_then (assert_eq ''historical_roots.ssz SHA-256 mismatch''
                       (sha256_digest E historical_roots_bytes) HISTORICAL_ROOTS_SSZ_SHA256) (\<lambda>_.
           and_then (pre_merge_default E) (\<lambda>acc.
           and_then (assert_eq ''PreMergeAccumulator tree-hash root mismatch''
                       (pre_merge_tree_hash_root E acc) DEFAULT_PRE_MERGE_ACC_HASH) (\<lambda>_.
           and_then (historical_roots_acc_new E) (\<lambda>roots.
           assert_eq ''HistoricalRootsAccumulator tree-hash root mismatch''
             (historical_roots_acc_tree_hash_root E roots) DEFAULT_HISTORICAL_ROOTS_HASH)))))))"

text \<open>The check passes exactly when both files have the known digests and decode to the known roots.\<close>

lemma pre_merge_default_Ok_iff:
  "pre_merge_default E = Ok acc \<longleftrightarrow>
     (\<exists>raw. EmbeddedAssets_get E ''validation_assets/merge_macc.bin'' = Some raw \<and>
            pre_merge_from_ssz E raw = Ok acc)"
  by (auto simp: pre_merge_default_def split: option.splits)

lemma historical_roots_acc_new_Ok_iff:
  "historical_roots_acc_new E = Ok acc \<longleftrightarrow>
     (\<exists>raw. EmbeddedAssets_get E ''validation_assets/historical_roots.ssz'' = Some raw \<and>
            roots_list_from_ssz E raw = Ok (historical_roots acc))"
  by (cases acc) (auto simp: historical_roots_acc_new_def and_then_Ok_iff split: option.splits)

subsection \<open>Historical summaries\<close>

record HistoricalSummary =
  block_summary_root :: b256
  state_summary_root :: b256

type_synonym HistoricalSummaries = "HistoricalSummary list"

datatype HistoricalSummariesProvider = Provider nat

type_synonym snapshots = "HistoricalSummaries list"

definition provider_new ::
  "HistoricalSummaries \<Rightarrow> snapshots \<Rightarrow> HistoricalSummariesProvider \<times> snapshots" where
  "provider_new summaries st = (Provider (length st), st @ [summaries])"

fun set_summaries ::
  "HistoricalSummariesProvider \<Rightarrow> HistoricalSummaries \<Rightarrow> snapshots \<Rightarrow> snapshots" where
  "set_summaries (Provider a) summaries st = st[a := summaries]"

text \<open>A provider always points to a cell of the store (\<open>provider_valid\<close>), as an \<open>Arc\<close> does.\<close>

fun provider_valid :: "snapshots \<Rightarrow> HistoricalSummariesProvider \<Rightarrow> bool" where
  "provider_valid st (Provider a) \<longleftrightarrow> a < length st"

fun read_summaries :: "snapshots \<Rightarrow> HistoricalSummariesProvider \<Rightarrow> HistoricalSummaries" where
  "read_summaries st (Provider a) = (if a < length st then st ! a else [])"

definition get_historical_summary ::
  "snapshots \<Rightarrow> HistoricalSummariesProvider \<Rightarrow> u64 \<Rightarrow> (HistoricalSummary, msg) res" where
  "get_historical_summary st p sl =
     and_then (ok_or (historical_summary_index sl)
        (lit ''Can't provide Historical Summary for slot before Capella'')) (\<lambda>index.
     let summaries = read_summaries st p in
     if unat index < length summaries then Ok (summaries ! unat index)
     else Err (Msg ''Historical summary index out of bounds: {historical_summary_index}''
                   [ANat (unat index)]))"

lemma get_historical_summary_Ok_iff:
  "get_historical_summary st p sl = Ok s \<longleftrightarrow>
     (\<exists>i. historical_summary_index sl = Some i \<and> unat i < length (read_summaries st p)
        \<and> s = read_summaries st p ! unat i)"
  by (auto simp: get_historical_summary_def and_then_Ok_iff Let_def)

lemma get_historical_summary_not_Panic: "\<not> is_panic (get_historical_summary st p sl)"
  by (cases "historical_summary_index sl") (auto simp: get_historical_summary_def Let_def)

subsection \<open>The contract of a shared snapshot\<close>

locale snapshot_store =
  fixes alloc :: "'s \<Rightarrow> 'h \<Rightarrow> 'p \<times> 'h"
    and overwrite :: "'p \<Rightarrow> 's \<Rightarrow> 'h \<Rightarrow> 'h"
    and look :: "'h \<Rightarrow> 'p \<Rightarrow> 's"
    and valid :: "'h \<Rightarrow> 'p \<Rightarrow> bool"
  assumes alloc_valid: "alloc s h = (p, h') \<Longrightarrow> valid h' p \<and> \<not> valid h p"
    and alloc_read: "alloc s h = (p, h') \<Longrightarrow> look h' p = s"
    and alloc_other: "alloc s h = (p, h') \<Longrightarrow> valid h q \<Longrightarrow> valid h' q \<and> look h' q = look h q"
    and write_valid: "valid (overwrite p s h) q = valid h q"
    and write_read: "valid h p \<Longrightarrow> look (overwrite p s h) p = s"
    and write_other: "p \<noteq> q \<Longrightarrow> look (overwrite p s h) q = look h q"
begin

lemma writes_valid: "valid (fold (\<lambda>(q, s). overwrite q s) ops h) p = valid h p"
  by (induction ops arbitrary: h) (simp_all add: write_valid case_prod_beta)

text \<open>After any sequence of writes a reader sees the last write to its own cell.\<close>

lemma read_after_writes:
  assumes "valid h p"
  shows "look (fold (\<lambda>(q, s). overwrite q s) ops h) p =
    (case filter (\<lambda>(q, s). q = p) (rev ops) of [] \<Rightarrow> look h p | (q, s) # _ \<Rightarrow> s)"
  using assms
proof (induction ops rule: rev_induct)
  case Nil
  then show ?case by simp
next
  case (snoc op ops)
  obtain q s where op: "op = (q, s)" by (cases op)
  show ?case
    using snoc by (cases "q = p") (auto simp: op write_read write_other writes_valid)
qed

end

interpretation summaries_store:
  snapshot_store provider_new set_summaries read_summaries provider_valid
proof unfold_locales
  fix s st p st' q
  assume new: "provider_new s st = (p, st')"
  then show "provider_valid st' p \<and> \<not> provider_valid st p" and "read_summaries st' p = s"
    by (auto simp: provider_new_def)
  assume "provider_valid st q"
  with new show "provider_valid st' q \<and> read_summaries st' q = read_summaries st q"
    by (cases q) (auto simp: provider_new_def nth_append)
next
  fix p s st q
  show "provider_valid (set_summaries p s st) q = provider_valid st q"
    by (cases p; cases q) simp
  show "provider_valid st p \<Longrightarrow> read_summaries (set_summaries p s st) p = s"
    by (cases p) simp
  show "p \<noteq> q \<Longrightarrow> read_summaries (set_summaries p s st) q = read_summaries st q"
    by (cases p; cases q) simp
qed

end
