(* ===== verification/Header_Validator.thy ===== *)
theory Header_Validator
  imports Merkle_Provider Accumulators
begin

text \<open>
  The validator of \<open>src/header_validator.rs\<close>: one function per era, each with its guards, its
  generalized index and its chain of Merkle branches, and the dispatch on the proof variant.
\<close>

subsection \<open>State\<close>

record HeaderValidator =
  pre_merge_acc :: PreMergeAccumulator
  historical_roots_acc :: HistoricalRootsAccumulator
  historical_summaries_provider :: HistoricalSummariesProvider

definition new_with_historical_summaries ::
  "assets_api \<Rightarrow> HistoricalSummaries \<Rightarrow> snapshots \<Rightarrow> (HeaderValidator \<times> snapshots, 'e) res" where
  "new_with_historical_summaries E summaries st =
     and_then (pre_merge_default E) (\<lambda>acc.
     and_then (historical_roots_acc_new E) (\<lambda>roots.
     let (provider, st') = provider_new summaries st in
     Ok (\<lparr>pre_merge_acc = acc, historical_roots_acc = roots,
          historical_summaries_provider = provider\<rparr>, st')))"

definition validator_default ::
  "assets_api \<Rightarrow> snapshots \<Rightarrow> (HeaderValidator \<times> snapshots, 'e) res" where
  "validator_default E st = new_with_historical_summaries E [] st"

subsection \<open>Branches\<close>

definition verify_bellatrix_to_deneb_execution_block_proof ::
  "hashing \<Rightarrow> b256 \<Rightarrow> b256 list \<Rightarrow> b256 \<Rightarrow> (bool, 'e) res" where
  "verify_bellatrix_to_deneb_execution_block_proof H execution_header_hash proof
      block_body_root =
     (let gen_index = 3228 in
      verify_merkle_proof H execution_header_hash proof
        (length proof) gen_index block_body_root)"

definition verify_post_deneb_execution_block_proof ::
  "hashing \<Rightarrow> b256 \<Rightarrow> b256 list \<Rightarrow> b256 \<Rightarrow> (bool, 'e) res" where
  "verify_post_deneb_execution_block_proof H execution_header_hash proof
      block_body_root =
     (let gen_index = 6444 in
      verify_merkle_proof H execution_header_hash proof
        (length proof) gen_index block_body_root)"

definition verify_historical_roots_beacon_block_proof ::
  "hashing \<Rightarrow> HeaderValidator \<Rightarrow> u64 \<Rightarrow> b256 \<Rightarrow> b256 list \<Rightarrow> (bool, 'e) res" where
  "verify_historical_roots_beacon_block_proof H self sl block_root proof =
     (let block_root_index = sl mod SLOTS_PER_HISTORICAL_ROOT;
          gen_index = 2 * SLOTS_PER_HISTORICAL_ROOT + block_root_index;
          historical_root_index = sl div SLOTS_PER_HISTORICAL_ROOT
      in and_then (index_list (historical_roots (historical_roots_acc self))
            (unat historical_root_index)) (\<lambda>historical_root.
         verify_merkle_proof H block_root proof 14 gen_index historical_root))"

definition verify_historical_summaries_beacon_block_proof ::
  "hashing \<Rightarrow> snapshots \<Rightarrow> HeaderValidator \<Rightarrow> u64 \<Rightarrow> b256 \<Rightarrow> b256 list \<Rightarrow> (bool, 'e) res" where
  "verify_historical_summaries_beacon_block_proof H st self sl block_root
      proof =
     (case get_historical_summary st (historical_summaries_provider self) sl of
        Ok historical_summary \<Rightarrow>
          verify_merkle_proof H block_root proof 13
            (SLOTS_PER_HISTORICAL_ROOT + (sl mod SLOTS_PER_HISTORICAL_ROOT))
            (block_summary_root historical_summary)
      | Err _ \<Rightarrow> Ok False
      | Panic p \<Rightarrow> Panic p)"

text \<open>\<open>if !check { bail!(message) }\<close>\<close>

definition bail_unless :: "(bool, msg) res \<Rightarrow> string \<Rightarrow> (unit, msg) res" where
  "bail_unless check message =
     and_then check (\<lambda>ok. if \<not> ok then Err (lit message) else Ok ())"

subsection \<open>The four eras\<close>

definition verify_pre_merge_header ::
  "hashing \<Rightarrow> alloy_api \<Rightarrow> HeaderValidator \<Rightarrow> Header \<Rightarrow> b256 list \<Rightarrow> (unit, msg) res" where
  "verify_pre_merge_header H A self h proof =
     (if is_paris_active_at_block (number h)
      then Err (lit ''Invalid proof type found for post-merge header.'')
      else
        let header_index = number h mod SLOTS_PER_HISTORICAL_ROOT;
            gen_index = (SLOTS_PER_HISTORICAL_ROOT * 2 * 2) + (header_index * 2);
            epoch_index = get_epoch_index_of_header (pre_merge_acc self) h
        in and_then (index_list (historical_epochs (pre_merge_acc self)) (unat epoch_index))
            (\<lambda>epoch_hash.
             bail_unless (verify_merkle_proof H (hash_slow A h) proof 15 gen_index epoch_hash)
               ''Execution block proof verification failed for pre-Merge header''))"

definition verify_merge_to_capella_header ::
  "hashing \<Rightarrow> HeaderValidator \<Rightarrow> u64 \<Rightarrow> u64 \<Rightarrow> b256 \<Rightarrow> BlockProofHistorical \<Rightarrow> (unit, msg) res" where
  "verify_merge_to_capella_header H self block_number block_timestamp header_hash p =
     (if \<not> is_paris_active_at_block block_number
      then Err (lit ''Invalid BlockProofHistoricalRoots found for pre-Merge header.'')
      else if is_shanghai_active_at_timestamp block_timestamp
      then Err (lit ''Invalid BlockProofHistoricalRoots found for post-Shanghai header.'')
      else
        and_then (bail_unless
          (verify_bellatrix_to_deneb_execution_block_proof H header_hash
             (execution_block_proof p) (beacon_block_root p))
          ''Execution block proof verification failed for Merge-Capella header'') (\<lambda>_.
        bail_unless
          (verify_historical_roots_beacon_block_proof H self (slot p) (beacon_block_root p)
             (beacon_block_proof p))
          ''Beacon block proof verification failed for Merge-Capella header''))"

definition verify_capella_to_deneb_header ::
  "hashing \<Rightarrow> snapshots \<Rightarrow> HeaderValidator \<Rightarrow> u64 \<Rightarrow> b256 \<Rightarrow> BlockProofHistorical \<Rightarrow> (unit, msg) res" where
  "verify_capella_to_deneb_header H st self block_timestamp header_hash p =
     (if \<not> is_shanghai_active_at_timestamp block_timestamp
      then Err (lit ''Invalid BlockProofHistoricalSummariesCapella found for pre-Shanghai header.'')
      else if is_cancun_active_at_timestamp block_timestamp
      then Err (lit ''Invalid BlockProofHistoricalSummariesCapella found for post-Cancun header.'')
      else
        and_then (bail_unless
          (verify_bellatrix_to_deneb_execution_block_proof H header_hash
             (execution_block_proof p) (beacon_block_root p))
          ''Execution block proof verification failed for Capella-Deneb header'') (\<lambda>_.
        bail_unless
          (verify_historical_summaries_beacon_block_proof H st self (slot p) (beacon_block_root p)
             (beacon_block_proof p))
          ''Beacon block proof verification failed for Capella-Deneb header''))"

definition verify_post_deneb_header ::
  "hashing \<Rightarrow> snapshots \<Rightarrow> HeaderValidator \<Rightarrow> u64 \<Rightarrow> b256 \<Rightarrow> BlockProofHistorical \<Rightarrow> (unit, msg) res" where
  "verify_post_deneb_header H st self block_timestamp header_hash p =
     (if \<not> is_cancun_active_at_timestamp block_timestamp
      then Err (lit ''Invalid BlockProofHistoricalSummariesDeneb found for pre-Cancun header.'')
      else
        and_then (bail_unless
          (verify_post_deneb_execution_block_proof H header_hash
             (execution_block_proof p) (beacon_block_root p))
          ''Execution block proof verification failed for post-Deneb header'') (\<lambda>_.
        bail_unless
          (verify_historical_summaries_beacon_block_proof H st self (slot p) (beacon_block_root p)
             (beacon_block_proof p))
          ''Beacon block proof verification failed for post-Deneb header''))"

fun validate_header_with_proof ::
  "hashing \<Rightarrow> alloy_api \<Rightarrow> snapshots \<Rightarrow> HeaderValidator \<Rightarrow> HeaderWithProof \<Rightarrow> (unit, msg) res" where
  "validate_header_with_proof H A st self hwp =
     (let h = header hwp in
      case hwp_proof hwp of
        HistoricalHashes p \<Rightarrow> verify_pre_merge_header H A self h p
      | HistoricalRoots p \<Rightarrow>
          verify_merge_to_capella_header H self (number h) (timestamp h) (hash_slow A h) p
      | HistoricalSummariesCapella p \<Rightarrow>
          verify_capella_to_deneb_header H st self (timestamp h) (hash_slow A h) p
      | HistoricalSummariesDeneb p \<Rightarrow>
          verify_post_deneb_header H st self (timestamp h) (hash_slow A h) p)"

declare validate_header_with_proof.simps [simp del]

subsection \<open>The branches are climbs\<close>

lemma bail_unless_simps [simp]:
  "bail_unless (Ok b) m = (if b then Ok () else Err (lit m))"
  "bail_unless (Panic q) m = Panic q"
  by (simp_all add: bail_unless_def)

lemma validator_constants: "unat SLOTS_PER_HISTORICAL_ROOT = 8192" "SLOTS_PER_HISTORICAL_ROOT = 8192"
  by (simp_all add: SLOTS_PER_HISTORICAL_ROOT_def)

lemma unat_pre_merge_index: "unat ((8192 :: u64) * 2 * 2 + n mod 8192 * 2) = 32768 + 2 * (unat n mod 8192)"
proof -
  have m: "unat (n mod 8192) = unat n mod 8192" by (simp add: unat_mod)
  have "unat n mod 8192 < 8192" by simp
  then show ?thesis by (simp add: unat_word_ariths m)
qed

lemma unat_block_index:
  "unat ((8192 :: u64) + s mod 8192) = 8192 + unat s mod 8192"
  "unat (2 * (8192 :: u64) + s mod 8192) = 16384 + unat s mod 8192"
proof -
  have m: "unat (s mod 8192) = unat s mod 8192" by (simp add: unat_mod)
  have "unat s mod 8192 < 8192" by simp
  then show "unat ((8192 :: u64) + s mod 8192) = 8192 + unat s mod 8192"
    "unat (2 * (8192 :: u64) + s mod 8192) = 16384 + unat s mod 8192"
    by (simp_all add: unat_word_ariths m)
qed

lemma verify_pre_merge_header_eq:
  assumes "hashing_ok H" "alloy_ok A"
  shows "verify_pre_merge_header H A v h p =
    (let n = unat (number h); epochs = historical_epochs (pre_merge_acc v)
     in if is_paris_active_at_block (number h)
        then Err (lit ''Invalid proof type found for post-merge header.'')
        else if length epochs \<le> n div 8192 then Panic ''index out of bounds''
        else if length p = 15 \<and> climb (node_hash H) (hash_slow A h) p (32768 + 2 * (n mod 8192))
                               = epochs ! (n div 8192)
        then Ok ()
        else Err (lit ''Execution block proof verification failed for pre-Merge header''))"
  using assms
  by (simp add: verify_pre_merge_header_def validator_constants get_epoch_index_of_header_def
      verify_merkle_proof_climb alloy_ok_def unat_div unat_pre_merge_index [simplified] index_list_def Let_def)

lemma execution_branch_climb:
  assumes "hashing_ok H" "is_b256 x"
  shows "length p \<le> 64 \<Longrightarrow> verify_bellatrix_to_deneb_execution_block_proof H x p root
      = Ok (climb (node_hash H) x p 3228 = root)"
    and "length p \<le> 64 \<Longrightarrow> verify_post_deneb_execution_block_proof H x p root
      = Ok (climb (node_hash H) x p 6444 = root)"
  using assms
  by (simp_all add: verify_bellatrix_to_deneb_execution_block_proof_def
      verify_post_deneb_execution_block_proof_def verify_merkle_proof_climb)

lemma roots_branch_climb:
  assumes "hashing_ok H" "is_b256 x"
  shows "verify_historical_roots_beacon_block_proof H v sl x p =
    (let roots = historical_roots (historical_roots_acc v)
     in if length roots \<le> unat sl div 8192 then Panic ''index out of bounds''
        else Ok (length p = 14 \<and> climb (node_hash H) x p (16384 + unat sl mod 8192)
                                = roots ! (unat sl div 8192)))"
  using assms
  by (simp add: verify_historical_roots_beacon_block_proof_def verify_merkle_proof_climb
      validator_constants unat_block_index(2) [simplified] index_list_def unat_div Let_def)

lemma summaries_branch_climb:
  assumes "hashing_ok H" "is_b256 x"
  shows "verify_historical_summaries_beacon_block_proof H st v sl x p =
    (case get_historical_summary st (historical_summaries_provider v) sl of
       Ok s \<Rightarrow> Ok (length p = 13 \<and> climb (node_hash H) x p (8192 + unat sl mod 8192)
                                      = block_summary_root s)
     | _ \<Rightarrow> Ok False)"
  using assms get_historical_summary_not_Panic [of st "historical_summaries_provider v" sl]
  by (simp add: verify_historical_summaries_beacon_block_proof_def verify_merkle_proof_climb
      validator_constants unat_block_index is_panic_iff split: res.split)

lemmas branch_climbs = execution_branch_climb roots_branch_climb summaries_branch_climb

subsection \<open>What is accepted\<close>

text \<open>The root of trust that a post-merge proof has to reach, if there is one for its slot.\<close>

fun trusted_root :: "snapshots \<Rightarrow> HeaderValidator \<Rightarrow> BlockHeaderProof \<Rightarrow> Header \<Rightarrow> b256 option" where
  "trusted_root st v (HistoricalHashes p) h =
     (let epochs = historical_epochs (pre_merge_acc v); i = unat (number h) div 8192
      in if i < length epochs then Some (epochs ! i) else None)"
| "trusted_root st v (HistoricalRoots p) h =
     (let roots = historical_roots (historical_roots_acc v); i = unat (slot p) div 8192
      in if i < length roots then Some (roots ! i) else None)"
| "trusted_root st v (HistoricalSummariesCapella p) h =
     (case get_historical_summary st (historical_summaries_provider v) (slot p) of
        Ok s \<Rightarrow> Some (block_summary_root s) | _ \<Rightarrow> None)"
| "trusted_root st v (HistoricalSummariesDeneb p) h =
     (case get_historical_summary st (historical_summaries_provider v) (slot p) of
        Ok s \<Rightarrow> Some (block_summary_root s) | _ \<Rightarrow> None)"

text \<open>The era guards of the four functions.\<close>

fun era_guard :: "BlockHeaderProof \<Rightarrow> Header \<Rightarrow> bool" where
  "era_guard (HistoricalHashes _) h \<longleftrightarrow> \<not> is_paris_active_at_block (number h)"
| "era_guard (HistoricalRoots _) h \<longleftrightarrow>
     is_paris_active_at_block (number h) \<and> \<not> is_shanghai_active_at_timestamp (timestamp h)"
| "era_guard (HistoricalSummariesCapella _) h \<longleftrightarrow>
     is_shanghai_active_at_timestamp (timestamp h) \<and> \<not> is_cancun_active_at_timestamp (timestamp h)"
| "era_guard (HistoricalSummariesDeneb _) h \<longleftrightarrow> is_cancun_active_at_timestamp (timestamp h)"

text \<open>
  The whole chain of a proof: the header hash climbs to a trusted root, for the post-merge eras
  through the beacon block root.
\<close>

fun chain_ok :: "hashing \<Rightarrow> BlockHeaderProof \<Rightarrow> u64 \<Rightarrow> b256 \<Rightarrow> b256 \<Rightarrow> bool" where
  "chain_ok H (HistoricalHashes p) n x root \<longleftrightarrow>
     climb (node_hash H) x p (32768 + 2 * (unat n mod 8192)) = root"
| "chain_ok H (HistoricalRoots p) n x root \<longleftrightarrow>
     climb (node_hash H) x (execution_block_proof p) 3228 = beacon_block_root p \<and>
     climb (node_hash H) (beacon_block_root p) (beacon_block_proof p) (16384 + unat (slot p) mod 8192)
       = root"
| "chain_ok H (HistoricalSummariesCapella p) n x root \<longleftrightarrow>
     climb (node_hash H) x (execution_block_proof p) 3228 = beacon_block_root p \<and>
     climb (node_hash H) (beacon_block_root p) (beacon_block_proof p) (8192 + unat (slot p) mod 8192)
       = root"
| "chain_ok H (HistoricalSummariesDeneb p) n x root \<longleftrightarrow>
     climb (node_hash H) x (execution_block_proof p) 6444 = beacon_block_root p \<and>
     climb (node_hash H) (beacon_block_root p) (beacon_block_proof p) (8192 + unat (slot p) mod 8192)
       = root"

lemma proof_wf_historical:
  "historical_proof_wf nb ne p \<Longrightarrow> length (beacon_block_proof p) = nb"
  "historical_proof_wf nb ne p \<Longrightarrow> length (execution_block_proof p) = ne"
  "historical_proof_wf nb ne p \<Longrightarrow> is_b256 (beacon_block_root p)"
  "fixed_vector_wf n q \<Longrightarrow> length q = n"
  by (simp_all add: historical_proof_wf_def fixed_vector_wf_def)

lemma validate_Ok_iff:
  assumes H: "hashing_ok H" and A: "alloy_ok A" and wf: "proof_wf (hwp_proof hwp)"
  shows "validate_header_with_proof H A st v hwp = Ok u \<longleftrightarrow>
    era_guard (hwp_proof hwp) (header hwp) \<and>
    (\<exists>root. trusted_root st v (hwp_proof hwp) (header hwp) = Some root \<and>
       chain_ok H (hwp_proof hwp) (number (header hwp)) (hash_slow A (header hwp)) root)"
proof -
  have x: "is_b256 (hash_slow A (header hwp))" using A by (simp add: alloy_ok_def)
  note climbs = branch_climbs [OF H x] branch_climbs [OF H]
  show ?thesis
    using wf x
    by (cases "hwp_proof hwp")
      (auto simp: validate_header_with_proof.simps verify_pre_merge_header_eq [OF H A]
        verify_merge_to_capella_header_def verify_capella_to_deneb_header_def
        verify_post_deneb_header_def proof_wf_historical climbs Let_def split: res.splits)
qed

end
