(* ===== verification/Sample_Codecs.thy ===== *)
theory Sample_Codecs
  imports Header_Proof Sample_Hashing
begin

text \<open>
  Concrete instances of the parameters \<open>alloy_api\<close> and \<open>ssz_api\<close>, on which the theorems about any
  codec are applied.  The SSZ instance follows the format: a container of two variable-length
  fields starts with two 4-byte offsets, vectors of roots are concatenations.
\<close>

subsection \<open>Vectors of roots\<close>

fun chunks32 :: "bytes \<Rightarrow> b256 list" where
  "chunks32 bs = (if bs = [] then [] else take 32 bs # chunks32 (drop 32 bs))"

declare chunks32.simps [simp del]

lemma chunks32_concat: "\<forall>x \<in> set xs. is_b256 x \<Longrightarrow> chunks32 (concat xs) = xs"
proof (induction xs)
  case Nil
  then show ?case by (simp add: chunks32.simps)
next
  case (Cons x xs)
  then have "x @ concat xs \<noteq> []" by auto
  with Cons show ?case by (simp add: chunks32.simps [of "x @ concat xs"])
qed

lemma chunks32_wf: "length bs = 32 * n \<Longrightarrow> fixed_vector_wf n (chunks32 bs)"
proof (induction n arbitrary: bs)
  case 0
  then show ?case by (simp add: chunks32.simps fixed_vector_wf_def)
next
  case (Suc n)
  then have "fixed_vector_wf n (chunks32 (drop 32 bs))" by simp
  with Suc.prems show ?case
    by (subst chunks32.simps) (auto simp: fixed_vector_wf_def)
qed

lemma length_concat_b256: "\<forall>x \<in> set xs. is_b256 x \<Longrightarrow> length (concat xs) = 32 * length xs"
  by (induction xs) simp_all

subsection \<open>An SSZ codec\<close>

definition sample_encode_pair :: "bytes \<Rightarrow> bytes \<Rightarrow> bytes" where
  "sample_encode_pair a b = to_le 4 (8 :: 32 word) @ to_le 4 (word_of_nat (8 + length a) :: 32 word) @ a @ b"

definition sample_decode_pair :: "bytes \<Rightarrow> (bytes \<times> bytes, DecodeError) res" where
  "sample_decode_pair bs =
     (let second = unat (from_le (take 4 (drop 4 bs)) :: 32 word)
      in if length bs < 8 then Err (OtherDecodeError (length bs))
         else Ok (take (second - 8) (drop 8 bs), drop second bs))"

definition sample_historical_from_ssz ::
  "nat \<Rightarrow> nat \<Rightarrow> bytes \<Rightarrow> (BlockProofHistorical, DecodeError) res" where
  "sample_historical_from_ssz nb ne bs =
     (if length bs \<noteq> 32 * nb + 32 + 32 * ne + 8 then Err (OtherDecodeError (length bs))
      else Ok \<lparr>beacon_block_proof = chunks32 (take (32 * nb) bs),
               beacon_block_root = take 32 (drop (32 * nb) bs),
               execution_block_proof = chunks32 (take (32 * ne) (drop (32 * nb + 32) bs)),
               slot = from_le (drop (32 * nb + 32 + 32 * ne) bs)\<rparr>)"

definition sample_historical_as_ssz :: "BlockProofHistorical \<Rightarrow> bytes" where
  "sample_historical_as_ssz p =
     concat (beacon_block_proof p) @ beacon_block_root p @ concat (execution_block_proof p)
       @ to_le 8 (slot p)"

definition sample_ssz :: ssz_api where
  "sample_ssz =
     \<lparr>ssz_decode_pair = sample_decode_pair, ssz_encode_pair = sample_encode_pair,
      bytelist_from_ssz = (\<lambda>n bs. if length bs \<le> n then Ok bs else Err (OtherDecodeError n)),
      bytelist_from_vec = take,
      hashes_from_ssz = (\<lambda>bs. if length bs = 480 then Ok (chunks32 bs)
                               else Err (OtherDecodeError (length bs))),
      hashes_as_ssz = concat,
      historical_from_ssz = sample_historical_from_ssz,
      historical_as_ssz = sample_historical_as_ssz\<rparr>"

lemma sample_pair_roundtrip:
  assumes "length a + length b < 2 ^ 31"
  shows "sample_decode_pair (sample_encode_pair a b) = Ok (a, b)"
proof -
  have "8 + length a < 2 ^ LENGTH(32)" using assms by simp
  then have "unat (word_of_nat (8 + length a) :: 32 word) = 8 + length a"
    by (simp add: unat_of_nat del: of_nat_add)
  then show ?thesis
    by (simp add: sample_decode_pair_def sample_encode_pair_def from_le_to_le)
qed

lemma sample_historical_wf:
  assumes "sample_historical_from_ssz nb ne bs = Ok p"
  shows "historical_proof_wf nb ne p"
  using assms
  by (auto simp: sample_historical_from_ssz_def historical_proof_wf_def intro!: chunks32_wf
      split: if_splits)

lemma sample_historical_roundtrip:
  assumes "historical_proof_wf nb ne p"
  shows "sample_historical_from_ssz nb ne (sample_historical_as_ssz p) = Ok p"
    and "length (sample_historical_as_ssz p) = 32 * nb + 32 + 32 * ne + 8"
proof -
  have len: "length (concat (beacon_block_proof p)) = 32 * nb" "is_b256 (beacon_block_root p)"
    "length (concat (execution_block_proof p)) = 32 * ne"
    using assms
    by (simp_all add: historical_proof_wf_def fixed_vector_wf_def length_concat_b256)
  then show "length (sample_historical_as_ssz p) = 32 * nb + 32 + 32 * ne + 8"
    by (simp add: sample_historical_as_ssz_def)
  show "sample_historical_from_ssz nb ne (sample_historical_as_ssz p) = Ok p"
    using assms len
    by (simp add: sample_historical_from_ssz_def sample_historical_as_ssz_def from_le_to_le
        historical_proof_wf_def fixed_vector_wf_def chunks32_concat)
qed

lemma ssz_ok_sample [simp]: "ssz_ok sample_ssz"
proof -
  have "fixed_vector_wf 15 (chunks32 bs)" if "length bs = 480" for bs
    using chunks32_wf [of bs 15] that by simp
  moreover have "length (concat xs) = 480" if "fixed_vector_wf 15 xs" for xs
    using that by (simp add: fixed_vector_wf_def length_concat_b256)
  ultimately show ?thesis
    by (auto simp: ssz_ok_def sample_ssz_def sample_pair_roundtrip sample_historical_roundtrip
        sample_historical_wf length_concat_b256 chunks32_concat dest: fixed_vector_wfD
        split: if_splits)
qed

subsection \<open>A header codec\<close>

definition sample_header :: "u64 \<Rightarrow> u64 \<Rightarrow> Header" where
  "sample_header n ts =
     \<lparr>parent_hash = b256_ZERO, ommers_hash = b256_ZERO, beneficiary = replicate 20 0,
      state_root = b256_ZERO, transactions_root = b256_ZERO, receipts_root = b256_ZERO,
      logs_bloom = replicate 256 0, difficulty = 0, number = n, gas_limit = 30000000,
      gas_used = 0, timestamp = ts, extra_data = [], mix_hash = b256_ZERO,
      nonce = replicate 8 0, base_fee_per_gas = None, withdrawals_root = None,
      blob_gas_used = None, excess_blob_gas = None, parent_beacon_block_root = None,
      requests_hash = None\<rparr>"

definition sample_alloy :: alloy_api where
  "sample_alloy =
     \<lparr>hash_slow = (\<lambda>h. to_le 8 (number h) @ to_le 8 (timestamp h) @ replicate 16 0),
      rlp_encode_header = (\<lambda>h. to_le 8 (number h) @ to_le 8 (timestamp h)),
      rlp_decode_header = (\<lambda>bs. if length bs < 16 then None
        else Some (sample_header (from_le (take 8 bs)) (from_le (take 8 (drop 8 bs))), drop 16 bs))\<rparr>"

lemma length_rlp_sample [simp]: "length (rlp_encode_header sample_alloy h) = 16"
  by (simp add: sample_alloy_def)

lemma alloy_ok_sample [simp]: "alloy_ok sample_alloy"
  by (simp add: alloy_ok_def sample_alloy_def)

lemma sample_header_sel [simp]:
  "number (sample_header n ts) = n" "timestamp (sample_header n ts) = ts"
  by (simp_all add: sample_header_def)

lemma header_rlp_ok_sample [simp]: "header_rlp_ok sample_alloy (sample_header n ts)"
  by (simp add: header_rlp_ok_def sample_alloy_def from_le_to_le)

end
