(* ===== verification/Validator_Properties.thy ===== *)
theory Validator_Properties
  imports Header_Validator Sample_Codecs
begin

text \<open>
  The claims about the validator: what it accepts, which header an accepted proof can stand for,
  that decoding and validation agree on the eras, and where it panics.
\<close>

subsection \<open>Sample data\<close>

definition sample_siblings :: "nat \<Rightarrow> b256 list" where
  "sample_siblings n = replicate n b256_ZERO"

definition sample_root :: "b256 \<Rightarrow> nat \<Rightarrow> nat \<Rightarrow> b256" where
  "sample_root x n i = climb (node_hash sample_hashing) x (sample_siblings n) i"

definition sample_historical :: "nat \<Rightarrow> nat \<Rightarrow> nat \<Rightarrow> b256 \<Rightarrow> u64 \<Rightarrow> BlockProofHistorical" where
  "sample_historical nb ne g x sl =
     \<lparr>beacon_block_proof = sample_siblings nb, beacon_block_root = sample_root x ne g,
      execution_block_proof = sample_siblings ne, slot = sl\<rparr>"

definition sample_validator :: "b256 list \<Rightarrow> b256 list \<Rightarrow> HeaderValidator" where
  "sample_validator epochs roots =
     \<lparr>pre_merge_acc = \<lparr>historical_epochs = epochs\<rparr>,
      historical_roots_acc = \<lparr>historical_roots = roots\<rparr>,
      historical_summaries_provider = Provider 0\<rparr>"

lemma sample_siblings_wf [simp]: "fixed_vector_wf n (sample_siblings n)"
  by (simp add: fixed_vector_wf_def sample_siblings_def)

lemma length_sample_root: "is_b256 x \<Longrightarrow> length (sample_root x n i) = 32"
  unfolding sample_root_def by (rule climb_length) (simp_all add: hashing_okD)

lemma sample_historical_proof_wf [simp]:
  "is_b256 x \<Longrightarrow> historical_proof_wf nb ne (sample_historical nb ne g x sl)"
  by (simp add: sample_historical_def historical_proof_wf_def length_sample_root)

lemma is_b256_sample_hash [simp]: "is_b256 (hash_slow sample_alloy h)"
  using alloy_ok_sample by (simp only: alloy_ok_def)

text \<open>A header of the Merge era with a proof at slot 5 and a validator that knows its root.\<close>

definition sample_merge_header :: Header where
  "sample_merge_header = sample_header 15600000 1663300000"

definition sample_merge_hwp :: HeaderWithProof where
  "sample_merge_hwp =
     \<lparr>header = sample_merge_header,
      hwp_proof = HistoricalRoots (sample_historical 14 11 3228
        (hash_slow sample_alloy sample_merge_header) 5)\<rparr>"

definition sample_merge_validator :: HeaderValidator where
  "sample_merge_validator = sample_validator []
     [sample_root (sample_root (hash_slow sample_alloy sample_merge_header) 11 3228) 14 16389]"

lemma sample_merge_wf [simp]:
  "proof_wf (hwp_proof sample_merge_hwp)"
  "auth_path_for (hwp_proof sample_merge_hwp) = era_of (header sample_merge_hwp)"
  by (simp_all add: sample_merge_hwp_def sample_merge_header_def era_of_def activation_unat)

lemma sample_merge_accepted [simp]:
  "validate_header_with_proof sample_hashing sample_alloy st sample_merge_validator sample_merge_hwp
     = Ok ()"
  by (simp add: validate_Ok_iff)
    (simp add: sample_merge_hwp_def sample_merge_validator_def sample_validator_def
      sample_historical_def sample_merge_header_def activation_unat sample_root_def)

lemma sample_merge_decodes:
  "hwp_from_ssz_bytes sample_alloy sample_ssz
     (hwp_as_ssz_bytes sample_alloy sample_ssz sample_merge_hwp) = Ok sample_merge_hwp"
proof (rule hwp_ssz_roundtrip)
  show "header_rlp_ok sample_alloy (header sample_merge_hwp)"
    by (simp add: sample_merge_hwp_def sample_merge_header_def)
qed simp_all

text \<open>A header of the first block, with a proof of the pre-merge era.\<close>

definition sample_genesis_hwp :: HeaderWithProof where
  "sample_genesis_hwp =
     \<lparr>header = sample_header 0 0, hwp_proof = HistoricalHashes (sample_siblings 15)\<rparr>"

definition sample_genesis_validator :: HeaderValidator where
  "sample_genesis_validator =
     sample_validator [sample_root (hash_slow sample_alloy (sample_header 0 0)) 15 32768] []"

lemma sample_genesis_accepted [simp]:
  "validate_header_with_proof sample_hashing sample_alloy st sample_genesis_validator
     sample_genesis_hwp = Ok ()"
  by (simp add: validate_Ok_iff sample_genesis_hwp_def sample_genesis_validator_def
      sample_validator_def activation_unat sample_root_def)

subsection \<open>Acceptance\<close>

text \<open>
  C4.  Functional characterisation of the validator on every era: a header with a well-sized
  proof is accepted exactly when the guards of the proof's era hold, the accumulator (or the
  snapshot of summaries) has a root for the block number or slot, and the header hash climbs along
  the proof, at the generalized indices of the era, to that root.
\<close>

theorem validate_accepts_iff:
  assumes "hashing_ok H" "alloy_ok A" "proof_wf (hwp_proof hwp)"
  shows "validate_header_with_proof H A st v hwp = Ok () \<longleftrightarrow>
    era_guard (hwp_proof hwp) (header hwp) \<and>
    (\<exists>root. trusted_root st v (hwp_proof hwp) (header hwp) = Some root \<and>
       chain_ok H (hwp_proof hwp) (number (header hwp)) (hash_slow A (header hwp)) root)"
  by (rule validate_Ok_iff [OF assms])

theorem validate_accepts_iff_witness:
  "validate_header_with_proof sample_hashing sample_alloy [] sample_merge_validator sample_merge_hwp
     = Ok () \<longleftrightarrow>
   era_guard (hwp_proof sample_merge_hwp) (header sample_merge_hwp) \<and>
    (\<exists>root. trusted_root [] sample_merge_validator (hwp_proof sample_merge_hwp)
              (header sample_merge_hwp) = Some root \<and>
       chain_ok sample_hashing (hwp_proof sample_merge_hwp) (number (header sample_merge_hwp))
         (hash_slow sample_alloy (header sample_merge_hwp)) root)"
  by (rule validate_accepts_iff) simp_all

subsection \<open>Eras\<close>

text \<open>The messages of the six era guards.\<close>

definition era_messages :: "string list" where
  "era_messages =
     [''Invalid proof type found for post-merge header.'',
      ''Invalid BlockProofHistoricalRoots found for pre-Merge header.'',
      ''Invalid BlockProofHistoricalRoots found for post-Shanghai header.'',
      ''Invalid BlockProofHistoricalSummariesCapella found for pre-Shanghai header.'',
      ''Invalid BlockProofHistoricalSummariesCapella found for post-Cancun header.'',
      ''Invalid BlockProofHistoricalSummariesDeneb found for pre-Cancun header.'']"

lemma era_of_guard: "auth_path_for p = era_of h \<Longrightarrow> era_guard p h"
  by (cases p) (auto simp: era_of_def split: if_splits)

lemma guard_era_of:
  assumes "is_shanghai_active_at_timestamp (timestamp h) \<Longrightarrow> is_paris_active_at_block (number h)"
  shows "era_guard p h \<Longrightarrow> auth_path_for p = era_of h"
  using assms cancun_imp_shanghai [of "timestamp h"] by (cases p) (auto simp: era_of_def)

lemma guarded_not_era_message:
  assumes H: "hashing_ok H" and A: "alloy_ok A" and wf: "proof_wf (hwp_proof hwp)"
    and guard: "era_guard (hwp_proof hwp) (header hwp)"
    and err: "validate_header_with_proof H A st v hwp = Err (Msg m args)"
  shows "m \<notin> set era_messages"
proof -
  have x: "is_b256 (hash_slow A (header hwp))" using A by (simp add: alloy_ok_def)
  note climbs = branch_climbs [OF H x] branch_climbs [OF H]
  show ?thesis
    using wf x guard err
    by (cases "hwp_proof hwp")
      (auto simp: validate_header_with_proof.simps verify_pre_merge_header_eq [OF H A]
        verify_merge_to_capella_header_def verify_capella_to_deneb_header_def
        verify_post_deneb_header_def proof_wf_historical climbs Let_def era_messages_def split: res.splits if_splits)
qed

text \<open>
  C20.  Decoding and validation agree on the eras: a header with proof that was decoded from
  bytes is well sized, satisfies the guard of its proof's era, and never fails in the validator
  with the message of an era guard, because the decoder chose the proof type by the same
  activation predicates.
\<close>

theorem decoded_passes_era_guards:
  assumes "hashing_ok H" "alloy_ok A" "ssz_ok S" "hwp_from_ssz_bytes A S bs = Ok hwp"
  shows "proof_wf (hwp_proof hwp) \<and> era_guard (hwp_proof hwp) (header hwp) \<and>
    (\<forall>m \<in> set era_messages. \<forall>args. validate_header_with_proof H A st v hwp \<noteq> Err (Msg m args))"
proof -
  from hwp_from_ssz_Ok [OF assms(4)]
  have "auth_path_for (hwp_proof hwp) = era_of (header hwp)" and wf: "proof_wf (hwp_proof hwp)"
    using assms(3) by blast+
  then have "era_guard (hwp_proof hwp) (header hwp)" by (intro era_of_guard)
  with wf guarded_not_era_message [OF assms(1,2) wf] show ?thesis by blast
qed

theorem decoded_passes_era_guards_witness:
  "proof_wf (hwp_proof sample_merge_hwp) \<and>
   era_guard (hwp_proof sample_merge_hwp) (header sample_merge_hwp) \<and>
   validate_header_with_proof sample_hashing sample_alloy [] sample_merge_validator
     sample_merge_hwp \<noteq> Err (Msg (hd era_messages) [])"
  using decoded_passes_era_guards [OF hashing_ok_sample alloy_ok_sample ssz_ok_sample
      sample_merge_decodes, of "[]" sample_merge_validator]
  by (simp add: era_messages_def)

text \<open>
  The authentication path the crate reports is the era of the block: if a header is
  accepted, and its timestamp is past Shanghai only when its number is past the Merge, then
  \<open>auth_path_for\<close> of its proof is the era of the header.
\<close>

theorem accepted_proof_names_era:
  assumes "hashing_ok H" "alloy_ok A" "proof_wf (hwp_proof hwp)"
    and "validate_header_with_proof H A st v hwp = Ok ()"
    and "is_shanghai_active_at_timestamp (timestamp (header hwp)) \<Longrightarrow>
         is_paris_active_at_block (number (header hwp))"
  shows "auth_path_for (hwp_proof hwp) = era_of (header hwp)"
  using assms(1-4) by (intro guard_era_of [OF assms(5)]) (simp_all add: validate_Ok_iff)

theorem accepted_proof_names_era_witness:
  "auth_path_for (hwp_proof sample_genesis_hwp) = era_of (header sample_genesis_hwp)"
  by (rule accepted_proof_names_era [where H = sample_hashing and A = sample_alloy
        and v = sample_genesis_validator and st = "[]"])
    (simp_all add: sample_genesis_hwp_def activation_unat
      sample_genesis_accepted [unfolded sample_genesis_hwp_def])

subsection \<open>Uniqueness of the accepted header\<close>

lemma climbs_binding:
  assumes "hashing_ok H" "is_b256 x" "is_b256 y"
    and "fixed_vector_wf n p" "fixed_vector_wf n q"
    and "climb (node_hash H) x p i = root" "climb (node_hash H) y q i = root"
  shows "x = y \<or> collides H (find_collision (node_hash H) i x p y q)"
proof (rule climb_binding [OF assms(1-3)])
  show "climb (node_hash H) x p i = climb (node_hash H) y q i" by (simp only: assms(6,7))
qed (use assms(4,5) in \<open>auto simp only: fixed_vector_wf_def\<close>)

lemma chain_binding:
  assumes "hashing_ok H" "is_b256 x" "is_b256 y" "historical_proof_wf nb ne p" "historical_proof_wf nb ne q"
    and "climb (node_hash H) x (execution_block_proof p) g = beacon_block_root p"
    and "climb (node_hash H) y (execution_block_proof q) g = beacon_block_root q"
    and "climb (node_hash H) (beacon_block_root p) (beacon_block_proof p) i = root"
    and "climb (node_hash H) (beacon_block_root q) (beacon_block_proof q) i = root"
  shows "x = y \<or>
    collides H (find_collision (node_hash H) g x (execution_block_proof p) y (execution_block_proof q)) \<or>
    collides H (find_collision (node_hash H) i (beacon_block_root p) (beacon_block_proof p)
      (beacon_block_root q) (beacon_block_proof q))"
proof -
  have roots: "is_b256 (beacon_block_root p)" "is_b256 (beacon_block_root q)"
    and vecs: "fixed_vector_wf nb (beacon_block_proof p)" "fixed_vector_wf nb (beacon_block_proof q)"
      "fixed_vector_wf ne (execution_block_proof p)" "fixed_vector_wf ne (execution_block_proof q)"
    using assms(4,5) by (simp_all add: historical_proof_wf_def)
  show ?thesis
    using climbs_binding [OF assms(1) roots vecs(1,2) assms(8,9)]
      climbs_binding [OF assms(1-3) vecs(3,4) assms(6)] assms(7) by auto
qed

text \<open>
  C5.  The pre-merge accumulator determines the header: two headers of one block number, both
  accepted with pre-merge proofs by one validator, have the same hash, or the two proofs contain an
  explicit pair of 64-byte inputs with one digest.
\<close>

theorem pre_merge_header_unique:
  assumes "hashing_ok H" "alloy_ok A" "proof_wf (HistoricalHashes p)" "proof_wf (HistoricalHashes q)"
    and "number h = number h'"
    and "validate_header_with_proof H A st v \<lparr>header = h, hwp_proof = HistoricalHashes p\<rparr> = Ok ()"
    and "validate_header_with_proof H A st' v \<lparr>header = h', hwp_proof = HistoricalHashes q\<rparr> = Ok ()"
  shows "hash_slow A h = hash_slow A h' \<or>
    collides H (find_collision (node_hash H) (32768 + 2 * (unat (number h) mod 8192))
      (hash_slow A h) p (hash_slow A h') q)"
  using assms
  by (intro climbs_binding [where n = 15 and root = "historical_epochs (pre_merge_acc v)
        ! (unat (number h) div 8192)"])
    (auto simp: validate_Ok_iff alloy_ok_def Let_def split: if_splits)

theorem pre_merge_header_unique_witness:
  "hash_slow sample_alloy (sample_header 0 0) = hash_slow sample_alloy (sample_header 0 0) \<or>
    collides sample_hashing (find_collision (node_hash sample_hashing)
      (32768 + 2 * (unat (number (sample_header 0 0)) mod 8192))
      (hash_slow sample_alloy (sample_header 0 0)) (sample_siblings 15)
      (hash_slow sample_alloy (sample_header 0 0)) (sample_siblings 15))"
  by (rule pre_merge_header_unique [where v = sample_genesis_validator and st = "[]" and st' = "[]"])
    (simp_all add: sample_genesis_accepted [unfolded sample_genesis_hwp_def])

text \<open>
  C6.  A slot determines the header: two headers accepted with proofs of one post-merge era for
  one slot, by one validator on one snapshot of the summaries, have the same hash, or the execution
  branches or the beacon branches contain an explicit pair of 64-byte inputs with one digest.
\<close>

theorem post_merge_header_unique:
  assumes "hashing_ok H" "alloy_ok A"
    and "(C, g, i) \<in> {(HistoricalRoots, 3228, 16384), (HistoricalSummariesCapella, 3228, 8192),
                      (HistoricalSummariesDeneb, 6444, 8192)}"
    and "proof_wf (C p)" "proof_wf (C q)" "slot p = slot q"
    and "validate_header_with_proof H A st v \<lparr>header = h, hwp_proof = C p\<rparr> = Ok ()"
    and "validate_header_with_proof H A st v \<lparr>header = h', hwp_proof = C q\<rparr> = Ok ()"
  shows "hash_slow A h = hash_slow A h' \<or>
    collides H (find_collision (node_hash H) g (hash_slow A h) (execution_block_proof p)
      (hash_slow A h') (execution_block_proof q)) \<or>
    collides H (find_collision (node_hash H) (i + unat (slot p) mod 8192)
      (beacon_block_root p) (beacon_block_proof p) (beacon_block_root q) (beacon_block_proof q))"
  using assms(3)
proof (elim insertE emptyE)
  have x: "is_b256 (hash_slow A h)" "is_b256 (hash_slow A h')"
    using assms(2) by (simp_all add: alloy_ok_def)
  note iff = validate_Ok_iff [OF assms(1,2)]
  note bind = chain_binding [OF assms(1) x]
  show ?thesis if "(C, g, i) = (HistoricalRoots, 3228, 16384)"
    using assms(4-8) that
    by (intro bind [of 14 11 _ _ _ _ "historical_roots (historical_roots_acc v) ! (unat (slot p) div 8192)"])
      (auto simp: iff Let_def split: if_splits)
  show ?thesis if "(C, g, i) = (HistoricalSummariesCapella, 3228, 8192)"
    using assms(4-8) that
    by (intro bind [of 13 11 _ _ _ _ "the (trusted_root st v (C p) h)"])
      (auto simp: iff split: res.splits)
  show ?thesis if "(C, g, i) = (HistoricalSummariesDeneb, 6444, 8192)"
    using assms(4-8) that
    by (intro bind [of 13 12 _ _ _ _ "the (trusted_root st v (C p) h)"])
      (auto simp: iff split: res.splits)
qed

text \<open>
  With the sample digest two headers of one era share their branches: both are accepted at slot 5, and
  the branches contain a collision.
\<close>

lemma sample_root_forgets:
  "0 < n \<Longrightarrow> sample_root (hash_slow sample_alloy h) n 3228 = sample_root (hash_slow sample_alloy h') n 3228"
  using sample_node_hash [of "hash_slow sample_alloy h" b256_ZERO]
    sample_node_hash [of "hash_slow sample_alloy h'" b256_ZERO]
  by (cases n) (simp_all add: sample_root_def sample_siblings_def, simp add: sample_alloy_def)

theorem post_merge_header_unique_witness:
  "\<exists>h p. h = sample_header 15600001 1663300012 \<and>
    p = sample_historical 14 11 3228 (hash_slow sample_alloy sample_merge_header) 5 \<and>
    validate_header_with_proof sample_hashing sample_alloy [] sample_merge_validator
      \<lparr>header = h, hwp_proof = HistoricalRoots p\<rparr> = Ok () \<and>
    hash_slow sample_alloy sample_merge_header \<noteq> hash_slow sample_alloy h \<and>
    (collides sample_hashing (find_collision (node_hash sample_hashing) 3228
       (hash_slow sample_alloy sample_merge_header) (execution_block_proof p)
       (hash_slow sample_alloy h) (execution_block_proof p)) \<or>
     collides sample_hashing (find_collision (node_hash sample_hashing) (16384 + unat (slot p) mod 8192)
       (beacon_block_root p) (beacon_block_proof p) (beacon_block_root p) (beacon_block_proof p)))"
proof -
  let ?h = "sample_header 15600001 1663300012"
  let ?p = "sample_historical 14 11 3228 (hash_slow sample_alloy sample_merge_header) 5"
  have wf: "proof_wf (HistoricalRoots ?p)" by simp
  have other: "validate_header_with_proof sample_hashing sample_alloy [] sample_merge_validator
      \<lparr>header = ?h, hwp_proof = HistoricalRoots ?p\<rparr> = Ok ()"
    using sample_root_forgets [of 11 ?h sample_merge_header]
    by (simp add: validate_Ok_iff [OF hashing_ok_sample alloy_ok_sample])
      (simp add: sample_merge_validator_def sample_validator_def sample_historical_def activation_unat sample_root_def)
  moreover have "hash_slow sample_alloy sample_merge_header \<noteq> hash_slow sample_alloy ?h"
  proof
    assume "hash_slow sample_alloy sample_merge_header = hash_slow sample_alloy ?h"
    then have "to_le 8 (15600000 :: u64) = to_le 8 (15600001 :: u64)"
      by (simp add: sample_alloy_def sample_merge_header_def)
    then have "from_le (to_le 8 (15600000 :: u64)) = (from_le (to_le 8 (15600001 :: u64)) :: u64)" by simp
    then show False by (simp add: from_le_to_le)
  qed
  ultimately show ?thesis
    using post_merge_header_unique [of sample_hashing sample_alloy HistoricalRoots 3228 16384, OF _ _ _ wf wf refl
        sample_merge_accepted [unfolded sample_merge_hwp_def] other]
    by simp
qed

subsection \<open>Panics\<close>

lemma validate_panic_iff:
  assumes H: "hashing_ok H" and A: "alloy_ok A" and wf: "proof_wf (hwp_proof hwp)"
    and guard: "era_guard (hwp_proof hwp) (header hwp)"
  shows "is_panic (validate_header_with_proof H A st v hwp) \<longleftrightarrow>
    (case hwp_proof hwp of
       HistoricalHashes p \<Rightarrow>
         length (historical_epochs (pre_merge_acc v)) \<le> unat (number (header hwp)) div 8192
     | HistoricalRoots p \<Rightarrow>
         climb (node_hash H) (hash_slow A (header hwp)) (execution_block_proof p) 3228
           = beacon_block_root p \<and>
         length (historical_roots (historical_roots_acc v)) \<le> unat (slot p) div 8192
     | _ \<Rightarrow> False)"
proof -
  have x: "is_b256 (hash_slow A (header hwp))" using A by (simp add: alloy_ok_def)
  note climbs = branch_climbs [OF H x] branch_climbs [OF H]
  show ?thesis
    using wf x guard
    by (cases "hwp_proof hwp")
      (auto simp: validate_header_with_proof.simps verify_pre_merge_header_eq [OF H A]
        verify_merge_to_capella_header_def verify_capella_to_deneb_header_def
        verify_post_deneb_header_def proof_wf_historical climbs Let_def split: res.splits)
qed

text \<open>
  C22.  With a pre-merge accumulator of 1897 epochs (the whole chain before the Merge), the
  validator panics on a decoded header in one case only: a Merge-to-Capella proof whose execution
  branch is right and whose \<open>slot\<close> is beyond the last historical root.  Every other input gives an
  acceptance or an error.
\<close>

theorem validate_panics_only_on_slot:
  assumes "hashing_ok H" "alloy_ok A" "ssz_ok S" "hwp_from_ssz_bytes A S bs = Ok hwp"
    and "length (historical_epochs (pre_merge_acc v)) = 1897"
  shows "is_panic (validate_header_with_proof H A st v hwp) \<longleftrightarrow>
    (\<exists>p. hwp_proof hwp = HistoricalRoots p \<and>
       climb (node_hash H) (hash_slow A (header hwp)) (execution_block_proof p) 3228
         = beacon_block_root p \<and>
       length (historical_roots (historical_roots_acc v)) \<le> unat (slot p) div 8192)"
proof -
  from hwp_from_ssz_Ok [OF assms(4)]
  have era: "auth_path_for (hwp_proof hwp) = era_of (header hwp)" and wf: "proof_wf (hwp_proof hwp)"
    using assms(3) by blast+
  have guard: "era_guard (hwp_proof hwp) (header hwp)" by (rule era_of_guard [OF era])
  then show ?thesis
    using validate_panic_iff [OF assms(1,2) wf guard, of st v] assms(5)
    by (cases "hwp_proof hwp") (auto simp: activation_unat)
qed

theorem validate_panics_only_on_slot_witness:
  "is_panic (validate_header_with_proof sample_hashing sample_alloy []
       (sample_validator (replicate 1897 b256_ZERO) []) sample_merge_hwp) \<longleftrightarrow>
    (\<exists>p. hwp_proof sample_merge_hwp = HistoricalRoots p \<and>
       climb (node_hash sample_hashing) (hash_slow sample_alloy (header sample_merge_hwp))
         (execution_block_proof p) 3228 = beacon_block_root p \<and>
       length (historical_roots (historical_roots_acc
         (sample_validator (replicate 1897 b256_ZERO) []))) \<le> unat (slot p) div 8192)"
proof (rule validate_panics_only_on_slot [OF _ _ _ sample_merge_decodes])
  show "length (historical_epochs (pre_merge_acc (sample_validator (replicate 1897 b256_ZERO) [])))
      = 1897" by (simp add: sample_validator_def)
qed simp_all

text \<open>
  C23.  Anyone can make that case: for every header of the Merge-to-Capella era and any eleven
  siblings, the proof whose beacon block root is the climb from the header hash and whose slot is
  the largest 64-bit value makes the validator panic; no hash has to be inverted.
\<close>

theorem crafted_slot_panics:
  assumes "hashing_ok H" "alloy_ok A"
    and "is_paris_active_at_block (number h)" "\<not> is_shanghai_active_at_timestamp (timestamp h)"
    and "fixed_vector_wf 11 siblings" "fixed_vector_wf 14 filler"
    and "length (historical_roots (historical_roots_acc v)) < 2 ^ 51"
  shows "is_panic (validate_header_with_proof H A st v
    \<lparr>header = h, hwp_proof = HistoricalRoots
       \<lparr>beacon_block_proof = filler,
        beacon_block_root = climb (node_hash H) (hash_slow A h) siblings 3228,
        execution_block_proof = siblings, slot = 0xFFFFFFFFFFFFFFFF\<rparr>\<rparr>)"
proof -
  have "length (climb (node_hash H) (hash_slow A h) siblings 3228) = 32"
    by (rule climb_length) (use assms(1,2) in \<open>auto simp: hashing_okD alloy_ok_def\<close>)
  then show ?thesis
    using assms(3-7) by (subst validate_panic_iff [OF assms(1,2)])
      (simp_all add: historical_proof_wf_def)
qed

theorem crafted_slot_panics_witness:
  "is_panic (validate_header_with_proof sample_hashing sample_alloy [] (sample_validator [] [])
    \<lparr>header = sample_merge_header, hwp_proof = HistoricalRoots
       \<lparr>beacon_block_proof = sample_siblings 14,
        beacon_block_root = climb (node_hash sample_hashing)
          (hash_slow sample_alloy sample_merge_header) (sample_siblings 11) 3228,
        execution_block_proof = sample_siblings 11, slot = 0xFFFFFFFFFFFFFFFF\<rparr>\<rparr>)"
  by (rule crafted_slot_panics)
    (simp_all add: sample_merge_header_def activation_unat sample_validator_def)

end
