(* ===== verification/Hist_Errors.thy ===== *)
theory Hist_Errors
  imports Hist_Prelude
begin

text \<open>
  The error type of the crate (\<open>src/errors.rs\<close>) and its conversions.  A reason is a message; the
  text that \<open>thiserror\<close> would print for a variant is not modelled.
\<close>

datatype Error =
    NoDataSource
  | BlockNotFound u64
  | DataSource msg
  | SszDecode u64 msg
  | VerificationFailed u64 msg
  | BlockNumberMismatch u64 u64
  | Http msg
  | Json msg
  | Hex msg
  | HistoricalSummariesUnavailable
  | ProofConstruction msg
  | MptInclusion msg
  | ReceiptDecode u64 msg
  | TransactionDecode u64 msg
  | Io msg

definition error_from_anyhow :: "msg \<Rightarrow> Error" where "error_from_anyhow e = DataSource e"
definition error_from_reqwest :: "msg \<Rightarrow> Error" where "error_from_reqwest e = Http e"
definition error_from_serde_json :: "msg \<Rightarrow> Error" where "error_from_serde_json e = Json e"
definition error_from_hex :: "msg \<Rightarrow> Error" where "error_from_hex e = Hex e"
definition error_from_io :: "msg \<Rightarrow> Error" where "error_from_io e = Io e"

lemmas error_from_defs =
  error_from_anyhow_def error_from_reqwest_def error_from_serde_json_def error_from_hex_def
  error_from_io_def

end
