(* ===== verification/Proof_Construction.thy ===== *)
theory Proof_Construction
  imports Validator_Properties Hist_Errors
begin

text \<open>
  The construction of pre-merge proofs (\<open>src/proof_construction.rs\<close>) over the epoch accumulators of
  \<open>src/portal_types/execution/accumulator.rs\<close>, and its agreement with the validator.

  The SSZ codec of an epoch accumulator is derived code: \<open>epoch_from_ssz\<close> is a parameter.  Its root,
  as the validator's accumulator stores it, is the root of a list of at most 8192 containers: the
  tree of depth 13 over the record roots, mixed with the length.
\<close>

subsection \<open>Epoch accumulators\<close>

record HeaderRecord =
  block_hash :: b256
  total_difficulty :: u256

type_synonym EpochAccumulator = "HeaderRecord list"

definition decode_epoch_accumulator ::
  "(bytes \<Rightarrow> (EpochAccumulator, DecodeError) res) \<Rightarrow> bytes \<Rightarrow> (EpochAccumulator, Error) res" where
  "decode_epoch_accumulator epoch_from_ssz bs =
     map_err (\<lambda>e. ProofConstruction (lit ''EpochAccumulator SSZ decode failed: {:?}''))
       (epoch_from_ssz bs)"

text \<open>\<open>U256::to_le_bytes\<close> and \<open>as_le_slice\<close>.\<close>

definition u256_to_le_bytes :: "u256 \<Rightarrow> bytes" where
  "u256_to_le_bytes w = to_le 32 w"

definition proof_from_vec :: "b256 list \<Rightarrow> (b256 list, Error) res" where
  "proof_from_vec v =
     (if length v = 15 then Ok v else Err (ProofConstruction (lit ''proof length != 15'')))"

definition fixed_vector_new :: "b256 list \<Rightarrow> (b256 list, Error) res" where
  "fixed_vector_new v =
     (if length v = 15 then Ok v
      else Err (ProofConstruction (lit ''FixedVector<B256, U15> construction failed: {:?}'')))"

fun try_map :: "('a \<Rightarrow> ('b, 'e) res) \<Rightarrow> 'a list \<Rightarrow> ('b list, 'e) res" where
  "try_map f [] = Ok []"
| "try_map f (x # xs) = and_then (f x) (\<lambda>y. and_then (try_map f xs) (\<lambda>ys. Ok (y # ys)))"

text \<open>The leaf of a record, in the closure mapped over the accumulator.\<close>

definition record_leaf :: "hashing \<Rightarrow> HeaderRecord \<Rightarrow> (b256, 'e) res" where
  "record_leaf H record = b256_from_slice
     (hash32_concat H (block_hash record) (u256_to_le_bytes (total_difficulty record)))"

definition construct_pre_merge_proof ::
  "hashing \<Rightarrow> alloy_api \<Rightarrow> Header \<Rightarrow> EpochAccumulator \<Rightarrow> (b256 list, Error) res" where
  "construct_pre_merge_proof H A h epoch_acc =
     (let hr_index = unat (number h mod SLOTS_PER_HISTORICAL_ROOT)
      in and_then (index_list epoch_acc hr_index) (\<lambda>header_record.
         if block_hash header_record \<noteq> hash_slow A h
         then Err (ProofConstruction (Msg
           ''header hash {:?} doesn't match epoch accumulator entry {:?} at index {}''
           [ABytes (hash_slow A h), ABytes (block_hash header_record), ANat hr_index]))
         else
           let header_difficulty = u256_to_le_bytes (total_difficulty header_record)
           in and_then (b256_from_slice
                (hash32_concat H (block_hash header_record) header_difficulty))
              (\<lambda>header_record_hash.
              and_then (try_map (record_leaf H) epoch_acc) (\<lambda>leaves.
              and_then (create H leaves 13) (\<lambda>merkle_tree.
              and_then (map_err
                  (\<lambda>e. ProofConstruction (lit ''merkle proof generation failed: {:?}''))
                  (generate_proof H merkle_tree (word_of_nat hr_index) 13)) (\<lambda>(leaf, proof).
              if leaf \<noteq> header_record_hash
              then Err (ProofConstruction (lit ''internal: leaf mismatch after merkle construction''))
              else
                let epoch_size = u256_to_le_bytes (word_of_nat (length epoch_acc))
                in and_then (proof_from_vec ((header_difficulty # proof) @ [epoch_size]))
                     fixed_vector_new))))))"

subsection \<open>What it computes\<close>

definition epoch_acc_wf :: "EpochAccumulator \<Rightarrow> bool" where
  "epoch_acc_wf acc \<longleftrightarrow> length acc \<le> 8192 \<and> (\<forall>r \<in> set acc. is_b256 (block_hash r))"

definition record_root :: "hashing \<Rightarrow> HeaderRecord \<Rightarrow> b256" where
  "record_root H r = node_hash H (block_hash r) (to_le 32 (total_difficulty r))"

definition epoch_leaves :: "hashing \<Rightarrow> EpochAccumulator \<Rightarrow> b256 list" where
  "epoch_leaves H acc = map (record_root H) acc"

text \<open>The hash tree root of an epoch accumulator, as an entry of \<open>historical_epochs\<close>.\<close>

definition epoch_root :: "hashing \<Rightarrow> EpochAccumulator \<Rightarrow> b256" where
  "epoch_root H acc = node_hash H (root_of H 13 (epoch_leaves H acc))
     (to_le 32 (word_of_nat (length acc) :: u256))"

lemma try_map_Ok: "(\<And>x. x \<in> set xs \<Longrightarrow> f x = Ok (g x)) \<Longrightarrow> try_map f xs = Ok (map g xs)"
  by (induction xs) simp_all

lemma epoch_leaves_simps [simp]:
  "length (epoch_leaves H acc) = length acc"
  "i < length acc \<Longrightarrow> epoch_leaves H acc ! i = record_root H (acc ! i)"
  by (simp_all add: epoch_leaves_def)

lemma epoch_leaves_b256: "hashing_ok H \<Longrightarrow> \<forall>l \<in> set (epoch_leaves H acc). is_b256 l"
  by (simp add: epoch_leaves_def record_root_def hashing_okD)

lemma epoch_leaves_code:
  assumes "hashing_ok H"
  shows "try_map (record_leaf H) acc = Ok (epoch_leaves H acc)"
  unfolding epoch_leaves_def
  by (rule try_map_Ok)
    (simp add: record_leaf_def record_root_def u256_to_le_bytes_def hashing_okD [OF assms])

lemma unat_header_index: "unat (n mod SLOTS_PER_HISTORICAL_ROOT) = unat n mod 8192"
  by (simp add: validator_constants unat_mod)

definition constructed_proof :: "hashing \<Rightarrow> EpochAccumulator \<Rightarrow> nat \<Rightarrow> b256 list" where
  "constructed_proof H acc i =
     (to_le 32 (total_difficulty (acc ! i))
        # mpath (node_hash H) 13 (padded b256_ZERO (epoch_leaves H acc)) i)
       @ [to_le 32 (word_of_nat (length acc) :: u256)]"

lemma construct_pre_merge_proof_eq:
  assumes H: "hashing_ok H" and acc: "epoch_acc_wf acc"
  shows "construct_pre_merge_proof H A h acc =
    (let i = unat (number h) mod 8192
     in if length acc \<le> i then Panic ''index out of bounds''
        else if block_hash (acc ! i) \<noteq> hash_slow A h
        then Err (ProofConstruction (Msg
           ''header hash {:?} doesn't match epoch accumulator entry {:?} at index {}''
           [ABytes (hash_slow A h), ABytes (block_hash (acc ! i)), ANat i]))
        else Ok (constructed_proof H acc i))"
proof -
  define i where "i = unat (number h) mod 8192"
  have i: "i < 8192" "unat (word_of_nat i :: usize) = i"
    by (simp_all add: i_def unat_of_nat)
  have len: "length acc \<le> 8192" using acc by (simp add: epoch_acc_wf_def)
  note create = create_tree_of [OF H, of 13 "epoch_leaves H acc"]
  note gen = generate_proof_tree_of [OF H, of 13 "epoch_leaves H acc" "word_of_nat i"]
  show ?thesis
  proof (cases "length acc \<le> i")
    case True
    then show ?thesis
      by (simp add: construct_pre_merge_proof_def unat_header_index i_def [symmetric]
          index_list_def)
  next
    case False
    then show ?thesis
      using len i
      by (simp add: construct_pre_merge_proof_def unat_header_index i_def [symmetric] epoch_leaves_code [OF H]
          create gen hashing_okD [OF H] record_root_def proof_from_vec_def fixed_vector_new_def
          constructed_proof_def u256_to_le_bytes_def Let_def)
  qed
qed

lemma constructed_proof_wf:
  assumes H: "hashing_ok H" and i: "i < length acc" "length acc \<le> 8192"
  shows "fixed_vector_wf 15 (constructed_proof H acc i)"
proof -
  have "length s = 32"
    if "s \<in> set (mpath (node_hash H) 13 (padded b256_ZERO (epoch_leaves H acc)) i)" for s
    by (rule mpath_length [OF _ _ that])
      (use hashing_okD [OF H] epoch_leaves_b256 [OF H] in \<open>auto simp: padded_length\<close>)
  then show ?thesis by (auto simp: fixed_vector_wf_def constructed_proof_def)
qed

lemma constructed_proof_climb:
  assumes H: "hashing_ok H" and acc: "epoch_acc_wf acc" and i: "i < length acc"
  shows "climb (node_hash H) (block_hash (acc ! i)) (constructed_proof H acc i) (32768 + 2 * i)
    = epoch_root H acc"
proof -
  let ?f = "padded b256_ZERO (epoch_leaves H acc)"
  have i': "i < 8192" using i acc by (simp add: epoch_acc_wf_def)
  have low: "(16384 + i) mod 8192 = i mod 8192"
    using mod_mult_self1 [of i 2 8192] by (simp add: add.commute)
  have "climb (node_hash H) (record_root H (acc ! i)) (mpath (node_hash H) 13 ?f i) (16384 + i)
      = climb (node_hash H) (?f i) (mpath (node_hash H) 13 ?f i) i"
    using i by simp (rule climb_mod_eq, simp add: low)
  also have "\<dots> = root_of H 13 (epoch_leaves H acc)"
    unfolding root_of_def by (rule climb_mpath) (use i' in simp)
  finally have tree: "climb (node_hash H) (record_root H (acc ! i)) (mpath (node_hash H) 13 ?f i)
      (16384 + i) = root_of H 13 (epoch_leaves H acc)" .
  have "(16384 + i) div 8192 = 2" using i' by simp
  then show ?thesis
    by (simp add: constructed_proof_def climb_append tree epoch_root_def record_root_def [symmetric])
qed

lemma constructed_accepted:
  assumes "hashing_ok H" "alloy_ok A" "epoch_acc_wf acc"
    and "\<not> is_paris_active_at_block (number h)"
    and "unat (epoch_index_of_block (number h)) < length (historical_epochs (pre_merge_acc v))"
    and "historical_epochs (pre_merge_acc v) ! unat (epoch_index_of_block (number h)) = epoch_root H acc"
    and "construct_pre_merge_proof H A h acc = Ok p"
  shows "validate_header_with_proof H A st v \<lparr>header = h, hwp_proof = HistoricalHashes p\<rparr> = Ok ()"
proof -
  define i where "i = unat (number h) mod 8192"
  have i: "i < length acc" "block_hash (acc ! i) = hash_slow A h" "p = constructed_proof H acc i"
    using assms(7)
    by (auto simp: construct_pre_merge_proof_eq [OF assms(1,3)] i_def Let_def split: if_splits)
  have "fixed_vector_wf 15 p"
    using constructed_proof_wf [OF assms(1) i(1)] assms(3) i(3) by (simp add: epoch_acc_wf_def)
  moreover have "climb (node_hash H) (hash_slow A h) p (32768 + 2 * i) = epoch_root H acc"
    using constructed_proof_climb [OF assms(1,3) i(1)] i(2,3) by simp
  ultimately show ?thesis
    using assms(4-6)
    by (simp add: validate_Ok_iff [OF assms(1,2)] i_def epoch_index_of_block_def
        validator_constants unat_div)
qed

subsection \<open>Claims\<close>

definition sample_epoch :: EpochAccumulator where
  "sample_epoch =
     [\<lparr>block_hash = hash_slow sample_alloy (sample_header 0 0), total_difficulty = 17179869184\<rparr>,
      \<lparr>block_hash = sample_leaf 1, total_difficulty = 34351349760\<rparr>]"

lemma sample_epoch_wf [simp]: "epoch_acc_wf sample_epoch"
  by (simp add: epoch_acc_wf_def sample_epoch_def)

text \<open>
  C21.  Every branch of the construction: for a well-formed epoch accumulator it panics exactly
  when the header's index in the epoch is beyond the accumulator (an incomplete epoch is not turned
  into an error), reports an error when the stored block hash is not the hash of the header, and
  otherwise returns fifteen roots: the little-endian total difficulty, the thirteen siblings of the
  record in the padded tree, and the little-endian number of records.  The three errors behind the
  hash check are never returned.
\<close>

theorem construct_pre_merge_proof_branches:
  assumes "hashing_ok H" "epoch_acc_wf acc" "i = unat (number h) mod 8192"
  shows "(is_panic (construct_pre_merge_proof H A h acc) \<longleftrightarrow> length acc \<le> i) \<and>
    (i < length acc \<longrightarrow> construct_pre_merge_proof H A h acc =
      (if block_hash (acc ! i) = hash_slow A h
       then Ok (to_le 32 (total_difficulty (acc ! i))
                # mpath (node_hash H) 13 (padded b256_ZERO (epoch_leaves H acc)) i
                @ [to_le 32 (word_of_nat (length acc) :: u256)])
       else Err (ProofConstruction (Msg
           ''header hash {:?} doesn't match epoch accumulator entry {:?} at index {}''
           [ABytes (hash_slow A h), ABytes (block_hash (acc ! i)), ANat i]))))"
  using assms(3)
  by (simp add: construct_pre_merge_proof_eq [OF assms(1,2)] constructed_proof_def Let_def)

theorem construct_pre_merge_proof_branches_witness:
  "\<not> is_panic (construct_pre_merge_proof sample_hashing sample_alloy (sample_header 1 0) sample_epoch)
   \<and> is_panic (construct_pre_merge_proof sample_hashing sample_alloy (sample_header 2 0) sample_epoch)
   \<and> (\<exists>m. construct_pre_merge_proof sample_hashing sample_alloy (sample_header 1 0) sample_epoch
        = Err (ProofConstruction m))"
proof (intro conjI)
  note branches = construct_pre_merge_proof_branches [OF hashing_ok_sample sample_epoch_wf refl]
  show "\<not> is_panic (construct_pre_merge_proof sample_hashing sample_alloy (sample_header 1 0)
      sample_epoch)"
    by (simp add: branches [THEN conjunct1]) (simp add: sample_epoch_def)
  show "is_panic (construct_pre_merge_proof sample_hashing sample_alloy (sample_header 2 0)
      sample_epoch)"
    by (simp add: branches [THEN conjunct1]) (simp add: sample_epoch_def)
  have "block_hash (sample_epoch ! 1) \<noteq> hash_slow sample_alloy (sample_header 1 0)"
    by (simp add: sample_epoch_def sample_alloy_def sample_leaf_Cons to_le_def upt_rec)
  then show "\<exists>m. construct_pre_merge_proof sample_hashing sample_alloy (sample_header 1 0)
      sample_epoch = Err (ProofConstruction m)"
    using branches [of sample_alloy "sample_header 1 0"]
    by (simp add: sample_epoch_def)
qed

text \<open>
  What acceptance of a pre-merge header means: its hash is the block hash that the epoch
  accumulator records at its index, or the accepted proof and the constructed one contain an
  explicit pair of 64-byte inputs with one digest.
\<close>

theorem pre_merge_header_in_epoch:
  assumes "hashing_ok H" "alloy_ok A" "epoch_acc_wf acc" "proof_wf (HistoricalHashes p)"
    and "i = unat (number h) mod 8192" "i < length acc"
    and "historical_epochs (pre_merge_acc v) ! (unat (number h) div 8192) = epoch_root H acc"
    and "validate_header_with_proof H A st v \<lparr>header = h, hwp_proof = HistoricalHashes p\<rparr> = Ok ()"
  shows "hash_slow A h = block_hash (acc ! i) \<or>
    collides H (find_collision (node_hash H) (32768 + 2 * i) (hash_slow A h) p
      (block_hash (acc ! i)) (constructed_proof H acc i))"
proof (rule climbs_binding [OF assms(1)])
  show "fixed_vector_wf 15 (constructed_proof H acc i)"
    using constructed_proof_wf [OF assms(1,6)] assms(3) by (simp add: epoch_acc_wf_def)
  show "climb (node_hash H) (block_hash (acc ! i)) (constructed_proof H acc i) (32768 + 2 * i)
      = epoch_root H acc"
    by (rule constructed_proof_climb [OF assms(1,3,6)])
  show "climb (node_hash H) (hash_slow A h) p (32768 + 2 * i) = epoch_root H acc"
    using assms(4,5,7,8) by (auto simp: validate_Ok_iff [OF assms(1,2)] Let_def split: if_splits)
qed (use assms(2-4,6) in \<open>auto simp: alloy_ok_def epoch_acc_wf_def\<close>)

theorem pre_merge_header_in_epoch_witness:
  "hash_slow sample_alloy (sample_header 0 0) = block_hash (sample_epoch ! 0) \<or>
    collides sample_hashing (find_collision (node_hash sample_hashing) (32768 + 2 * 0)
      (hash_slow sample_alloy (sample_header 0 0)) (constructed_proof sample_hashing sample_epoch 0)
      (block_hash (sample_epoch ! 0)) (constructed_proof sample_hashing sample_epoch 0))"
proof (rule pre_merge_header_in_epoch)
  let ?v = "sample_validator [epoch_root sample_hashing sample_epoch] []"
  have len: "(0 :: nat) < length sample_epoch" "length sample_epoch \<le> 8192"
    by (simp_all add: sample_epoch_def)
  note wf = constructed_proof_wf [OF hashing_ok_sample len]
  show "proof_wf (HistoricalHashes (constructed_proof sample_hashing sample_epoch 0))"
    using wf by simp
  show "historical_epochs (pre_merge_acc ?v) ! (unat (number (sample_header 0 0)) div 8192)
      = epoch_root sample_hashing sample_epoch" by (simp add: sample_validator_def)
  have "hash_slow sample_alloy (sample_header 0 0) = block_hash (sample_epoch ! 0)"
    by (simp add: sample_epoch_def)
  then show "validate_header_with_proof sample_hashing sample_alloy [] ?v
      \<lparr>header = sample_header 0 0,
       hwp_proof = HistoricalHashes (constructed_proof sample_hashing sample_epoch 0)\<rparr> = Ok ()"
    using wf constructed_proof_climb [OF hashing_ok_sample sample_epoch_wf len(1)]
    by (simp add: validate_Ok_iff sample_validator_def activation_unat)
  show "(0 :: nat) < length sample_epoch" by (fact len(1))
qed simp_all

end
