(* ===== verification/Consensus_Bytes.thy ===== *)
theory Consensus_Bytes
  imports Merkle_Provider Network_Spec
begin

text \<open>
  The byte types of the consensus layer: BLS public keys and signatures
  (\<open>src/portal_types/consensus/{pubkey,signature}.rs\<close>), KZG commitments (\<open>kzg_commitment.rs\<close>),
  participation flags and epochs (\<open>participation_flags.rs\<close>, \<open>beacon_state.rs\<close>).
\<close>

subsection \<open>Vectors of the standard library and of \<open>ssz_types\<close>\<close>

text \<open>
  \<open>FixedVector::from\<close> resizes the vector: it fills up with zero bytes or cuts off.
  \<open>copy_from_slice\<close> panics unless both slices have the same length.
\<close>

definition fixed_vector_from :: "nat \<Rightarrow> bytes \<Rightarrow> bytes" where
  "fixed_vector_from n v = take n (v @ replicate n 0)"

definition copy_from_slice :: "nat \<Rightarrow> bytes \<Rightarrow> (bytes, 'e) res" where
  "copy_from_slice n src =
     (if length src = n then Ok src
      else Panic ''copy_from_slice: source slice length does not match destination slice length'')"

lemma length_fixed_vector_from [simp]: "length (fixed_vector_from n v) = n"
  by (simp add: fixed_vector_from_def)

lemma fixed_vector_from_id [simp]: "length v = n \<Longrightarrow> fixed_vector_from n v = v"
  by (simp add: fixed_vector_from_def)

subsection \<open>Public keys\<close>

datatype PubKey = PubKey (inner: bytes)

definition pubkey_default :: PubKey where
  "pubkey_default = PubKey (replicate 48 0)"

definition pubkey_deref :: "PubKey \<Rightarrow> bytes" where
  "pubkey_deref self = inner self"

definition pubkey_from_ssz_bytes :: "bytes \<Rightarrow> (PubKey, 'e) res" where
  "pubkey_from_ssz_bytes bs = Ok (PubKey (fixed_vector_from 48 bs))"

definition pubkey_ssz_append :: "PubKey \<Rightarrow> bytes \<Rightarrow> bytes" where
  "pubkey_ssz_append k buf = buf @ inner k"

definition pubkey_deserialize :: "hex_api \<Rightarrow> string \<Rightarrow> (PubKey, ByteUtilsError) res" where
  "pubkey_deserialize X s =
     and_then (hex_decode X s) (\<lambda>result. Ok (PubKey (fixed_vector_from 48 result)))"

definition pubkey_serialize :: "hex_api \<Rightarrow> PubKey \<Rightarrow> string" where
  "pubkey_serialize X k = hex_encode X (inner k)"

subsection \<open>Signatures\<close>

datatype BlsSignature = BlsSignature (signature: bytes)

definition signature_default :: BlsSignature where
  "signature_default = BlsSignature (replicate 96 0)"

definition signature_from_ssz_bytes :: "bytes \<Rightarrow> (BlsSignature, 'e) res" where
  "signature_from_ssz_bytes bs =
     and_then (copy_from_slice 96 bs) (\<lambda>s. Ok (BlsSignature s))"

definition signature_ssz_append :: "BlsSignature \<Rightarrow> bytes \<Rightarrow> bytes" where
  "signature_ssz_append s buf = buf @ signature s"

definition signature_deserialize :: "hex_api \<Rightarrow> string \<Rightarrow> (BlsSignature, ByteUtilsError) res" where
  "signature_deserialize X s =
     and_then (hex_decode X s) (\<lambda>result.
     and_then (copy_from_slice 96 result) (\<lambda>s'. Ok (BlsSignature s')))"

definition signature_serialize :: "hex_api \<Rightarrow> BlsSignature \<Rightarrow> string" where
  "signature_serialize X s = hex_encode X (signature s)"

subsection \<open>KZG commitments\<close>

definition BYTES_PER_COMMITMENT :: nat where
  "BYTES_PER_COMMITMENT = 48"

definition VERSIONED_HASH_VERSION_KZG :: byte where
  "VERSIONED_HASH_VERSION_KZG = 1"

datatype KzgCommitment = KzgCommitment (commitment: bytes)

text \<open>\<open>hash_fixed\<close> is the digest of \<open>hash\<close> as an array.\<close>

definition calculate_versioned_hash :: "hashing \<Rightarrow> KzgCommitment \<Rightarrow> (b256, 'e) res" where
  "calculate_versioned_hash H c =
     (let versioned_hash = (hash H (commitment c))[0 := VERSIONED_HASH_VERSION_KZG]
      in b256_from_slice versioned_hash)"

definition kzg_empty_for_testing :: KzgCommitment where
  "kzg_empty_for_testing = KzgCommitment (replicate BYTES_PER_COMMITMENT 0)"

datatype KzgParseError = KzgHex ByteUtilsError | InvalidByteLength nat nat

definition kzg_from_str :: "hex_api \<Rightarrow> string \<Rightarrow> (KzgCommitment, KzgParseError) res" where
  "kzg_from_str X s =
     and_then (map_err KzgHex (hex_decode X s)) (\<lambda>bs.
     if length bs = BYTES_PER_COMMITMENT
     then and_then (copy_from_slice BYTES_PER_COMMITMENT bs) (\<lambda>c. Ok (KzgCommitment c))
     else Err (InvalidByteLength (length bs) BYTES_PER_COMMITMENT))"

definition kzg_debug :: "hex_api \<Rightarrow> KzgCommitment \<Rightarrow> string" where
  "kzg_debug X c = hex_encode X (commitment c)"

definition kzg_serialize :: "hex_api \<Rightarrow> KzgCommitment \<Rightarrow> string" where
  "kzg_serialize X c = kzg_debug X c"

definition kzg_deserialize :: "hex_api \<Rightarrow> string \<Rightarrow> (KzgCommitment, KzgParseError) res" where
  "kzg_deserialize X s = kzg_from_str X s"

text \<open>\<open>{:02x}\<close> of a byte.\<close>

definition hex_digit :: "nat \<Rightarrow> char" where
  "hex_digit n = ''0123456789abcdef'' ! (n mod 16)"

definition fmt_02x :: "byte \<Rightarrow> string" where
  "fmt_02x b = [hex_digit (unat b div 16), hex_digit (unat b)]"

text \<open>The ellipsis between the two parts is the character U+2026.\<close>

definition kzg_fmt :: "KzgCommitment \<Rightarrow> string" where
  "kzg_fmt c =
     ''0x'' @ concat (map fmt_02x (take 2 (commitment c)))
       @ [char_of (0xe2 :: nat), char_of (0x80 :: nat), char_of (0xa6 :: nat)]
       @ concat (map fmt_02x (drop (BYTES_PER_COMMITMENT - 2) (commitment c)))"

subsection \<open>Flags and epochs\<close>

datatype ParticipationFlags = ParticipationFlags (bits: byte)

definition flags_ssz_append :: "ParticipationFlags \<Rightarrow> bytes \<Rightarrow> bytes" where
  "flags_ssz_append f buf = buf @ [bits f]"

definition flags_from_ssz_bytes :: "bytes \<Rightarrow> (ParticipationFlags, nat) res" where
  "flags_from_ssz_bytes bs =
     (case bs of [b] \<Rightarrow> Ok (ParticipationFlags b) | _ \<Rightarrow> Err (length bs))"

datatype Epoch = Epoch u64

fun epoch_ssz_append :: "Epoch \<Rightarrow> bytes \<Rightarrow> bytes" where
  "epoch_ssz_append (Epoch e) buf = buf @ u64_to_le_bytes e"

text \<open>\<open>u64::from_ssz_bytes\<close> refuses other lengths than eight and reads little-endian.\<close>

definition epoch_from_ssz_bytes :: "bytes \<Rightarrow> (Epoch, unit) res" where
  "epoch_from_ssz_bytes bs = and_then (u64_from_le_bytes bs) (\<lambda>e. Ok (Epoch e))"

definition int_to_fixed_bytes32 :: "u64 \<Rightarrow> (bytes, 'e) res" where
  "int_to_fixed_bytes32 i =
     (let bs = replicate 32 0; int_bytes = u64_to_le_bytes i
      in if length int_bytes \<le> length bs then Ok (int_bytes @ drop (length int_bytes) bs)
         else Panic ''range end index out of range for slice'')"

fun epoch_tree_hash_root :: "Epoch \<Rightarrow> (b256, 'e) res" where
  "epoch_tree_hash_root (Epoch e) = and_then (int_to_fixed_bytes32 e) b256_from_slice"

subsection \<open>Codecs\<close>

lemma int_to_fixed_bytes32_eq [simp]:
  "int_to_fixed_bytes32 e = Ok (u64_to_le_bytes e @ replicate 24 0)"
  by (simp add: int_to_fixed_bytes32_def Let_def)

lemma epoch_tree_hash_root_eq:
  "epoch_tree_hash_root (Epoch e) = Ok (to_le 32 (ucast e :: u256))"
proof -
  have "to_le 32 (ucast e :: u256) = to_le 8 e @ replicate 24 0"
  proof (rule nth_equalityI)
    fix i
    assume i: "i < length (to_le 32 (ucast e :: u256))"
    show "to_le 32 (ucast e :: u256) ! i = (to_le 8 e @ replicate 24 0) ! i"
    proof (cases "i < 8")
      case True
      then show ?thesis
        by (auto intro!: bit_word_eqI simp: to_le_def nth_append bit_simps)
    next
      case False
      then have "\<not> bit e (8 * i + n)" for n
        using bit_imp_le_length [of e "8 * i + n"] by auto
      with i False show ?thesis
        by (auto intro!: bit_word_eqI simp: to_le_def nth_append bit_simps)
    qed
  qed simp
  then show ?thesis by (simp add: u64_to_le_bytes_def)
qed

interpretation epoch_ssz: strict_codec "\<lambda>e. epoch_ssz_append e []" epoch_from_ssz_bytes
proof unfold_locales
  show "epoch_from_ssz_bytes (epoch_ssz_append e []) = Ok e" for e
    by (cases e) (simp add: epoch_from_ssz_bytes_def u64_le.dec_enc)
  show "epoch_ssz_append e [] = bs" if "epoch_from_ssz_bytes bs = Ok e" for bs e
    using that by (auto simp: epoch_from_ssz_bytes_def and_then_Ok_iff intro: u64_le.enc_dec)
qed

interpretation flags_ssz: strict_codec "\<lambda>f. flags_ssz_append f []" flags_from_ssz_bytes
proof unfold_locales
  show "flags_from_ssz_bytes (flags_ssz_append f []) = Ok f" for f
    by (simp add: flags_from_ssz_bytes_def flags_ssz_append_def)
  show "flags_ssz_append f [] = bs" if "flags_from_ssz_bytes bs = Ok f" for bs f
    using that by (auto simp: flags_from_ssz_bytes_def flags_ssz_append_def split: list.splits)
qed

lemma kzg_roundtrip:
  "hex_ok X \<Longrightarrow> length (commitment c) = BYTES_PER_COMMITMENT \<Longrightarrow>
   kzg_from_str X (kzg_debug X c) = Ok c"
  by (simp add: kzg_from_str_def kzg_debug_def hex_roundtrip copy_from_slice_def)

lemma kzg_from_str_total: "hex_ok X \<Longrightarrow> \<not> is_panic (kzg_from_str X s)"
  by (simp add: kzg_from_str_def is_panic_and_then hex_decode_not_Panic copy_from_slice_def)

lemma signature_deserialize_panic_iff:
  "hex_ok X \<Longrightarrow> is_panic (signature_deserialize X s)
     \<longleftrightarrow> (\<exists>bs. hex_decode X s = Ok bs \<and> length bs \<noteq> 96)"
  by (auto simp: signature_deserialize_def is_panic_and_then hex_decode_not_Panic
      copy_from_slice_def)

end
