(* ===== verification/Consensus_Types.thy ===== *)
theory Consensus_Types
  imports Consensus_Bytes Header_Proof Accumulators
begin

text \<open>
  The containers of the consensus layer (\<open>src/portal_types/consensus/\<close>): blocks and their bodies,
  execution payloads, the beacon state and what they contain, in the four variants that
  \<open>superstruct\<close> generates.  A field of a variant keeps the name of the struct's field behind a prefix
  of the struct; a variant that adds fields extends the record of the variant before it.

  The tree hash of a container is derived code of \<open>tree_hash_derive\<close>, of a list or an integer code of
  \<open>tree_hash\<close> and \<open>ssz_types\<close>.  Both see a value only through its type and its fields in order, so
  every struct has a view \<open>.._value\<close> as an \<open>ssz_value\<close>, and \<open>tree_hash_root\<close> is a parameter, a
  function of that view.  \<open>tree_hash_ok\<close> states the SSZ rules the crate relies on.  The derived
  decoders are the parameter \<open>consensus_codec\<close>.
\<close>

subsection \<open>Values as the tree hash sees them\<close>

datatype ssz_value =
    VBool bool
  | VU8 byte
  | VU64 u64
  | VU256 u256
  | VEpoch Epoch
  | VB256 b256
  | VBytes bytes
  | VByteList nat bytes
  | VBitVector "bool list"
  | VBitList nat "bool list"
  | VVector "ssz_value list"
  | VList nat "ssz_value list"
  | VContainer "ssz_value list"

type_synonym tree_hash = "ssz_value \<Rightarrow> b256"

definition pubkey_value :: "PubKey \<Rightarrow> ssz_value" where
  "pubkey_value k = VContainer [VBytes (inner k)]"

definition signature_value :: "BlsSignature \<Rightarrow> ssz_value" where
  "signature_value s = VBytes (signature s)"

definition commitment_value :: "KzgCommitment \<Rightarrow> ssz_value" where
  "commitment_value c = VBytes (commitment c)"

definition flags_value :: "ParticipationFlags \<Rightarrow> ssz_value" where
  "flags_value f = VU8 (bits f)"

text \<open>\<open>RootsPerHistoricalRoot\<close> is a vector of 8192 roots, \<open>HistoricalRoots\<close> a list of at most \<open>2 ^ 24\<close>.\<close>

definition roots_value :: "b256 list \<Rightarrow> ssz_value" where
  "roots_value roots = VVector (map VB256 roots)"

definition historical_roots_value :: "b256 list \<Rightarrow> ssz_value" where
  "historical_roots_value roots = VList 16777216 (map VB256 roots)"

definition summary_value :: "HistoricalSummary \<Rightarrow> ssz_value" where
  "summary_value s = VContainer [VB256 (block_summary_root s), VB256 (state_summary_root s)]"

definition summaries_value :: "HistoricalSummaries \<Rightarrow> ssz_value" where
  "summaries_value ss = VList 16777216 (map summary_value ss)"

subsection \<open>Parts of a block body\<close>

record BeaconBlockHeader =
  bbh_slot :: u64
  bbh_proposer_index :: u64
  bbh_parent_root :: b256
  bbh_state_root :: b256
  bbh_body_root :: b256

definition block_header_value :: "BeaconBlockHeader \<Rightarrow> ssz_value" where
  "block_header_value v = VContainer
     [VU64 (bbh_slot v),
      VU64 (bbh_proposer_index v),
      VB256 (bbh_parent_root v),
      VB256 (bbh_state_root v),
      VB256 (bbh_body_root v)]"

record Checkpoint =
  cp_epoch :: Epoch
  cp_root :: b256

definition checkpoint_value :: "Checkpoint \<Rightarrow> ssz_value" where
  "checkpoint_value v = VContainer
     [VEpoch (cp_epoch v),
      VB256 (cp_root v)]"

record AttestationData =
  ad_slot :: u64
  ad_index :: u64
  ad_beacon_block_root :: b256
  ad_source :: Checkpoint
  ad_target :: Checkpoint

definition attestation_data_value :: "AttestationData \<Rightarrow> ssz_value" where
  "attestation_data_value v = VContainer
     [VU64 (ad_slot v),
      VU64 (ad_index v),
      VB256 (ad_beacon_block_root v),
      checkpoint_value (ad_source v),
      checkpoint_value (ad_target v)]"

text \<open>The variants Base and Electra of an indexed attestation differ in the limit of the list only.\<close>

record IndexedAttestation =
  ia_attesting_indices :: "u64 list"
  ia_data :: AttestationData
  ia_signature :: BlsSignature

definition indexed_attestation_value :: "nat \<Rightarrow> IndexedAttestation \<Rightarrow> ssz_value" where
  "indexed_attestation_value n v = VContainer
     [VList n (map VU64 (ia_attesting_indices v)),
      attestation_data_value (ia_data v),
      signature_value (ia_signature v)]"

record AttesterSlashing =
  as_attestation_1 :: IndexedAttestation
  as_attestation_2 :: IndexedAttestation

definition attester_slashing_value :: "nat \<Rightarrow> AttesterSlashing \<Rightarrow> ssz_value" where
  "attester_slashing_value n v = VContainer
     [indexed_attestation_value n (as_attestation_1 v),
      indexed_attestation_value n (as_attestation_2 v)]"

record AttestationBase =
  at_aggregation_bits :: "bool list"
  at_data :: AttestationData
  at_signature :: BlsSignature

definition attestation_base_value :: "AttestationBase \<Rightarrow> ssz_value" where
  "attestation_base_value v = VContainer
     [VBitList 2048 (at_aggregation_bits v),
      attestation_data_value (at_data v),
      signature_value (at_signature v)]"

record AttestationElectra = AttestationBase +
  at_committee_bits :: "bool list"

definition attestation_electra_value :: "AttestationElectra \<Rightarrow> ssz_value" where
  "attestation_electra_value v = VContainer
     [VBitList 131072 (at_aggregation_bits v),
      attestation_data_value (at_data v),
      signature_value (at_signature v),
      VBitVector (at_committee_bits v)]"

record SignedBeaconBlockHeader =
  sbh_message :: BeaconBlockHeader
  sbh_signature :: BlsSignature

definition signed_block_header_value :: "SignedBeaconBlockHeader \<Rightarrow> ssz_value" where
  "signed_block_header_value v = VContainer
     [block_header_value (sbh_message v),
      signature_value (sbh_signature v)]"

record ProposerSlashing =
  ps_signed_header_1 :: SignedBeaconBlockHeader
  ps_signed_header_2 :: SignedBeaconBlockHeader

definition proposer_slashing_value :: "ProposerSlashing \<Rightarrow> ssz_value" where
  "proposer_slashing_value v = VContainer
     [signed_block_header_value (ps_signed_header_1 v),
      signed_block_header_value (ps_signed_header_2 v)]"

record DepositData =
  dd_pubkey :: PubKey
  dd_withdrawal_credentials :: b256
  dd_amount :: u64
  dd_signature :: BlsSignature

definition deposit_data_value :: "DepositData \<Rightarrow> ssz_value" where
  "deposit_data_value v = VContainer
     [pubkey_value (dd_pubkey v),
      VB256 (dd_withdrawal_credentials v),
      VU64 (dd_amount v),
      signature_value (dd_signature v)]"

record Deposit =
  dp_proof :: "b256 list"
  dp_data :: DepositData

definition deposit_value :: "Deposit \<Rightarrow> ssz_value" where
  "deposit_value v = VContainer
     [roots_value (dp_proof v),
      deposit_data_value (dp_data v)]"

record VoluntaryExit =
  ve_epoch :: Epoch
  ve_validator_index :: u64

definition voluntary_exit_value :: "VoluntaryExit \<Rightarrow> ssz_value" where
  "voluntary_exit_value v = VContainer
     [VEpoch (ve_epoch v),
      VU64 (ve_validator_index v)]"

record SignedVoluntaryExit =
  sve_message :: VoluntaryExit
  sve_signature :: BlsSignature

definition signed_voluntary_exit_value :: "SignedVoluntaryExit \<Rightarrow> ssz_value" where
  "signed_voluntary_exit_value v = VContainer
     [voluntary_exit_value (sve_message v),
      signature_value (sve_signature v)]"

record Eth1Data =
  e1_deposit_root :: b256
  e1_deposit_count :: u64
  e1_block_hash :: b256

definition eth1_data_value :: "Eth1Data \<Rightarrow> ssz_value" where
  "eth1_data_value v = VContainer
     [VB256 (e1_deposit_root v),
      VU64 (e1_deposit_count v),
      VB256 (e1_block_hash v)]"

record BLSToExecutionChange =
  bc_validator_index :: u64
  bc_from_bls_pubkey :: PubKey
  bc_to_execution_address :: address

definition bls_change_value :: "BLSToExecutionChange \<Rightarrow> ssz_value" where
  "bls_change_value v = VContainer
     [VU64 (bc_validator_index v),
      pubkey_value (bc_from_bls_pubkey v),
      VBytes (bc_to_execution_address v)]"

record SignedBLSToExecutionChange =
  sbc_message :: BLSToExecutionChange
  sbc_signature :: BlsSignature

definition signed_bls_change_value :: "SignedBLSToExecutionChange \<Rightarrow> ssz_value" where
  "signed_bls_change_value v = VContainer
     [bls_change_value (sbc_message v),
      signature_value (sbc_signature v)]"

record SyncAggregate =
  sa_sync_committee_bits :: "bool list"
  sa_sync_committee_signature :: BlsSignature

definition sync_aggregate_value :: "SyncAggregate \<Rightarrow> ssz_value" where
  "sync_aggregate_value v = VContainer
     [VBitVector (sa_sync_committee_bits v),
      signature_value (sa_sync_committee_signature v)]"

record Withdrawal =
  wd_index :: u64
  wd_validator_index :: u64
  wd_address :: address
  wd_amount :: u64

definition withdrawal_value :: "Withdrawal \<Rightarrow> ssz_value" where
  "withdrawal_value v = VContainer
     [VU64 (wd_index v),
      VU64 (wd_validator_index v),
      VBytes (wd_address v),
      VU64 (wd_amount v)]"

subsection \<open>Execution requests\<close>

record DepositRequest =
  dr_pubkey :: PubKey
  dr_withdrawal_credentials :: b256
  dr_amount :: u64
  dr_signature :: BlsSignature
  dr_index :: u64

definition deposit_request_value :: "DepositRequest \<Rightarrow> ssz_value" where
  "deposit_request_value v = VContainer
     [pubkey_value (dr_pubkey v),
      VB256 (dr_withdrawal_credentials v),
      VU64 (dr_amount v),
      signature_value (dr_signature v),
      VU64 (dr_index v)]"

record WithdrawalRequest =
  wr_source_address :: address
  wr_validator_pubkey :: PubKey
  wr_amount :: u64

definition withdrawal_request_value :: "WithdrawalRequest \<Rightarrow> ssz_value" where
  "withdrawal_request_value v = VContainer
     [VBytes (wr_source_address v),
      pubkey_value (wr_validator_pubkey v),
      VU64 (wr_amount v)]"

record ConsolidationRequest =
  cr_source_address :: address
  cr_source_pubkey :: PubKey
  cr_target_pubkey :: PubKey

definition consolidation_request_value :: "ConsolidationRequest \<Rightarrow> ssz_value" where
  "consolidation_request_value v = VContainer
     [VBytes (cr_source_address v),
      pubkey_value (cr_source_pubkey v),
      pubkey_value (cr_target_pubkey v)]"

record ExecutionRequests =
  er_deposits :: "DepositRequest list"
  er_withdrawals :: "WithdrawalRequest list"
  er_consolidations :: "ConsolidationRequest list"

definition execution_requests_value :: "ExecutionRequests \<Rightarrow> ssz_value" where
  "execution_requests_value v = VContainer
     [VList 8192 (map deposit_request_value (er_deposits v)),
      VList 16 (map withdrawal_request_value (er_withdrawals v)),
      VList 2 (map consolidation_request_value (er_consolidations v))]"

subsection \<open>Execution payloads\<close>

record ExecutionPayloadBellatrix =
  ep_parent_hash :: b256
  ep_fee_recipient :: address
  ep_state_root :: b256
  ep_receipts_root :: b256
  ep_logs_bloom :: bytes
  ep_prev_randao :: b256
  ep_block_number :: u64
  ep_gas_limit :: u64
  ep_gas_used :: u64
  ep_timestamp :: u64
  ep_extra_data :: bytes
  ep_base_fee_per_gas :: u256
  ep_block_hash :: b256
  ep_transactions :: "bytes list"

record ExecutionPayloadCapella = ExecutionPayloadBellatrix +
  ep_withdrawals :: "Withdrawal list"

record ExecutionPayloadDeneb = ExecutionPayloadCapella +
  ep_blob_gas_used :: u64
  ep_excess_blob_gas :: u64

type_synonym ExecutionPayloadElectra = ExecutionPayloadDeneb

definition payload_bellatrix_fields :: "'a ExecutionPayloadBellatrix_scheme \<Rightarrow> ssz_value list" where
  "payload_bellatrix_fields v =
     [VB256 (ep_parent_hash v),
      VBytes (ep_fee_recipient v),
      VB256 (ep_state_root v),
      VB256 (ep_receipts_root v),
      VBytes (ep_logs_bloom v),
      VB256 (ep_prev_randao v),
      VU64 (ep_block_number v),
      VU64 (ep_gas_limit v),
      VU64 (ep_gas_used v),
      VU64 (ep_timestamp v),
      VByteList 32 (ep_extra_data v),
      VU256 (ep_base_fee_per_gas v),
      VB256 (ep_block_hash v),
      VList 1048576 (map (VByteList 1073741824) (ep_transactions v))]"

definition payload_capella_fields :: "'a ExecutionPayloadCapella_scheme \<Rightarrow> ssz_value list" where
  "payload_capella_fields v = payload_bellatrix_fields v @ [VList 16 (map withdrawal_value (ep_withdrawals v))]"

definition payload_deneb_fields :: "'a ExecutionPayloadDeneb_scheme \<Rightarrow> ssz_value list" where
  "payload_deneb_fields v = payload_capella_fields v @ [VU64 (ep_blob_gas_used v), VU64 (ep_excess_blob_gas v)]"

datatype ExecutionPayload =
    Payload_Bellatrix ExecutionPayloadBellatrix
  | Payload_Capella ExecutionPayloadCapella
  | Payload_Deneb ExecutionPayloadDeneb
  | Payload_Electra ExecutionPayloadElectra

record ExecutionPayloadHeaderBellatrix =
  eh_parent_hash :: b256
  eh_fee_recipient :: address
  eh_state_root :: b256
  eh_receipts_root :: b256
  eh_logs_bloom :: bytes
  eh_prev_randao :: b256
  eh_block_number :: u64
  eh_gas_limit :: u64
  eh_gas_used :: u64
  eh_timestamp :: u64
  eh_extra_data :: bytes
  eh_base_fee_per_gas :: u256
  eh_block_hash :: b256
  eh_transactions_root :: b256

record ExecutionPayloadHeaderCapella = ExecutionPayloadHeaderBellatrix +
  eh_withdrawals_root :: b256

record ExecutionPayloadHeaderDeneb = ExecutionPayloadHeaderCapella +
  eh_blob_gas_used :: u64
  eh_excess_blob_gas :: u64

type_synonym ExecutionPayloadHeaderElectra = ExecutionPayloadHeaderDeneb

definition payload_header_bellatrix_fields :: "'a ExecutionPayloadHeaderBellatrix_scheme \<Rightarrow> ssz_value list" where
  "payload_header_bellatrix_fields v =
     [VB256 (eh_parent_hash v),
      VBytes (eh_fee_recipient v),
      VB256 (eh_state_root v),
      VB256 (eh_receipts_root v),
      VBytes (eh_logs_bloom v),
      VB256 (eh_prev_randao v),
      VU64 (eh_block_number v),
      VU64 (eh_gas_limit v),
      VU64 (eh_gas_used v),
      VU64 (eh_timestamp v),
      VByteList 32 (eh_extra_data v),
      VU256 (eh_base_fee_per_gas v),
      VB256 (eh_block_hash v),
      VB256 (eh_transactions_root v)]"

definition payload_header_capella_fields :: "'a ExecutionPayloadHeaderCapella_scheme \<Rightarrow> ssz_value list" where
  "payload_header_capella_fields v = payload_header_bellatrix_fields v @ [VB256 (eh_withdrawals_root v)]"

definition payload_header_deneb_fields :: "'a ExecutionPayloadHeaderDeneb_scheme \<Rightarrow> ssz_value list" where
  "payload_header_deneb_fields v = payload_header_capella_fields v @ [VU64 (eh_blob_gas_used v), VU64 (eh_excess_blob_gas v)]"

datatype ExecutionPayloadHeader =
    PayloadHeader_Bellatrix ExecutionPayloadHeaderBellatrix
  | PayloadHeader_Capella ExecutionPayloadHeaderCapella
  | PayloadHeader_Deneb ExecutionPayloadHeaderDeneb
  | PayloadHeader_Electra ExecutionPayloadHeaderElectra

text \<open>\<open>Withdrawal\<close> of \<open>alloy\<close> has the same fields.\<close>

record AlloyWithdrawal =
  aw_index :: u64
  aw_validator_index :: u64
  aw_address :: address
  aw_amount :: u64

definition alloy_withdrawal_from :: "Withdrawal \<Rightarrow> AlloyWithdrawal" where
  "alloy_withdrawal_from w =
     \<lparr>aw_index = wd_index w, aw_validator_index = wd_validator_index w,
      aw_address = wd_address w, aw_amount = wd_amount w\<rparr>"

subsection \<open>Block bodies\<close>

text \<open>
  The variants share the record up to the execution payload; its type and the type of the
  attestations depend on the variant.
\<close>

record ('a, 'p) BodyBellatrix =
  bd_randao_reveal :: BlsSignature
  bd_eth1_data :: Eth1Data
  bd_graffiti :: b256
  bd_proposer_slashings :: "ProposerSlashing list"
  bd_attester_slashings :: "AttesterSlashing list"
  bd_attestations :: "'a list"
  bd_deposits :: "Deposit list"
  bd_voluntary_exits :: "SignedVoluntaryExit list"
  bd_sync_aggregate :: SyncAggregate
  bd_execution_payload :: "'p"

record ('a, 'p) BodyCapella = "('a, 'p) BodyBellatrix" +
  bd_bls_to_execution_changes :: "SignedBLSToExecutionChange list"

record ('a, 'p) BodyDeneb = "('a, 'p) BodyCapella" +
  bd_blob_kzg_commitments :: "KzgCommitment list"

record ('a, 'p) BodyElectra = "('a, 'p) BodyDeneb" +
  bd_execution_requests :: ExecutionRequests

type_synonym BeaconBlockBodyBellatrix = "(AttestationBase, ExecutionPayloadBellatrix) BodyBellatrix"
type_synonym BeaconBlockBodyCapella = "(AttestationBase, ExecutionPayloadCapella) BodyCapella"
type_synonym BeaconBlockBodyDeneb = "(AttestationBase, ExecutionPayloadDeneb) BodyDeneb"
type_synonym BeaconBlockBodyElectra = "(AttestationElectra, ExecutionPayloadElectra) BodyElectra"

datatype BeaconBlockBody =
    Body_Bellatrix BeaconBlockBodyBellatrix
  | Body_Capella BeaconBlockBodyCapella
  | Body_Deneb BeaconBlockBodyDeneb
  | Body_Electra BeaconBlockBodyElectra

definition body_bellatrix_fields :: "BeaconBlockBodyBellatrix \<Rightarrow> ssz_value list" where
  "body_bellatrix_fields v =
     [signature_value (bd_randao_reveal v),
      eth1_data_value (bd_eth1_data v),
      VB256 (bd_graffiti v),
      VList 16 (map proposer_slashing_value (bd_proposer_slashings v)),
      VList 2 (map (attester_slashing_value 2048) (bd_attester_slashings v)),
      VList 128 (map attestation_base_value (bd_attestations v)),
      VList 16 (map deposit_value (bd_deposits v)),
      VList 16 (map signed_voluntary_exit_value (bd_voluntary_exits v)),
      sync_aggregate_value (bd_sync_aggregate v),
      VContainer (payload_bellatrix_fields (bd_execution_payload v))]"

definition body_capella_fields :: "BeaconBlockBodyCapella \<Rightarrow> ssz_value list" where
  "body_capella_fields v =
     [signature_value (bd_randao_reveal v),
      eth1_data_value (bd_eth1_data v),
      VB256 (bd_graffiti v),
      VList 16 (map proposer_slashing_value (bd_proposer_slashings v)),
      VList 2 (map (attester_slashing_value 2048) (bd_attester_slashings v)),
      VList 128 (map attestation_base_value (bd_attestations v)),
      VList 16 (map deposit_value (bd_deposits v)),
      VList 16 (map signed_voluntary_exit_value (bd_voluntary_exits v)),
      sync_aggregate_value (bd_sync_aggregate v),
      VContainer (payload_capella_fields (bd_execution_payload v)),
      VList 16 (map signed_bls_change_value (bd_bls_to_execution_changes v))]"

definition body_deneb_fields :: "BeaconBlockBodyDeneb \<Rightarrow> ssz_value list" where
  "body_deneb_fields v =
     [signature_value (bd_randao_reveal v),
      eth1_data_value (bd_eth1_data v),
      VB256 (bd_graffiti v),
      VList 16 (map proposer_slashing_value (bd_proposer_slashings v)),
      VList 2 (map (attester_slashing_value 2048) (bd_attester_slashings v)),
      VList 128 (map attestation_base_value (bd_attestations v)),
      VList 16 (map deposit_value (bd_deposits v)),
      VList 16 (map signed_voluntary_exit_value (bd_voluntary_exits v)),
      sync_aggregate_value (bd_sync_aggregate v),
      VContainer (payload_deneb_fields (bd_execution_payload v)),
      VList 16 (map signed_bls_change_value (bd_bls_to_execution_changes v)),
      VList 4096 (map commitment_value (bd_blob_kzg_commitments v))]"

definition body_electra_fields :: "BeaconBlockBodyElectra \<Rightarrow> ssz_value list" where
  "body_electra_fields v =
     [signature_value (bd_randao_reveal v),
      eth1_data_value (bd_eth1_data v),
      VB256 (bd_graffiti v),
      VList 16 (map proposer_slashing_value (bd_proposer_slashings v)),
      VList 1 (map (attester_slashing_value 131072) (bd_attester_slashings v)),
      VList 8 (map attestation_electra_value (bd_attestations v)),
      VList 16 (map deposit_value (bd_deposits v)),
      VList 16 (map signed_voluntary_exit_value (bd_voluntary_exits v)),
      sync_aggregate_value (bd_sync_aggregate v),
      VContainer (payload_deneb_fields (bd_execution_payload v)),
      VList 16 (map signed_bls_change_value (bd_bls_to_execution_changes v)),
      VList 4096 (map commitment_value (bd_blob_kzg_commitments v)),
      execution_requests_value (bd_execution_requests v)]"

subsection \<open>Blocks\<close>

record 'b BeaconBlockOf =
  bb_slot :: u64
  bb_proposer_index :: u64
  bb_parent_root :: b256
  bb_state_root :: b256
  bb_body :: 'b

type_synonym BeaconBlockBellatrix = "BeaconBlockBodyBellatrix BeaconBlockOf"
type_synonym BeaconBlockCapella = "BeaconBlockBodyCapella BeaconBlockOf"
type_synonym BeaconBlockDeneb = "BeaconBlockBodyDeneb BeaconBlockOf"
type_synonym BeaconBlockElectra = "BeaconBlockBodyElectra BeaconBlockOf"

datatype BeaconBlock =
    Block_Bellatrix BeaconBlockBellatrix
  | Block_Capella BeaconBlockCapella
  | Block_Deneb BeaconBlockDeneb
  | Block_Electra BeaconBlockElectra

text \<open>The fields of a block whose body has the given fields.\<close>

definition block_fields :: "('b \<Rightarrow> ssz_value list) \<Rightarrow> 'b BeaconBlockOf \<Rightarrow> ssz_value list" where
  "block_fields body_fields v =
     [VU64 (bb_slot v), VU64 (bb_proposer_index v), VB256 (bb_parent_root v),
      VB256 (bb_state_root v), VContainer (body_fields (bb_body v))]"

record 'm SignedBeaconBlockOf =
  sb_message :: 'm
  sb_signature :: BlsSignature

datatype SignedBeaconBlock =
    Signed_Bellatrix "BeaconBlockBellatrix SignedBeaconBlockOf"
  | Signed_Capella "BeaconBlockCapella SignedBeaconBlockOf"
  | Signed_Deneb "BeaconBlockDeneb SignedBeaconBlockOf"
  | Signed_Electra "BeaconBlockElectra SignedBeaconBlockOf"

fun from_block :: "BeaconBlock \<Rightarrow> BlsSignature \<Rightarrow> SignedBeaconBlock" where
  "from_block (Block_Bellatrix m) s = Signed_Bellatrix \<lparr>sb_message = m, sb_signature = s\<rparr>"
| "from_block (Block_Capella m) s = Signed_Capella \<lparr>sb_message = m, sb_signature = s\<rparr>"
| "from_block (Block_Deneb m) s = Signed_Deneb \<lparr>sb_message = m, sb_signature = s\<rparr>"
| "from_block (Block_Electra m) s = Signed_Electra \<lparr>sb_message = m, sb_signature = s\<rparr>"

fun signed_block_slot :: "SignedBeaconBlock \<Rightarrow> u64" where
  "signed_block_slot (Signed_Bellatrix b) = bb_slot (sb_message b)"
| "signed_block_slot (Signed_Capella b) = bb_slot (sb_message b)"
| "signed_block_slot (Signed_Deneb b) = bb_slot (sb_message b)"
| "signed_block_slot (Signed_Electra b) = bb_slot (sb_message b)"

fun execution_block_number :: "SignedBeaconBlock \<Rightarrow> u64" where
  "execution_block_number (Signed_Bellatrix b) =
     ep_block_number (bd_execution_payload (bb_body (sb_message b)))"
| "execution_block_number (Signed_Capella b) =
     ep_block_number (bd_execution_payload (bb_body (sb_message b)))"
| "execution_block_number (Signed_Deneb b) =
     ep_block_number (bd_execution_payload (bb_body (sb_message b)))"
| "execution_block_number (Signed_Electra b) =
     ep_block_number (bd_execution_payload (bb_body (sb_message b)))"

subsection \<open>The beacon state\<close>

record Fork =
  fk_previous_version :: bytes
  fk_current_version :: bytes
  fk_epoch :: Epoch

definition fork_value :: "Fork \<Rightarrow> ssz_value" where
  "fork_value v = VContainer
     [VBytes (fk_previous_version v),
      VBytes (fk_current_version v),
      VEpoch (fk_epoch v)]"

record Validator =
  vl_pubkey :: PubKey
  vl_withdrawal_credentials :: b256
  vl_effective_balance :: u64
  vl_slashed :: bool
  vl_activation_eligibility_epoch :: Epoch
  vl_activation_epoch :: Epoch
  vl_exit_epoch :: Epoch
  vl_withdrawable_epoch :: Epoch

definition validator_value :: "Validator \<Rightarrow> ssz_value" where
  "validator_value v = VContainer
     [pubkey_value (vl_pubkey v),
      VB256 (vl_withdrawal_credentials v),
      VU64 (vl_effective_balance v),
      VBool (vl_slashed v),
      VEpoch (vl_activation_eligibility_epoch v),
      VEpoch (vl_activation_epoch v),
      VEpoch (vl_exit_epoch v),
      VEpoch (vl_withdrawable_epoch v)]"

record SyncCommittee =
  sc_pubkeys :: "PubKey list"
  sc_aggregate_pubkey :: PubKey

definition sync_committee_value :: "SyncCommittee \<Rightarrow> ssz_value" where
  "sync_committee_value v = VContainer
     [VVector (map pubkey_value (sc_pubkeys v)),
      pubkey_value (sc_aggregate_pubkey v)]"

definition sync_committee_default :: SyncCommittee where
  "sync_committee_default =
     \<lparr>sc_pubkeys = replicate 512 pubkey_default, sc_aggregate_pubkey = pubkey_default\<rparr>"

record PendingDeposit =
  pd_pubkey :: PubKey
  pd_withdrawal_credentials :: b256
  pd_amount :: u64
  pd_signature :: BlsSignature
  pd_slot :: u64

definition pending_deposit_value :: "PendingDeposit \<Rightarrow> ssz_value" where
  "pending_deposit_value v = VContainer
     [pubkey_value (pd_pubkey v),
      VB256 (pd_withdrawal_credentials v),
      VU64 (pd_amount v),
      signature_value (pd_signature v),
      VU64 (pd_slot v)]"

record PendingPartialWithdrawal =
  pw_validator_index :: u64
  pw_amount :: u64
  pw_withdrawable_epoch :: Epoch

definition pending_withdrawal_value :: "PendingPartialWithdrawal \<Rightarrow> ssz_value" where
  "pending_withdrawal_value v = VContainer
     [VU64 (pw_validator_index v),
      VU64 (pw_amount v),
      VEpoch (pw_withdrawable_epoch v)]"

record PendingConsolidation =
  pc_source_index :: u64
  pc_target_index :: u64

definition pending_consolidation_value :: "PendingConsolidation \<Rightarrow> ssz_value" where
  "pending_consolidation_value v = VContainer
     [VU64 (pc_source_index v),
      VU64 (pc_target_index v)]"

record 'h StateBellatrix =
  bs_genesis_time :: u64
  bs_genesis_validators_root :: b256
  bs_slot :: u64
  bs_fork :: Fork
  bs_latest_block_header :: BeaconBlockHeader
  bs_block_roots :: "b256 list"
  bs_state_roots :: "b256 list"
  bs_historical_roots :: "b256 list"
  bs_eth1_data :: Eth1Data
  bs_eth1_data_votes :: "Eth1Data list"
  bs_eth1_deposit_index :: u64
  bs_validators :: "Validator list"
  bs_balances :: "u64 list"
  bs_randao_mixes :: "b256 list"
  bs_slashings :: "u64 list"
  bs_previous_epoch_participation :: "ParticipationFlags list"
  bs_current_epoch_participation :: "ParticipationFlags list"
  bs_justification_bits :: "bool list"
  bs_previous_justified_checkpoint :: Checkpoint
  bs_current_justified_checkpoint :: Checkpoint
  bs_finalized_checkpoint :: Checkpoint
  bs_inactivity_scores :: "u64 list"
  bs_current_sync_committee :: SyncCommittee
  bs_next_sync_committee :: SyncCommittee
  bs_latest_execution_payload_header :: "'h"

record 'h StateCapella = "'h StateBellatrix" +
  bs_next_withdrawal_index :: u64
  bs_next_withdrawal_validator_index :: u64
  bs_historical_summaries :: HistoricalSummaries

record 'h StateElectra = "'h StateCapella" +
  bs_deposit_requests_start_index :: u64
  bs_deposit_balance_to_consume :: u64
  bs_exit_balance_to_consume :: u64
  bs_earliest_exit_epoch :: Epoch
  bs_consolidation_balance_to_consume :: u64
  bs_earliest_consolidation_epoch :: Epoch
  bs_pending_deposits :: "PendingDeposit list"
  bs_pending_partial_withdrawals :: "PendingPartialWithdrawal list"
  bs_pending_consolidations :: "PendingConsolidation list"

type_synonym BeaconStateBellatrix = "ExecutionPayloadHeaderBellatrix StateBellatrix"
type_synonym BeaconStateCapella = "ExecutionPayloadHeaderCapella StateCapella"
type_synonym BeaconStateDeneb = "ExecutionPayloadHeaderDeneb StateCapella"
type_synonym BeaconStateElectra = "ExecutionPayloadHeaderElectra StateElectra"

datatype BeaconState =
    State_Bellatrix BeaconStateBellatrix
  | State_Capella BeaconStateCapella
  | State_Deneb BeaconStateDeneb
  | State_Electra BeaconStateElectra

definition state_bellatrix_fields ::
  "('h \<Rightarrow> ssz_value list) \<Rightarrow> ('h, 'a) StateBellatrix_scheme \<Rightarrow> ssz_value list" where
  "state_bellatrix_fields header_fields v =
     [VU64 (bs_genesis_time v),
      VB256 (bs_genesis_validators_root v),
      VU64 (bs_slot v),
      fork_value (bs_fork v),
      block_header_value (bs_latest_block_header v),
      roots_value (bs_block_roots v),
      roots_value (bs_state_roots v),
      historical_roots_value (bs_historical_roots v),
      eth1_data_value (bs_eth1_data v),
      VList 2048 (map eth1_data_value (bs_eth1_data_votes v)),
      VU64 (bs_eth1_deposit_index v),
      VList 1099511627776 (map validator_value (bs_validators v)),
      VList 1099511627776 (map VU64 (bs_balances v)),
      roots_value (bs_randao_mixes v),
      VVector (map VU64 (bs_slashings v)),
      VList 1099511627776 (map flags_value (bs_previous_epoch_participation v)),
      VList 1099511627776 (map flags_value (bs_current_epoch_participation v)),
      VBitVector (bs_justification_bits v),
      checkpoint_value (bs_previous_justified_checkpoint v),
      checkpoint_value (bs_current_justified_checkpoint v),
      checkpoint_value (bs_finalized_checkpoint v),
      VList 1099511627776 (map VU64 (bs_inactivity_scores v)),
      sync_committee_value (bs_current_sync_committee v),
      sync_committee_value (bs_next_sync_committee v),
      VContainer (header_fields (bs_latest_execution_payload_header v))]"

definition state_capella_fields ::
  "('h \<Rightarrow> ssz_value list) \<Rightarrow> ('h, 'a) StateCapella_scheme \<Rightarrow> ssz_value list" where
  "state_capella_fields header_fields v = state_bellatrix_fields header_fields v @
     [VU64 (bs_next_withdrawal_index v),
      VU64 (bs_next_withdrawal_validator_index v),
      summaries_value (bs_historical_summaries v)]"

definition state_electra_fields ::
  "('h \<Rightarrow> ssz_value list) \<Rightarrow> ('h, 'a) StateElectra_scheme \<Rightarrow> ssz_value list" where
  "state_electra_fields header_fields v = state_capella_fields header_fields v @
     [VU64 (bs_deposit_requests_start_index v),
      VU64 (bs_deposit_balance_to_consume v),
      VU64 (bs_exit_balance_to_consume v),
      VEpoch (bs_earliest_exit_epoch v),
      VU64 (bs_consolidation_balance_to_consume v),
      VEpoch (bs_earliest_consolidation_epoch v),
      VList 134217728 (map pending_deposit_value (bs_pending_deposits v)),
      VList 134217728 (map pending_withdrawal_value (bs_pending_partial_withdrawals v)),
      VList 262144 (map pending_consolidation_value (bs_pending_consolidations v))]"

text \<open>The getters that \<open>superstruct\<close> generates for the common fields.\<close>

fun state_block_roots :: "BeaconState \<Rightarrow> b256 list" where
  "state_block_roots (State_Bellatrix s) = bs_block_roots s"
| "state_block_roots (State_Capella s) = bs_block_roots s"
| "state_block_roots (State_Deneb s) = bs_block_roots s"
| "state_block_roots (State_Electra s) = bs_block_roots s"

fun state_state_roots :: "BeaconState \<Rightarrow> b256 list" where
  "state_state_roots (State_Bellatrix s) = bs_state_roots s"
| "state_state_roots (State_Capella s) = bs_state_roots s"
| "state_state_roots (State_Deneb s) = bs_state_roots s"
| "state_state_roots (State_Electra s) = bs_state_roots s"

record HistoricalBatch =
  hb_block_roots :: "b256 list"
  hb_state_roots :: "b256 list"

definition historical_batch_value :: "HistoricalBatch \<Rightarrow> ssz_value" where
  "historical_batch_value v =
     VContainer [roots_value (hb_block_roots v), roots_value (hb_state_roots v)]"

end
