(* ===== verification/Consensus_Proofs.thy ===== *)
theory Consensus_Proofs
  imports Consensus_Types Validator_Properties Hist_Errors
begin

text \<open>
  The construction of post-merge proofs: the branches built from a payload, a body, a block, a
  state and a historical batch (\<open>src/portal_types/consensus/{execution_payload,body,beacon_block,
  beacon_state}.rs\<close>) and the four builders of \<open>src/portal_types/execution/header_with_proof.rs\<close>.
\<close>

subsection \<open>The rules of the tree hash\<close>

text \<open>
  SSZ: the root of 32 bytes is the value; the root of a container is the root of the smallest tree
  over the roots of its fields, of a vector of roots the root of the smallest tree over them; the
  root of an epoch is what \<open>impl TreeHash for Epoch\<close> computes.
\<close>

definition tree_hash_ok :: "hashing \<Rightarrow> tree_hash \<Rightarrow> bool" where
  "tree_hash_ok H T \<longleftrightarrow>
     (\<forall>v. length (T v) = 32) \<and>
     (\<forall>b. is_b256 b \<longrightarrow> T (VB256 b) = b) \<and>
     (\<forall>e. epoch_tree_hash_root e = (Ok (T (VEpoch e)) :: (b256, unit) res)) \<and>
     (\<forall>fs. fs \<noteq> [] \<longrightarrow> T (VContainer fs) = root_of H (log2_ceil (length fs)) (map T fs)) \<and>
     (\<forall>vs. vs \<noteq> [] \<longrightarrow> (\<forall>b \<in> set vs. is_b256 b) \<longrightarrow>
        T (roots_value vs) = root_of H (log2_ceil (length vs)) vs)"

lemma tree_hash_okD:
  assumes "tree_hash_ok H T"
  shows "length (T v) = 32"
    and "is_b256 b \<Longrightarrow> T (VB256 b) = b"
    and "fs \<noteq> [] \<Longrightarrow> T (VContainer fs) = root_of H (log2_ceil (length fs)) (map T fs)"
    and "vs \<noteq> [] \<Longrightarrow> \<forall>b \<in> set vs. is_b256 b \<Longrightarrow>
      T (roots_value vs) = root_of H (log2_ceil (length vs)) vs"
  using assms by (simp_all add: tree_hash_ok_def)

subsection \<open>Branches\<close>

text \<open>Every function lists its leaves itself; that they are the fields of the container is a lemma below.\<close>

definition build_block_hash_proof_bellatrix ::
  "hashing \<Rightarrow> tree_hash \<Rightarrow> ExecutionPayloadBellatrix \<Rightarrow> b256 list" where
  "build_block_hash_proof_bellatrix H T self =
     build_merkle_proof_for_index H
     [T (VB256 (ep_parent_hash self)),
      T (VBytes (ep_fee_recipient self)),
      T (VB256 (ep_state_root self)),
      T (VB256 (ep_receipts_root self)),
      T (VBytes (ep_logs_bloom self)),
      T (VB256 (ep_prev_randao self)),
      T (VU64 (ep_block_number self)),
      T (VU64 (ep_gas_limit self)),
      T (VU64 (ep_gas_used self)),
      T (VU64 (ep_timestamp self)),
      T (VByteList 32 (ep_extra_data self)),
      T (VU256 (ep_base_fee_per_gas self)),
      T (VB256 (ep_block_hash self)),
      T (VList 1048576 (map (VByteList 1073741824) (ep_transactions self)))] 12"

definition build_block_hash_proof_capella ::
  "hashing \<Rightarrow> tree_hash \<Rightarrow> ExecutionPayloadCapella \<Rightarrow> b256 list" where
  "build_block_hash_proof_capella H T self =
     build_merkle_proof_for_index H
     [T (VB256 (ep_parent_hash self)),
      T (VBytes (ep_fee_recipient self)),
      T (VB256 (ep_state_root self)),
      T (VB256 (ep_receipts_root self)),
      T (VBytes (ep_logs_bloom self)),
      T (VB256 (ep_prev_randao self)),
      T (VU64 (ep_block_number self)),
      T (VU64 (ep_gas_limit self)),
      T (VU64 (ep_gas_used self)),
      T (VU64 (ep_timestamp self)),
      T (VByteList 32 (ep_extra_data self)),
      T (VU256 (ep_base_fee_per_gas self)),
      T (VB256 (ep_block_hash self)),
      T (VList 1048576 (map (VByteList 1073741824) (ep_transactions self))),
      T (VList 16 (map withdrawal_value (ep_withdrawals self)))] 12"

definition build_block_hash_proof_deneb ::
  "hashing \<Rightarrow> tree_hash \<Rightarrow> ExecutionPayloadDeneb \<Rightarrow> b256 list" where
  "build_block_hash_proof_deneb H T self =
     build_merkle_proof_for_index H
     [T (VB256 (ep_parent_hash self)),
      T (VBytes (ep_fee_recipient self)),
      T (VB256 (ep_state_root self)),
      T (VB256 (ep_receipts_root self)),
      T (VBytes (ep_logs_bloom self)),
      T (VB256 (ep_prev_randao self)),
      T (VU64 (ep_block_number self)),
      T (VU64 (ep_gas_limit self)),
      T (VU64 (ep_gas_used self)),
      T (VU64 (ep_timestamp self)),
      T (VByteList 32 (ep_extra_data self)),
      T (VU256 (ep_base_fee_per_gas self)),
      T (VB256 (ep_block_hash self)),
      T (VList 1048576 (map (VByteList 1073741824) (ep_transactions self))),
      T (VList 16 (map withdrawal_value (ep_withdrawals self))),
      T (VU64 (ep_blob_gas_used self)),
      T (VU64 (ep_excess_blob_gas self))] 12"

definition build_block_hash_proof_electra ::
  "hashing \<Rightarrow> tree_hash \<Rightarrow> ExecutionPayloadElectra \<Rightarrow> b256 list" where
  "build_block_hash_proof_electra H T self =
     build_merkle_proof_for_index H
     [T (VB256 (ep_parent_hash self)),
      T (VBytes (ep_fee_recipient self)),
      T (VB256 (ep_state_root self)),
      T (VB256 (ep_receipts_root self)),
      T (VBytes (ep_logs_bloom self)),
      T (VB256 (ep_prev_randao self)),
      T (VU64 (ep_block_number self)),
      T (VU64 (ep_gas_limit self)),
      T (VU64 (ep_gas_used self)),
      T (VU64 (ep_timestamp self)),
      T (VByteList 32 (ep_extra_data self)),
      T (VU256 (ep_base_fee_per_gas self)),
      T (VB256 (ep_block_hash self)),
      T (VList 1048576 (map (VByteList 1073741824) (ep_transactions self))),
      T (VList 16 (map withdrawal_value (ep_withdrawals self))),
      T (VU64 (ep_blob_gas_used self)),
      T (VU64 (ep_excess_blob_gas self))] 12"

definition build_execution_payload_proof_bellatrix ::
  "hashing \<Rightarrow> tree_hash \<Rightarrow> BeaconBlockBodyBellatrix \<Rightarrow> b256 list" where
  "build_execution_payload_proof_bellatrix H T self =
     build_merkle_proof_for_index H
     [T (signature_value (bd_randao_reveal self)),
      T (eth1_data_value (bd_eth1_data self)),
      T (VB256 (bd_graffiti self)),
      T (VList 16 (map proposer_slashing_value (bd_proposer_slashings self))),
      T (VList 2 (map (attester_slashing_value 2048) (bd_attester_slashings self))),
      T (VList 128 (map attestation_base_value (bd_attestations self))),
      T (VList 16 (map deposit_value (bd_deposits self))),
      T (VList 16 (map signed_voluntary_exit_value (bd_voluntary_exits self))),
      T (sync_aggregate_value (bd_sync_aggregate self)),
      T (VContainer (payload_bellatrix_fields (bd_execution_payload self)))] 9"

definition build_execution_payload_proof_capella ::
  "hashing \<Rightarrow> tree_hash \<Rightarrow> BeaconBlockBodyCapella \<Rightarrow> b256 list" where
  "build_execution_payload_proof_capella H T self =
     build_merkle_proof_for_index H
     [T (signature_value (bd_randao_reveal self)),
      T (eth1_data_value (bd_eth1_data self)),
      T (VB256 (bd_graffiti self)),
      T (VList 16 (map proposer_slashing_value (bd_proposer_slashings self))),
      T (VList 2 (map (attester_slashing_value 2048) (bd_attester_slashings self))),
      T (VList 128 (map attestation_base_value (bd_attestations self))),
      T (VList 16 (map deposit_value (bd_deposits self))),
      T (VList 16 (map signed_voluntary_exit_value (bd_voluntary_exits self))),
      T (sync_aggregate_value (bd_sync_aggregate self)),
      T (VContainer (payload_capella_fields (bd_execution_payload self))),
      T (VList 16 (map signed_bls_change_value (bd_bls_to_execution_changes self)))] 9"

definition build_execution_payload_proof_deneb ::
  "hashing \<Rightarrow> tree_hash \<Rightarrow> BeaconBlockBodyDeneb \<Rightarrow> b256 list" where
  "build_execution_payload_proof_deneb H T self =
     build_merkle_proof_for_index H
     [T (signature_value (bd_randao_reveal self)),
      T (eth1_data_value (bd_eth1_data self)),
      T (VB256 (bd_graffiti self)),
      T (VList 16 (map proposer_slashing_value (bd_proposer_slashings self))),
      T (VList 2 (map (attester_slashing_value 2048) (bd_attester_slashings self))),
      T (VList 128 (map attestation_base_value (bd_attestations self))),
      T (VList 16 (map deposit_value (bd_deposits self))),
      T (VList 16 (map signed_voluntary_exit_value (bd_voluntary_exits self))),
      T (sync_aggregate_value (bd_sync_aggregate self)),
      T (VContainer (payload_deneb_fields (bd_execution_payload self))),
      T (VList 16 (map signed_bls_change_value (bd_bls_to_execution_changes self))),
      T (VList 4096 (map commitment_value (bd_blob_kzg_commitments self)))] 9"

definition build_execution_payload_proof_electra ::
  "hashing \<Rightarrow> tree_hash \<Rightarrow> BeaconBlockBodyElectra \<Rightarrow> b256 list" where
  "build_execution_payload_proof_electra H T self =
     build_merkle_proof_for_index H
     [T (signature_value (bd_randao_reveal self)),
      T (eth1_data_value (bd_eth1_data self)),
      T (VB256 (bd_graffiti self)),
      T (VList 16 (map proposer_slashing_value (bd_proposer_slashings self))),
      T (VList 1 (map (attester_slashing_value 131072) (bd_attester_slashings self))),
      T (VList 8 (map attestation_electra_value (bd_attestations self))),
      T (VList 16 (map deposit_value (bd_deposits self))),
      T (VList 16 (map signed_voluntary_exit_value (bd_voluntary_exits self))),
      T (sync_aggregate_value (bd_sync_aggregate self)),
      T (VContainer (payload_deneb_fields (bd_execution_payload self))),
      T (VList 16 (map signed_bls_change_value (bd_bls_to_execution_changes self))),
      T (VList 4096 (map commitment_value (bd_blob_kzg_commitments self))),
      T (execution_requests_value (bd_execution_requests self))] 9"

text \<open>The four copies of \<open>build_body_root_proof\<close> differ in the type of the body only.\<close>

definition build_body_root_proof ::
  "hashing \<Rightarrow> tree_hash \<Rightarrow> ('b \<Rightarrow> ssz_value list) \<Rightarrow> 'b BeaconBlockOf \<Rightarrow> b256 list" where
  "build_body_root_proof H T body_fields self =
     build_merkle_proof_for_index H
     [T (VU64 (bb_slot self)),
      T (VU64 (bb_proposer_index self)),
      T (VB256 (bb_parent_root self)),
      T (VB256 (bb_state_root self)),
      T (VContainer (body_fields (bb_body self)))] 4"

definition build_execution_block_hash_proof_bellatrix ::
  "hashing \<Rightarrow> tree_hash \<Rightarrow> BeaconBlockBellatrix \<Rightarrow> b256 list" where
  "build_execution_block_hash_proof_bellatrix H T b =
     build_block_hash_proof_bellatrix H T (bd_execution_payload (bb_body b))
       @ build_execution_payload_proof_bellatrix H T (bb_body b)
       @ build_body_root_proof H T body_bellatrix_fields b"

definition build_execution_block_hash_proof_capella ::
  "hashing \<Rightarrow> tree_hash \<Rightarrow> BeaconBlockCapella \<Rightarrow> b256 list" where
  "build_execution_block_hash_proof_capella H T b =
     build_block_hash_proof_capella H T (bd_execution_payload (bb_body b))
       @ build_execution_payload_proof_capella H T (bb_body b)
       @ build_body_root_proof H T body_capella_fields b"

definition build_execution_block_hash_proof_deneb ::
  "hashing \<Rightarrow> tree_hash \<Rightarrow> BeaconBlockDeneb \<Rightarrow> b256 list" where
  "build_execution_block_hash_proof_deneb H T b =
     build_block_hash_proof_deneb H T (bd_execution_payload (bb_body b))
       @ build_execution_payload_proof_deneb H T (bb_body b)
       @ build_body_root_proof H T body_deneb_fields b"

definition build_execution_block_hash_proof_electra ::
  "hashing \<Rightarrow> tree_hash \<Rightarrow> BeaconBlockElectra \<Rightarrow> b256 list" where
  "build_execution_block_hash_proof_electra H T b =
     build_block_hash_proof_electra H T (bd_execution_payload (bb_body b))
       @ build_execution_payload_proof_electra H T (bb_body b)
       @ build_body_root_proof H T body_electra_fields b"

definition build_block_root_proof ::
  "hashing \<Rightarrow> tree_hash \<Rightarrow> HistoricalBatch \<Rightarrow> nat \<Rightarrow> (b256 list, 'e) res" where
  "build_block_root_proof H T batch block_root_index =
     (let proof_hashes = build_merkle_proof_for_index H (hb_block_roots batch) block_root_index
            @ [T (roots_value (hb_state_roots batch))]
      in and_then (assert_eq ''assertion failed: proof_hashes.len() == 14'' (length proof_hashes) 14)
           (\<lambda>_. Ok proof_hashes))"

definition build_historical_summaries_proof_deneb ::
  "hashing \<Rightarrow> tree_hash \<Rightarrow> BeaconStateDeneb \<Rightarrow> b256 list" where
  "build_historical_summaries_proof_deneb H T self =
     build_merkle_proof_for_index H
     [T (VU64 (bs_genesis_time self)),
      T (VB256 (bs_genesis_validators_root self)),
      T (VU64 (bs_slot self)),
      T (fork_value (bs_fork self)),
      T (block_header_value (bs_latest_block_header self)),
      T (roots_value (bs_block_roots self)),
      T (roots_value (bs_state_roots self)),
      T (historical_roots_value (bs_historical_roots self)),
      T (eth1_data_value (bs_eth1_data self)),
      T (VList 2048 (map eth1_data_value (bs_eth1_data_votes self))),
      T (VU64 (bs_eth1_deposit_index self)),
      T (VList 1099511627776 (map validator_value (bs_validators self))),
      T (VList 1099511627776 (map VU64 (bs_balances self))),
      T (roots_value (bs_randao_mixes self)),
      T (VVector (map VU64 (bs_slashings self))),
      T (VList 1099511627776 (map flags_value (bs_previous_epoch_participation self))),
      T (VList 1099511627776 (map flags_value (bs_current_epoch_participation self))),
      T (VBitVector (bs_justification_bits self)),
      T (checkpoint_value (bs_previous_justified_checkpoint self)),
      T (checkpoint_value (bs_current_justified_checkpoint self)),
      T (checkpoint_value (bs_finalized_checkpoint self)),
      T (VList 1099511627776 (map VU64 (bs_inactivity_scores self))),
      T (sync_committee_value (bs_current_sync_committee self)),
      T (sync_committee_value (bs_next_sync_committee self)),
      T (VContainer (payload_header_deneb_fields (bs_latest_execution_payload_header self))),
      T (VU64 (bs_next_withdrawal_index self)),
      T (VU64 (bs_next_withdrawal_validator_index self)),
      T (summaries_value (bs_historical_summaries self))] 27"

text \<open>The generalized index of \<open>historical_summaries\<close> (\<open>historical_summaries.rs\<close>).\<close>

definition HISTORICAL_SUMMARIES_GINDEX :: nat where
  "HISTORICAL_SUMMARIES_GINDEX = 91"

text \<open>\<open>FixedVector::new(..).expect(..)\<close>.\<close>

definition fixed_vector_expect :: "nat \<Rightarrow> string \<Rightarrow> b256 list \<Rightarrow> (b256 list, 'e) res" where
  "fixed_vector_expect n m v = (if length v = n then Ok v else Panic m)"

definition build_historical_summaries_proof_electra ::
  "hashing \<Rightarrow> tree_hash \<Rightarrow> BeaconStateElectra \<Rightarrow> (b256 list, 'e) res" where
  "build_historical_summaries_proof_electra H T self =
     fixed_vector_expect 6
       ''Created historical summaries proof for Electra should have correct length''
     (build_merkle_proof_for_index H
     [T (VU64 (bs_genesis_time self)),
      T (VB256 (bs_genesis_validators_root self)),
      T (VU64 (bs_slot self)),
      T (fork_value (bs_fork self)),
      T (block_header_value (bs_latest_block_header self)),
      T (roots_value (bs_block_roots self)),
      T (roots_value (bs_state_roots self)),
      T (historical_roots_value (bs_historical_roots self)),
      T (eth1_data_value (bs_eth1_data self)),
      T (VList 2048 (map eth1_data_value (bs_eth1_data_votes self))),
      T (VU64 (bs_eth1_deposit_index self)),
      T (VList 1099511627776 (map validator_value (bs_validators self))),
      T (VList 1099511627776 (map VU64 (bs_balances self))),
      T (roots_value (bs_randao_mixes self)),
      T (VVector (map VU64 (bs_slashings self))),
      T (VList 1099511627776 (map flags_value (bs_previous_epoch_participation self))),
      T (VList 1099511627776 (map flags_value (bs_current_epoch_participation self))),
      T (VBitVector (bs_justification_bits self)),
      T (checkpoint_value (bs_previous_justified_checkpoint self)),
      T (checkpoint_value (bs_current_justified_checkpoint self)),
      T (checkpoint_value (bs_finalized_checkpoint self)),
      T (VList 1099511627776 (map VU64 (bs_inactivity_scores self))),
      T (sync_committee_value (bs_current_sync_committee self)),
      T (sync_committee_value (bs_next_sync_committee self)),
      T (VContainer (payload_header_deneb_fields (bs_latest_execution_payload_header self))),
      T (VU64 (bs_next_withdrawal_index self)),
      T (VU64 (bs_next_withdrawal_validator_index self)),
      T (summaries_value (bs_historical_summaries self)),
      T (VU64 (bs_deposit_requests_start_index self)),
      T (VU64 (bs_deposit_balance_to_consume self)),
      T (VU64 (bs_exit_balance_to_consume self)),
      T (VEpoch (bs_earliest_exit_epoch self)),
      T (VU64 (bs_consolidation_balance_to_consume self)),
      T (VEpoch (bs_earliest_consolidation_epoch self)),
      T (VList 134217728 (map pending_deposit_value (bs_pending_deposits self))),
      T (VList 134217728 (map pending_withdrawal_value (bs_pending_partial_withdrawals self))),
      T (VList 262144 (map pending_consolidation_value (bs_pending_consolidations self)))] 27)"

subsection \<open>Builders\<close>

definition build_historical_roots_proof ::
  "hashing \<Rightarrow> tree_hash \<Rightarrow> u64 \<Rightarrow> HistoricalBatch \<Rightarrow> BeaconBlockBellatrix
     \<Rightarrow> (BlockProofHistorical, 'e) res" where
  "build_historical_roots_proof H T sl historical_batch block =
     and_then (and_then (build_block_root_proof H T historical_batch
                 (unat (sl mod SLOTS_PER_HISTORICAL_ROOT)))
       (fixed_vector_expect 14 ''BeaconBlockProofHistoricalRoots is fixed-size 14''))
       (\<lambda>block_proof.
     and_then (fixed_vector_expect 11 ''ExecutionBlockProofBellatrix is fixed-size 11''
                 (build_execution_block_hash_proof_bellatrix H T block)) (\<lambda>exec_proof.
     Ok \<lparr>beacon_block_proof = block_proof,
         beacon_block_root = T (VContainer (block_fields body_bellatrix_fields block)),
         execution_block_proof = exec_proof, slot = sl\<rparr>))"

definition build_capella_historical_summaries_proof ::
  "hashing \<Rightarrow> tree_hash \<Rightarrow> u64 \<Rightarrow> b256 list \<Rightarrow> BeaconBlockCapella
     \<Rightarrow> (BlockProofHistorical, 'e) res" where
  "build_capella_historical_summaries_proof H T sl block_roots block =
     and_then (fixed_vector_expect 13 ''BeaconBlockProofHistoricalSummaries is fixed-size 13''
                 (build_merkle_proof_for_index H block_roots
                    (unat (sl mod SLOTS_PER_HISTORICAL_ROOT)))) (\<lambda>block_proof.
     and_then (fixed_vector_expect 11 ''ExecutionBlockProofBellatrix is fixed-size 11''
                 (build_execution_block_hash_proof_capella H T block)) (\<lambda>exec_proof.
     Ok \<lparr>beacon_block_proof = block_proof,
         beacon_block_root = T (VContainer (block_fields body_capella_fields block)),
         execution_block_proof = exec_proof, slot = sl\<rparr>))"

definition build_deneb_historical_summaries_proof ::
  "hashing \<Rightarrow> tree_hash \<Rightarrow> u64 \<Rightarrow> b256 list \<Rightarrow> BeaconBlockDeneb
     \<Rightarrow> (BlockProofHistorical, 'e) res" where
  "build_deneb_historical_summaries_proof H T sl block_roots block =
     and_then (fixed_vector_expect 13 ''BeaconBlockProofHistoricalSummaries is fixed-size 13''
                 (build_merkle_proof_for_index H block_roots
                    (unat (sl mod SLOTS_PER_HISTORICAL_ROOT)))) (\<lambda>block_proof.
     and_then (fixed_vector_expect 12 ''ExecutionBlockProofDeneb is fixed-size 12''
                 (build_execution_block_hash_proof_deneb H T block)) (\<lambda>exec_proof.
     Ok \<lparr>beacon_block_proof = block_proof,
         beacon_block_root = T (VContainer (block_fields body_deneb_fields block)),
         execution_block_proof = exec_proof, slot = sl\<rparr>))"

definition build_electra_historical_summaries_proof ::
  "hashing \<Rightarrow> tree_hash \<Rightarrow> u64 \<Rightarrow> b256 list \<Rightarrow> BeaconBlockElectra
     \<Rightarrow> (BlockProofHistorical, 'e) res" where
  "build_electra_historical_summaries_proof H T sl block_roots block =
     and_then (fixed_vector_expect 13 ''BeaconBlockProofHistoricalSummaries is fixed-size 13''
                 (build_merkle_proof_for_index H block_roots
                    (unat (sl mod SLOTS_PER_HISTORICAL_ROOT)))) (\<lambda>block_proof.
     and_then (fixed_vector_expect 12 ''ExecutionBlockProofDeneb is fixed-size 12''
                 (build_execution_block_hash_proof_electra H T block)) (\<lambda>exec_proof.
     Ok \<lparr>beacon_block_proof = block_proof,
         beacon_block_root = T (VContainer (block_fields body_electra_fields block)),
         execution_block_proof = exec_proof, slot = sl\<rparr>))"

subsection \<open>The leaves are the fields\<close>

lemma block_hash_leaves:
  "build_block_hash_proof_bellatrix H T p1
     = build_merkle_proof_for_index H (map T (payload_bellatrix_fields p1)) 12"
  "build_block_hash_proof_capella H T p2
     = build_merkle_proof_for_index H (map T (payload_capella_fields p2)) 12"
  "build_block_hash_proof_deneb H T p3
     = build_merkle_proof_for_index H (map T (payload_deneb_fields p3)) 12"
  "build_block_hash_proof_electra H T p3
     = build_merkle_proof_for_index H (map T (payload_deneb_fields p3)) 12"
  by (simp_all add: build_block_hash_proof_bellatrix_def build_block_hash_proof_capella_def
      build_block_hash_proof_deneb_def build_block_hash_proof_electra_def
      payload_deneb_fields_def payload_capella_fields_def payload_bellatrix_fields_def)

lemma execution_payload_leaves:
  "build_execution_payload_proof_bellatrix H T b1
     = build_merkle_proof_for_index H (map T (body_bellatrix_fields b1)) 9"
  "build_execution_payload_proof_capella H T b2
     = build_merkle_proof_for_index H (map T (body_capella_fields b2)) 9"
  "build_execution_payload_proof_deneb H T b3
     = build_merkle_proof_for_index H (map T (body_deneb_fields b3)) 9"
  "build_execution_payload_proof_electra H T b4
     = build_merkle_proof_for_index H (map T (body_electra_fields b4)) 9"
  by (simp_all add: build_execution_payload_proof_bellatrix_def body_bellatrix_fields_def
      build_execution_payload_proof_capella_def body_capella_fields_def
      build_execution_payload_proof_deneb_def body_deneb_fields_def
      build_execution_payload_proof_electra_def body_electra_fields_def)

lemma body_root_leaves:
  "build_body_root_proof H T bf b = build_merkle_proof_for_index H (map T (block_fields bf b)) 4"
  by (simp add: build_body_root_proof_def block_fields_def)

lemma historical_summaries_leaves:
  "build_historical_summaries_proof_deneb H T s1
     = build_merkle_proof_for_index H
         (map T (state_capella_fields payload_header_deneb_fields s1)) 27"
  "build_historical_summaries_proof_electra H T s2
     = fixed_vector_expect 6
         ''Created historical summaries proof for Electra should have correct length''
         (build_merkle_proof_for_index H
            (map T (state_electra_fields payload_header_deneb_fields s2)) 27)"
  by (simp_all only: build_historical_summaries_proof_deneb_def state_capella_fields_def
      build_historical_summaries_proof_electra_def state_electra_fields_def
      state_bellatrix_fields_def append.simps list.map)

lemmas all_leaves = block_hash_leaves execution_payload_leaves body_root_leaves
  historical_summaries_leaves

subsection \<open>Branches of containers\<close>

definition fits :: "'a list \<Rightarrow> nat \<Rightarrow> nat \<Rightarrow> bool" where
  "fits fs d i \<longleftrightarrow> 2 ^ d < 2 * length fs \<and> length fs \<le> 2 ^ d \<and> d \<le> 33 \<and> i < length fs"

lemma fits_fields:
  "fits (payload_bellatrix_fields p1) 4 12" "fits (payload_capella_fields p2) 4 12"
  "fits (payload_deneb_fields p3) 5 12"
  "fits (body_bellatrix_fields b1) 4 9" "fits (body_capella_fields b2) 4 9"
  "fits (body_deneb_fields b3) 4 9" "fits (body_electra_fields b4) 4 9"
  "fits (block_fields bf b) 3 4"
  "fits (state_capella_fields hf s1) 5 27" "fits (state_electra_fields hf s2) 6 27"
  by (simp_all add: fits_def payload_deneb_fields_def payload_capella_fields_def
      payload_bellatrix_fields_def body_bellatrix_fields_def body_capella_fields_def
      body_deneb_fields_def body_electra_fields_def block_fields_def state_capella_fields_def
      state_electra_fields_def state_bellatrix_fields_def)

lemma fits_log2_ceil: "fits fs d i \<Longrightarrow> log2_ceil (length fs) = d"
  using next_power_of_two_least [of d "length fs"]
  by (simp add: fits_def next_power_of_two_def)

lemma root_branch:
  assumes H: "hashing_ok H" and fits: "fits leaves d i" and b256: "\<forall>l \<in> set leaves. is_b256 l"
    and p: "p = build_merkle_proof_for_index H leaves i"
  shows "length p = d" and "\<forall>s \<in> set p. is_b256 s"
    and "g mod 2 ^ d = i \<Longrightarrow> climb (node_hash H) (leaves ! i) p g = root_of H d leaves"
proof -
  define w :: usize where "w = word_of_nat i"
  have "d \<le> 33" "i < 2 ^ d" using fits by (auto simp: fits_def)
  moreover have "(2 :: nat) ^ d \<le> 2 ^ 33" by (rule power_increasing) (use \<open>d \<le> 33\<close> in simp_all)
  ultimately have w: "unat w = i" by (simp add: w_def unat_of_nat)
  have prove: "rs_prove H leaves d w = Ok p" by (simp add: rs_prove_def w p)
  have admits: "2 ^ d < 2 * length leaves \<and> length leaves \<le> 2 ^ d \<and> d \<le> 33" "unat w < length leaves"
    using fits w by (simp_all add: fits_def)
  show "length p = d" by (rule rs_tree.prove_length [OF H admits prove])
  show "\<forall>s \<in> set p. is_b256 s" by (rule rs_tree.prove_b256 [OF H admits b256 prove])
  show "climb (node_hash H) (leaves ! i) p g = root_of H d leaves" if "g mod 2 ^ d = i"
    using rs_tree.prove_climb [OF H admits prove, of g] that w by simp
qed

lemma container_branch:
  assumes H: "hashing_ok H" and T: "tree_hash_ok H T" and fits: "fits fs d i"
    and p: "p = build_merkle_proof_for_index H (map T fs) i"
  shows "length p = d" and "\<forall>s \<in> set p. is_b256 s"
    and "g mod 2 ^ d = i \<Longrightarrow> climb (node_hash H) (T (fs ! i)) p g = T (VContainer fs)"
proof -
  have leaves: "fits (map T fs) d i" "\<forall>l \<in> set (map T fs). is_b256 l" "fs \<noteq> []" "i < length fs"
    using fits tree_hash_okD(1) [OF T] by (auto simp: fits_def)
  note branch = root_branch [OF H leaves(1,2) p]
  show "length p = d" "\<forall>s \<in> set p. is_b256 s" by (rule branch)+
  have "T (VContainer fs) = root_of H d (map T fs)"
    by (simp only: tree_hash_okD(3) [OF T leaves(3)] fits_log2_ceil [OF fits])
  then show "climb (node_hash H) (T (fs ! i)) p g = T (VContainer fs)" if "g mod 2 ^ d = i"
    using branch(3) [OF that] by (simp only: nth_map [OF leaves(4)])
qed

text \<open>Three containers, each a field of the next: the branches concatenate.\<close>

lemma three_containers:
  assumes H: "hashing_ok H" and T: "tree_hash_ok H T"
    and fits: "fits fs1 d1 i1" "fits fs2 d2 i2" "fits fs3 d3 i3"
    and nested: "fs2 ! i2 = VContainer fs1" "fs3 ! i3 = VContainer fs2"
    and g: "g mod 2 ^ d1 = i1" "g div 2 ^ d1 mod 2 ^ d2 = i2" "g div 2 ^ d1 div 2 ^ d2 mod 2 ^ d3 = i3"
    and p: "p = build_merkle_proof_for_index H (map T fs1) i1
      @ build_merkle_proof_for_index H (map T fs2) i2 @ build_merkle_proof_for_index H (map T fs3) i3"
  shows "fixed_vector_wf (d1 + d2 + d3) p"
    and "climb (node_hash H) (T (fs1 ! i1)) p g = T (VContainer fs3)"
proof -
  note b1 = container_branch [OF H T fits(1) refl]
  note b2 = container_branch [OF H T fits(2) refl]
  note b3 = container_branch [OF H T fits(3) refl]
  show "fixed_vector_wf (d1 + d2 + d3) p"
    by (simp only: p fixed_vector_wf_def length_append set_append ball_Un b1(1) b2(1) b3(1)
        add.assoc simp_thms) (intro conjI b1(2) b2(2) b3(2))
  show "climb (node_hash H) (T (fs1 ! i1)) p g = T (VContainer fs3)"
    using b1(3) [OF g(1)] b2(3) [OF g(2)] b3(3) [OF g(3)]
    by (simp only: p climb_append b1(1) b2(1) nested)
qed

subsection \<open>The execution branches\<close>

lemma payload_nth:
  "payload_bellatrix_fields p1 ! 12 = VB256 (ep_block_hash p1)"
  "payload_capella_fields p2 ! 12 = VB256 (ep_block_hash p2)"
  "payload_deneb_fields p3 ! 12 = VB256 (ep_block_hash p3)"
  by (simp_all add: payload_deneb_fields_def payload_capella_fields_def
      payload_bellatrix_fields_def)

lemma body_nth:
  "body_bellatrix_fields b1 ! 9 = VContainer (payload_bellatrix_fields (bd_execution_payload b1))"
  "body_capella_fields b2 ! 9 = VContainer (payload_capella_fields (bd_execution_payload b2))"
  "body_deneb_fields b3 ! 9 = VContainer (payload_deneb_fields (bd_execution_payload b3))"
  "body_electra_fields b4 ! 9 = VContainer (payload_deneb_fields (bd_execution_payload b4))"
  "block_fields bf b ! 4 = VContainer (bf (bb_body b))"
  by (simp_all add: body_bellatrix_fields_def body_capella_fields_def body_deneb_fields_def
      body_electra_fields_def block_fields_def)

lemma execution_branch_bellatrix:
  assumes "hashing_ok H" "tree_hash_ok H T" "is_b256 (ep_block_hash (bd_execution_payload (bb_body b)))"
  shows "fixed_vector_wf 11 (build_execution_block_hash_proof_bellatrix H T b)"
    and "climb (node_hash H) (ep_block_hash (bd_execution_payload (bb_body b)))
      (build_execution_block_hash_proof_bellatrix H T b) 3228
      = T (VContainer (block_fields body_bellatrix_fields b))"
  using three_containers [OF assms(1,2) fits_fields(1,4,8) body_nth(1) [of "bb_body b"]
      body_nth(5) [of body_bellatrix_fields b] _ _ _ refl, of 3228]
  by (simp_all add: build_execution_block_hash_proof_bellatrix_def all_leaves payload_nth
      tree_hash_okD(2) [OF assms(2,3)])

lemma execution_branch_capella:
  assumes "hashing_ok H" "tree_hash_ok H T" "is_b256 (ep_block_hash (bd_execution_payload (bb_body b)))"
  shows "fixed_vector_wf 11 (build_execution_block_hash_proof_capella H T b)"
    and "climb (node_hash H) (ep_block_hash (bd_execution_payload (bb_body b)))
      (build_execution_block_hash_proof_capella H T b) 3228
      = T (VContainer (block_fields body_capella_fields b))"
  using three_containers [OF assms(1,2) fits_fields(2,5,8) body_nth(2) [of "bb_body b"]
      body_nth(5) [of body_capella_fields b] _ _ _ refl, of 3228]
  by (simp_all add: build_execution_block_hash_proof_capella_def all_leaves payload_nth
      tree_hash_okD(2) [OF assms(2,3)])

lemma execution_branch_deneb:
  assumes "hashing_ok H" "tree_hash_ok H T" "is_b256 (ep_block_hash (bd_execution_payload (bb_body b)))"
  shows "fixed_vector_wf 12 (build_execution_block_hash_proof_deneb H T b)"
    and "climb (node_hash H) (ep_block_hash (bd_execution_payload (bb_body b)))
      (build_execution_block_hash_proof_deneb H T b) 6444
      = T (VContainer (block_fields body_deneb_fields b))"
  using three_containers [OF assms(1,2) fits_fields(3,6,8) body_nth(3) [of "bb_body b"]
      body_nth(5) [of body_deneb_fields b] _ _ _ refl, of 6444]
  by (simp_all add: build_execution_block_hash_proof_deneb_def all_leaves payload_nth
      tree_hash_okD(2) [OF assms(2,3)])

lemma execution_branch_electra:
  assumes "hashing_ok H" "tree_hash_ok H T" "is_b256 (ep_block_hash (bd_execution_payload (bb_body b)))"
  shows "fixed_vector_wf 12 (build_execution_block_hash_proof_electra H T b)"
    and "climb (node_hash H) (ep_block_hash (bd_execution_payload (bb_body b)))
      (build_execution_block_hash_proof_electra H T b) 6444
      = T (VContainer (block_fields body_electra_fields b))"
  using three_containers [OF assms(1,2) fits_fields(3,7,8) body_nth(4) [of "bb_body b"]
      body_nth(5) [of body_electra_fields b] _ _ _ refl, of 6444]
  by (simp_all add: build_execution_block_hash_proof_electra_def all_leaves payload_nth
      tree_hash_okD(2) [OF assms(2,3)])

subsection \<open>The beacon branches\<close>

definition roots_wf :: "b256 list \<Rightarrow> bool" where
  "roots_wf roots \<longleftrightarrow> length roots = 8192 \<and> (\<forall>r \<in> set roots. is_b256 r)"

lemma roots_wf_fits: "roots_wf roots \<Longrightarrow> i < 8192 \<Longrightarrow> fits roots 13 i"
  by (simp add: roots_wf_def fits_def)

lemma roots_value_root:
  assumes T: "tree_hash_ok H T" and wf: "roots_wf roots"
  shows "T (roots_value roots) = root_of H 13 roots"
proof -
  have "roots \<noteq> []" "\<forall>r \<in> set roots. is_b256 r" using wf by (auto simp: roots_wf_def)
  moreover have "log2_ceil (length roots) = 13"
    by (rule fits_log2_ceil [OF roots_wf_fits [OF wf, of 0]]) simp
  ultimately show ?thesis using tree_hash_okD(4) [OF T] by simp
qed

lemma block_roots_branch:
  assumes H: "hashing_ok H" and T: "tree_hash_ok H T" and wf: "roots_wf roots"
    and i: "i < 8192" "g mod 8192 = i"
  shows "fixed_vector_wf 13 (build_merkle_proof_for_index H roots i)"
    and "climb (node_hash H) (roots ! i) (build_merkle_proof_for_index H roots i) g
      = T (roots_value roots)"
proof -
  have b256: "\<forall>r \<in> set roots. is_b256 r" using wf by (simp add: roots_wf_def)
  note branch = root_branch [OF H roots_wf_fits [OF wf i(1)] b256 refl]
  show "fixed_vector_wf 13 (build_merkle_proof_for_index H roots i)"
    unfolding fixed_vector_wf_def by (intro conjI branch(1,2))
  have "g mod 2 ^ 13 = i" using i(2) by simp
  from branch(3) [OF this]
  show "climb (node_hash H) (roots ! i) (build_merkle_proof_for_index H roots i) g
      = T (roots_value roots)"
    by (simp only: roots_value_root [OF T wf])
qed

lemma historical_batch_root:
  assumes T: "tree_hash_ok H T"
  shows "T (historical_batch_value batch)
    = node_hash H (T (roots_value (hb_block_roots batch))) (T (roots_value (hb_state_roots batch)))"
proof -
  have "log2_ceil 2 = 1" by (simp add: log2_ceil.simps)
  then show ?thesis
    by (simp add: historical_batch_value_def tree_hash_okD(3) [OF T] root_of_def padded_def
        numeral_2_eq_2 [symmetric])
qed

lemma batch_branch:
  assumes H: "hashing_ok H" and T: "tree_hash_ok H T" and wf: "roots_wf (hb_block_roots batch)"
    and i: "i < 8192"
    and p: "p = build_merkle_proof_for_index H (hb_block_roots batch) i
      @ [T (roots_value (hb_state_roots batch))]"
  shows "fixed_vector_wf 14 p" and "build_block_root_proof H T batch i = Ok p"
    and "climb (node_hash H) (hb_block_roots batch ! i) p (16384 + i) = T (historical_batch_value batch)"
proof -
  have low: "(16384 + i) mod 8192 = i"
    using i mod_mult_self1 [of i 2 8192] by (simp add: add.commute)
  note branch = block_roots_branch [OF H T wf i low]
  show wf14: "fixed_vector_wf 14 p"
    using branch(1) tree_hash_okD(1) [OF T] by (simp add: p fixed_vector_wf_def)
  then show "build_block_root_proof H T batch i = Ok p"
    by (simp add: build_block_root_proof_def fixed_vector_wf_def p assert_eq_def)
  have "(16384 + i) div 8192 = 2" using i by simp
  then show "climb (node_hash H) (hb_block_roots batch ! i) p (16384 + i)
      = T (historical_batch_value batch)"
    using branch(1)
    by (simp add: p climb_append branch(2) fixed_vector_wf_def historical_batch_root [OF T])
qed

lemma fixed_vector_expect_Ok: "fixed_vector_wf n v \<Longrightarrow> fixed_vector_expect n m v = Ok v"
  by (simp add: fixed_vector_expect_def fixed_vector_wf_def)

end
