(* ===== verification/Post_Merge_Properties.thy ===== *)
theory Post_Merge_Properties
  imports Consensus_Proofs
begin

text \<open>
  The producer of post-merge proofs meets the validator: for each of the four forks, a proof built
  from the right block and batch is accepted; and what an accepted proof says about the block.
\<close>

subsection \<open>Sample data\<close>

text \<open>A tree hash that keeps the rules: containers and vectors of roots are hashed by their trees.\<close>

fun tree_hash_of :: "hashing \<Rightarrow> ssz_value \<Rightarrow> b256" where
  "tree_hash_of H (VB256 b) = fixed_vector_from 32 b"
| "tree_hash_of H (VEpoch e) = (case e of Epoch w \<Rightarrow> u64_to_le_bytes w @ replicate 24 0)"
| "tree_hash_of H (VU64 w) = u64_to_le_bytes w @ replicate 24 0"
| "tree_hash_of H (VContainer fs) = root_of H (log2_ceil (length fs)) (map (tree_hash_of H) fs)"
| "tree_hash_of H (VVector vs) = root_of H (log2_ceil (length vs)) (map (tree_hash_of H) vs)"
| "tree_hash_of H _ = b256_ZERO"

lemma length_tree_hash_of: "hashing_ok H \<Longrightarrow> length (tree_hash_of H v) = 32"
  by (induction H v rule: tree_hash_of.induct) (auto simp: length_root_of split: Epoch.split)

lemma tree_hash_of_ok:
  assumes "hashing_ok H"
  shows "tree_hash_ok H (tree_hash_of H)"
proof -
  have "epoch_tree_hash_root e = (Ok (tree_hash_of H (VEpoch e)) :: (b256, unit) res)" for e
    by (cases e) simp
  moreover have "map (tree_hash_of H) (map VB256 vs) = vs" if "\<forall>b \<in> set vs. is_b256 b" for vs
    using that by (induction vs) simp_all
  ultimately show ?thesis
    by (simp add: tree_hash_ok_def length_tree_hash_of [OF assms] roots_value_def)
qed

abbreviation sample_tree_hash :: "ssz_value \<Rightarrow> b256" where
  "sample_tree_hash \<equiv> tree_hash_of sample_hashing"

lemma length_sample_tree_hash: "length (sample_tree_hash v) = 32"
  by (simp add: length_tree_hash_of)

lemma sample_tree_hash_ok [simp]: "tree_hash_ok sample_hashing sample_tree_hash"
  by (simp add: tree_hash_of_ok)

definition sample_sig :: BlsSignature where
  "sample_sig = signature_default"

definition sample_eth1_data :: Eth1Data where
  "sample_eth1_data =
     \<lparr>e1_deposit_root = b256_ZERO, e1_deposit_count = 0, e1_block_hash = b256_ZERO\<rparr>"

definition sample_sync_aggregate :: SyncAggregate where
  "sample_sync_aggregate =
     \<lparr>sa_sync_committee_bits = replicate 512 False, sa_sync_committee_signature = sample_sig\<rparr>"

definition sample_payload_bellatrix :: "Header \<Rightarrow> ExecutionPayloadBellatrix" where
  "sample_payload_bellatrix h =
     \<lparr>ep_parent_hash = parent_hash h, ep_fee_recipient = beneficiary h,
      ep_state_root = Header.state_root h, ep_receipts_root = receipts_root h,
      ep_logs_bloom = logs_bloom h, ep_prev_randao = mix_hash h, ep_block_number = number h,
      ep_gas_limit = gas_limit h, ep_gas_used = gas_used h, ep_timestamp = timestamp h,
      ep_extra_data = extra_data h, ep_base_fee_per_gas = 7,
      ep_block_hash = hash_slow sample_alloy h, ep_transactions = []\<rparr>"

definition sample_payload_capella :: "Header \<Rightarrow> ExecutionPayloadCapella" where
  "sample_payload_capella h =
     ExecutionPayloadBellatrix.extend (sample_payload_bellatrix h)
       (ExecutionPayloadCapella.fields [])"

definition sample_payload_deneb :: "Header \<Rightarrow> ExecutionPayloadDeneb" where
  "sample_payload_deneb h =
     ExecutionPayloadCapella.extend (sample_payload_capella h)
       (ExecutionPayloadDeneb.fields 0 0)"

definition sample_body :: "'p \<Rightarrow> ('a, 'p) BodyBellatrix" where
  "sample_body p =
     \<lparr>bd_randao_reveal = sample_sig, bd_eth1_data = sample_eth1_data, bd_graffiti = b256_ZERO,
      bd_proposer_slashings = [], bd_attester_slashings = [], bd_attestations = [],
      bd_deposits = [], bd_voluntary_exits = [], bd_sync_aggregate = sample_sync_aggregate,
      bd_execution_payload = p\<rparr>"

definition sample_body_capella :: "'p \<Rightarrow> ('a, 'p) BodyCapella" where
  "sample_body_capella p = BodyBellatrix.extend (sample_body p) (BodyCapella.fields [])"

definition sample_body_deneb :: "'p \<Rightarrow> ('a, 'p) BodyDeneb" where
  "sample_body_deneb p = BodyCapella.extend (sample_body_capella p) (BodyDeneb.fields [])"

definition sample_body_electra :: "'p \<Rightarrow> ('a, 'p) BodyElectra" where
  "sample_body_electra p = BodyDeneb.extend (sample_body_deneb p)
     (BodyElectra.fields \<lparr>er_deposits = [], er_withdrawals = [], er_consolidations = []\<rparr>)"

definition sample_block :: "u64 \<Rightarrow> 'b \<Rightarrow> 'b BeaconBlockOf" where
  "sample_block sl body =
     \<lparr>bb_slot = sl, bb_proposer_index = 3, bb_parent_root = b256_ZERO, bb_state_root = b256_ZERO,
      bb_body = body\<rparr>"

definition sample_roots :: "b256 \<Rightarrow> b256 list" where
  "sample_roots r = replicate 8192 r"

lemma sample_roots_wf: "is_b256 r \<Longrightarrow> roots_wf (sample_roots r)"
  by (simp add: roots_wf_def sample_roots_def)

lemma sample_roots_nth: "i < 8192 \<Longrightarrow> sample_roots r ! i = r"
  by (simp add: sample_roots_def)

lemma sample_payload_hash:
  "ep_block_hash (sample_payload_bellatrix h) = hash_slow sample_alloy h"
  "ep_block_hash (sample_payload_capella h) = hash_slow sample_alloy h"
  "ep_block_hash (sample_payload_deneb h) = hash_slow sample_alloy h"
  by (simp_all add: sample_payload_bellatrix_def sample_payload_capella_def
      sample_payload_deneb_def ExecutionPayloadBellatrix.extend_def
      ExecutionPayloadCapella.extend_def ExecutionPayloadCapella.fields_def
      ExecutionPayloadDeneb.fields_def)

lemma sample_block_payload:
  "bd_execution_payload (bb_body (sample_block sl (sample_body p))) = p"
  "bd_execution_payload (bb_body (sample_block sl (sample_body_capella p))) = p"
  "bd_execution_payload (bb_body (sample_block sl (sample_body_deneb p))) = p"
  "bd_execution_payload (bb_body (sample_block sl (sample_body_electra p))) = p"
  by (simp_all add: sample_block_def sample_body_def sample_body_capella_def
      sample_body_deneb_def sample_body_electra_def BodyBellatrix.extend_def
      BodyCapella.extend_def BodyDeneb.extend_def BodyCapella.fields_def BodyDeneb.fields_def
      BodyElectra.fields_def)

lemmas sample_block_hash = sample_block_payload sample_payload_hash

subsection \<open>The built proofs\<close>

lemma unat_slot_index: "unat (sl mod SLOTS_PER_HISTORICAL_ROOT) = unat sl mod 8192"
  by (simp add: validator_constants unat_mod)

text \<open>The record that the builders return.\<close>

definition built :: "b256 list \<Rightarrow> b256 \<Rightarrow> b256 list \<Rightarrow> u64 \<Rightarrow> BlockProofHistorical" where
  "built bp root ep sl =
     \<lparr>beacon_block_proof = bp, beacon_block_root = root, execution_block_proof = ep, slot = sl\<rparr>"

definition built_roots_proof ::
  "hashing \<Rightarrow> tree_hash \<Rightarrow> u64 \<Rightarrow> HistoricalBatch \<Rightarrow> BeaconBlockBellatrix \<Rightarrow> BlockProofHistorical" where
  "built_roots_proof H T sl batch block =
     built (build_merkle_proof_for_index H (hb_block_roots batch) (unat sl mod 8192)
         @ [T (roots_value (hb_state_roots batch))])
       (T (VContainer (block_fields body_bellatrix_fields block)))
       (build_execution_block_hash_proof_bellatrix H T block) sl"

lemma built_roots_proof_facts:
  assumes H: "hashing_ok H" and T: "tree_hash_ok H T"
    and hash: "is_b256 (ep_block_hash (bd_execution_payload (bb_body block)))"
    and wf: "roots_wf (hb_block_roots batch)"
    and root: "hb_block_roots batch ! (unat sl mod 8192)
      = T (VContainer (block_fields body_bellatrix_fields block))"
  shows "build_historical_roots_proof H T sl batch block = Ok (built_roots_proof H T sl batch block)"
    and "historical_proof_wf 14 11 (built_roots_proof H T sl batch block)"
    and "climb (node_hash H) (ep_block_hash (bd_execution_payload (bb_body block)))
      (execution_block_proof (built_roots_proof H T sl batch block)) 3228
      = beacon_block_root (built_roots_proof H T sl batch block)"
    and "climb (node_hash H) (beacon_block_root (built_roots_proof H T sl batch block))
      (beacon_block_proof (built_roots_proof H T sl batch block)) (16384 + unat sl mod 8192)
      = T (historical_batch_value batch)"
proof -
  have i: "unat sl mod 8192 < 8192" by simp
  note exec = execution_branch_bellatrix [OF H T hash]
  note beacon = batch_branch [OF H T wf i refl]
  show "build_historical_roots_proof H T sl batch block = Ok (built_roots_proof H T sl batch block)"
    using exec(1) beacon(1)
    by (simp add: build_historical_roots_proof_def beacon(2) unat_slot_index
        fixed_vector_expect_Ok built_roots_proof_def built_def)
  show "historical_proof_wf 14 11 (built_roots_proof H T sl batch block)"
    using exec(1) beacon(1) tree_hash_okD(1) [OF T]
    by (simp add: historical_proof_wf_def built_roots_proof_def built_def)
  show "climb (node_hash H) (ep_block_hash (bd_execution_payload (bb_body block)))
      (execution_block_proof (built_roots_proof H T sl batch block)) 3228
      = beacon_block_root (built_roots_proof H T sl batch block)"
    using exec(2) by (simp add: built_roots_proof_def built_def)
  show "climb (node_hash H) (beacon_block_root (built_roots_proof H T sl batch block))
      (beacon_block_proof (built_roots_proof H T sl batch block)) (16384 + unat sl mod 8192)
      = T (historical_batch_value batch)"
    using beacon(3) root by (simp add: built_roots_proof_def built_def)
qed

definition sample_bellatrix_block :: BeaconBlockBellatrix where
  "sample_bellatrix_block = sample_block 5 (sample_body (sample_payload_bellatrix sample_merge_header))"

definition sample_batch :: HistoricalBatch where
  "sample_batch =
     \<lparr>hb_block_roots = sample_roots
        (sample_tree_hash (VContainer (block_fields body_bellatrix_fields sample_bellatrix_block))),
      hb_state_roots = sample_roots b256_ZERO\<rparr>"

definition sample_bellatrix_validator :: HeaderValidator where
  "sample_bellatrix_validator =
     sample_validator [] [sample_tree_hash (historical_batch_value sample_batch)]"

lemma sample_bellatrix_facts:
  "ep_block_hash (bd_execution_payload (bb_body sample_bellatrix_block))
    = hash_slow sample_alloy sample_merge_header"
  "roots_wf (hb_block_roots sample_batch)"
  "hb_block_roots sample_batch ! (unat (5 :: u64) mod 8192)
    = sample_tree_hash (VContainer (block_fields body_bellatrix_fields sample_bellatrix_block))"
  "historical_roots (historical_roots_acc sample_bellatrix_validator)
    = [sample_tree_hash (historical_batch_value sample_batch)]"
  by (simp_all add: sample_bellatrix_block_def sample_batch_def sample_bellatrix_validator_def
      sample_block_hash sample_validator_def sample_roots_wf sample_roots_nth
      length_sample_tree_hash del: tree_hash_of.simps)

definition built_capella_proof ::
  "hashing \<Rightarrow> tree_hash \<Rightarrow> u64 \<Rightarrow> b256 list \<Rightarrow> BeaconBlockCapella \<Rightarrow> BlockProofHistorical" where
  "built_capella_proof H T sl block_roots block =
     built (build_merkle_proof_for_index H block_roots (unat sl mod 8192))
       (T (VContainer (block_fields body_capella_fields block)))
       (build_execution_block_hash_proof_capella H T block) sl"

lemma built_capella_proof_facts:
  assumes H: "hashing_ok H" and T: "tree_hash_ok H T"
    and hash: "is_b256 (ep_block_hash (bd_execution_payload (bb_body block)))"
    and wf: "roots_wf block_roots"
    and root: "block_roots ! (unat sl mod 8192)
      = T (VContainer (block_fields body_capella_fields block))"
    and p: "p = built_capella_proof H T sl block_roots block"
  shows "build_capella_historical_summaries_proof H T sl block_roots block = Ok p"
    and "historical_proof_wf 13 11 p" and "slot p = sl"
    and "climb (node_hash H) (ep_block_hash (bd_execution_payload (bb_body block)))
      (execution_block_proof p) 3228 = beacon_block_root p"
    and "climb (node_hash H) (beacon_block_root p) (beacon_block_proof p) (8192 + unat sl mod 8192)
      = T (roots_value block_roots)"
proof -
  have i: "unat sl mod 8192 < 8192" "(8192 + unat sl mod 8192) mod 8192 = unat sl mod 8192"
    by simp_all
  note exec = execution_branch_capella [OF H T hash]
  note beacon = block_roots_branch [OF H T wf i]
  show "build_capella_historical_summaries_proof H T sl block_roots block = Ok p"
    using exec(1) beacon(1)
    by (simp add: build_capella_historical_summaries_proof_def unat_slot_index
        fixed_vector_expect_Ok p built_capella_proof_def built_def)
  show "historical_proof_wf 13 11 p"
    using exec(1) beacon(1) tree_hash_okD(1) [OF T]
    by (simp add: historical_proof_wf_def p built_capella_proof_def built_def)
  show "slot p = sl" by (simp add: p built_capella_proof_def built_def)
  show "climb (node_hash H) (ep_block_hash (bd_execution_payload (bb_body block)))
      (execution_block_proof p) 3228 = beacon_block_root p"
    using exec(2) by (simp add: p built_capella_proof_def built_def)
  show "climb (node_hash H) (beacon_block_root p) (beacon_block_proof p) (8192 + unat sl mod 8192)
      = T (roots_value block_roots)"
    using beacon(2) root by (simp add: p built_capella_proof_def built_def)
qed

definition sample_capella_header :: Header where
  "sample_capella_header = sample_header 17500000 1690000000"

definition sample_capella_block :: BeaconBlockCapella where
  "sample_capella_block = sample_block 6209541 (sample_body_capella (sample_payload_capella sample_capella_header))"

definition sample_capella_roots :: "b256 list" where
  "sample_capella_roots = sample_roots
     (sample_tree_hash (VContainer (block_fields body_capella_fields sample_capella_block)))"

definition sample_capella_summary :: HistoricalSummary where
  "sample_capella_summary =
     \<lparr>block_summary_root = sample_tree_hash (roots_value sample_capella_roots),
      state_summary_root = b256_ZERO\<rparr>"

lemma sample_capella_facts:
  "ep_block_hash (bd_execution_payload (bb_body sample_capella_block))
    = hash_slow sample_alloy sample_capella_header"
  "roots_wf sample_capella_roots"
  "sample_capella_roots ! (unat (6209541 :: u64) mod 8192)
    = sample_tree_hash (VContainer (block_fields body_capella_fields sample_capella_block))"
  "get_historical_summary [replicate 1000 sample_capella_summary]
     (historical_summaries_provider (sample_validator [] [])) 6209541 = Ok sample_capella_summary"
  "block_summary_root sample_capella_summary = sample_tree_hash (roots_value sample_capella_roots)"
  by (simp_all add: sample_capella_block_def sample_capella_roots_def sample_capella_summary_def
      sample_block_hash sample_validator_def sample_roots_wf sample_roots_nth
      length_sample_tree_hash get_historical_summary_Ok_iff historical_summary_index_unat
      del: tree_hash_of.simps)

definition built_deneb_proof ::
  "hashing \<Rightarrow> tree_hash \<Rightarrow> u64 \<Rightarrow> b256 list \<Rightarrow> BeaconBlockDeneb \<Rightarrow> BlockProofHistorical" where
  "built_deneb_proof H T sl block_roots block =
     built (build_merkle_proof_for_index H block_roots (unat sl mod 8192))
       (T (VContainer (block_fields body_deneb_fields block)))
       (build_execution_block_hash_proof_deneb H T block) sl"

lemma built_deneb_proof_facts:
  assumes H: "hashing_ok H" and T: "tree_hash_ok H T"
    and hash: "is_b256 (ep_block_hash (bd_execution_payload (bb_body block)))"
    and wf: "roots_wf block_roots"
    and root: "block_roots ! (unat sl mod 8192)
      = T (VContainer (block_fields body_deneb_fields block))"
    and p: "p = built_deneb_proof H T sl block_roots block"
  shows "build_deneb_historical_summaries_proof H T sl block_roots block = Ok p"
    and "historical_proof_wf 13 12 p" and "slot p = sl"
    and "climb (node_hash H) (ep_block_hash (bd_execution_payload (bb_body block)))
      (execution_block_proof p) 6444 = beacon_block_root p"
    and "climb (node_hash H) (beacon_block_root p) (beacon_block_proof p) (8192 + unat sl mod 8192)
      = T (roots_value block_roots)"
proof -
  have i: "unat sl mod 8192 < 8192" "(8192 + unat sl mod 8192) mod 8192 = unat sl mod 8192"
    by simp_all
  note exec = execution_branch_deneb [OF H T hash]
  note beacon = block_roots_branch [OF H T wf i]
  show "build_deneb_historical_summaries_proof H T sl block_roots block = Ok p"
    using exec(1) beacon(1)
    by (simp add: build_deneb_historical_summaries_proof_def unat_slot_index
        fixed_vector_expect_Ok p built_deneb_proof_def built_def)
  show "historical_proof_wf 13 12 p"
    using exec(1) beacon(1) tree_hash_okD(1) [OF T]
    by (simp add: historical_proof_wf_def p built_deneb_proof_def built_def)
  show "slot p = sl" by (simp add: p built_deneb_proof_def built_def)
  show "climb (node_hash H) (ep_block_hash (bd_execution_payload (bb_body block)))
      (execution_block_proof p) 6444 = beacon_block_root p"
    using exec(2) by (simp add: p built_deneb_proof_def built_def)
  show "climb (node_hash H) (beacon_block_root p) (beacon_block_proof p) (8192 + unat sl mod 8192)
      = T (roots_value block_roots)"
    using beacon(2) root by (simp add: p built_deneb_proof_def built_def)
qed

definition sample_deneb_header :: Header where
  "sample_deneb_header = sample_header 20000000 1720000000"

definition sample_deneb_block :: BeaconBlockDeneb where
  "sample_deneb_block = sample_block 8626181 (sample_body_deneb (sample_payload_deneb sample_deneb_header))"

definition sample_deneb_roots :: "b256 list" where
  "sample_deneb_roots = sample_roots
     (sample_tree_hash (VContainer (block_fields body_deneb_fields sample_deneb_block)))"

definition sample_deneb_summary :: HistoricalSummary where
  "sample_deneb_summary =
     \<lparr>block_summary_root = sample_tree_hash (roots_value sample_deneb_roots),
      state_summary_root = b256_ZERO\<rparr>"

lemma sample_deneb_facts:
  "ep_block_hash (bd_execution_payload (bb_body sample_deneb_block))
    = hash_slow sample_alloy sample_deneb_header"
  "roots_wf sample_deneb_roots"
  "sample_deneb_roots ! (unat (8626181 :: u64) mod 8192)
    = sample_tree_hash (VContainer (block_fields body_deneb_fields sample_deneb_block))"
  "get_historical_summary [replicate 1000 sample_deneb_summary]
     (historical_summaries_provider (sample_validator [] [])) 8626181 = Ok sample_deneb_summary"
  "block_summary_root sample_deneb_summary = sample_tree_hash (roots_value sample_deneb_roots)"
  by (simp_all add: sample_deneb_block_def sample_deneb_roots_def sample_deneb_summary_def
      sample_block_hash sample_validator_def sample_roots_wf sample_roots_nth
      length_sample_tree_hash get_historical_summary_Ok_iff historical_summary_index_unat
      del: tree_hash_of.simps)

definition built_electra_proof ::
  "hashing \<Rightarrow> tree_hash \<Rightarrow> u64 \<Rightarrow> b256 list \<Rightarrow> BeaconBlockElectra \<Rightarrow> BlockProofHistorical" where
  "built_electra_proof H T sl block_roots block =
     built (build_merkle_proof_for_index H block_roots (unat sl mod 8192))
       (T (VContainer (block_fields body_electra_fields block)))
       (build_execution_block_hash_proof_electra H T block) sl"

lemma built_electra_proof_facts:
  assumes H: "hashing_ok H" and T: "tree_hash_ok H T"
    and hash: "is_b256 (ep_block_hash (bd_execution_payload (bb_body block)))"
    and wf: "roots_wf block_roots"
    and root: "block_roots ! (unat sl mod 8192)
      = T (VContainer (block_fields body_electra_fields block))"
    and p: "p = built_electra_proof H T sl block_roots block"
  shows "build_electra_historical_summaries_proof H T sl block_roots block = Ok p"
    and "historical_proof_wf 13 12 p" and "slot p = sl"
    and "climb (node_hash H) (ep_block_hash (bd_execution_payload (bb_body block)))
      (execution_block_proof p) 6444 = beacon_block_root p"
    and "climb (node_hash H) (beacon_block_root p) (beacon_block_proof p) (8192 + unat sl mod 8192)
      = T (roots_value block_roots)"
proof -
  have i: "unat sl mod 8192 < 8192" "(8192 + unat sl mod 8192) mod 8192 = unat sl mod 8192"
    by simp_all
  note exec = execution_branch_electra [OF H T hash]
  note beacon = block_roots_branch [OF H T wf i]
  show "build_electra_historical_summaries_proof H T sl block_roots block = Ok p"
    using exec(1) beacon(1)
    by (simp add: build_electra_historical_summaries_proof_def unat_slot_index
        fixed_vector_expect_Ok p built_electra_proof_def built_def)
  show "historical_proof_wf 13 12 p"
    using exec(1) beacon(1) tree_hash_okD(1) [OF T]
    by (simp add: historical_proof_wf_def p built_electra_proof_def built_def)
  show "slot p = sl" by (simp add: p built_electra_proof_def built_def)
  show "climb (node_hash H) (ep_block_hash (bd_execution_payload (bb_body block)))
      (execution_block_proof p) 6444 = beacon_block_root p"
    using exec(2) by (simp add: p built_electra_proof_def built_def)
  show "climb (node_hash H) (beacon_block_root p) (beacon_block_proof p) (8192 + unat sl mod 8192)
      = T (roots_value block_roots)"
    using beacon(2) root by (simp add: p built_electra_proof_def built_def)
qed

definition sample_electra_header :: Header where
  "sample_electra_header = sample_header 23000000 1750000000"

definition sample_electra_block :: BeaconBlockElectra where
  "sample_electra_block = sample_block 11649029 (sample_body_electra (sample_payload_deneb sample_electra_header))"

definition sample_electra_roots :: "b256 list" where
  "sample_electra_roots = sample_roots
     (sample_tree_hash (VContainer (block_fields body_electra_fields sample_electra_block)))"

definition sample_electra_summary :: HistoricalSummary where
  "sample_electra_summary =
     \<lparr>block_summary_root = sample_tree_hash (roots_value sample_electra_roots),
      state_summary_root = b256_ZERO\<rparr>"

lemma sample_electra_facts:
  "ep_block_hash (bd_execution_payload (bb_body sample_electra_block))
    = hash_slow sample_alloy sample_electra_header"
  "roots_wf sample_electra_roots"
  "sample_electra_roots ! (unat (11649029 :: u64) mod 8192)
    = sample_tree_hash (VContainer (block_fields body_electra_fields sample_electra_block))"
  "get_historical_summary [replicate 1000 sample_electra_summary]
     (historical_summaries_provider (sample_validator [] [])) 11649029 = Ok sample_electra_summary"
  "block_summary_root sample_electra_summary = sample_tree_hash (roots_value sample_electra_roots)"
  by (simp_all add: sample_electra_block_def sample_electra_roots_def sample_electra_summary_def
      sample_block_hash sample_validator_def sample_roots_wf sample_roots_nth
      length_sample_tree_hash get_historical_summary_Ok_iff historical_summary_index_unat
      del: tree_hash_of.simps)

subsection \<open>Acceptance of built proofs\<close>

text \<open>
  Merge to Capella: the proof built from the historical batch and the beacon block of a
  slot succeeds, and the validator accepts the block's execution header with it, when the batch
  holds the block's root at the slot and the validator holds the root of the batch.
\<close>

theorem bellatrix_proof_accepted:
  assumes "hashing_ok H" "alloy_ok A" "tree_hash_ok H T"
    and "is_paris_active_at_block (number h)" "\<not> is_shanghai_active_at_timestamp (timestamp h)"
    and "ep_block_hash (bd_execution_payload (bb_body block)) = hash_slow A h"
    and "roots_wf (hb_block_roots batch)"
    and "hb_block_roots batch ! (unat sl mod 8192)
      = T (VContainer (block_fields body_bellatrix_fields block))"
    and "unat sl div 8192 < length (historical_roots (historical_roots_acc v))"
    and "historical_roots (historical_roots_acc v) ! (unat sl div 8192)
      = T (historical_batch_value batch)"
  shows "\<exists>p. build_historical_roots_proof H T sl batch block = Ok p \<and>
    validate_header_with_proof H A st v \<lparr>header = h, hwp_proof = HistoricalRoots p\<rparr> = Ok ()"
proof -
  have hash: "is_b256 (ep_block_hash (bd_execution_payload (bb_body block)))"
    using assms(2,6) by (simp add: alloy_ok_def)
  note facts = built_roots_proof_facts [OF assms(1,3) hash assms(7,8)]
  have "slot (built_roots_proof H T sl batch block) = sl"
    by (simp add: built_roots_proof_def built_def)
  then show ?thesis
    using facts(2-4) assms(4-6,9,10) by (simp add: facts(1) validate_Ok_iff [OF assms(1,2)])
qed

theorem bellatrix_proof_accepted_witness:
  "\<exists>p. build_historical_roots_proof sample_hashing sample_tree_hash 5 sample_batch
      sample_bellatrix_block = Ok p \<and>
    validate_header_with_proof sample_hashing sample_alloy [] sample_bellatrix_validator
      \<lparr>header = sample_merge_header, hwp_proof = HistoricalRoots p\<rparr> = Ok ()"
  by (rule bellatrix_proof_accepted)
    (use sample_bellatrix_facts in \<open>simp_all add: sample_merge_header_def activation_unat\<close>)

text \<open>
  Capella to Deneb: the proof built from the block roots of an era and the beacon block of a
  slot succeeds, and the validator accepts the block's execution header with it, when the block
  roots hold the block's root at the slot and the snapshot has the summary of these block roots.
\<close>

theorem capella_proof_accepted:
  assumes "hashing_ok H" "alloy_ok A" "tree_hash_ok H T"
    and "is_shanghai_active_at_timestamp (timestamp h)" "\<not> is_cancun_active_at_timestamp (timestamp h)"
    and "ep_block_hash (bd_execution_payload (bb_body block)) = hash_slow A h"
    and "roots_wf block_roots"
    and "block_roots ! (unat sl mod 8192) = T (VContainer (block_fields body_capella_fields block))"
    and "get_historical_summary st (historical_summaries_provider v) sl = Ok s"
    and "block_summary_root s = T (roots_value block_roots)"
  shows "\<exists>p. build_capella_historical_summaries_proof H T sl block_roots block = Ok p \<and>
    validate_header_with_proof H A st v \<lparr>header = h, hwp_proof = HistoricalSummariesCapella p\<rparr> = Ok ()"
proof -
  have hash: "is_b256 (ep_block_hash (bd_execution_payload (bb_body block)))"
    using assms(2,6) by (simp add: alloy_ok_def)
  note facts = built_capella_proof_facts [OF assms(1,3) hash assms(7,8) refl]
  show ?thesis
    using facts(2-5) assms(4-6,9,10)
    by (simp add: facts(1) validate_Ok_iff [OF assms(1,2)])
qed

theorem capella_proof_accepted_witness:
  "\<exists>p. build_capella_historical_summaries_proof sample_hashing sample_tree_hash 6209541
      sample_capella_roots sample_capella_block = Ok p \<and>
    validate_header_with_proof sample_hashing sample_alloy [replicate 1000 sample_capella_summary]
      (sample_validator [] []) \<lparr>header = sample_capella_header, hwp_proof = HistoricalSummariesCapella p\<rparr> = Ok ()"
  by (rule capella_proof_accepted [OF _ _ _ _ _ sample_capella_facts])
    (simp_all add: sample_capella_header_def activation_unat)

text \<open>
  Deneb to Electra: the proof built from the block roots of an era and the beacon block of a
  slot succeeds, and the validator accepts the block's execution header with it, when the block
  roots hold the block's root at the slot and the snapshot has the summary of these block roots.
\<close>

theorem deneb_proof_accepted:
  assumes "hashing_ok H" "alloy_ok A" "tree_hash_ok H T"
    and "is_cancun_active_at_timestamp (timestamp h)"
    and "ep_block_hash (bd_execution_payload (bb_body block)) = hash_slow A h"
    and "roots_wf block_roots"
    and "block_roots ! (unat sl mod 8192) = T (VContainer (block_fields body_deneb_fields block))"
    and "get_historical_summary st (historical_summaries_provider v) sl = Ok s"
    and "block_summary_root s = T (roots_value block_roots)"
  shows "\<exists>p. build_deneb_historical_summaries_proof H T sl block_roots block = Ok p \<and>
    validate_header_with_proof H A st v \<lparr>header = h, hwp_proof = HistoricalSummariesDeneb p\<rparr> = Ok ()"
proof -
  have hash: "is_b256 (ep_block_hash (bd_execution_payload (bb_body block)))"
    using assms(2,5) by (simp add: alloy_ok_def)
  note facts = built_deneb_proof_facts [OF assms(1,3) hash assms(6,7) refl]
  show ?thesis
    using facts(2-5) assms(4-5,8,9)
    by (simp add: facts(1) validate_Ok_iff [OF assms(1,2)])
qed

theorem deneb_proof_accepted_witness:
  "\<exists>p. build_deneb_historical_summaries_proof sample_hashing sample_tree_hash 8626181
      sample_deneb_roots sample_deneb_block = Ok p \<and>
    validate_header_with_proof sample_hashing sample_alloy [replicate 1000 sample_deneb_summary]
      (sample_validator [] []) \<lparr>header = sample_deneb_header, hwp_proof = HistoricalSummariesDeneb p\<rparr> = Ok ()"
  by (rule deneb_proof_accepted [OF _ _ _ _ sample_deneb_facts])
    (simp_all add: sample_deneb_header_def activation_unat)

text \<open>
  From Electra on: the proof built from the block roots of an era and the beacon block of a
  slot succeeds, and the validator accepts the block's execution header with it, when the block
  roots hold the block's root at the slot and the snapshot has the summary of these block roots.
\<close>

theorem electra_proof_accepted:
  assumes "hashing_ok H" "alloy_ok A" "tree_hash_ok H T"
    and "is_cancun_active_at_timestamp (timestamp h)"
    and "ep_block_hash (bd_execution_payload (bb_body block)) = hash_slow A h"
    and "roots_wf block_roots"
    and "block_roots ! (unat sl mod 8192) = T (VContainer (block_fields body_electra_fields block))"
    and "get_historical_summary st (historical_summaries_provider v) sl = Ok s"
    and "block_summary_root s = T (roots_value block_roots)"
  shows "\<exists>p. build_electra_historical_summaries_proof H T sl block_roots block = Ok p \<and>
    validate_header_with_proof H A st v \<lparr>header = h, hwp_proof = HistoricalSummariesDeneb p\<rparr> = Ok ()"
proof -
  have hash: "is_b256 (ep_block_hash (bd_execution_payload (bb_body block)))"
    using assms(2,5) by (simp add: alloy_ok_def)
  note facts = built_electra_proof_facts [OF assms(1,3) hash assms(6,7) refl]
  show ?thesis
    using facts(2-5) assms(4-5,8,9)
    by (simp add: facts(1) validate_Ok_iff [OF assms(1,2)])
qed

theorem electra_proof_accepted_witness:
  "\<exists>p. build_electra_historical_summaries_proof sample_hashing sample_tree_hash 11649029
      sample_electra_roots sample_electra_block = Ok p \<and>
    validate_header_with_proof sample_hashing sample_alloy [replicate 1000 sample_electra_summary]
      (sample_validator [] []) \<lparr>header = sample_electra_header, hwp_proof = HistoricalSummariesDeneb p\<rparr> = Ok ()"
  by (rule electra_proof_accepted [OF _ _ _ _ sample_electra_facts])
    (simp_all add: sample_electra_header_def activation_unat)

subsection \<open>What acceptance says about the block\<close>

text \<open>
  A header accepted for a slot between Merge and Capella is the one in the payload of
  the beacon block of that slot: when the validator's historical root at the slot is the root of a
  batch that holds the root of a Bellatrix block at the slot, the accepted header has the block
  hash of that block's payload, or the accepted branches and the built ones contain an explicit
  pair of 64-byte inputs with one digest.
\<close>

theorem bellatrix_header_in_block:
  assumes "hashing_ok H" "alloy_ok A" "tree_hash_ok H T" "proof_wf (HistoricalRoots p)"
    and "is_b256 (ep_block_hash (bd_execution_payload (bb_body block)))"
    and "roots_wf (hb_block_roots batch)"
    and "hb_block_roots batch ! (unat (slot p) mod 8192)
      = T (VContainer (block_fields body_bellatrix_fields block))"
    and "historical_roots (historical_roots_acc v) ! (unat (slot p) div 8192)
      = T (historical_batch_value batch)"
    and "validate_header_with_proof H A st v \<lparr>header = h, hwp_proof = HistoricalRoots p\<rparr> = Ok ()"
    and "q = built_roots_proof H T (slot p) batch block"
  shows "hash_slow A h = ep_block_hash (bd_execution_payload (bb_body block)) \<or>
    collides H (find_collision (node_hash H) 3228 (hash_slow A h) (execution_block_proof p)
      (ep_block_hash (bd_execution_payload (bb_body block))) (execution_block_proof q)) \<or>
    collides H (find_collision (node_hash H) (16384 + unat (slot p) mod 8192)
      (beacon_block_root p) (beacon_block_proof p) (beacon_block_root q) (beacon_block_proof q))"
proof -
  note facts = built_roots_proof_facts [OF assms(1,3,5,6,7), folded assms(10)]
  have x: "is_b256 (hash_slow A h)" using assms(2) by (simp add: alloy_ok_def)
  have wf: "historical_proof_wf 14 11 p" using assms(4) by simp
  have "climb (node_hash H) (hash_slow A h) (execution_block_proof p) 3228 = beacon_block_root p"
    "climb (node_hash H) (beacon_block_root p) (beacon_block_proof p) (16384 + unat (slot p) mod 8192)
      = T (historical_batch_value batch)"
    using assms(4,8,9) by (auto simp: validate_Ok_iff [OF assms(1,2)] Let_def split: if_splits)
  from chain_binding [OF assms(1) x assms(5) wf facts(2) this(1) facts(3) this(2) facts(4)]
  show ?thesis .
qed

theorem bellatrix_header_in_block_witness:
  "\<exists>p. p = built_roots_proof sample_hashing sample_tree_hash 5 sample_batch sample_bellatrix_block \<and>
    (hash_slow sample_alloy sample_merge_header
      = ep_block_hash (bd_execution_payload (bb_body sample_bellatrix_block)) \<or>
    collides sample_hashing (find_collision (node_hash sample_hashing) 3228
      (hash_slow sample_alloy sample_merge_header) (execution_block_proof p)
      (ep_block_hash (bd_execution_payload (bb_body sample_bellatrix_block))) (execution_block_proof p)) \<or>
    collides sample_hashing (find_collision (node_hash sample_hashing) (16384 + unat (slot p) mod 8192)
      (beacon_block_root p) (beacon_block_proof p) (beacon_block_root p) (beacon_block_proof p)))"
proof -
  let ?p = "built_roots_proof sample_hashing sample_tree_hash 5 sample_batch sample_bellatrix_block"
  have sl: "slot ?p = 5" by (simp add: built_roots_proof_def built_def)
  have hash: "is_b256 (ep_block_hash (bd_execution_payload (bb_body sample_bellatrix_block)))"
    by (simp add: sample_bellatrix_facts)
  note facts = built_roots_proof_facts [OF hashing_ok_sample sample_tree_hash_ok hash
      sample_bellatrix_facts(2,3)]
  have "validate_header_with_proof sample_hashing sample_alloy [] sample_bellatrix_validator
      \<lparr>header = sample_merge_header, hwp_proof = HistoricalRoots ?p\<rparr> = Ok ()"
    using facts(2-4) sl
    by (simp add: validate_Ok_iff sample_bellatrix_facts)
      (simp add: sample_merge_header_def activation_unat)
  from bellatrix_header_in_block [OF hashing_ok_sample alloy_ok_sample sample_tree_hash_ok _ hash
      sample_bellatrix_facts(2) _ _ this refl]
  show ?thesis using facts(2) sl sample_bellatrix_facts by (simp del: tree_hash_of.simps)
qed

text \<open>
  The same from Electra on, over the snapshot of summaries: when the summary of the
  slot is that of block roots that hold the root of an Electra block at the slot, an accepted
  header has the block hash of that block's payload, or the branches contain an explicit collision.
\<close>

theorem electra_header_in_block:
  assumes "hashing_ok H" "alloy_ok A" "tree_hash_ok H T" "proof_wf (HistoricalSummariesDeneb p)"
    and "is_b256 (ep_block_hash (bd_execution_payload (bb_body block)))"
    and "roots_wf block_roots"
    and "block_roots ! (unat (slot p) mod 8192)
      = T (VContainer (block_fields body_electra_fields block))"
    and "get_historical_summary st (historical_summaries_provider v) (slot p) = Ok s"
    and "block_summary_root s = T (roots_value block_roots)"
    and "validate_header_with_proof H A st v \<lparr>header = h, hwp_proof = HistoricalSummariesDeneb p\<rparr> = Ok ()"
    and "q = built_electra_proof H T (slot p) block_roots block"
  shows "hash_slow A h = ep_block_hash (bd_execution_payload (bb_body block)) \<or>
    collides H (find_collision (node_hash H) 6444 (hash_slow A h) (execution_block_proof p)
      (ep_block_hash (bd_execution_payload (bb_body block))) (execution_block_proof q)) \<or>
    collides H (find_collision (node_hash H) (8192 + unat (slot p) mod 8192)
      (beacon_block_root p) (beacon_block_proof p) (beacon_block_root q) (beacon_block_proof q))"
proof -
  note facts = built_electra_proof_facts [OF assms(1,3,5,6,7) assms(11)]
  have x: "is_b256 (hash_slow A h)" using assms(2) by (simp add: alloy_ok_def)
  have wf: "historical_proof_wf 13 12 p" using assms(4) by simp
  have "climb (node_hash H) (hash_slow A h) (execution_block_proof p) 6444 = beacon_block_root p"
    "climb (node_hash H) (beacon_block_root p) (beacon_block_proof p) (8192 + unat (slot p) mod 8192)
      = T (roots_value block_roots)"
    using assms(4,8-10) by (auto simp: validate_Ok_iff [OF assms(1,2)])
  from chain_binding [OF assms(1) x assms(5) wf facts(2) this(1) facts(4) this(2) facts(5)]
  show ?thesis .
qed

theorem electra_header_in_block_witness:
  "\<exists>p. p = built_electra_proof sample_hashing sample_tree_hash 11649029 sample_electra_roots
      sample_electra_block \<and>
    (hash_slow sample_alloy sample_electra_header
      = ep_block_hash (bd_execution_payload (bb_body sample_electra_block)) \<or>
    collides sample_hashing (find_collision (node_hash sample_hashing) 6444
      (hash_slow sample_alloy sample_electra_header) (execution_block_proof p)
      (ep_block_hash (bd_execution_payload (bb_body sample_electra_block))) (execution_block_proof p)) \<or>
    collides sample_hashing (find_collision (node_hash sample_hashing) (8192 + unat (slot p) mod 8192)
      (beacon_block_root p) (beacon_block_proof p) (beacon_block_root p) (beacon_block_proof p)))"
proof -
  let ?p = "built_electra_proof sample_hashing sample_tree_hash 11649029 sample_electra_roots
      sample_electra_block"
  have hash: "is_b256 (ep_block_hash (bd_execution_payload (bb_body sample_electra_block)))"
    by (simp add: sample_electra_facts(1))
  note facts = built_electra_proof_facts [OF hashing_ok_sample sample_tree_hash_ok hash
      sample_electra_facts(2,3) refl]
  have "validate_header_with_proof sample_hashing sample_alloy [replicate 1000 sample_electra_summary]
      (sample_validator [] []) \<lparr>header = sample_electra_header, hwp_proof = HistoricalSummariesDeneb ?p\<rparr> = Ok ()"
    using facts(2-5)
    by (simp add: validate_Ok_iff sample_electra_facts)
      (simp add: sample_electra_header_def activation_unat)
  from electra_header_in_block [OF hashing_ok_sample alloy_ok_sample sample_tree_hash_ok _ hash
      sample_electra_facts(2) _ _ sample_electra_facts(5) this refl]
  show ?thesis
    using facts(2,3) sample_electra_facts by (simp del: tree_hash_of.simps)
qed

subsection \<open>Historical summaries in a state\<close>

text \<open>
  C32.  The branch of \<open>historical_summaries\<close> in a beacon state: for Electra the
  construction never panics and the branch leads from the root of the summaries to the root of the
  state at generalized index 91 and depth 6; for Deneb at depth 5 and index 59.
\<close>

theorem historical_summaries_branch_verifies:
  assumes "hashing_ok H" "tree_hash_ok H T"
  shows "\<exists>p. build_historical_summaries_proof_electra H T s = Ok p \<and>
    verify_merkle_proof H (T (summaries_value (bs_historical_summaries s))) p 6
      (word_of_nat HISTORICAL_SUMMARIES_GINDEX)
      (T (VContainer (state_electra_fields payload_header_deneb_fields s))) = Ok True \<and>
    verify_merkle_proof H (T (summaries_value (bs_historical_summaries s')))
      (build_historical_summaries_proof_deneb H T s') 5 59
      (T (VContainer (state_capella_fields payload_header_deneb_fields s'))) = Ok True"
proof -
  have nth: "state_electra_fields payload_header_deneb_fields s ! 27
      = summaries_value (bs_historical_summaries s)"
    "state_capella_fields payload_header_deneb_fields s' ! 27
      = summaries_value (bs_historical_summaries s')"
    by (simp_all add: state_electra_fields_def state_capella_fields_def state_bellatrix_fields_def)
  note electra = container_branch [OF assms fits_fields(10) [of payload_header_deneb_fields s] refl]
  note deneb = container_branch [OF assms fits_fields(9) [of payload_header_deneb_fields s'] refl]
  show ?thesis
    using electra(1) electra(3) [of 91] deneb(1) deneb(3) [of 59]
    by (simp add: historical_summaries_leaves fixed_vector_expect_def nth
        verify_merkle_proof_climb assms(1) tree_hash_okD(1) [OF assms(2)]
        HISTORICAL_SUMMARIES_GINDEX_def)
qed

theorem historical_summaries_branch_verifies_witness:
  "\<forall>s s'. \<exists>p. build_historical_summaries_proof_electra sample_hashing sample_tree_hash s = Ok p \<and>
    verify_merkle_proof sample_hashing
      (sample_tree_hash (summaries_value (bs_historical_summaries s))) p 6
      (word_of_nat HISTORICAL_SUMMARIES_GINDEX)
      (sample_tree_hash (VContainer (state_electra_fields payload_header_deneb_fields s))) = Ok True \<and>
    verify_merkle_proof sample_hashing
      (sample_tree_hash (summaries_value (bs_historical_summaries s')))
      (build_historical_summaries_proof_deneb sample_hashing sample_tree_hash s') 5 59
      (sample_tree_hash (VContainer (state_capella_fields payload_header_deneb_fields s'))) = Ok True"
  by (intro allI historical_summaries_branch_verifies hashing_ok_sample sample_tree_hash_ok)

end
