(* ===== verification/Inclusion.thy ===== *)
theory Inclusion
  imports Hist_Errors
begin

text \<open>
  Inclusion of transactions and receipts in an authenticated block, and the decoding of receipts
  (\<open>src/inclusion.rs\<close>).

  The trie verifier (\<open>alloy_trie\<close>), RLP (\<open>alloy_rlp\<close>) and the receipt envelope of \<open>alloy\<close> are the
  parameters \<open>trie_api\<close> and \<open>rlp_api\<close>.  A decoder takes the front of its buffer and leaves the rest;
  \<open>rlp_ok\<close>, \<open>rlp_local\<close>, \<open>receipt_rlp_ok\<close> and \<open>envelope_ok\<close> state what they document.
\<close>

subsection \<open>Receipts of \<open>alloy\<close>\<close>

datatype Eip658Value = Eip658 bool | PostState b256

record Log =
  log_address :: address
  log_topics :: "b256 list"
  log_data :: bytes

record Receipt =
  status :: Eip658Value
  rc_cumulative_gas_used :: u64
  rc_logs :: "Log list"

record ReceiptWithBloom =
  receipt :: Receipt
  rb_logs_bloom :: bytes

datatype ReceiptEnvelope =
    Legacy ReceiptWithBloom
  | Eip2930 ReceiptWithBloom
  | Eip1559 ReceiptWithBloom
  | Eip4844 ReceiptWithBloom
  | Eip7702 ReceiptWithBloom

fun envelope_receipt :: "ReceiptEnvelope \<Rightarrow> ReceiptWithBloom" where
  "envelope_receipt (Legacy r) = r"
| "envelope_receipt (Eip2930 r) = r"
| "envelope_receipt (Eip1559 r) = r"
| "envelope_receipt (Eip4844 r) = r"
| "envelope_receipt (Eip7702 r) = r"

fun envelope_tx_type :: "ReceiptEnvelope \<Rightarrow> byte" where
  "envelope_tx_type (Legacy _) = 0"
| "envelope_tx_type (Eip2930 _) = 1"
| "envelope_tx_type (Eip1559 _) = 2"
| "envelope_tx_type (Eip4844 _) = 3"
| "envelope_tx_type (Eip7702 _) = 4"

subsection \<open>The libraries\<close>

type_synonym 'a decoder = "bytes \<Rightarrow> ('a \<times> bytes, msg) res"

record trie_api =
  nibbles_unpack :: "bytes \<Rightarrow> bytes"
  verify_proof :: "b256 \<Rightarrow> bytes \<Rightarrow> bytes option \<Rightarrow> bytes list \<Rightarrow> (unit, msg) res"

record rlp_api =
  enc_u64 :: "u64 \<Rightarrow> bytes"
  dec_u64 :: "u64 decoder"
  enc_status :: "Eip658Value \<Rightarrow> bytes"
  dec_status :: "Eip658Value decoder"
  enc_bloom :: "bytes \<Rightarrow> bytes"
  dec_bloom :: "bytes decoder"
  enc_logs :: "Log list \<Rightarrow> bytes"
  dec_logs :: "Log list decoder"
  enc_header :: "bool \<times> nat \<Rightarrow> bytes"
  dec_header :: "(bool \<times> nat) decoder"
  enc_receipt :: "ReceiptWithBloom \<Rightarrow> bytes"
  dec_receipt :: "ReceiptWithBloom decoder"
  encoded_2718 :: "ReceiptEnvelope \<Rightarrow> bytes"
  decode_2718 :: "ReceiptEnvelope decoder"
  envelope_decode :: "ReceiptEnvelope decoder"

text \<open>A decoder gives back an encoded value and leaves what follows; it does not look at the rest.\<close>

definition gives_back :: "('a \<Rightarrow> bytes) \<Rightarrow> 'a decoder \<Rightarrow> 'a \<Rightarrow> bool" where
  "gives_back enc dec x \<longleftrightarrow> (\<forall>rest. dec (enc x @ rest) = Ok (x, rest))"

definition reads_prefix :: "'a decoder \<Rightarrow> bool" where
  "reads_prefix dec \<longleftrightarrow>
     (\<forall>bs x rest after. dec bs = Ok (x, rest) \<longrightarrow> dec (bs @ after) = Ok (x, rest @ after))"

text \<open>Integers, and list headers whose payload is in the buffer.\<close>

definition rlp_ok :: "rlp_api \<Rightarrow> bool" where
  "rlp_ok R \<longleftrightarrow>
     (\<forall>n. gives_back (enc_u64 R) (dec_u64 R) n \<and> enc_u64 R n \<noteq> []) \<and>
     (\<forall>n rest. n \<le> length rest \<longrightarrow> n < 2 ^ 64 \<longrightarrow>
        dec_header R (enc_header R (True, n) @ rest) = Ok ((True, n), rest))"

definition rlp_local :: "rlp_api \<Rightarrow> bool" where
  "rlp_local R \<longleftrightarrow> reads_prefix (dec_header R) \<and> reads_prefix (dec_receipt R)"

text \<open>The values of a receipt are ones that RLP can encode (a bloom has 256 bytes, and so on).\<close>

definition receipt_rlp_ok :: "rlp_api \<Rightarrow> ReceiptWithBloom \<Rightarrow> bool" where
  "receipt_rlp_ok R r \<longleftrightarrow>
     gives_back (enc_status R) (dec_status R) (status (receipt r)) \<and>
     gives_back (enc_bloom R) (dec_bloom R) (rb_logs_bloom r) \<and>
     gives_back (enc_logs R) (dec_logs R) (rc_logs (receipt r)) \<and>
     gives_back (enc_receipt R) (dec_receipt R) r"

text \<open>A typed envelope starts with its type byte, a legacy one with the header of a list.\<close>

definition envelope_ok :: "rlp_api \<Rightarrow> ReceiptEnvelope \<Rightarrow> bool" where
  "envelope_ok R env \<longleftrightarrow>
     (\<exists>tag body. encoded_2718 R env = tag # body \<and>
       (case env of
          Legacy _ \<Rightarrow> 0xc0 \<le> tag \<and> gives_back (encoded_2718 R) (envelope_decode R) env
        | _ \<Rightarrow> tag = envelope_tx_type env \<and> gives_back (encoded_2718 R) (decode_2718 R) env))"

subsection \<open>The code: inclusion\<close>

definition verify_mpt_inclusion ::
  "trie_api \<Rightarrow> b256 \<Rightarrow> bytes \<Rightarrow> bytes \<Rightarrow> bytes list \<Rightarrow> (unit, Error) res" where
  "verify_mpt_inclusion M root key v proof_nodes =
     (if proof_nodes = [] then Err (MptInclusion (lit ''empty proof''))
      else
        let nibbles = nibbles_unpack M key; proof_bytes = map (\<lambda>n. n) proof_nodes
        in map_err MptInclusion (verify_proof M root nibbles (Some v) proof_bytes))"

definition rlp_encode_index :: "rlp_api \<Rightarrow> u64 \<Rightarrow> bytes" where
  "rlp_encode_index R index = [] @ enc_u64 R index"

definition verify_transaction_inclusion ::
  "trie_api \<Rightarrow> rlp_api \<Rightarrow> b256 \<Rightarrow> u64 \<Rightarrow> bytes \<Rightarrow> bytes list \<Rightarrow> (unit, Error) res" where
  "verify_transaction_inclusion M R root tx_index raw_tx proof_nodes =
     (let key = rlp_encode_index R tx_index
      in verify_mpt_inclusion M root key raw_tx proof_nodes)"

definition verify_receipt_inclusion ::
  "trie_api \<Rightarrow> rlp_api \<Rightarrow> b256 \<Rightarrow> u64 \<Rightarrow> bytes \<Rightarrow> bytes list \<Rightarrow> (unit, Error) res" where
  "verify_receipt_inclusion M R root receipt_index raw_receipt proof_nodes =
     (let key = rlp_encode_index R receipt_index
      in verify_mpt_inclusion M root key raw_receipt proof_nodes)"

subsection \<open>The code: decoded receipts\<close>

definition ARBITRUM_TX_TYPE_MIN :: byte where "ARBITRUM_TX_TYPE_MIN = 0x64"
definition ARBITRUM_TX_TYPE_MAX :: byte where "ARBITRUM_TX_TYPE_MAX = 0x6A"
definition OP_DEPOSIT_TX_TYPE :: byte where "OP_DEPOSIT_TX_TYPE = 0x7E"

lemmas tx_type_defs = ARBITRUM_TX_TYPE_MIN_def ARBITRUM_TX_TYPE_MAX_def OP_DEPOSIT_TX_TYPE_def

datatype DecodedReceipt =
    Ethereum ReceiptEnvelope
  | Arbitrum byte ReceiptWithBloom
  | OpDeposit ReceiptWithBloom "u64 option" "u64 option"

fun decoded_logs :: "DecodedReceipt \<Rightarrow> Log list" where
  "decoded_logs (Ethereum env) = rc_logs (receipt (envelope_receipt env))"
| "decoded_logs (Arbitrum _ r) = rc_logs (receipt r)"
| "decoded_logs (OpDeposit r _ _) = rc_logs (receipt r)"

fun decoded_tx_type :: "DecodedReceipt \<Rightarrow> byte" where
  "decoded_tx_type (Ethereum env) = envelope_tx_type env"
| "decoded_tx_type (Arbitrum t _) = t"
| "decoded_tx_type (OpDeposit _ _ _) = OP_DEPOSIT_TX_TYPE"

fun decoded_cumulative_gas_used :: "DecodedReceipt \<Rightarrow> u64" where
  "decoded_cumulative_gas_used (Ethereum env) =
     rc_cumulative_gas_used (receipt (envelope_receipt env))"
| "decoded_cumulative_gas_used (Arbitrum _ r) = rc_cumulative_gas_used (receipt r)"
| "decoded_cumulative_gas_used (OpDeposit r _ _) = rc_cumulative_gas_used (receipt r)"

fun as_envelope :: "DecodedReceipt \<Rightarrow> ReceiptEnvelope option" where
  "as_envelope (Ethereum env) = Some env"
| "as_envelope (Arbitrum _ _) = None"
| "as_envelope (OpDeposit _ _ _) = None"

fun to_wire_bytes :: "rlp_api \<Rightarrow> DecodedReceipt \<Rightarrow> bytes" where
  "to_wire_bytes R (Ethereum env) = encoded_2718 R env"
| "to_wire_bytes R (Arbitrum tx_type r) = [tx_type] @ enc_receipt R r"
| "to_wire_bytes R (OpDeposit r deposit_nonce deposit_receipt_version) =
     (let payload = enc_status R (status (receipt r))
            @ enc_u64 R (rc_cumulative_gas_used (receipt r))
            @ enc_bloom R (rb_logs_bloom r) @ enc_logs R (rc_logs (receipt r))
            @ (case (deposit_nonce, deposit_receipt_version) of
                 (Some n, Some v) \<Rightarrow> enc_u64 R n @ enc_u64 R v
               | _ \<Rightarrow> [])
      in [OP_DEPOSIT_TX_TYPE] @ enc_header R (True, length payload) @ payload)"

subsection \<open>The code: decoding\<close>

definition op_err :: "string \<Rightarrow> msg \<Rightarrow> msg" where
  "op_err what e = (case e of Msg t args \<Rightarrow>
     Msg ''op deposit 0x7e: {what}: {err}'' (AStr what # AStr t # args))"

definition decode_op_deposit :: "rlp_api \<Rightarrow> bytes \<Rightarrow> (DecodedReceipt, msg) res" where
  "decode_op_deposit R body =
     and_then (map_err (op_err ''list header'') (dec_header R body)) (\<lambda>((is_list, payload_length), buf).
     if \<not> is_list then Err (lit ''op deposit 0x7e: body is not an RLP list'')
     else if length buf \<noteq> payload_length
     then Err (Msg ''op deposit 0x7e: {} trailing bytes after the receipt body''
            [ANat (if length buf \<le> payload_length then payload_length - length buf
                   else length buf - payload_length)])
     else
     and_then (map_err (op_err ''status'') (dec_status R buf)) (\<lambda>(st, p).
     and_then (map_err (op_err ''cumulativeGasUsed'') (dec_u64 R p)) (\<lambda>(gas, p).
     and_then (map_err (op_err ''logsBloom'') (dec_bloom R p)) (\<lambda>(bloom, p).
     and_then (map_err (op_err ''logs'') (dec_logs R p)) (\<lambda>(logs, p).
     and_then
       (if p = [] then Ok (None, None, p)
        else and_then (map_err (op_err ''depositNonce'') (dec_u64 R p)) (\<lambda>(n, p).
             and_then (map_err (op_err ''depositReceiptVersion'') (dec_u64 R p)) (\<lambda>(v, p).
             Ok (Some n, Some v, p))))
       (\<lambda>(deposit_nonce, deposit_receipt_version, p).
     if p \<noteq> []
     then Err (Msg ''op deposit 0x7e: {} unexpected bytes after the receipt's fields''
            [ANat (length p)])
     else Ok (OpDeposit
       \<lparr>receipt = \<lparr>status = st, rc_cumulative_gas_used = gas, rc_logs = logs\<rparr>,
        rb_logs_bloom = bloom\<rparr> deposit_nonce deposit_receipt_version)))))))"

definition decode_receipt ::
  "rlp_api \<Rightarrow> u64 \<Rightarrow> bytes \<Rightarrow> (DecodedReceipt, Error) res" where
  "decode_receipt R receipt_index raw_receipt =
     (case raw_receipt of
        [] \<Rightarrow> Err (ReceiptDecode receipt_index (lit ''empty receipt bytes''))
      | tag # body \<Rightarrow>
          if 0x80 \<le> tag
          then map_err (ReceiptDecode receipt_index)
                 (map_ok (\<lambda>(env, _). Ethereum env) (envelope_decode R raw_receipt))
          else if ARBITRUM_TX_TYPE_MIN \<le> tag \<and> tag \<le> ARBITRUM_TX_TYPE_MAX
          then and_then (map_err (\<lambda>e. ReceiptDecode receipt_index
                   (Msg ''arbitrum type 0x{tx_type:02x}: {e}'' [ANat (unat tag)]))
                 (dec_receipt R body)) (\<lambda>(r, body).
               if body \<noteq> []
               then Err (ReceiptDecode receipt_index (Msg
                 ''arbitrum type 0x{tx_type:02x}: {} trailing bytes after the receipt body''
                 [ANat (unat tag), ANat (length body)]))
               else Ok (Arbitrum tag r))
          else if tag = OP_DEPOSIT_TX_TYPE
          then map_err (ReceiptDecode receipt_index) (decode_op_deposit R body)
          else if tag \<le> 4
          then map_err (ReceiptDecode receipt_index)
                 (map_ok (\<lambda>(env, _). Ethereum env) (decode_2718 R raw_receipt))
          else Err (ReceiptDecode receipt_index (Msg
                 ''unsupported EIP-2718 receipt type 0x{other:02x} (admitted: 0x00-0x04 Ethereum, 0x64-0x6a Arbitrum, 0x7e OP-stack deposit)''
                 [ANat (unat tag)])))"

definition verify_and_decode_receipt ::
  "trie_api \<Rightarrow> rlp_api \<Rightarrow> b256 \<Rightarrow> u64 \<Rightarrow> bytes \<Rightarrow> bytes list \<Rightarrow> (DecodedReceipt, Error) res" where
  "verify_and_decode_receipt M R root receipt_index raw_receipt proof_nodes =
     and_then (verify_receipt_inclusion M R root receipt_index raw_receipt proof_nodes)
       (\<lambda>_. decode_receipt R receipt_index raw_receipt)"

subsection \<open>Round trips\<close>

lemma gives_backD: "gives_back enc dec x \<Longrightarrow> dec (enc x @ rest) = Ok (x, rest)"
  by (simp add: gives_back_def)

lemma gives_back_end: "gives_back enc dec x \<Longrightarrow> dec (enc x) = Ok (x, [])"
  using gives_backD [of enc dec x "[]"] by simp

lemma reads_prefixD: "reads_prefix dec \<Longrightarrow> dec bs = Ok (x, rest) \<Longrightarrow> dec (bs @ after) = Ok (x, rest @ after)"
  by (simp add: reads_prefix_def)

definition op_fields :: "rlp_api \<Rightarrow> ReceiptWithBloom \<Rightarrow> (u64 \<times> u64) option \<Rightarrow> bytes" where
  "op_fields R r extra =
     enc_status R (status (receipt r)) @ enc_u64 R (rc_cumulative_gas_used (receipt r))
       @ enc_bloom R (rb_logs_bloom r) @ enc_logs R (rc_logs (receipt r))
       @ (case extra of None \<Rightarrow> [] | Some (n, v) \<Rightarrow> enc_u64 R n @ enc_u64 R v)"

lemma decode_op_deposit_fields:
  assumes R: "rlp_ok R" and r: "receipt_rlp_ok R r" and size: "length (op_fields R r extra) < 2 ^ 64"
  shows "decode_op_deposit R (enc_header R (True, length (op_fields R r extra)) @ op_fields R r extra)
    = Ok (OpDeposit r (map_option fst extra) (map_option snd extra))"
proof -
  have u64: "dec_u64 R (enc_u64 R n @ rest) = Ok (n, rest)" "dec_u64 R (enc_u64 R n) = Ok (n, [])"
    "enc_u64 R n \<noteq> []" for n rest
    using R by (simp_all add: rlp_ok_def gives_backD gives_back_end)
  have header: "dec_header R (enc_header R (True, length (op_fields R r extra)) @ op_fields R r extra)
      = Ok ((True, length (op_fields R r extra)), op_fields R r extra)"
    using R size by (simp add: rlp_ok_def)
  note fields = r [unfolded receipt_rlp_ok_def, THEN conjunct1, THEN gives_backD]
    r [unfolded receipt_rlp_ok_def, THEN conjunct2, THEN conjunct1, THEN gives_backD]
    r [unfolded receipt_rlp_ok_def, THEN conjunct2, THEN conjunct2, THEN conjunct1, THEN gives_backD]
    r [unfolded receipt_rlp_ok_def, THEN conjunct2, THEN conjunct2, THEN conjunct1, THEN gives_back_end]
  show ?thesis
    unfolding decode_op_deposit_def header
    by (cases extra) (auto simp: op_fields_def fields u64 split: prod.splits)
qed

text \<open>What the wire format can carry: both optional fields of a deposit receipt, or none.\<close>

fun wire_ok :: "rlp_api \<Rightarrow> DecodedReceipt \<Rightarrow> bool" where
  "wire_ok R (Ethereum env) \<longleftrightarrow> envelope_ok R env"
| "wire_ok R (Arbitrum t r) \<longleftrightarrow> ARBITRUM_TX_TYPE_MIN \<le> t \<and> t \<le> ARBITRUM_TX_TYPE_MAX \<and> receipt_rlp_ok R r"
| "wire_ok R (OpDeposit r n v) \<longleftrightarrow> (n = None \<longleftrightarrow> v = None) \<and> receipt_rlp_ok R r \<and>
     length (to_wire_bytes R (OpDeposit r n v)) < 2 ^ 64"

lemma decode_receipt_arbitrum:
  assumes "ARBITRUM_TX_TYPE_MIN \<le> t" "t \<le> ARBITRUM_TX_TYPE_MAX" "receipt_rlp_ok R r"
  shows "decode_receipt R i (to_wire_bytes R (Arbitrum t r)) = Ok (Arbitrum t r)"
proof -
  have "\<not> 0x80 \<le> t"
    using assms(2) by (simp add: ARBITRUM_TX_TYPE_MAX_def word_le_nat_alt)
  then show ?thesis
    using assms by (simp add: decode_receipt_def receipt_rlp_ok_def gives_back_end)
qed

lemma decode_receipt_op:
  assumes "rlp_ok R" "receipt_rlp_ok R r" "length (to_wire_bytes R (OpDeposit r n v)) < 2 ^ 64"
    and "n = None \<longleftrightarrow> v = None"
  shows "decode_receipt R i (to_wire_bytes R (OpDeposit r n v)) = Ok (OpDeposit r n v)"
proof -
  define extra where "extra = (case (n, v) of (Some n, Some v) \<Rightarrow> Some (n, v) | _ \<Rightarrow> None)"
  have extra: "map_option fst extra = n" "map_option snd extra = v"
    using assms(4) by (auto simp: extra_def split: option.splits)
  have wire: "to_wire_bytes R (OpDeposit r n v)
      = OP_DEPOSIT_TX_TYPE # enc_header R (True, length (op_fields R r extra)) @ op_fields R r extra"
    by (auto simp: op_fields_def extra_def Let_def split: option.splits)
  moreover have "length (op_fields R r extra) < 2 ^ 64" using assms(3) unfolding wire by simp
  ultimately show ?thesis
    using decode_op_deposit_fields [OF assms(1,2), of extra] extra
    by (simp add: decode_receipt_def tx_type_defs)
qed

text \<open>What follows an Ethereum receipt is ignored.\<close>

lemma decode_receipt_ethereum:
  assumes "envelope_ok R env"
  shows "decode_receipt R i (encoded_2718 R env @ rest) = Ok (Ethereum env)"
proof -
  obtain tag body where enc: "encoded_2718 R env = tag # body"
    and tag: "case env of Legacy _ \<Rightarrow> 0xc0 \<le> tag \<and> gives_back (encoded_2718 R) (envelope_decode R) env
        | _ \<Rightarrow> tag = envelope_tx_type env \<and> gives_back (encoded_2718 R) (decode_2718 R) env"
    using assms by (auto simp: envelope_ok_def)
  show ?thesis
  proof (cases env)
    case (Legacy r)
    then have "0x80 \<le> tag" using tag by (simp add: word_le_nat_alt)
    then show ?thesis
      using tag Legacy gives_backD [of "encoded_2718 R" "envelope_decode R" env rest] enc
      by (simp add: decode_receipt_def)
  qed (use tag enc gives_backD [of "encoded_2718 R" "decode_2718 R" env rest] in
      \<open>auto simp: decode_receipt_def tx_type_defs word_le_nat_alt\<close>)
qed

subsection \<open>Strictness\<close>

lemma decode_op_deposit_Ok:
  assumes "decode_op_deposit R body = Ok d"
  shows "\<exists>r n v buf. d = OpDeposit r n v \<and> dec_header R body = Ok ((True, length buf), buf)"
  using assms by (auto simp: decode_op_deposit_def and_then_Ok_iff split: if_splits prod.splits)

lemma decode_op_deposit_junk:
  assumes "reads_prefix (dec_header R)" "decode_op_deposit R body = Ok d" "junk \<noteq> []"
  shows "\<exists>m. decode_op_deposit R (body @ junk) = Err m"
proof -
  from decode_op_deposit_Ok [OF assms(2)] obtain buf
    where "dec_header R body = Ok ((True, length buf), buf)" by blast
  from reads_prefixD [OF assms(1) this, of junk] show ?thesis
    using assms(3) by (simp add: decode_op_deposit_def)
qed

end
