(* ===== verification/Inclusion_Properties.thy ===== *)
theory Inclusion_Properties
  imports Inclusion
begin

text \<open>
  The claims about receipts: what decoding returns, what it refuses, and when a receipt and its
  wire bytes determine each other.
\<close>

subsection \<open>Sample codec\<close>

text \<open>Fixed-width fields in place of RLP; logs are modelled as an empty list of zero items.\<close>

definition sample_take :: "nat \<Rightarrow> bytes \<Rightarrow> (bytes \<times> bytes, msg) res" where
  "sample_take n bs = (if length bs < n then Err (lit ''input too short'') else Ok (take n bs, drop n bs))"

definition sample_dec_u64 :: "u64 decoder" where
  "sample_dec_u64 bs = and_then (sample_take 8 bs) (\<lambda>(b, rest). Ok (from_le b, rest))"

fun sample_enc_status :: "Eip658Value \<Rightarrow> bytes" where
  "sample_enc_status (Eip658 b) = [if b then 1 else 0]"
| "sample_enc_status (PostState h) = 2 # h"

definition sample_dec_status :: "Eip658Value decoder" where
  "sample_dec_status bs = (case bs of b # rest \<Rightarrow>
       if b = 0 then Ok (Eip658 False, rest) else if b = 1 then Ok (Eip658 True, rest)
       else Err (lit ''unexpected string'')
     | [] \<Rightarrow> Err (lit ''input too short''))"

definition sample_dec_logs :: "Log list decoder" where
  "sample_dec_logs bs = (case bs of b # rest \<Rightarrow>
       if b = 0xc0 then Ok ([], rest) else Err (lit ''unexpected list'')
     | [] \<Rightarrow> Err (lit ''input too short''))"

definition sample_enc_header :: "bool \<times> nat \<Rightarrow> bytes" where
  "sample_enc_header h = (if fst h then 0xf7 else 0xb7) # to_le 8 (word_of_nat (snd h) :: u64)"

definition sample_dec_header :: "(bool \<times> nat) decoder" where
  "sample_dec_header bs = (case bs of [] \<Rightarrow> Err (lit ''input too short'') | b # bs \<Rightarrow>
     if b \<noteq> 0xf7 \<and> b \<noteq> 0xb7 then Err (lit ''unexpected string'')
     else and_then (sample_dec_u64 bs) (\<lambda>(n, rest).
       if length rest < unat n then Err (lit ''input too short'') else Ok ((b = 0xf7, unat n), rest)))"

definition sample_enc_receipt :: "ReceiptWithBloom \<Rightarrow> bytes" where
  "sample_enc_receipt r = 0xc5 # sample_enc_status (status (receipt r))
     @ to_le 8 (rc_cumulative_gas_used (receipt r)) @ rb_logs_bloom r @ [0xc0]"

definition sample_dec_receipt :: "ReceiptWithBloom decoder" where
  "sample_dec_receipt bs = (case bs of [] \<Rightarrow> Err (lit ''input too short'') | b # bs \<Rightarrow>
     if b \<noteq> 0xc5 then Err (lit ''unexpected string'')
     else and_then (sample_dec_status bs) (\<lambda>(s, bs). and_then (sample_dec_u64 bs) (\<lambda>(g, bs).
     and_then (sample_take 256 bs) (\<lambda>(m, bs). and_then (sample_dec_logs bs) (\<lambda>(l, bs).
     Ok (\<lparr>receipt = \<lparr>status = s, rc_cumulative_gas_used = g, rc_logs = l\<rparr>, rb_logs_bloom = m\<rparr>, bs))))))"

definition sample_rlp :: rlp_api where
  "sample_rlp =
     \<lparr>enc_u64 = to_le 8, dec_u64 = sample_dec_u64,
      enc_status = sample_enc_status, dec_status = sample_dec_status,
      enc_bloom = (\<lambda>b. b), dec_bloom = sample_take 256,
      enc_logs = (\<lambda>_. [0xc0]), dec_logs = sample_dec_logs,
      enc_header = sample_enc_header, dec_header = sample_dec_header,
      enc_receipt = sample_enc_receipt, dec_receipt = sample_dec_receipt,
      encoded_2718 = (\<lambda>env. (case env of Legacy _ \<Rightarrow> [] | _ \<Rightarrow> [envelope_tx_type env])
        @ sample_enc_receipt (envelope_receipt env)),
      decode_2718 = (\<lambda>bs. case bs of b # bs \<Rightarrow>
          and_then (sample_dec_receipt bs) (\<lambda>(r, rest).
            if b = 1 then Ok (Eip2930 r, rest) else if b = 2 then Ok (Eip1559 r, rest)
            else if b = 3 then Ok (Eip4844 r, rest) else if b = 4 then Ok (Eip7702 r, rest)
            else Err (lit ''unexpected type''))
        | [] \<Rightarrow> Err (lit ''input too short'')),
      envelope_decode = (\<lambda>bs. and_then (sample_dec_receipt bs) (\<lambda>(r, rest). Ok (Legacy r, rest)))\<rparr>"

definition sample_receipt :: ReceiptWithBloom where
  "sample_receipt =
     \<lparr>receipt = \<lparr>status = Eip658 True, rc_cumulative_gas_used = 21000, rc_logs = []\<rparr>,
      rb_logs_bloom = replicate 256 0\<rparr>"

lemma sample_dec_u64_to_le [simp]: "sample_dec_u64 (to_le 8 n @ rest) = Ok (n, rest)"
  by (simp add: sample_dec_u64_def sample_take_def from_le_to_le)

lemma sample_rlp_ok [simp]: "rlp_ok sample_rlp"
proof -
  have "to_le 8 (n :: u64) \<noteq> []" for n
    by (metis length_to_le list.size(3) zero_neq_numeral)
  moreover have "unat (word_of_nat n :: u64) = n" if "n < 2 ^ 64" for n
    using that by (simp add: unat_of_nat)
  ultimately show ?thesis
    by (simp add: rlp_ok_def sample_rlp_def gives_back_def sample_dec_header_def sample_enc_header_def)
qed

lemma sample_dec_receipt_back [simp]:
  "sample_dec_receipt (sample_enc_receipt sample_receipt @ rest) = Ok (sample_receipt, rest)"
  by (simp add: sample_dec_receipt_def sample_enc_receipt_def sample_receipt_def
      sample_dec_status_def sample_take_def sample_dec_logs_def)

lemma sample_receipt_ok [simp]: "receipt_rlp_ok sample_rlp sample_receipt"
  unfolding receipt_rlp_ok_def
  by (simp add: sample_rlp_def gives_back_def)
    (simp add: sample_receipt_def sample_dec_status_def sample_take_def sample_dec_logs_def)

lemma sample_envelope_ok [simp]:
  "envelope_ok sample_rlp (Legacy sample_receipt)" "envelope_ok sample_rlp (Eip1559 sample_receipt)"
  by (auto simp: envelope_ok_def sample_rlp_def gives_back_def sample_enc_receipt_def
      sample_dec_receipt_back [unfolded sample_enc_receipt_def, simplified] word_le_nat_alt)

lemma sample_prefixes [simp]:
  "reads_prefix sample_dec_u64" "reads_prefix (sample_take n)" "reads_prefix sample_dec_status"
  "reads_prefix sample_dec_logs"
  by (auto simp: reads_prefix_def sample_dec_u64_def sample_take_def sample_dec_status_def
      sample_dec_logs_def split: list.splits if_splits)

lemma reads_prefix_bind:
  assumes "reads_prefix d" "\<And>x. reads_prefix (f x)"
  shows "reads_prefix (\<lambda>bs. and_then (d bs) (\<lambda>(x, rest). f x rest))"
  unfolding reads_prefix_def
proof (intro allI impI)
  fix bs y rest after
  assume "and_then (d bs) (\<lambda>(x, rest). f x rest) = Ok (y, rest)"
  then obtain x mid where "d bs = Ok (x, mid)" "f x mid = Ok (y, rest)"
    by (auto simp: and_then_Ok_iff)
  then show "and_then (d (bs @ after)) (\<lambda>(x, rest). f x rest) = Ok (y, rest @ after)"
    using assms by (simp add: reads_prefix_def)
qed

lemma reads_prefix_byte:
  assumes "\<And>b. reads_prefix (f b)"
  shows "reads_prefix (\<lambda>bs. case bs of [] \<Rightarrow> Err e | b # bs \<Rightarrow> if P b then Err e' else f b bs)"
  using assms by (auto simp: reads_prefix_def split: list.splits if_splits)

lemma reads_prefix_Ok: "reads_prefix (\<lambda>bs. if length bs < n then Err e else Ok (x, bs))"
  by (auto simp: reads_prefix_def)

lemma sample_header_prefix [simp]: "reads_prefix sample_dec_header"
  unfolding sample_dec_header_def
  by (intro reads_prefix_byte reads_prefix_bind reads_prefix_Ok sample_prefixes)

lemma sample_receipt_prefix [simp]: "reads_prefix sample_dec_receipt"
  unfolding sample_dec_receipt_def
  by (intro reads_prefix_byte reads_prefix_bind sample_prefixes) (simp add: reads_prefix_def)

lemma sample_rlp_local [simp]: "rlp_local sample_rlp"
  by (simp add: rlp_local_def sample_rlp_def)

subsection \<open>Claims\<close>

text \<open>
  C33.  Encoding then decoding a receipt gives it back, for every admitted type: Ethereum
  envelopes, Arbitrum receipts with a type byte of the Arbitrum range, and deposit receipts with
  both optional fields or with none.
\<close>

theorem receipt_roundtrip:
  assumes "rlp_ok R" "wire_ok R d"
  shows "decode_receipt R i (to_wire_bytes R d) = Ok d"
proof (cases d)
  case (Ethereum env)
  then show ?thesis using assms(2) decode_receipt_ethereum [of R env i "[]"] by simp
next
  case (Arbitrum t r)
  then show ?thesis using assms(2) decode_receipt_arbitrum [of t R r i] by simp
next
  case (OpDeposit r n v)
  then show ?thesis
    using assms decode_receipt_op [of R r n v i] by (simp del: to_wire_bytes.simps)
qed

theorem receipt_roundtrip_witness:
  "decode_receipt sample_rlp 3 (to_wire_bytes sample_rlp (OpDeposit sample_receipt (Some 9) (Some 1)))
    = Ok (OpDeposit sample_receipt (Some 9) (Some 1))"
  by (rule receipt_roundtrip) (simp_all add: sample_rlp_def sample_receipt_def sample_enc_header_def
      sample_receipt_ok [unfolded sample_rlp_def sample_receipt_def]
      sample_rlp_ok [unfolded sample_rlp_def])

text \<open>
  C34.  The types the crate parses itself are strict: a wire receipt that decodes to an
  Arbitrum or a deposit receipt starts with the reported type, and with any bytes appended it is
  refused with \<open>ReceiptDecode\<close>.
\<close>

theorem strict_receipts_prefix_free:
  assumes "rlp_local R" "decode_receipt R i raw = Ok d" "as_envelope d = None" "junk \<noteq> []"
  shows "raw \<noteq> [] \<and> hd raw = decoded_tx_type d \<and>
    (\<exists>m. decode_receipt R i (raw @ junk) = Err (ReceiptDecode i m))"
proof -
  obtain tag body where raw: "raw = tag # body"
    using assms(2) by (cases raw) (simp_all add: decode_receipt_def)
  from assms(2,3) raw consider
      (arb) r where "d = Arbitrum tag r" "dec_receipt R body = Ok (r, [])" "\<not> 0x80 \<le> tag"
        "ARBITRUM_TX_TYPE_MIN \<le> tag" "tag \<le> ARBITRUM_TX_TYPE_MAX"
    | (op) "tag = OP_DEPOSIT_TX_TYPE" "decode_op_deposit R body = Ok d"
    by (fastforce simp: decode_receipt_def and_then_Ok_iff map_ok_Ok_iff split: if_splits)
  then show ?thesis
  proof cases
    case arb
    have "dec_receipt R (body @ junk) = Ok (r, junk)"
      using assms(1) reads_prefixD [of "dec_receipt R" body r "[]" junk] arb(2)
      by (simp add: rlp_local_def)
    then show ?thesis using arb assms(4) by (simp add: raw decode_receipt_def)
  next
    case op
    obtain m where "decode_op_deposit R (body @ junk) = Err m"
      using decode_op_deposit_junk [OF _ op(2) assms(4)] assms(1) by (auto simp: rlp_local_def)
    moreover obtain r n v where "d = OpDeposit r n v" using decode_op_deposit_Ok [OF op(2)] by blast
    ultimately show ?thesis by (simp add: raw op(1) decode_receipt_def tx_type_defs)
  qed
qed

theorem strict_receipts_prefix_free_witness:
  "0x6A # sample_enc_receipt sample_receipt \<noteq> [] \<and>
   hd (0x6A # sample_enc_receipt sample_receipt) = decoded_tx_type (Arbitrum 0x6A sample_receipt) \<and>
   (\<exists>m. decode_receipt sample_rlp 0 ((0x6A # sample_enc_receipt sample_receipt) @ [0])
     = Err (ReceiptDecode 0 m))"
proof (rule strict_receipts_prefix_free)
  show "decode_receipt sample_rlp 0 (0x6A # sample_enc_receipt sample_receipt)
      = Ok (Arbitrum 0x6A sample_receipt)"
    using decode_receipt_arbitrum [of "0x6A" sample_rlp sample_receipt 0]
    by (simp add: tx_type_defs) (simp add: sample_rlp_def)
qed simp_all

text \<open>
  Types are never guessed: a non-empty receipt below \<open>0x80\<close> whose first byte is outside
  \<open>0x00-0x04\<close>, \<open>0x64-0x6a\<close> and \<open>0x7e\<close> is refused with an error that names the index and the byte,
  whatever its body; an empty one is refused too.
\<close>

theorem receipt_types_refused:
  assumes "4 < tag" "tag < 0x80" "tag < 0x64 \<or> 0x6a < tag" "tag \<noteq> 0x7e"
  shows "(\<exists>t. decode_receipt R i (tag # body) = Err (ReceiptDecode i (Msg t [ANat (unat tag)]))) \<and>
    (\<exists>m. decode_receipt R i [] = Err (ReceiptDecode i m))"
  using assms by (auto simp: decode_receipt_def tx_type_defs)

theorem receipt_types_refused_witness:
  "(\<exists>t. decode_receipt sample_rlp 7 (0x05 # [1, 2]) = Err (ReceiptDecode 7 (Msg t [ANat (unat (0x05 :: byte))]))) \<and>
    (\<exists>m. decode_receipt sample_rlp 7 [] = Err (ReceiptDecode 7 m))"
  by (rule receipt_types_refused) (simp_all add: word_less_nat_alt)

text \<open>
  C35.  On Ethereum receipts decoding is not strict: bytes after the receipt are ignored, so
  different wire bytes decode to one receipt, and \<open>to_wire_bytes\<close> gives back only one of them.  The
  comment on \<open>to_wire_bytes\<close> promises a round trip byte for byte for every admitted type.
\<close>

theorem ethereum_receipt_trailing_bytes:
  assumes "envelope_ok R env" "junk \<noteq> []"
  shows "decode_receipt R i (to_wire_bytes R (Ethereum env) @ junk) = Ok (Ethereum env) \<and>
    to_wire_bytes R (Ethereum env) \<noteq> to_wire_bytes R (Ethereum env) @ junk"
  using assms decode_receipt_ethereum [OF assms(1)] by simp

theorem ethereum_receipt_trailing_bytes_witness:
  "decode_receipt sample_rlp 0 (to_wire_bytes sample_rlp (Ethereum (Legacy sample_receipt)) @ [1, 2])
      = Ok (Ethereum (Legacy sample_receipt)) \<and>
    to_wire_bytes sample_rlp (Ethereum (Legacy sample_receipt))
      \<noteq> to_wire_bytes sample_rlp (Ethereum (Legacy sample_receipt)) @ [1, 2]"
  by (rule ethereum_receipt_trailing_bytes) simp_all

text \<open>
  A receipt is returned only after the trie verifier accepted the raw bytes at the RLP
  of the index under the given root, with a non-empty proof, and then it is the decoding of these
  bytes; receipts of different indices are looked up under different keys.
\<close>

theorem verify_and_decode_receipt_Ok:
  assumes "rlp_ok R"
  shows "(verify_and_decode_receipt M R root i raw nodes = Ok d \<longleftrightarrow>
      nodes \<noteq> [] \<and>
      verify_proof M root (nibbles_unpack M (enc_u64 R i)) (Some raw) nodes = Ok () \<and>
      decode_receipt R i raw = Ok d) \<and>
    (rlp_encode_index R i = rlp_encode_index R j \<longleftrightarrow> i = j)"
proof -
  have "dec_u64 R (enc_u64 R n) = Ok (n, [])" for n
    using assms by (simp add: rlp_ok_def gives_back_end)
  then have "enc_u64 R i = enc_u64 R j \<longleftrightarrow> i = j"
    by (metis fst_conv res.inject(1))
  then show ?thesis
    by (auto simp: verify_and_decode_receipt_def verify_receipt_inclusion_def
        verify_mpt_inclusion_def rlp_encode_index_def and_then_Ok_iff Let_def)
qed

end
