(* ===== verification/Verifier_Api.thy ===== *)
theory Verifier_Api
  imports Validator_Properties Inclusion
begin

text \<open>
  The public API (\<open>src/api.rs\<close>): verified blocks, the builder, the verifier and its loops over the
  data sources, and the trait \<open>DataSource\<close> (\<open>src/sources/mod.rs\<close>) as a record of its two fetches.
  A verifier is cloned by sharing its validator, so clones share the snapshot of the provider, which
  lives in the store \<open>snapshots\<close>.
\<close>

subsection \<open>Data sources\<close>

text \<open>What a source answers is an argument: bytes, an error of the crate, or a panic.\<close>

record data_source =
  fetch_header_with_proof_by_number :: "u64 \<Rightarrow> (bytes, Error) res"
  fetch_header_with_proof_by_hash :: "b256 \<Rightarrow> (bytes, Error) res"
  source_name :: string

subsection \<open>Verified blocks\<close>

record VerifiedBlock =
  vb_header :: Header
  vb_auth_path :: AuthPath

definition verified_block_hash :: "alloy_api \<Rightarrow> VerifiedBlock \<Rightarrow> b256" where
  "verified_block_hash A self = hash_slow A (vb_header self)"

definition vb_verify_transaction_inclusion ::
  "trie_api \<Rightarrow> rlp_api \<Rightarrow> VerifiedBlock \<Rightarrow> u64 \<Rightarrow> bytes \<Rightarrow> bytes list \<Rightarrow> (unit, Error) res" where
  "vb_verify_transaction_inclusion M R self tx_index raw_tx proof_nodes =
     verify_transaction_inclusion M R (transactions_root (vb_header self)) tx_index raw_tx proof_nodes"

definition vb_verify_receipt_inclusion ::
  "trie_api \<Rightarrow> rlp_api \<Rightarrow> VerifiedBlock \<Rightarrow> u64 \<Rightarrow> bytes \<Rightarrow> bytes list \<Rightarrow> (unit, Error) res" where
  "vb_verify_receipt_inclusion M R self receipt_index raw_receipt proof_nodes =
     verify_receipt_inclusion M R (receipts_root (vb_header self)) receipt_index raw_receipt proof_nodes"

definition vb_verify_and_decode_receipt ::
  "trie_api \<Rightarrow> rlp_api \<Rightarrow> VerifiedBlock \<Rightarrow> u64 \<Rightarrow> bytes \<Rightarrow> bytes list \<Rightarrow> (DecodedReceipt, Error) res" where
  "vb_verify_and_decode_receipt M R self receipt_index raw_receipt proof_nodes =
     verify_and_decode_receipt M R (receipts_root (vb_header self)) receipt_index raw_receipt proof_nodes"

subsection \<open>The builder\<close>

record Verifier =
  validator :: HeaderValidator
  data_sources :: "data_source list"

record VerifierBuilder =
  vbl_data_sources :: "data_source list"
  vbl_historical_summaries :: "HistoricalSummaries option"
  vbl_skip_fingerprint_check :: bool

definition builder_new :: VerifierBuilder where
  "builder_new =
     \<lparr>vbl_data_sources = [], vbl_historical_summaries = None, vbl_skip_fingerprint_check = False\<rparr>"

definition builder_data_source :: "VerifierBuilder \<Rightarrow> data_source \<Rightarrow> VerifierBuilder" where
  "builder_data_source self source =
     self\<lparr>vbl_data_sources := vbl_data_sources self @ [source]\<rparr>"

definition builder_historical_summaries ::
  "VerifierBuilder \<Rightarrow> HistoricalSummaries \<Rightarrow> VerifierBuilder" where
  "builder_historical_summaries self summaries = self\<lparr>vbl_historical_summaries := Some summaries\<rparr>"

definition builder_skip_fingerprint_check :: "VerifierBuilder \<Rightarrow> VerifierBuilder" where
  "builder_skip_fingerprint_check self = self\<lparr>vbl_skip_fingerprint_check := True\<rparr>"

definition builder_build ::
  "assets_api \<Rightarrow> VerifierBuilder \<Rightarrow> snapshots \<Rightarrow> (Verifier \<times> snapshots, 'e) res" where
  "builder_build E self st =
     and_then (if \<not> vbl_skip_fingerprint_check self
               then assert_canonized_accumulator_fingerprints E else Ok ()) (\<lambda>_.
     and_then (case vbl_historical_summaries self of
                 Some summaries \<Rightarrow> new_with_historical_summaries E summaries st
               | None \<Rightarrow> validator_default E st) (\<lambda>(v, st').
     Ok (\<lparr>validator = v, data_sources = vbl_data_sources self\<rparr>, st')))"

definition verifier_new :: "assets_api \<Rightarrow> snapshots \<Rightarrow> (Verifier \<times> snapshots, 'e) res" where
  "verifier_new E st = builder_build E builder_new st"

definition verifier_default :: "assets_api \<Rightarrow> snapshots \<Rightarrow> (Verifier \<times> snapshots, 'e) res" where
  "verifier_default E st = verifier_new E st"

subsection \<open>The verifier\<close>

definition set_historical_summaries ::
  "Verifier \<Rightarrow> HistoricalSummaries \<Rightarrow> snapshots \<Rightarrow> snapshots" where
  "set_historical_summaries self summaries st =
     set_summaries (historical_summaries_provider (validator self)) summaries st"

definition verify ::
  "hashing \<Rightarrow> alloy_api \<Rightarrow> snapshots \<Rightarrow> Verifier \<Rightarrow> HeaderWithProof \<Rightarrow> (VerifiedBlock, Error) res" where
  "verify H A st self hwp =
     and_then (map_err (VerificationFailed (number (header hwp)))
                 (validate_header_with_proof H A st (validator self) hwp)) (\<lambda>_.
     Ok \<lparr>vb_header = header hwp, vb_auth_path = auth_path_for (hwp_proof hwp)\<rparr>)"

definition debug_decode_error :: "DecodeError \<Rightarrow> msg" where
  "debug_decode_error e = Msg ''{:?}'' [case e of BytesInvalid s \<Rightarrow> AStr s | OtherDecodeError n \<Rightarrow> ANat n]"

text \<open>The loop over the remaining sources; \<open>last_err\<close> is its state.\<close>

fun by_number_loop ::
  "hashing \<Rightarrow> alloy_api \<Rightarrow> ssz_api \<Rightarrow> snapshots \<Rightarrow> Verifier \<Rightarrow> u64 \<Rightarrow> data_source list
     \<Rightarrow> Error option \<Rightarrow> (VerifiedBlock, Error) res" where
  "by_number_loop H A S st self block_number [] last_err =
     Err (case last_err of None \<Rightarrow> BlockNotFound block_number | Some e \<Rightarrow> e)"
| "by_number_loop H A S st self block_number (source # sources) last_err =
     (case fetch_header_with_proof_by_number source block_number of
        Ok bs \<Rightarrow>
          (case hwp_from_ssz_bytes A S bs of
             Err e \<Rightarrow> by_number_loop H A S st self block_number sources
                        (Some (SszDecode block_number (debug_decode_error e)))
           | Panic p \<Rightarrow> Panic p
           | Ok hwp \<Rightarrow>
               if number (header hwp) \<noteq> block_number
               then by_number_loop H A S st self block_number sources
                      (Some (BlockNumberMismatch block_number (number (header hwp))))
               else (case verify H A st self hwp of
                       Ok verified \<Rightarrow> Ok verified
                     | Err e \<Rightarrow> by_number_loop H A S st self block_number sources (Some e)
                     | Panic p \<Rightarrow> Panic p))
      | Err e \<Rightarrow> by_number_loop H A S st self block_number sources (Some e)
      | Panic p \<Rightarrow> Panic p)"

definition verify_block_by_number ::
  "hashing \<Rightarrow> alloy_api \<Rightarrow> ssz_api \<Rightarrow> snapshots \<Rightarrow> Verifier \<Rightarrow> u64 \<Rightarrow> (VerifiedBlock, Error) res" where
  "verify_block_by_number H A S st self block_number =
     (if data_sources self = [] then Err NoDataSource
      else by_number_loop H A S st self block_number (data_sources self) None)"

fun by_hash_loop ::
  "hashing \<Rightarrow> alloy_api \<Rightarrow> ssz_api \<Rightarrow> snapshots \<Rightarrow> Verifier \<Rightarrow> b256 \<Rightarrow> data_source list
     \<Rightarrow> Error option \<Rightarrow> (VerifiedBlock, Error) res" where
  "by_hash_loop H A S st self bh [] last_err =
     Err (case last_err of None \<Rightarrow> DataSource (lit ''no source produced bytes'') | Some e \<Rightarrow> e)"
| "by_hash_loop H A S st self bh (source # sources) last_err =
     (case fetch_header_with_proof_by_hash source bh of
        Ok bs \<Rightarrow>
          (case hwp_from_ssz_bytes A S bs of
             Err e \<Rightarrow> by_hash_loop H A S st self bh sources
                        (Some (SszDecode 0 (debug_decode_error e)))
           | Panic p \<Rightarrow> Panic p
           | Ok hwp \<Rightarrow>
               if hash_slow A (header hwp) \<noteq> bh
               then by_hash_loop H A S st self bh sources
                      (Some (VerificationFailed (number (header hwp))
                         (lit ''returned header's hash does not match requested hash'')))
               else (case verify H A st self hwp of
                       Ok verified \<Rightarrow> Ok verified
                     | Err e \<Rightarrow> by_hash_loop H A S st self bh sources (Some e)
                     | Panic p \<Rightarrow> Panic p))
      | Err e \<Rightarrow> by_hash_loop H A S st self bh sources (Some e)
      | Panic p \<Rightarrow> Panic p)"

definition verify_block_by_hash ::
  "hashing \<Rightarrow> alloy_api \<Rightarrow> ssz_api \<Rightarrow> snapshots \<Rightarrow> Verifier \<Rightarrow> b256 \<Rightarrow> (VerifiedBlock, Error) res" where
  "verify_block_by_hash H A S st self bh =
     (if data_sources self = [] then Err NoDataSource
      else by_hash_loop H A S st self bh (data_sources self) None)"

subsection \<open>The contract of a fallback chain\<close>

text \<open>One attempt for each source in order; the first success or panic ends the loop.\<close>

locale fallback =
  fixes attempt :: "'s \<Rightarrow> ('v, 'e) res"
    and chain :: "'s list \<Rightarrow> 'e option \<Rightarrow> ('v, 'e) res"
    and nothing :: 'e
  assumes chain_Nil: "chain [] prev = Err (case prev of None \<Rightarrow> nothing | Some e \<Rightarrow> e)"
    and chain_Cons: "chain (s # ss) prev =
      (case attempt s of Ok v \<Rightarrow> Ok v | Err e \<Rightarrow> chain ss (Some e) | Panic p \<Rightarrow> Panic p)"
begin

definition fails :: "'s \<Rightarrow> bool" where
  "fails s \<longleftrightarrow> (\<exists>e. attempt s = Err e)"

lemma chain_skip:
  "\<forall>s \<in> set pre. fails s \<Longrightarrow> \<exists>prev'. chain (pre @ ss) prev = chain ss prev'"
proof (induction pre arbitrary: prev)
  case Nil
  then show ?case by auto
next
  case (Cons s pre)
  from Cons.prems obtain e where "attempt s = Err e" by (auto simp: fails_def)
  then show ?case using Cons.IH [of "Some e"] Cons.prems by (simp add: chain_Cons)
qed

lemma chain_cases:
  "(\<exists>pre s post. ss = pre @ s # post \<and> (\<forall>x \<in> set pre. fails x) \<and> \<not> fails s \<and> chain ss prev = attempt s)
   \<or> ((\<forall>x \<in> set ss. fails x) \<and> (\<exists>e. chain ss prev = Err e))"
proof (induction ss arbitrary: prev)
  case Nil
  then show ?case by (simp add: chain_Nil)
next
  case (Cons s ss)
  show ?case
  proof (cases "attempt s")
    case (Err e)
    then have "chain (s # ss) prev = chain ss (Some e)" "fails s"
      by (simp_all add: chain_Cons fails_def)
    moreover from Cons.IH [of "Some e"]
    show ?thesis
    proof (elim disjE exE conjE)
      fix pre s' post
      assume "ss = pre @ s' # post" "\<forall>x \<in> set pre. fails x" "\<not> fails s'" "chain ss (Some e) = attempt s'"
      with calculation show ?thesis
        by (intro disjI1 exI [of _ "s # pre"] exI [of _ s'] exI [of _ post]) simp
    qed (use calculation in auto)
  qed (auto simp: chain_Cons fails_def intro!: exI [of _ "[]"])
qed

lemma chain_Ok_iff:
  "chain ss prev = Ok v \<longleftrightarrow>
     (\<exists>pre s post. ss = pre @ s # post \<and> (\<forall>x \<in> set pre. fails x) \<and> attempt s = Ok v)"
proof
  assume "chain ss prev = Ok v"
  with chain_cases [of ss prev] show "\<exists>pre s post. ss = pre @ s # post \<and>
      (\<forall>x \<in> set pre. fails x) \<and> attempt s = Ok v" by auto blast
next
  assume "\<exists>pre s post. ss = pre @ s # post \<and> (\<forall>x \<in> set pre. fails x) \<and> attempt s = Ok v"
  then obtain pre s post where "ss = pre @ s # post" "\<forall>x \<in> set pre. fails x" "attempt s = Ok v"
    by blast
  then show "chain ss prev = Ok v"
    using chain_skip [of pre "s # post" prev] by (auto simp: chain_Cons)
qed

lemma chain_Panic_iff:
  "chain ss prev = Panic p \<longleftrightarrow>
     (\<exists>pre s post. ss = pre @ s # post \<and> (\<forall>x \<in> set pre. fails x) \<and> attempt s = Panic p)"
proof
  assume "chain ss prev = Panic p"
  with chain_cases [of ss prev] show "\<exists>pre s post. ss = pre @ s # post \<and>
      (\<forall>x \<in> set pre. fails x) \<and> attempt s = Panic p" by auto blast
next
  assume "\<exists>pre s post. ss = pre @ s # post \<and> (\<forall>x \<in> set pre. fails x) \<and> attempt s = Panic p"
  then obtain pre s post where "ss = pre @ s # post" "\<forall>x \<in> set pre. fails x" "attempt s = Panic p"
    by blast
  then show "chain ss prev = Panic p"
    using chain_skip [of pre "s # post" prev] by (auto simp: chain_Cons)
qed

text \<open>When all fail, the error of the last source is reported.\<close>

lemma chain_Err_iff:
  "chain (ss @ [s]) prev = Err e \<longleftrightarrow> (\<forall>x \<in> set ss. fails x) \<and> attempt s = Err e"
proof
  assume err: "chain (ss @ [s]) prev = Err e"
  with chain_cases [of "ss @ [s]" prev] have "\<forall>x \<in> set (ss @ [s]). fails x"
    unfolding fails_def by metis
  then have all: "\<forall>x \<in> set ss. fails x" "fails s" by simp_all
  then obtain prev' where "chain (ss @ [s]) prev = chain [s] prev'"
    using chain_skip [of ss "[s]" prev] by blast
  with err all show "(\<forall>x \<in> set ss. fails x) \<and> attempt s = Err e"
    by (auto simp: chain_Cons chain_Nil fails_def)
next
  assume "(\<forall>x \<in> set ss. fails x) \<and> attempt s = Err e"
  then show "chain (ss @ [s]) prev = Err e"
    using chain_skip [of ss "[s]" prev] by (auto simp: chain_Cons chain_Nil)
qed

end

subsection \<open>Both loops keep the contract\<close>

definition number_attempt ::
  "hashing \<Rightarrow> alloy_api \<Rightarrow> ssz_api \<Rightarrow> snapshots \<Rightarrow> Verifier \<Rightarrow> u64 \<Rightarrow> data_source
     \<Rightarrow> (VerifiedBlock, Error) res" where
  "number_attempt H A S st self n source =
     and_then (fetch_header_with_proof_by_number source n) (\<lambda>bs.
     and_then (map_err (\<lambda>e. SszDecode n (debug_decode_error e)) (hwp_from_ssz_bytes A S bs)) (\<lambda>hwp.
     if number (header hwp) \<noteq> n then Err (BlockNumberMismatch n (number (header hwp)))
     else verify H A st self hwp))"

definition hash_attempt ::
  "hashing \<Rightarrow> alloy_api \<Rightarrow> ssz_api \<Rightarrow> snapshots \<Rightarrow> Verifier \<Rightarrow> b256 \<Rightarrow> data_source
     \<Rightarrow> (VerifiedBlock, Error) res" where
  "hash_attempt H A S st self h source =
     and_then (fetch_header_with_proof_by_hash source h) (\<lambda>bs.
     and_then (map_err (\<lambda>e. SszDecode 0 (debug_decode_error e)) (hwp_from_ssz_bytes A S bs)) (\<lambda>hwp.
     if hash_slow A (header hwp) \<noteq> h
     then Err (VerificationFailed (number (header hwp))
       (lit ''returned header's hash does not match requested hash''))
     else verify H A st self hwp))"

interpretation by_number:
  fallback "number_attempt H A S st self n" "by_number_loop H A S st self n" "BlockNotFound n"
  for H A S st self n
  by unfold_locales (auto simp: number_attempt_def split: res.splits)

interpretation by_hash:
  fallback "hash_attempt H A S st self h" "by_hash_loop H A S st self h"
    "DataSource (lit ''no source produced bytes'')"
  for H A S st self h
  by unfold_locales (auto simp: hash_attempt_def split: res.splits)

lemma verify_Ok_iff:
  "verify H A st self hwp = Ok vb \<longleftrightarrow>
     validate_header_with_proof H A st (validator self) hwp = Ok () \<and>
     vb = \<lparr>vb_header = header hwp, vb_auth_path = auth_path_for (hwp_proof hwp)\<rparr>"
  by (auto simp: verify_def and_then_Ok_iff)

lemma number_attempt_Ok_iff:
  "number_attempt H A S st self n source = Ok vb \<longleftrightarrow>
     (\<exists>bs hwp. fetch_header_with_proof_by_number source n = Ok bs \<and>
        hwp_from_ssz_bytes A S bs = Ok hwp \<and> number (header hwp) = n \<and>
        validate_header_with_proof H A st (validator self) hwp = Ok () \<and>
        vb = \<lparr>vb_header = header hwp, vb_auth_path = auth_path_for (hwp_proof hwp)\<rparr>)"
  by (auto simp: number_attempt_def and_then_Ok_iff verify_Ok_iff)

lemma hash_attempt_Ok_iff:
  "hash_attempt H A S st self h source = Ok vb \<longleftrightarrow>
     (\<exists>bs hwp. fetch_header_with_proof_by_hash source h = Ok bs \<and>
        hwp_from_ssz_bytes A S bs = Ok hwp \<and> hash_slow A (header hwp) = h \<and>
        validate_header_with_proof H A st (validator self) hwp = Ok () \<and>
        vb = \<lparr>vb_header = header hwp, vb_auth_path = auth_path_for (hwp_proof hwp)\<rparr>)"
  by (auto simp: hash_attempt_def and_then_Ok_iff verify_Ok_iff)

text \<open>An honest source behind failing ones is enough.\<close>

lemma verify_by_number_delivered:
  assumes "data_sources V = pre @ source # post"
    and "\<forall>s \<in> set pre. \<exists>e. number_attempt H A S st V n s = Err e"
    and "fetch_header_with_proof_by_number source n = Ok (hwp_as_ssz_bytes A S hwp)"
    and "hwp_from_ssz_bytes A S (hwp_as_ssz_bytes A S hwp) = Ok hwp"
    and "number (header hwp) = n"
    and "validate_header_with_proof H A st (validator V) hwp = Ok ()"
  shows "verify_block_by_number H A S st V n
    = Ok \<lparr>vb_header = header hwp, vb_auth_path = auth_path_for (hwp_proof hwp)\<rparr>"
proof -
  have "number_attempt H A S st V n source
      = Ok \<lparr>vb_header = header hwp, vb_auth_path = auth_path_for (hwp_proof hwp)\<rparr>"
    using assms(3-6) by (simp add: number_attempt_Ok_iff)
  then show ?thesis
    using assms(1,2) by (auto simp: verify_block_by_number_def by_number.chain_Ok_iff by_number.fails_def
        simp del: by_number_loop.simps)
qed

end
