(* ===== verification/Verifier_Properties.thy ===== *)
theory Verifier_Properties
  imports Verifier_Api
begin

text \<open>
  The claims about the public API: what a verified block is, in which order sources are tried and
  what is reported when they fail, how the snapshot is shared, and what the integrity check checks.
\<close>

subsection \<open>Sample data\<close>

definition sample_source :: "HeaderWithProof \<Rightarrow> data_source" where
  "sample_source hwp =
     \<lparr>fetch_header_with_proof_by_number = (\<lambda>_. Ok (hwp_as_ssz_bytes sample_alloy sample_ssz hwp)),
      fetch_header_with_proof_by_hash = (\<lambda>_. Ok (hwp_as_ssz_bytes sample_alloy sample_ssz hwp)),
      source_name = ''sample''\<rparr>"

definition failing_source :: "string \<Rightarrow> data_source" where
  "failing_source m =
     \<lparr>fetch_header_with_proof_by_number = (\<lambda>_. Err (Http (lit m))),
      fetch_header_with_proof_by_hash = (\<lambda>_. Err (Http (lit m))), source_name = ''failing''\<rparr>"

definition sample_verifier :: "data_source list \<Rightarrow> Verifier" where
  "sample_verifier sources = \<lparr>validator = sample_merge_validator, data_sources = sources\<rparr>"

definition sample_verified :: VerifiedBlock where
  "sample_verified = \<lparr>vb_header = sample_merge_header, vb_auth_path = AuthHistoricalRoots\<rparr>"

lemma sample_merge_hwp_sel [simp]:
  "header sample_merge_hwp = sample_merge_header"
  "auth_path_for (hwp_proof sample_merge_hwp) = AuthHistoricalRoots"
  "number sample_merge_header = 15600000"
  by (simp_all add: sample_merge_hwp_def sample_merge_header_def)

lemma sample_merge_era: "era_of sample_merge_header = AuthHistoricalRoots"
  by (simp add: era_of_def sample_merge_header_def activation_unat)

lemma sample_attempts:
  "number_attempt sample_hashing sample_alloy sample_ssz st (sample_verifier sources) 15600000
     (sample_source sample_merge_hwp) = Ok sample_verified"
  "hash_attempt sample_hashing sample_alloy sample_ssz st (sample_verifier sources)
     (hash_slow sample_alloy sample_merge_header) (sample_source sample_merge_hwp) = Ok sample_verified"
  "number_attempt sample_hashing sample_alloy sample_ssz st (sample_verifier sources) n
     (failing_source m) = Err (Http (lit m))"
  "hash_attempt sample_hashing sample_alloy sample_ssz st (sample_verifier sources) h
     (failing_source m) = Err (Http (lit m))"
  by (simp_all add: number_attempt_def hash_attempt_def sample_source_def failing_source_def
      sample_merge_decodes verify_Ok_iff sample_verifier_def sample_verified_def sample_merge_era)

subsection \<open>Verified blocks\<close>

text \<open>
  C13.  \<open>verify_block_by_number\<close> returns a block exactly when some source, all of whose
  predecessors failed with an error, delivers bytes that decode to a header of the requested number
  whose proof the validator accepts; the result carries that header and the path of its proof.
\<close>

theorem verify_block_by_number_first:
  "verify_block_by_number H A S st V n = Ok vb \<longleftrightarrow>
    (\<exists>pre source post bs hwp. data_sources V = pre @ source # post \<and>
      (\<forall>s \<in> set pre. \<exists>e. number_attempt H A S st V n s = Err e) \<and>
      fetch_header_with_proof_by_number source n = Ok bs \<and>
      hwp_from_ssz_bytes A S bs = Ok hwp \<and> number (header hwp) = n \<and>
      validate_header_with_proof H A st (validator V) hwp = Ok () \<and>
      vb = \<lparr>vb_header = header hwp, vb_auth_path = auth_path_for (hwp_proof hwp)\<rparr>)"
  by (auto simp: verify_block_by_number_def by_number.chain_Ok_iff number_attempt_Ok_iff
      by_number.fails_def)

theorem verify_block_by_number_first_witness:
  "\<exists>pre source post bs hwp. data_sources (sample_verifier
        [failing_source ''a'', sample_source sample_merge_hwp]) = pre @ source # post \<and>
      (\<forall>s \<in> set pre. \<exists>e. number_attempt sample_hashing sample_alloy sample_ssz [] (sample_verifier
        [failing_source ''a'', sample_source sample_merge_hwp]) 15600000 s = Err e) \<and>
      fetch_header_with_proof_by_number source 15600000 = Ok bs \<and>
      hwp_from_ssz_bytes sample_alloy sample_ssz bs = Ok hwp \<and> number (header hwp) = 15600000 \<and>
      validate_header_with_proof sample_hashing sample_alloy [] (validator (sample_verifier
        [failing_source ''a'', sample_source sample_merge_hwp])) hwp = Ok () \<and>
      sample_verified = \<lparr>vb_header = header hwp, vb_auth_path = auth_path_for (hwp_proof hwp)\<rparr>"
proof -
  have "data_sources (sample_verifier ss) = ss" for ss by (simp add: sample_verifier_def)
  then have "verify_block_by_number sample_hashing sample_alloy sample_ssz [] (sample_verifier
      [failing_source ''a'', sample_source sample_merge_hwp]) 15600000 = Ok sample_verified"
    by (simp add: verify_block_by_number_def by_number.chain_Cons sample_attempts
        del: by_number_loop.simps)
  then show ?thesis by (rule verify_block_by_number_first [THEN iffD1])
qed

text \<open>
  C11.  A verified block is what was asked for and is labelled correctly, whatever the sources
  deliver: its number or hash is the requested one, its authentication path is the era of its
  header, and the validator accepted a well-sized proof for it.
\<close>

theorem verified_block_authentic:
  assumes "ssz_ok S"
    and "verify_block_by_number H A S st V n = Ok vb \<and> ok = (number (vb_header vb) = n) \<or>
         verify_block_by_hash H A S st V h = Ok vb \<and> ok = (verified_block_hash A vb = h)"
  shows "ok \<and> vb_auth_path vb = era_of (vb_header vb) \<and>
    (\<exists>proof. proof_wf proof \<and> auth_path_for proof = vb_auth_path vb \<and>
       validate_header_with_proof H A st (validator V)
         \<lparr>header = vb_header vb, hwp_proof = proof\<rparr> = Ok ())"
proof -
  from assms(2) obtain bs hwp where dec: "hwp_from_ssz_bytes A S bs = Ok hwp" and ok: ok
    and accepted: "validate_header_with_proof H A st (validator V) hwp = Ok ()"
    and vb: "vb = \<lparr>vb_header = header hwp, vb_auth_path = auth_path_for (hwp_proof hwp)\<rparr>"
    by (auto simp: verify_block_by_number_def verify_block_by_hash_def by_number.chain_Ok_iff
        by_hash.chain_Ok_iff number_attempt_Ok_iff hash_attempt_Ok_iff verified_block_hash_def
        split: if_splits)
  from hwp_from_ssz_Ok [OF dec] assms(1)
  have "auth_path_for (hwp_proof hwp) = era_of (header hwp)" "proof_wf (hwp_proof hwp)" by blast+
  moreover obtain hd pf where "hwp = \<lparr>header = hd, hwp_proof = pf\<rparr>" by (cases hwp)
  ultimately show ?thesis using ok accepted vb by (intro conjI exI [of _ "hwp_proof hwp"]) simp_all
qed

theorem verified_block_authentic_witness:
  "verified_block_hash sample_alloy sample_verified = hash_slow sample_alloy sample_merge_header \<and>
   vb_auth_path sample_verified = era_of (vb_header sample_verified) \<and>
    (\<exists>proof. proof_wf proof \<and> auth_path_for proof = vb_auth_path sample_verified \<and>
       validate_header_with_proof sample_hashing sample_alloy []
         (validator (sample_verifier [sample_source sample_merge_hwp]))
         \<lparr>header = vb_header sample_verified, hwp_proof = proof\<rparr> = Ok ())"
proof -
  let ?V = "sample_verifier [sample_source sample_merge_hwp]"
  let ?h = "hash_slow sample_alloy sample_merge_header"
  have "data_sources ?V = [sample_source sample_merge_hwp]" by (simp add: sample_verifier_def)
  then have "verify_block_by_hash sample_hashing sample_alloy sample_ssz [] ?V ?h = Ok sample_verified"
    by (simp add: verify_block_by_hash_def by_hash.chain_Cons sample_attempts
        del: by_hash_loop.simps)
  then show ?thesis
    by (intro verified_block_authentic [where S = sample_ssz and V = ?V and h = ?h and n = 0,
        OF ssz_ok_sample disjI2]) simp
qed

subsection \<open>Failures\<close>

text \<open>
  C25.  When no source succeeds, the caller sees the error of the last one, and without
  sources \<open>NoDataSource\<close>; the defaults behind the loops (\<open>BlockNotFound\<close>, ''no source produced
  bytes'') are never reported.
\<close>

theorem fallback_reports_last_error:
  "(verify_block_by_number H A S st V n = Err e \<longleftrightarrow>
      (if data_sources V = [] then e = NoDataSource
       else (\<forall>s \<in> set (butlast (data_sources V)). \<exists>e'. number_attempt H A S st V n s = Err e') \<and>
            number_attempt H A S st V n (last (data_sources V)) = Err e)) \<and>
   (verify_block_by_hash H A S st V h = Err e \<longleftrightarrow>
      (if data_sources V = [] then e = NoDataSource
       else (\<forall>s \<in> set (butlast (data_sources V)). \<exists>e'. hash_attempt H A S st V h s = Err e') \<and>
            hash_attempt H A S st V h (last (data_sources V)) = Err e))"
proof (cases "data_sources V = []")
  case True
  then show ?thesis by (auto simp: verify_block_by_number_def verify_block_by_hash_def)
next
  case False
  then obtain ss s where ss: "data_sources V = ss @ [s]" by (metis rev_exhaust)
  show ?thesis
    by (simp add: verify_block_by_number_def verify_block_by_hash_def ss by_number.chain_Err_iff
        by_hash.chain_Err_iff by_number.fails_def by_hash.fails_def
        del: by_number_loop.simps by_hash_loop.simps)
qed

theorem fallback_reports_last_error_witness:
  "(verify_block_by_number sample_hashing sample_alloy sample_ssz []
      (sample_verifier [failing_source ''a'', failing_source ''b'']) 1 = Err (Http (lit ''b'')) \<longleftrightarrow> True)"
proof -
  have ds: "data_sources (sample_verifier ss) = ss" for ss by (simp add: sample_verifier_def)
  show ?thesis
    using fallback_reports_last_error [THEN conjunct1, of sample_hashing sample_alloy sample_ssz "[]"
        "sample_verifier [failing_source ''a'', failing_source ''b'']" 1 "Http (lit ''b'')"]
    by (simp add: ds sample_attempts)
qed

text \<open>
  C26.  A panic is not a failure of one source: if a source makes the verifier panic, after
  predecessors that failed, the whole call panics, although a later source may have the block.
\<close>

theorem panic_ends_fallback:
  assumes "data_sources V = pre @ source # post"
    and "\<forall>s \<in> set pre. \<exists>e. number_attempt H A S st V n s = Err e"
    and "fetch_header_with_proof_by_number source n = Ok bs"
    and "hwp_from_ssz_bytes A S bs = Ok hwp" "number (header hwp) = n"
    and "is_panic (validate_header_with_proof H A st (validator V) hwp)"
  shows "is_panic (verify_block_by_number H A S st V n)"
proof -
  obtain p where "validate_header_with_proof H A st (validator V) hwp = Panic p"
    using assms(6) by (auto simp: is_panic_iff)
  then have "number_attempt H A S st V n source = Panic p"
    using assms(3-5) by (simp add: number_attempt_def verify_def)
  then have "by_number_loop H A S st V n (data_sources V) None = Panic p"
    using assms(1,2) by (auto simp: by_number.chain_Panic_iff by_number.fails_def)
  then show ?thesis using assms(1) by (simp add: verify_block_by_number_def)
qed

definition crafted_hwp :: HeaderWithProof where
  "crafted_hwp = \<lparr>header = sample_merge_header,
     hwp_proof = HistoricalRoots (sample_historical 14 11 3228
       (hash_slow sample_alloy sample_merge_header) 0xFFFFFFFFFFFFFFFF)\<rparr>"

theorem panic_ends_fallback_witness:
  "is_panic (verify_block_by_number sample_hashing sample_alloy sample_ssz []
     (sample_verifier [failing_source ''a'', sample_source crafted_hwp, sample_source sample_merge_hwp])
     15600000)"
proof (rule panic_ends_fallback)
  let ?V = "sample_verifier [failing_source ''a'', sample_source crafted_hwp, sample_source sample_merge_hwp]"
  have wf: "proof_wf (hwp_proof crafted_hwp)"
    and era: "auth_path_for (hwp_proof crafted_hwp) = era_of (header crafted_hwp)"
    by (simp_all add: crafted_hwp_def era_of_def sample_merge_header_def activation_unat)
  show "data_sources ?V = [failing_source ''a''] @ sample_source crafted_hwp # [sample_source sample_merge_hwp]"
    by (simp add: sample_verifier_def)
  show "\<forall>s \<in> set [failing_source ''a'']. \<exists>e. number_attempt sample_hashing sample_alloy sample_ssz []
      ?V 15600000 s = Err e"
    by (simp add: sample_attempts)
  show "fetch_header_with_proof_by_number (sample_source crafted_hwp) 15600000
      = Ok (hwp_as_ssz_bytes sample_alloy sample_ssz crafted_hwp)"
    by (simp add: sample_source_def)
  show "hwp_from_ssz_bytes sample_alloy sample_ssz (hwp_as_ssz_bytes sample_alloy sample_ssz crafted_hwp)
      = Ok crafted_hwp"
    by (rule hwp_ssz_roundtrip [OF _ ssz_ok_sample wf era])
      (simp_all add: crafted_hwp_def sample_merge_header_def)
  show "number (header crafted_hwp) = 15600000" by (simp add: crafted_hwp_def)
  show "is_panic (validate_header_with_proof sample_hashing sample_alloy [] (validator ?V) crafted_hwp)"
    by (subst validate_panic_iff [OF hashing_ok_sample alloy_ok_sample wf era_of_guard [OF era]])
      (simp add: crafted_hwp_def sample_historical_def sample_root_def sample_verifier_def
        sample_merge_validator_def sample_validator_def)
qed

subsection \<open>Building and refreshing\<close>

definition sample_assets :: assets_api where
  "sample_assets =
     \<lparr>EmbeddedAssets_get = (\<lambda>name. Some (if name = ''validation_assets/merge_macc.bin'' then [1] else [2])),
      sha256_digest = (\<lambda>b. if b = [1] then MERGE_MACC_BIN_SHA256 else HISTORICAL_ROOTS_SSZ_SHA256),
      pre_merge_from_ssz = (\<lambda>_. Ok \<lparr>historical_epochs = []\<rparr>),
      roots_list_from_ssz = (\<lambda>_. Ok []),
      pre_merge_tree_hash_root = (\<lambda>_. DEFAULT_PRE_MERGE_ACC_HASH),
      roots_list_tree_hash_root = (\<lambda>_. DEFAULT_HISTORICAL_ROOTS_HASH)\<rparr>"

definition embedded :: "assets_api \<Rightarrow> bytes \<Rightarrow> bytes \<Rightarrow> PreMergeAccumulator \<Rightarrow> b256 list \<Rightarrow> bool" where
  "embedded E macc raw acc roots \<longleftrightarrow>
     EmbeddedAssets_get E ''validation_assets/merge_macc.bin'' = Some macc \<and>
     EmbeddedAssets_get E ''validation_assets/historical_roots.ssz'' = Some raw \<and>
     pre_merge_from_ssz E macc = Ok acc \<and> roots_list_from_ssz E raw = Ok roots"

definition fingerprinted :: "assets_api \<Rightarrow> bool" where
  "fingerprinted E \<longleftrightarrow>
     (\<exists>macc raw acc roots. embedded E macc raw acc roots \<and>
        sha256_digest E macc = MERGE_MACC_BIN_SHA256 \<and>
        sha256_digest E raw = HISTORICAL_ROOTS_SSZ_SHA256 \<and>
        pre_merge_tree_hash_root E acc = DEFAULT_PRE_MERGE_ACC_HASH \<and>
        roots_list_tree_hash_root E roots = DEFAULT_HISTORICAL_ROOTS_HASH)"

lemma fingerprints_Ok_iff: "assert_canonized_accumulator_fingerprints E = Ok u \<longleftrightarrow> fingerprinted E"
  unfolding assert_canonized_accumulator_fingerprints_def fingerprinted_def embedded_def
    pre_merge_default_def historical_roots_acc_new_def historical_roots_acc_tree_hash_root_def
  by (auto simp: and_then_Ok_iff split: option.splits)

lemma new_validator_Ok_iff:
  "new_with_historical_summaries E summaries st = Ok (v, st') \<longleftrightarrow>
     (\<exists>macc raw acc roots p. embedded E macc raw acc roots \<and> provider_new summaries st = (p, st') \<and>
        v = \<lparr>pre_merge_acc = acc, historical_roots_acc = \<lparr>historical_roots = roots\<rparr>,
             historical_summaries_provider = p\<rparr>)"
  unfolding new_with_historical_summaries_def embedded_def
  by (cases "provider_new summaries st")
    (auto simp: and_then_Ok_iff pre_merge_default_def historical_roots_acc_new_def
      split: option.splits)

lemma builder_build_Ok_iff:
  "builder_build E self st = Ok (V, st') \<longleftrightarrow>
     (vbl_skip_fingerprint_check self \<or> fingerprinted E) \<and>
     (\<exists>macc raw acc roots p. embedded E macc raw acc roots \<and>
        provider_new (case vbl_historical_summaries self of None \<Rightarrow> [] | Some s \<Rightarrow> s) st = (p, st') \<and>
        V = \<lparr>validator = \<lparr>pre_merge_acc = acc, historical_roots_acc = \<lparr>historical_roots = roots\<rparr>,
               historical_summaries_provider = p\<rparr>, data_sources = vbl_data_sources self\<rparr>)"
  by (cases "vbl_historical_summaries self")
    (auto simp: builder_build_def validator_default_def and_then_Ok_iff fingerprints_Ok_iff
      new_validator_Ok_iff; blast)+

text \<open>
  C27.  A verifier built without skipping the check trusts the published roots only: the
  embedded files have the two SHA-256 digests of the crate, and the accumulators its validator
  holds are those decoded from them, with the two canonical tree-hash roots.  In every case it
  keeps the sources in the order given and starts with the given snapshot, or an empty one.
\<close>

theorem built_verifier_trusts_constants:
  assumes "builder_build E self st = Ok (V, st')"
  shows "(\<not> vbl_skip_fingerprint_check self \<longrightarrow>
      map_option (sha256_digest E) (EmbeddedAssets_get E ''validation_assets/merge_macc.bin'')
        = Some MERGE_MACC_BIN_SHA256 \<and>
      map_option (sha256_digest E) (EmbeddedAssets_get E ''validation_assets/historical_roots.ssz'')
        = Some HISTORICAL_ROOTS_SSZ_SHA256 \<and>
      pre_merge_tree_hash_root E (pre_merge_acc (validator V)) = DEFAULT_PRE_MERGE_ACC_HASH \<and>
      historical_roots_acc_tree_hash_root E (historical_roots_acc (validator V))
        = DEFAULT_HISTORICAL_ROOTS_HASH) \<and>
    data_sources V = vbl_data_sources self \<and>
    read_summaries st' (historical_summaries_provider (validator V))
      = (case vbl_historical_summaries self of None \<Rightarrow> [] | Some s \<Rightarrow> s)"
proof -
  from assms obtain macc raw acc roots p where emb: "embedded E macc raw acc roots"
    and p: "provider_new (case vbl_historical_summaries self of None \<Rightarrow> [] | Some s \<Rightarrow> s) st = (p, st')"
    and V: "V = \<lparr>validator = \<lparr>pre_merge_acc = acc, historical_roots_acc = \<lparr>historical_roots = roots\<rparr>,
               historical_summaries_provider = p\<rparr>, data_sources = vbl_data_sources self\<rparr>"
    and check: "vbl_skip_fingerprint_check self \<or> fingerprinted E"
    by (auto simp: builder_build_Ok_iff)
  show ?thesis
    using check emb V summaries_store.alloc_read [OF p]
    by (auto simp: fingerprinted_def embedded_def historical_roots_acc_tree_hash_root_def)
qed

definition sample_builder :: VerifierBuilder where
  "sample_builder = builder_historical_summaries
     (builder_data_source (builder_data_source builder_new (failing_source ''a''))
       (sample_source sample_merge_hwp)) []"

theorem built_verifier_trusts_constants_witness:
  "\<exists>(V :: Verifier) st'. pre_merge_tree_hash_root sample_assets (pre_merge_acc (validator V)) = DEFAULT_PRE_MERGE_ACC_HASH \<and>
     data_sources V = [failing_source ''a'', sample_source sample_merge_hwp] \<and>
     read_summaries st' (historical_summaries_provider (validator V)) = []"
proof -
  have fields: "\<not> vbl_skip_fingerprint_check sample_builder"
    "vbl_data_sources sample_builder = [failing_source ''a'', sample_source sample_merge_hwp]"
    "vbl_historical_summaries sample_builder = Some []"
    by (simp_all add: sample_builder_def builder_new_def builder_data_source_def
        builder_historical_summaries_def)
  have "\<exists>V st'. builder_build sample_assets sample_builder [] = (Ok (V, st') :: (_, unit) res)"
    by (simp add: builder_build_Ok_iff fields fingerprinted_def embedded_def sample_assets_def
        provider_new_def)
  then obtain V st' where "builder_build sample_assets sample_builder [] = (Ok (V, st') :: (_, unit) res)"
    by blast
  from built_verifier_trusts_constants [OF this] show ?thesis
    by (intro exI [of _ V] exI [of _ st']) (simp add: fields)
qed

text \<open>
  C28.  Refreshing the snapshot: after a verifier is built and any sequence of
  \<open>set_historical_summaries\<close> calls through any verifiers, it reads the last snapshot set through
  a verifier that shares its provider (a clone), or else the one it was built with; calls
  through other verifiers do not change it.
\<close>

theorem refresh_reaches_sharers:
  assumes "builder_build E self st = Ok (V, st')"
  shows "read_summaries (fold (\<lambda>(W, s). set_historical_summaries W s) calls st')
      (historical_summaries_provider (validator V)) =
    (case filter (\<lambda>(W, s). historical_summaries_provider (validator W)
                             = historical_summaries_provider (validator V)) (rev calls) of
       [] \<Rightarrow> (case vbl_historical_summaries self of None \<Rightarrow> [] | Some s \<Rightarrow> s)
     | (W, s) # _ \<Rightarrow> s)"
proof -
  let ?key = "\<lambda>(W, s). (historical_summaries_provider (validator W), s)"
  let ?p = "historical_summaries_provider (validator V)"
  from assms have new: "provider_new (case vbl_historical_summaries self of None \<Rightarrow> [] | Some s \<Rightarrow> s) st = (?p, st')"
    by (auto simp: builder_build_Ok_iff)
  have "fold (\<lambda>(W, s). set_historical_summaries W s) calls st'
      = fold (\<lambda>(q, s). set_summaries q s) (map ?key calls) st'" for st'
    by (induction calls arbitrary: st') (auto simp: set_historical_summaries_def)
  moreover have "filter (\<lambda>(q, s). q = ?p) (rev (map ?key calls))
      = map ?key (filter (\<lambda>(W, s). historical_summaries_provider (validator W) = ?p) (rev calls))"
    by (simp add: rev_map filter_map comp_def split_def)
  ultimately show ?thesis
    using summaries_store.read_after_writes [of st' ?p "map ?key calls"]
      summaries_store.alloc_valid [OF new] summaries_store.alloc_read [OF new]
    by (auto split: list.splits)
qed

theorem refresh_reaches_sharers_witness:
  "\<exists>V st'. read_summaries (fold (\<lambda>(W, s). set_historical_summaries W s)
       [(V, [\<lparr>block_summary_root = b256_ZERO, state_summary_root = b256_ZERO\<rparr>]),
        (V\<lparr>data_sources := []\<rparr>, []), (sample_verifier [], [])] st')
      (historical_summaries_provider (validator V)) = []"
proof -
  have "\<exists>V st'. builder_build sample_assets (builder_skip_fingerprint_check builder_new) [[]]
      = (Ok (V, st') :: (_, unit) res)"
    by (simp add: builder_build_Ok_iff builder_skip_fingerprint_check_def builder_new_def
        embedded_def sample_assets_def provider_new_def)
  then obtain V st' where V: "builder_build sample_assets (builder_skip_fingerprint_check builder_new) [[]]
      = (Ok (V, st') :: (_, unit) res)" by blast
  show ?thesis
    by (intro exI [of _ V] exI [of _ st'], subst refresh_reaches_sharers [OF V])
      (simp add: builder_skip_fingerprint_check_def builder_new_def)
qed

text \<open>
  C30.  No block past the snapshot is verified: with a summaries proof whose slot has no
  entry in the verifier's snapshot, \<open>verify\<close> returns \<open>VerificationFailed\<close> for the number of the
  header, whatever its branches say.  (The documentation of the builder announces
  \<open>HistoricalSummariesUnavailable\<close>, which no path returns.)
\<close>

theorem block_past_snapshot_refused:
  assumes "hashing_ok H" "alloy_ok A" "proof_wf (hwp_proof hwp)"
    and "hwp_proof hwp = HistoricalSummariesCapella p \<or> hwp_proof hwp = HistoricalSummariesDeneb p"
    and "\<forall>i. historical_summary_index (slot p) = Some i \<longrightarrow>
      length (read_summaries st (historical_summaries_provider (validator V))) \<le> unat i"
  shows "\<exists>m. verify H A st V hwp = Err (VerificationFailed (number (header hwp)) m)"
proof -
  have "\<nexists>s. get_historical_summary st (historical_summaries_provider (validator V)) (slot p) = Ok s"
    using assms(5) by (auto simp: get_historical_summary_Ok_iff)
  then have none: "trusted_root st (validator V) (hwp_proof hwp) (header hwp) = None"
    using assms(4) by (auto split: res.splits)
  then have "validate_header_with_proof H A st (validator V) hwp \<noteq> Ok ()"
    by (simp add: validate_Ok_iff [OF assms(1-3)])
  moreover have "\<not> is_panic (validate_header_with_proof H A st (validator V) hwp)"
  proof (cases "era_guard (hwp_proof hwp) (header hwp)")
    case True
    then show ?thesis using validate_panic_iff [OF assms(1-3) True] assms(4) by auto
  next
    case False
    then show ?thesis using assms(4)
      by (elim disjE) (simp_all add: validate_header_with_proof.simps is_panic_def Let_def
          verify_capella_to_deneb_header_def verify_post_deneb_header_def disj_imp)
  qed
  ultimately show ?thesis
    by (cases "validate_header_with_proof H A st (validator V) hwp")
      (simp_all add: verify_def is_panic_def)
qed

theorem block_past_snapshot_refused_witness:
  "\<exists>m. verify sample_hashing sample_alloy [] (sample_verifier [])
     \<lparr>header = sample_merge_header,
      hwp_proof = HistoricalSummariesDeneb (sample_historical 13 12 6444 b256_ZERO 8626176)\<rparr>
     = Err (VerificationFailed 15600000 m)"
proof -
  have wf: "proof_wf (HistoricalSummariesDeneb (sample_historical 13 12 6444 b256_ZERO 8626176))"
    by simp
  show ?thesis
    using block_past_snapshot_refused [OF hashing_ok_sample alloy_ok_sample, of
        "\<lparr>header = sample_merge_header,
          hwp_proof = HistoricalSummariesDeneb (sample_historical 13 12 6444 b256_ZERO 8626176)\<rparr>"
        "sample_historical 13 12 6444 b256_ZERO 8626176" "[]" "sample_verifier []"] wf
    by (simp add: sample_verifier_def sample_merge_validator_def sample_validator_def)
qed

end
