(* ===== verification/Checked_Arith.thy ===== *)
theory Checked_Arith
  imports Merkle_Tree "HOL-Library.Signed_Division"
begin

text \<open>
  The checked arithmetic of \<open>src/merkle/safe_arith.rs\<close>.  The trait is implemented by one macro for
  the unsigned and the signed integers of every width; here once for each signedness over a word of
  any length.  A type's \<open>checked_*\<close> operation is the operation of the integers with a test that the
  result fits.
\<close>

datatype ArithError = ArithOverflow | DivisionByZero

text \<open>\<open>From<ArithError> for MerkleTreeError\<close>, with which the Merkle code uses it.\<close>

definition merkle_error_from_arith :: "ArithError \<Rightarrow> MerkleTreeError" where
  "merkle_error_from_arith e = MerkleArithError"

subsection \<open>The integers of the language\<close>

definition s_min :: "'a::len itself \<Rightarrow> int" where "s_min t = - (2 ^ (LENGTH('a) - 1))"
definition s_sup :: "'a::len itself \<Rightarrow> int" where "s_sup t = 2 ^ (LENGTH('a) - 1)"

definition fits_unsigned :: "'a::len itself \<Rightarrow> int \<Rightarrow> bool" where
  "fits_unsigned t k \<longleftrightarrow> 0 \<le> k \<and> k < 2 ^ LENGTH('a)"

definition fits_signed :: "'a::len itself \<Rightarrow> int \<Rightarrow> bool" where
  "fits_signed t k \<longleftrightarrow> s_min TYPE('a) \<le> k \<and> k < s_sup TYPE('a)"

subsection \<open>Unsigned\<close>

definition u_safe_add :: "'a::len word \<Rightarrow> 'a word \<Rightarrow> ('a word, ArithError) res" where
  "u_safe_add a b =
     ok_or (if fits_unsigned TYPE('a) (uint a + uint b) then Some (a + b) else None) ArithOverflow"

definition u_safe_sub :: "'a::len word \<Rightarrow> 'a word \<Rightarrow> ('a word, ArithError) res" where
  "u_safe_sub a b =
     ok_or (if fits_unsigned TYPE('a) (uint a - uint b) then Some (a - b) else None) ArithOverflow"

definition u_safe_mul :: "'a::len word \<Rightarrow> 'a word \<Rightarrow> ('a word, ArithError) res" where
  "u_safe_mul a b =
     ok_or (if fits_unsigned TYPE('a) (uint a * uint b) then Some (a * b) else None) ArithOverflow"

definition u_safe_div :: "'a::len word \<Rightarrow> 'a word \<Rightarrow> ('a word, ArithError) res" where
  "u_safe_div a b = ok_or (if b = 0 then None else Some (a div b)) DivisionByZero"

definition u_safe_rem :: "'a::len word \<Rightarrow> 'a word \<Rightarrow> ('a word, ArithError) res" where
  "u_safe_rem a b = ok_or (if b = 0 then None else Some (a mod b)) DivisionByZero"

definition u_safe_shl :: "'a::len word \<Rightarrow> 32 word \<Rightarrow> ('a word, ArithError) res" where
  "u_safe_shl a n =
     ok_or (if unat n < LENGTH('a) then Some (push_bit (unat n) a) else None) ArithOverflow"

definition u_safe_shr :: "'a::len word \<Rightarrow> 32 word \<Rightarrow> ('a word, ArithError) res" where
  "u_safe_shr a n =
     ok_or (if unat n < LENGTH('a) then Some (drop_bit (unat n) a) else None) ArithOverflow"

subsection \<open>Signed\<close>

definition s_safe_add :: "'a::len word \<Rightarrow> 'a word \<Rightarrow> ('a word, ArithError) res" where
  "s_safe_add a b =
     ok_or (if fits_signed TYPE('a) (sint a + sint b) then Some (a + b) else None) ArithOverflow"

definition s_safe_sub :: "'a::len word \<Rightarrow> 'a word \<Rightarrow> ('a word, ArithError) res" where
  "s_safe_sub a b =
     ok_or (if fits_signed TYPE('a) (sint a - sint b) then Some (a - b) else None) ArithOverflow"

definition s_safe_mul :: "'a::len word \<Rightarrow> 'a word \<Rightarrow> ('a word, ArithError) res" where
  "s_safe_mul a b =
     ok_or (if fits_signed TYPE('a) (sint a * sint b) then Some (a * b) else None) ArithOverflow"

text \<open>
  Division rounds towards zero.  \<open>checked_div\<close> and \<open>checked_rem\<close> are \<open>None\<close> for a zero divisor and
  for the least value divided by minus one; the second is an overflow reported as division by zero.
\<close>

definition s_safe_div :: "'a::len word \<Rightarrow> 'a word \<Rightarrow> ('a word, ArithError) res" where
  "s_safe_div a b =
     ok_or (if sint b = 0 \<or> sint a = s_min TYPE('a) \<and> sint b = - 1 then None
            else Some (word_of_int (sint a sdiv sint b))) DivisionByZero"

definition s_safe_rem :: "'a::len word \<Rightarrow> 'a word \<Rightarrow> ('a word, ArithError) res" where
  "s_safe_rem a b =
     ok_or (if sint b = 0 \<or> sint a = s_min TYPE('a) \<and> sint b = - 1 then None
            else Some (word_of_int (sint a smod sint b))) DivisionByZero"

definition s_safe_shl :: "'a::len word \<Rightarrow> 32 word \<Rightarrow> ('a word, ArithError) res" where
  "s_safe_shl a n =
     ok_or (if unat n < LENGTH('a) then Some (push_bit (unat n) a) else None) ArithOverflow"

definition s_safe_shr :: "'a::len word \<Rightarrow> 32 word \<Rightarrow> ('a word, ArithError) res" where
  "s_safe_shr a n =
     ok_or (if unat n < LENGTH('a) then Some (signed_drop_bit (unat n) a) else None) ArithOverflow"

subsection \<open>Assignment and sums\<close>

text \<open>The value of \<open>self\<close> after the call, and the answer; an error leaves it as it was.\<close>

definition assign_method ::
  "('w \<Rightarrow> 'r \<Rightarrow> ('w, ArithError) res) \<Rightarrow> 'w \<Rightarrow> 'r \<Rightarrow> 'w \<times> (unit, ArithError) res" where
  "assign_method safe_op self other =
     (case safe_op self other of
        Ok v \<Rightarrow> (v, Ok ())
      | Err e \<Rightarrow> (self, Err e)
      | Panic p \<Rightarrow> (self, Panic p))"

fun try_fold :: "('w \<Rightarrow> 'x \<Rightarrow> ('w, 'e) res) \<Rightarrow> 'w \<Rightarrow> 'x list \<Rightarrow> ('w, 'e) res" where
  "try_fold f acc [] = Ok acc"
| "try_fold f acc (x # xs) = and_then (f acc x) (\<lambda>acc'. try_fold f acc' xs)"

subsection \<open>The trait and its implementations\<close>

record 'w SafeArith =
  ZERO :: 'w
  ONE :: 'w
  safe_add :: "'w \<Rightarrow> 'w \<Rightarrow> ('w, ArithError) res"
  safe_sub :: "'w \<Rightarrow> 'w \<Rightarrow> ('w, ArithError) res"
  safe_mul :: "'w \<Rightarrow> 'w \<Rightarrow> ('w, ArithError) res"
  safe_div :: "'w \<Rightarrow> 'w \<Rightarrow> ('w, ArithError) res"
  safe_rem :: "'w \<Rightarrow> 'w \<Rightarrow> ('w, ArithError) res"
  safe_shl :: "'w \<Rightarrow> 32 word \<Rightarrow> ('w, ArithError) res"
  safe_shr :: "'w \<Rightarrow> 32 word \<Rightarrow> ('w, ArithError) res"

text \<open>The provided methods.\<close>

definition safe_add_assign :: "'w SafeArith \<Rightarrow> 'w \<Rightarrow> 'w \<Rightarrow> 'w \<times> (unit, ArithError) res" where
  "safe_add_assign S = assign_method (safe_add S)"

definition safe_sub_assign :: "'w SafeArith \<Rightarrow> 'w \<Rightarrow> 'w \<Rightarrow> 'w \<times> (unit, ArithError) res" where
  "safe_sub_assign S = assign_method (safe_sub S)"

definition safe_mul_assign :: "'w SafeArith \<Rightarrow> 'w \<Rightarrow> 'w \<Rightarrow> 'w \<times> (unit, ArithError) res" where
  "safe_mul_assign S = assign_method (safe_mul S)"

definition safe_div_assign :: "'w SafeArith \<Rightarrow> 'w \<Rightarrow> 'w \<Rightarrow> 'w \<times> (unit, ArithError) res" where
  "safe_div_assign S = assign_method (safe_div S)"

definition safe_rem_assign :: "'w SafeArith \<Rightarrow> 'w \<Rightarrow> 'w \<Rightarrow> 'w \<times> (unit, ArithError) res" where
  "safe_rem_assign S = assign_method (safe_rem S)"

definition safe_shl_assign :: "'w SafeArith \<Rightarrow> 'w \<Rightarrow> 32 word \<Rightarrow> 'w \<times> (unit, ArithError) res" where
  "safe_shl_assign S = assign_method (safe_shl S)"

definition safe_shr_assign :: "'w SafeArith \<Rightarrow> 'w \<Rightarrow> 32 word \<Rightarrow> 'w \<times> (unit, ArithError) res" where
  "safe_shr_assign S = assign_method (safe_shr S)"

definition impl_unsigned :: "'a::len word SafeArith" where
  "impl_unsigned =
     \<lparr>ZERO = 0, ONE = 1, safe_add = u_safe_add, safe_sub = u_safe_sub, safe_mul = u_safe_mul,
      safe_div = u_safe_div, safe_rem = u_safe_rem, safe_shl = u_safe_shl, safe_shr = u_safe_shr\<rparr>"

definition impl_signed :: "'a::len word SafeArith" where
  "impl_signed =
     \<lparr>ZERO = 0, ONE = 1, safe_add = s_safe_add, safe_sub = s_safe_sub, safe_mul = s_safe_mul,
      safe_div = s_safe_div, safe_rem = s_safe_rem, safe_shl = s_safe_shl, safe_shr = s_safe_shr\<rparr>"

definition arith_u8 :: "8 word SafeArith" where "arith_u8 = impl_unsigned"
definition arith_u16 :: "16 word SafeArith" where "arith_u16 = impl_unsigned"
definition arith_u32 :: "32 word SafeArith" where "arith_u32 = impl_unsigned"
definition arith_u64 :: "64 word SafeArith" where "arith_u64 = impl_unsigned"
definition arith_usize :: "usize SafeArith" where "arith_usize = impl_unsigned"
definition arith_i8 :: "8 word SafeArith" where "arith_i8 = impl_signed"
definition arith_i16 :: "16 word SafeArith" where "arith_i16 = impl_signed"
definition arith_i32 :: "32 word SafeArith" where "arith_i32 = impl_signed"
definition arith_i64 :: "64 word SafeArith" where "arith_i64 = impl_signed"
definition arith_isize :: "64 word SafeArith" where "arith_isize = impl_signed"

lemmas arith_impls = arith_u8_def arith_u16_def arith_u32_def arith_u64_def arith_usize_def
  arith_i8_def arith_i16_def arith_i32_def arith_i64_def arith_isize_def

text \<open>\<open>safe_sum\<close> of an iterator over any type with the trait.\<close>

definition safe_sum :: "'w SafeArith \<Rightarrow> 'w list \<Rightarrow> ('w, ArithError) res" where
  "safe_sum S xs = try_fold (safe_add S) (ZERO S) xs"

definition u_safe_sum :: "'a::len word list \<Rightarrow> ('a word, ArithError) res" where
  "u_safe_sum xs = safe_sum impl_unsigned xs"

definition s_safe_sum :: "'a::len word list \<Rightarrow> ('a word, ArithError) res" where
  "s_safe_sum xs = safe_sum impl_signed xs"

lemma safe_sum_folds:
  "u_safe_sum xs = try_fold u_safe_add 0 xs" "s_safe_sum ys = try_fold s_safe_add 0 ys"
  by (simp_all add: u_safe_sum_def s_safe_sum_def safe_sum_def impl_unsigned_def impl_signed_def)

subsection \<open>The contract: exact or refused\<close>

text \<open>
  \<open>v\<close> reads a value as an integer, \<open>ok\<close> are the integers that fit and \<open>f\<close> is what the operation
  computes on the integers.
\<close>

text \<open>
  \<open>exact_or v P f e safe\<close>: where \<open>P\<close> holds of the operands the operation succeeds with the value \<open>f\<close>
  of the integers, elsewhere it is the error \<open>e\<close>.
\<close>

definition exact_or ::
  "('w \<Rightarrow> int) \<Rightarrow> (int \<Rightarrow> int \<Rightarrow> bool) \<Rightarrow> (int \<Rightarrow> int \<Rightarrow> int) \<Rightarrow> ArithError
     \<Rightarrow> ('w \<Rightarrow> 'w \<Rightarrow> ('w, ArithError) res) \<Rightarrow> bool" where
  "exact_or v P f e safe \<longleftrightarrow>
     (\<forall>a b. if P (v a) (v b) then \<exists>c. safe a b = Ok c \<and> v c = f (v a) (v b) else safe a b = Err e)"

locale exact_op =
  fixes v :: "'a::len word \<Rightarrow> int" and ok :: "int \<Rightarrow> bool" and f :: "int \<Rightarrow> int \<Rightarrow> int"
    and safe :: "'a word \<Rightarrow> 'a word \<Rightarrow> ('a word, ArithError) res"
  assumes fits: "ok (v a)" and reads: "ok k \<Longrightarrow> v (word_of_int k) = k"
    and of_v: "word_of_int (v a) = a"
    and safe_eq: "safe a b = (if ok (f (v a) (v b)) then Ok (word_of_int (f (v a) (v b)))
      else Err ArithOverflow)"
begin

lemma Ok_iff: "safe a b = Ok c \<longleftrightarrow> v c = f (v a) (v b)"
  using fits [of c] reads [of "f (v a) (v b)"] of_v [of c] by (auto simp: safe_eq)

lemma exact: "exact_or v (\<lambda>x y. ok (f x y)) f ArithOverflow safe"
  by (simp add: exact_or_def safe_eq reads)

lemma assign_exact:
  "assign_method safe a b = (if ok (f (v a) (v b)) then (word_of_int (f (v a) (v b)), Ok ())
     else (a, Err ArithOverflow))"
  by (simp add: assign_method_def safe_eq)

end

locale exact_add = exact_op v ok "(+)" safe
  for v :: "'a::len word \<Rightarrow> int" and ok :: "int \<Rightarrow> bool"
    and safe :: "'a word \<Rightarrow> 'a word \<Rightarrow> ('a word, ArithError) res"
begin

text \<open>The sum succeeds when every running total fits.\<close>

lemma sum_exact:
  "try_fold safe acc xs =
     (if \<forall>k \<le> length xs. ok (v acc + sum_list (map v (take k xs)))
      then Ok (word_of_int (v acc + sum_list (map v xs))) else Err ArithOverflow)"
proof (induction xs arbitrary: acc)
  case Nil
  then show ?case by (simp add: fits of_v)
next
  case (Cons x xs)
  have split: "(\<forall>k \<le> length (x # xs). ok (v acc + sum_list (map v (take k (x # xs))))) \<longleftrightarrow>
      (\<forall>k \<le> length xs. ok (v acc + v x + sum_list (map v (take k xs))))"
    by (simp add: fits add.assoc flip: less_Suc_eq_le) (simp add: All_less_Suc2 fits add.assoc)
  show ?case
  proof (cases "ok (v acc + v x)")
    case True
    then obtain c where "safe acc x = Ok c" "v c = v acc + v x"
      using reads by (intro that [of "word_of_int (v acc + v x)"]) (simp_all only: safe_eq if_True)
    then show ?thesis using Cons.IH [of c] by (simp only: split) (simp add: add.assoc)
  next
    case False
    then have "\<exists>k \<le> length xs. \<not> ok (v acc + v x + sum_list (map v (take k xs)))"
      by (intro exI [of _ 0]) simp
    with False show ?thesis by (simp only: split) (auto simp: safe_eq)
  qed
qed

end

lemma fits_uint: "fits_unsigned TYPE('a::len) (uint (a :: 'a word))"
  by (simp add: fits_unsigned_def uint_lt2p)

lemma uint_of_int: "fits_unsigned TYPE('a::len) k \<Longrightarrow> uint (word_of_int k :: 'a word) = k"
  by (simp add: fits_unsigned_def uint_word_of_int)

lemma fits_sint: "fits_signed TYPE('a::len) (sint (a :: 'a word))"
  using sint_range_size [of a] by (simp add: fits_signed_def s_min_def s_sup_def word_size)

lemma sint_of_int: "fits_signed TYPE('a::len) k \<Longrightarrow> sint (word_of_int k :: 'a word) = k"
  by (cases "LENGTH('a)") (auto simp: fits_signed_def s_min_def s_sup_def sint_sbintrunc'
      signed_take_bit_int_eq_self)

interpretation u_add: exact_add uint "fits_unsigned TYPE('a::len)" "u_safe_add :: 'a word \<Rightarrow> _"
  by unfold_locales (simp_all add: fits_uint uint_of_int u_safe_add_def)

interpretation u_sub: exact_op uint "fits_unsigned TYPE('a::len)" "(-)" "u_safe_sub :: 'a word \<Rightarrow> _"
  by unfold_locales (simp_all add: fits_uint uint_of_int u_safe_sub_def)

interpretation u_mul: exact_op uint "fits_unsigned TYPE('a::len)" "(*)" "u_safe_mul :: 'a word \<Rightarrow> _"
  by unfold_locales (simp_all add: fits_uint uint_of_int u_safe_mul_def)

interpretation s_add: exact_add sint "fits_signed TYPE('a::len)" "s_safe_add :: 'a word \<Rightarrow> _"
  by unfold_locales (simp_all add: fits_sint sint_of_int s_safe_add_def)

interpretation s_sub: exact_op sint "fits_signed TYPE('a::len)" "(-)" "s_safe_sub :: 'a word \<Rightarrow> _"
  by unfold_locales (simp_all add: fits_sint sint_of_int s_safe_sub_def)

interpretation s_mul: exact_op sint "fits_signed TYPE('a::len)" "(*)" "s_safe_mul :: 'a word \<Rightarrow> _"
  by unfold_locales (simp_all add: fits_sint sint_of_int s_safe_mul_def)

text \<open>Division by a non-zero number that overflows is reported as division by zero.\<close>

lemma s_div_min_reports_zero:
  "s_safe_div (word_of_int (s_min TYPE('a))) (- 1 :: 'a::len word) = Err DivisionByZero"
proof -
  have "fits_signed TYPE('a) (s_min TYPE('a))"
    by (simp add: fits_signed_def s_min_def s_sup_def)
  then show ?thesis by (simp add: s_safe_div_def sint_of_int)
qed

lemma u_div_exact: "u_safe_div a b = Ok c \<longleftrightarrow> b \<noteq> 0 \<and> uint c = uint a div uint b"
  by (auto simp: u_safe_div_def uint_div intro: word_uint_eqI)

lemma u_rem_exact: "u_safe_rem a b = Ok c \<longleftrightarrow> b \<noteq> 0 \<and> uint c = uint a mod uint b"
  by (auto simp: u_safe_rem_def uint_mod intro: word_uint_eqI)

text \<open>The signed quotient leaves the range in one case only.\<close>

lemma sdiv_fits_iff:
  "fits_signed TYPE('a::len) (sint a sdiv sint b) \<longleftrightarrow>
     \<not> (sint a = s_min TYPE('a) \<and> sint (b :: 'a word) = - 1)" for a :: "'a::len word"
proof -
  have a: "s_min TYPE('a) \<le> sint a" "sint a < s_sup TYPE('a)"
    using fits_sint [of a] by (simp_all add: fits_signed_def)
  have sym: "s_sup TYPE('a) = - s_min TYPE('a)" by (simp add: s_sup_def s_min_def)
  have range: "- \<bar>sint a\<bar> \<le> sint a sdiv sint b" "sint a sdiv sint b \<le> \<bar>sint a\<bar>"
    using sdiv_int_range [of "sint a" "sint b"] by simp_all
  have neg: "s_min TYPE('a) < 0" by (simp add: s_min_def)
  show ?thesis
  proof (cases "sint a = s_min TYPE('a)")
    case False
    then show ?thesis using a range sym by (auto simp: fits_signed_def)
  next
    case True
    define q where "q = sint a sdiv sint b"
    have "q = - sint a \<longleftrightarrow> sint b = - 1"
      using int_sdiv_negated_is_minus1 [of "sint a" "sint b"] True neg by (simp add: q_def)
    moreover have "fits_signed TYPE('a) q \<longleftrightarrow> q \<noteq> - sint a"
      using range [folded q_def] sym neg unfolding True by (auto simp: fits_signed_def)
    ultimately show ?thesis using True by (simp add: q_def)
  qed
qed

lemma smod_fits: "sint b \<noteq> 0 \<Longrightarrow> fits_signed TYPE('a::len) (sint a smod sint b)" for a b :: "'a::len word"
  using smod_int_range [of "sint b" "sint a"] fits_sint [of b]
  by (auto simp: fits_signed_def s_min_def s_sup_def)

lemma divisions_exact:
  "exact_or uint (\<lambda>x y. y \<noteq> 0) (div) DivisionByZero (u_safe_div :: 'a::len word \<Rightarrow> _)"
  "exact_or uint (\<lambda>x y. y \<noteq> 0) (mod) DivisionByZero (u_safe_rem :: 'a word \<Rightarrow> _)"
  "exact_or sint (\<lambda>x y. y \<noteq> 0 \<and> fits_signed TYPE('a) (x sdiv y)) (sdiv) DivisionByZero
     (s_safe_div :: 'a word \<Rightarrow> _)"
  "exact_or sint (\<lambda>x y. y \<noteq> 0 \<and> fits_signed TYPE('a) (x sdiv y)) (smod) DivisionByZero
     (s_safe_rem :: 'a word \<Rightarrow> _)"
  by (auto simp: exact_or_def u_safe_div_def u_safe_rem_def s_safe_div_def s_safe_rem_def uint_div
      uint_mod uint_0_iff sdiv_fits_iff sint_of_int smod_fits)

text \<open>The bits that leave the word are lost, and a signed value moves right with its sign.\<close>

lemma shifts_exact:
  "u_safe_shl a n = Ok b \<longleftrightarrow> unat n < LENGTH('a) \<and> uint b = uint a * 2 ^ unat n mod 2 ^ LENGTH('a)"
  "s_safe_shl a n = Ok b \<longleftrightarrow> unat n < LENGTH('a) \<and> uint b = uint a * 2 ^ unat n mod 2 ^ LENGTH('a)"
  "u_safe_shr a n = Ok b \<longleftrightarrow> unat n < LENGTH('a) \<and> uint b = uint a div 2 ^ unat n"
  "s_safe_shr a n = Ok b \<longleftrightarrow> unat n < LENGTH('a) \<and> sint b = sint a div 2 ^ unat n"
  for a b :: "'a::len word"
proof -
  have shl: "uint (push_bit (unat n) a) = uint a * 2 ^ unat n mod 2 ^ LENGTH('a)"
    by (subst unsigned_push_bit_eq) (simp only: push_bit_eq_mult take_bit_eq_mod)
  have shr: "uint (drop_bit (unat n) a) = uint a div 2 ^ unat n"
    by (subst unsigned_drop_bit_eq) (simp add: drop_bit_eq_div take_bit_int_eq_self uint_lt2p)
  have sar: "sint (signed_drop_bit (unat n) a) = sint a div 2 ^ unat n"
    by (simp add: sint_signed_drop_bit_eq drop_bit_eq_div)
  show "u_safe_shl a n = Ok b \<longleftrightarrow> unat n < LENGTH('a) \<and> uint b = uint a * 2 ^ unat n mod 2 ^ LENGTH('a)"
    by (auto simp: u_safe_shl_def simp flip: shl intro: word_uint_eqI)
  then show "s_safe_shl a n = Ok b \<longleftrightarrow> unat n < LENGTH('a) \<and> uint b = uint a * 2 ^ unat n mod 2 ^ LENGTH('a)"
    by (simp only: s_safe_shl_def u_safe_shl_def)
  show "u_safe_shr a n = Ok b \<longleftrightarrow> unat n < LENGTH('a) \<and> uint b = uint a div 2 ^ unat n"
    by (auto simp: u_safe_shr_def simp flip: shr intro: word_uint_eqI)
  show "s_safe_shr a n = Ok b \<longleftrightarrow> unat n < LENGTH('a) \<and> sint b = sint a div 2 ^ unat n"
    by (auto simp: s_safe_shr_def simp flip: sar dest: signed_word_eqI [OF sym])
qed

subsection \<open>Claims\<close>

text \<open>
  C38.  Checked arithmetic is the arithmetic of the integers or an error, for the
  unsigned and the signed type of every width.  Addition, subtraction and multiplication give the
  exact result when it fits and the overflow error otherwise; division and remainder round towards
  zero and give \<open>DivisionByZero\<close> for a zero divisor, and also for the one pair of signed values
  whose quotient does not fit.  A shift is refused for a distance of the width or more only: bits
  that leave the word are lost without an error.
\<close>

theorem checked_ops_exact:
  fixes U S :: "'a::len word SafeArith"
  defines "U \<equiv> impl_unsigned" and "S \<equiv> impl_signed"
  shows "exact_or uint (\<lambda>x y. fits_unsigned TYPE('a) (x + y)) (+) ArithOverflow (safe_add U) \<and>
    exact_or uint (\<lambda>x y. fits_unsigned TYPE('a) (x - y)) (-) ArithOverflow (safe_sub U) \<and>
    exact_or uint (\<lambda>x y. fits_unsigned TYPE('a) (x * y)) (*) ArithOverflow (safe_mul U) \<and>
    exact_or uint (\<lambda>x y. y \<noteq> 0) (div) DivisionByZero (safe_div U) \<and>
    exact_or uint (\<lambda>x y. y \<noteq> 0) (mod) DivisionByZero (safe_rem U) \<and>
    exact_or sint (\<lambda>x y. fits_signed TYPE('a) (x + y)) (+) ArithOverflow (safe_add S) \<and>
    exact_or sint (\<lambda>x y. fits_signed TYPE('a) (x - y)) (-) ArithOverflow (safe_sub S) \<and>
    exact_or sint (\<lambda>x y. fits_signed TYPE('a) (x * y)) (*) ArithOverflow (safe_mul S) \<and>
    exact_or sint (\<lambda>x y. y \<noteq> 0 \<and> fits_signed TYPE('a) (x sdiv y)) (sdiv) DivisionByZero (safe_div S) \<and>
    exact_or sint (\<lambda>x y. y \<noteq> 0 \<and> fits_signed TYPE('a) (x sdiv y)) (smod) DivisionByZero (safe_rem S) \<and>
    (safe_shl U a n = Ok b \<longleftrightarrow> unat n < LENGTH('a) \<and> uint b = uint a * 2 ^ unat n mod 2 ^ LENGTH('a)) \<and>
    (safe_shl S a n = Ok b \<longleftrightarrow> unat n < LENGTH('a) \<and> uint b = uint a * 2 ^ unat n mod 2 ^ LENGTH('a)) \<and>
    (safe_shr U a n = Ok b \<longleftrightarrow> unat n < LENGTH('a) \<and> uint b = uint a div 2 ^ unat n) \<and>
    (safe_shr S a n = Ok b \<longleftrightarrow> unat n < LENGTH('a) \<and> sint b = sint a div 2 ^ unat n)"
  unfolding U_def S_def impl_unsigned_def impl_signed_def SafeArith.simps
  by (intro conjI u_add.exact u_sub.exact u_mul.exact s_add.exact s_sub.exact s_mul.exact
      divisions_exact shifts_exact)

theorem checked_ops_exact_witness:
  "safe_div arith_i8 (word_of_int (- 128)) (- 1) = Err DivisionByZero \<and>
   safe_div arith_i8 (- 7) 2 = Ok (- 3) \<and> safe_rem arith_i8 (- 7) 2 = Ok (- 1) \<and>
   safe_shl arith_u8 0x80 1 = Ok 0"
proof -
  note laws = checked_ops_exact [where 'a = 8, folded arith_u8_def arith_i8_def]
  have div: "if sint b \<noteq> 0 \<and> fits_signed TYPE(8) (sint a sdiv sint b)
      then \<exists>c. safe_div arith_i8 a b = Ok c \<and> sint c = sint a sdiv sint b
      else safe_div arith_i8 a b = Err DivisionByZero" for a b
    using laws unfolding exact_or_def by blast
  have rem: "if sint b \<noteq> 0 \<and> fits_signed TYPE(8) (sint a sdiv sint b)
      then \<exists>c. safe_rem arith_i8 a b = Ok c \<and> sint c = sint a smod sint b
      else safe_rem arith_i8 a b = Err DivisionByZero" for a b
    using laws unfolding exact_or_def by blast
  have shl: "safe_shl arith_u8 a n = Ok b \<longleftrightarrow> unat n < LENGTH(8) \<and> uint b = uint a * 2 ^ unat n mod 2 ^ LENGTH(8)" for a b n
    using laws by blast
  have sint: "sint (- 3 :: 8 word) = - 3" "sint (- 1 :: 8 word) = - 1" by simp_all
  show ?thesis
  proof (intro conjI)
    show "safe_div arith_i8 (word_of_int (- 128)) (- 1) = Err DivisionByZero"
      using div [of "- 1" "word_of_int (- 128)"] by (simp add: fits_signed_def s_min_def s_sup_def)
    show "safe_div arith_i8 (- 7) 2 = Ok (- 3)"
      using div [of 2 "- 7"] signed_word_eqI [OF trans [OF _ sint(1) [symmetric]]]
      by (auto simp: fits_signed_def s_min_def s_sup_def)
    show "safe_rem arith_i8 (- 7) 2 = Ok (- 1)"
      using rem [of 2 "- 7"] signed_word_eqI [OF trans [OF _ sint(2) [symmetric]]]
      by (auto simp: fits_signed_def s_min_def s_sup_def)
    show "safe_shl arith_u8 0x80 1 = Ok 0"
      by (simp add: shl)
  qed
qed

lemma sum_take_le: "sum_list (map uint (take k xs)) \<le> sum_list (map uint (xs :: 'a::len word list))"
proof -
  have "0 \<le> sum_list (map uint (drop k xs))" by (intro sum_list_nonneg) auto
  moreover have "sum_list (map uint xs) = sum_list (map uint (take k xs)) + sum_list (map uint (drop k xs))"
    by (metis append_take_drop_id map_append sum_list_append)
  ultimately show ?thesis by simp
qed

lemma running_totals_unsigned:
  "(\<forall>k \<le> length xs. fits_unsigned TYPE('a::len) (sum_list (map uint (take k xs)))) \<longleftrightarrow>
     sum_list (map uint (xs :: 'a word list)) < 2 ^ LENGTH('a)"
proof
  assume "\<forall>k \<le> length xs. fits_unsigned TYPE('a) (sum_list (map uint (take k xs)))"
  then have "fits_unsigned TYPE('a) (sum_list (map uint (take (length xs) xs)))" by blast
  then show "sum_list (map uint xs) < 2 ^ LENGTH('a)" by (simp add: fits_unsigned_def)
next
  assume "sum_list (map uint xs) < 2 ^ LENGTH('a)"
  then show "\<forall>k \<le> length xs. fits_unsigned TYPE('a) (sum_list (map uint (take k xs)))"
    by (auto simp: fits_unsigned_def intro!: sum_list_nonneg intro: order_le_less_trans [OF sum_take_le])
qed

text \<open>
  The checked sum never wraps.  Over unsigned integers it is the exact sum whenever that
  fits, so it does not depend on the order; over signed integers it is the exact sum whenever every
  running total fits, so an order that leaves the range on the way is refused although the sum
  fits.  Otherwise it is the overflow error, at any width.
\<close>

theorem safe_sum_exact:
  fixes xs :: "'a::len word list" and ys :: "'b::len word list"
  shows "u_safe_sum xs =
      (if sum_list (map uint xs) < 2 ^ LENGTH('a) then Ok (word_of_int (sum_list (map uint xs)))
       else Err ArithOverflow) \<and>
    s_safe_sum ys =
      (if \<forall>k \<le> length ys. fits_signed TYPE('b) (sum_list (map sint (take k ys)))
       then Ok (word_of_int (sum_list (map sint ys))) else Err ArithOverflow)"
  using u_add.sum_exact [of 0 xs] s_add.sum_exact [of 0 ys]
  by (simp add: safe_sum_folds running_totals_unsigned)

theorem safe_sum_exact_witness:
  "s_safe_sum [127, 1, - 1 :: 8 word] = Err ArithOverflow \<and> s_safe_sum [127, - 1, 1 :: 8 word] = Ok 127 \<and>
   u_safe_sum [200, 55 :: 8 word] = Ok 255 \<and> u_safe_sum [200, 56 :: 8 word] = Err ArithOverflow"
proof (intro conjI)
  have "\<not> (\<forall>k \<le> length [127, 1, - 1 :: 8 word]. fits_signed TYPE(8) (sum_list (map sint (take k [127, 1, - 1 :: 8 word]))))"
    by (auto simp: fits_signed_def s_min_def s_sup_def intro!: exI [of _ "2 :: nat"])
  then show "s_safe_sum [127, 1, - 1 :: 8 word] = Err ArithOverflow"
    using safe_sum_exact [THEN conjunct2, of "[127, 1, - 1 :: 8 word]"] by (simp only: if_False)
  have "\<forall>k \<le> length [127, - 1, 1 :: 8 word]. fits_signed TYPE(8) (sum_list (map sint (take k [127, - 1, 1 :: 8 word])))"
    by (simp add: fits_signed_def s_min_def s_sup_def All_less_Suc2 flip: less_Suc_eq_le)
  then show "s_safe_sum [127, - 1, 1 :: 8 word] = Ok 127"
    using safe_sum_exact [THEN conjunct2, of "[127, - 1, 1 :: 8 word]"] by (simp only: if_True) simp
qed (simp_all add: safe_sum_exact [THEN conjunct1])

end
