(* ===== verification/Consensus_Decode.thy ===== *)
theory Consensus_Decode
  imports Consensus_Types Header_Proof Hist_Errors
begin

text \<open>
  Decoding the fork-dependent containers: \<open>from_ssz_bytes(bytes, fork)\<close> of blocks, bodies, payloads,
  payload headers and states, signed blocks (\<open>src/portal_types/consensus/{beacon_block,body,
  execution_payload,beacon_state}.rs\<close>), the commitment to the execution requests
  (\<open>execution_requests.rs\<close>), and the JSON form of the transactions of a payload (\<open>serde.rs\<close>).

  The decoders that \<open>ssz_derive\<close> generates for each struct are the parameter \<open>consensus_ssz\<close>, as is
  the \<open>SszDecoder\<close> of the crate \<open>ssz\<close>; \<open>requests_api\<close> is \<open>alloy\<close>'s list of EIP-7685 requests.
\<close>

subsection \<open>Dispatch on the fork\<close>

record consensus_ssz =
  dec_block_bellatrix :: "bytes \<Rightarrow> (BeaconBlockBellatrix, DecodeError) res"
  dec_block_capella :: "bytes \<Rightarrow> (BeaconBlockCapella, DecodeError) res"
  dec_block_deneb :: "bytes \<Rightarrow> (BeaconBlockDeneb, DecodeError) res"
  dec_block_electra :: "bytes \<Rightarrow> (BeaconBlockElectra, DecodeError) res"
  dec_body_bellatrix :: "bytes \<Rightarrow> (BeaconBlockBodyBellatrix, DecodeError) res"
  dec_body_capella :: "bytes \<Rightarrow> (BeaconBlockBodyCapella, DecodeError) res"
  dec_body_deneb :: "bytes \<Rightarrow> (BeaconBlockBodyDeneb, DecodeError) res"
  dec_body_electra :: "bytes \<Rightarrow> (BeaconBlockBodyElectra, DecodeError) res"
  dec_payload_bellatrix :: "bytes \<Rightarrow> (ExecutionPayloadBellatrix, DecodeError) res"
  dec_payload_capella :: "bytes \<Rightarrow> (ExecutionPayloadCapella, DecodeError) res"
  dec_payload_deneb :: "bytes \<Rightarrow> (ExecutionPayloadDeneb, DecodeError) res"
  dec_payload_electra :: "bytes \<Rightarrow> (ExecutionPayloadElectra, DecodeError) res"
  dec_payload_header_bellatrix :: "bytes \<Rightarrow> (ExecutionPayloadHeaderBellatrix, DecodeError) res"
  dec_payload_header_capella :: "bytes \<Rightarrow> (ExecutionPayloadHeaderCapella, DecodeError) res"
  dec_payload_header_deneb :: "bytes \<Rightarrow> (ExecutionPayloadHeaderDeneb, DecodeError) res"
  dec_payload_header_electra :: "bytes \<Rightarrow> (ExecutionPayloadHeaderElectra, DecodeError) res"
  dec_state_bellatrix :: "bytes \<Rightarrow> (BeaconStateBellatrix, DecodeError) res"
  dec_state_capella :: "bytes \<Rightarrow> (BeaconStateCapella, DecodeError) res"
  dec_state_deneb :: "bytes \<Rightarrow> (BeaconStateDeneb, DecodeError) res"
  dec_state_electra :: "bytes \<Rightarrow> (BeaconStateElectra, DecodeError) res"
  signed_block_items :: "bytes \<Rightarrow> (bytes \<times> bytes, DecodeError) res"

definition block_from_ssz_bytes ::
  "consensus_ssz \<Rightarrow> bytes \<Rightarrow> ForkName \<Rightarrow> (BeaconBlock, DecodeError) res" where
  "block_from_ssz_bytes K bs fork_name =
     (case fork_name of
        Bellatrix \<Rightarrow> map_ok Block_Bellatrix (dec_block_bellatrix K bs)
      | Capella \<Rightarrow> map_ok Block_Capella (dec_block_capella K bs)
      | Deneb \<Rightarrow> map_ok Block_Deneb (dec_block_deneb K bs)
      | Electra \<Rightarrow> map_ok Block_Electra (dec_block_electra K bs))"

definition body_from_ssz_bytes ::
  "consensus_ssz \<Rightarrow> bytes \<Rightarrow> ForkName \<Rightarrow> (BeaconBlockBody, DecodeError) res" where
  "body_from_ssz_bytes K bs fork_name =
     (case fork_name of
        Bellatrix \<Rightarrow> map_ok Body_Bellatrix (dec_body_bellatrix K bs)
      | Capella \<Rightarrow> map_ok Body_Capella (dec_body_capella K bs)
      | Deneb \<Rightarrow> map_ok Body_Deneb (dec_body_deneb K bs)
      | Electra \<Rightarrow> map_ok Body_Electra (dec_body_electra K bs))"

definition payload_from_ssz_bytes ::
  "consensus_ssz \<Rightarrow> bytes \<Rightarrow> ForkName \<Rightarrow> (ExecutionPayload, DecodeError) res" where
  "payload_from_ssz_bytes K bs fork_name =
     (case fork_name of
        Bellatrix \<Rightarrow> map_ok Payload_Bellatrix (dec_payload_bellatrix K bs)
      | Capella \<Rightarrow> map_ok Payload_Capella (dec_payload_capella K bs)
      | Deneb \<Rightarrow> map_ok Payload_Deneb (dec_payload_deneb K bs)
      | Electra \<Rightarrow> map_ok Payload_Electra (dec_payload_electra K bs))"

definition payload_header_from_ssz_bytes ::
  "consensus_ssz \<Rightarrow> bytes \<Rightarrow> ForkName \<Rightarrow> (ExecutionPayloadHeader, DecodeError) res" where
  "payload_header_from_ssz_bytes K bs fork_name =
     (case fork_name of
        Bellatrix \<Rightarrow> map_ok PayloadHeader_Bellatrix (dec_payload_header_bellatrix K bs)
      | Capella \<Rightarrow> map_ok PayloadHeader_Capella (dec_payload_header_capella K bs)
      | Deneb \<Rightarrow> map_ok PayloadHeader_Deneb (dec_payload_header_deneb K bs)
      | Electra \<Rightarrow> map_ok PayloadHeader_Electra (dec_payload_header_electra K bs))"

definition state_from_ssz_bytes ::
  "consensus_ssz \<Rightarrow> bytes \<Rightarrow> ForkName \<Rightarrow> (BeaconState, DecodeError) res" where
  "state_from_ssz_bytes K bs fork_name =
     (case fork_name of
        Bellatrix \<Rightarrow> map_ok State_Bellatrix (dec_state_bellatrix K bs)
      | Capella \<Rightarrow> map_ok State_Capella (dec_state_capella K bs)
      | Deneb \<Rightarrow> map_ok State_Deneb (dec_state_deneb K bs)
      | Electra \<Rightarrow> map_ok State_Electra (dec_state_electra K bs))"

subsection \<open>Signed blocks\<close>

text \<open>
  \<open>signed_block_items\<close> is the builder with one variable-length item and the fixed-length signature
  registered, giving the bytes of both items when it is built.
\<close>

definition signed_block_from_ssz_bytes_with ::
  "consensus_ssz \<Rightarrow> bytes \<Rightarrow> (bytes \<Rightarrow> (BeaconBlock, DecodeError) res)
     \<Rightarrow> (SignedBeaconBlock, DecodeError) res" where
  "signed_block_from_ssz_bytes_with K bs block_decoder =
     and_then (signed_block_items K bs) (\<lambda>(message_bytes, signature_bytes).
     and_then (block_decoder message_bytes) (\<lambda>message.
     and_then (signature_from_ssz_bytes signature_bytes) (\<lambda>sig.
     Ok (from_block message sig))))"

definition signed_block_from_ssz_bytes ::
  "consensus_ssz \<Rightarrow> bytes \<Rightarrow> ForkName \<Rightarrow> (SignedBeaconBlock, DecodeError) res" where
  "signed_block_from_ssz_bytes K bs fork_name =
     signed_block_from_ssz_bytes_with K bs (\<lambda>bs. block_from_ssz_bytes K bs fork_name)"

fun block_fork :: "BeaconBlock \<Rightarrow> ForkName" where
  "block_fork (Block_Bellatrix _) = Bellatrix"
| "block_fork (Block_Capella _) = Capella"
| "block_fork (Block_Deneb _) = Deneb"
| "block_fork (Block_Electra _) = Electra"

fun signed_fork :: "SignedBeaconBlock \<Rightarrow> ForkName" where
  "signed_fork (Signed_Bellatrix _) = Bellatrix"
| "signed_fork (Signed_Capella _) = Capella"
| "signed_fork (Signed_Deneb _) = Deneb"
| "signed_fork (Signed_Electra _) = Electra"

fun block_slot :: "BeaconBlock \<Rightarrow> u64" where
  "block_slot (Block_Bellatrix b) = bb_slot b"
| "block_slot (Block_Capella b) = bb_slot b"
| "block_slot (Block_Deneb b) = bb_slot b"
| "block_slot (Block_Electra b) = bb_slot b"

fun signed_signature :: "SignedBeaconBlock \<Rightarrow> BlsSignature" where
  "signed_signature (Signed_Bellatrix b) = sb_signature b"
| "signed_signature (Signed_Capella b) = sb_signature b"
| "signed_signature (Signed_Deneb b) = sb_signature b"
| "signed_signature (Signed_Electra b) = sb_signature b"

text \<open>
  The SSZ layout of a container of one variable-length field and a signature: an offset of four
  bytes, the signature, the message; an item of fixed length gets exactly its length.
\<close>

definition signed_block_bytes :: "bytes \<Rightarrow> bytes \<Rightarrow> bytes" where
  "signed_block_bytes message sig = to_le 4 (100 :: 32 word) @ sig @ message"

definition signed_items_ok :: "consensus_ssz \<Rightarrow> bool" where
  "signed_items_ok K \<longleftrightarrow>
     (\<forall>message sig. length sig = 96 \<longrightarrow> length message < 2 ^ 31 \<longrightarrow>
        signed_block_items K (signed_block_bytes message sig) = Ok (message, sig)) \<and>
     (\<forall>bs message sig. signed_block_items K bs = Ok (message, sig) \<longrightarrow> length sig = 96) \<and>
     (\<forall>bs. \<not> is_panic (signed_block_items K bs))"

lemma from_block_simps [simp]:
  "signed_fork (from_block b s) = block_fork b"
  "signed_block_slot (from_block b s) = block_slot b"
  "signed_signature (from_block b s) = s"
  by (cases b; simp)+

lemma block_from_ssz_fork: "block_from_ssz_bytes K bs f = Ok b \<Longrightarrow> block_fork b = f"
  by (auto simp: block_from_ssz_bytes_def map_ok_Ok_iff split: ForkName.splits)

lemma signature_from_ssz_Ok [simp]:
  "length s = 96 \<Longrightarrow> signature_from_ssz_bytes s = Ok (BlsSignature s)"
  by (simp add: signature_from_ssz_bytes_def copy_from_slice_def)

text \<open>Inside a signed block the signature has its length, so its decoder cannot panic.\<close>

lemma signed_block_Ok_iff:
  assumes "signed_items_ok K"
  shows "signed_block_from_ssz_bytes K bs f = Ok b \<longleftrightarrow>
    (\<exists>message sig block. signed_block_items K bs = Ok (message, sig) \<and>
       block_from_ssz_bytes K message f = Ok block \<and> b = from_block block (BlsSignature sig))"
proof -
  have "length sig = 96" if "signed_block_items K bs = Ok (message, sig)" for message sig
    using assms that by (simp add: signed_items_ok_def)
  then show ?thesis
    by (auto simp: signed_block_from_ssz_bytes_def signed_block_from_ssz_bytes_with_def
        and_then_Ok_iff split: prod.splits)
qed

lemma signed_block_panic:
  assumes "signed_items_ok K"
  shows "is_panic (signed_block_from_ssz_bytes K bs f) \<longleftrightarrow>
    (\<exists>message sig. signed_block_items K bs = Ok (message, sig) \<and>
       is_panic (block_from_ssz_bytes K message f))"
proof -
  have "length sig = 96" if "signed_block_items K bs = Ok (message, sig)" for message sig
    using assms that by (simp add: signed_items_ok_def)
  moreover have "\<not> is_panic (signed_block_items K bs)"
    using assms by (simp add: signed_items_ok_def)
  ultimately show ?thesis
    by (auto simp: signed_block_from_ssz_bytes_def signed_block_from_ssz_bytes_with_def
        is_panic_and_then split: prod.splits)
qed

subsection \<open>The commitment to the execution requests\<close>

record requests_api =
  DEPOSIT_REQUEST_TYPE :: byte
  WITHDRAWAL_REQUEST_TYPE :: byte
  CONSOLIDATION_REQUEST_TYPE :: byte
  push_request_with_type :: "byte \<Rightarrow> bytes \<Rightarrow> bytes list \<Rightarrow> bytes list"
  alloy_requests_hash :: "bytes list \<Rightarrow> b256"
  deposits_as_ssz_bytes :: "DepositRequest list \<Rightarrow> bytes"
  withdrawals_as_ssz_bytes :: "WithdrawalRequest list \<Rightarrow> bytes"
  consolidations_as_ssz_bytes :: "ConsolidationRequest list \<Rightarrow> bytes"

text \<open>\<open>REQUEST_TYPE\<close> of the three requests is the constant of EIP-6110, EIP-7002 and EIP-7251.\<close>

definition deposit_REQUEST_TYPE :: "requests_api \<Rightarrow> byte" where
  "deposit_REQUEST_TYPE Q = DEPOSIT_REQUEST_TYPE Q"

definition withdrawal_REQUEST_TYPE :: "requests_api \<Rightarrow> byte" where
  "withdrawal_REQUEST_TYPE Q = WITHDRAWAL_REQUEST_TYPE Q"

definition consolidation_REQUEST_TYPE :: "requests_api \<Rightarrow> byte" where
  "consolidation_REQUEST_TYPE Q = CONSOLIDATION_REQUEST_TYPE Q"

lemmas request_types = deposit_REQUEST_TYPE_def withdrawal_REQUEST_TYPE_def consolidation_REQUEST_TYPE_def

definition execution_requests_hash :: "requests_api \<Rightarrow> ExecutionRequests \<Rightarrow> b256" where
  "execution_requests_hash Q self =
     (let requests = [];
          requests = push_request_with_type Q (deposit_REQUEST_TYPE Q)
            (deposits_as_ssz_bytes Q (er_deposits self)) requests;
          requests = push_request_with_type Q (withdrawal_REQUEST_TYPE Q)
            (withdrawals_as_ssz_bytes Q (er_withdrawals self)) requests;
          requests = push_request_with_type Q (consolidation_REQUEST_TYPE Q)
            (consolidations_as_ssz_bytes Q (er_consolidations self)) requests
      in alloy_requests_hash Q requests)"

text \<open>A request list is pushed with its type in front and left out when it is empty (EIP-7685).\<close>

definition push_ok :: "requests_api \<Rightarrow> bool" where
  "push_ok Q \<longleftrightarrow> (\<forall>t bs rs. push_request_with_type Q t bs rs = (if bs = [] then rs else rs @ [t # bs]))"

definition request_items :: "requests_api \<Rightarrow> ExecutionRequests \<Rightarrow> bytes list" where
  "request_items Q r =
     map (\<lambda>(t, bs). t # bs) (filter (\<lambda>(t, bs). bs \<noteq> [])
       [(DEPOSIT_REQUEST_TYPE Q, deposits_as_ssz_bytes Q (er_deposits r)),
        (WITHDRAWAL_REQUEST_TYPE Q, withdrawals_as_ssz_bytes Q (er_withdrawals r)),
        (CONSOLIDATION_REQUEST_TYPE Q, consolidations_as_ssz_bytes Q (er_consolidations r))])"

lemma execution_requests_hash_items:
  "push_ok Q \<Longrightarrow> execution_requests_hash Q r = alloy_requests_hash Q (request_items Q r)"
  by (simp add: execution_requests_hash_def request_items_def push_ok_def request_types)

subsection \<open>Transactions in JSON\<close>

text \<open>
  The list of strings between the code and \<open>serde_json\<close>.  \<open>Transaction::from\<close> cuts a transaction at
  \<open>2 ^ 30\<close> bytes; the list holds \<open>2 ^ 20\<close> transactions, and pushing one more fails.
\<close>

definition se_txs_to_hex :: "hex_api \<Rightarrow> bytes list \<Rightarrow> string list" where
  "se_txs_to_hex X txs = map (hex_encode X) txs"

datatype TxsError = TxHex ByteUtilsError | UnableToDeserializeTxs

fun txs_loop :: "hex_api \<Rightarrow> string list \<Rightarrow> bytes list \<Rightarrow> (bytes list, TxsError) res" where
  "txs_loop X [] txs = Ok txs"
| "txs_loop X (r # rs) txs =
     and_then (map_err TxHex (hex_decode X r)) (\<lambda>tx.
     let tx = take (2 ^ 30) tx
     in if length txs < 2 ^ 20 then txs_loop X rs (txs @ [tx]) else Err UnableToDeserializeTxs)"

definition de_hex_to_txs :: "hex_api \<Rightarrow> string list \<Rightarrow> (bytes list, TxsError) res" where
  "de_hex_to_txs X result = txs_loop X result []"

lemma txs_loop_roundtrip:
  assumes "hex_ok X" "\<forall>tx \<in> set txs. length tx \<le> 2 ^ 30" "length done_txs + length txs \<le> 2 ^ 20"
  shows "txs_loop X (se_txs_to_hex X txs) done_txs = Ok (done_txs @ txs)"
  using assms(2,3)
proof (induction txs arbitrary: done_txs)
  case Nil
  then show ?case by (simp add: se_txs_to_hex_def)
next
  case (Cons tx txs)
  then show ?case
    using hex_roundtrip [OF assms(1), of tx] by (simp add: se_txs_to_hex_def)
qed

lemma txs_roundtrip:
  assumes "hex_ok X" "\<forall>tx \<in> set txs. length tx \<le> 2 ^ 30" "length txs \<le> 2 ^ 20"
  shows "de_hex_to_txs X (se_txs_to_hex X txs) = Ok txs"
  using txs_loop_roundtrip [OF assms(1,2), of "[]"] assms(3) by (simp add: de_hex_to_txs_def)

end
