(* ===== verification/Rpc_Text.thy ===== *)
theory Rpc_Text
  imports Hex_Bytes
begin

text \<open>
  Text of the JSON-RPC and beacon-API requests and answers, as the data sources of \<open>src/sources\<close>
  write and read it: the standard library's decimal and hexadecimal formats of a \<open>u64\<close>,
  \<open>u64::from_str_radix\<close> on base 16, and \<open>trim_start_matches\<close> / \<open>trim_end_matches\<close>.
\<close>

subsection \<open>Formatting\<close>

fun digits :: "nat \<Rightarrow> nat \<Rightarrow> string" where
  "digits base n =
     (if base < 2 then [] else
      (if n < base then [] else digits base (n div base)) @ [hex_digit_char (n mod base)])"

declare digits.simps [simp del]

definition fmt_dec :: "u64 \<Rightarrow> string" where
  "fmt_dec n = digits 10 (unat n)"

definition fmt_hex :: "u64 \<Rightarrow> string" where
  "fmt_hex n = ''0x'' @ digits 16 (unat n)"

subsection \<open>Trimming\<close>

text \<open>\<open>s.trim_start_matches("0x")\<close> removes the prefix as often as it occurs.\<close>

fun trim_0x :: "string \<Rightarrow> string" where
  "trim_0x (c # d # s) = (if c = CHR ''0'' \<and> d = CHR ''x'' then trim_0x s else c # d # s)"
| "trim_0x s = s"

text \<open>\<open>s.trim_end_matches('/')\<close>.\<close>

definition trim_slashes :: "string \<Rightarrow> string" where
  "trim_slashes s = rev (dropWhile (\<lambda>c. c = CHR ''/'') (rev s))"

subsection \<open>Parsing\<close>

datatype IntErrorKind = Empty | InvalidDigit | PosOverflow

definition to_digit16 :: "char \<Rightarrow> nat option" where
  "to_digit16 c =
     (let n = (of_char c :: nat)
      in if 48 \<le> n \<and> n \<le> 57 then Some (n - 48)
         else if 97 \<le> n \<and> n \<le> 102 then Some (n - 87)
         else if 65 \<le> n \<and> n \<le> 70 then Some (n - 55)
         else None)"

text \<open>
  The loop of \<open>from_str_radix\<close>: multiply, look at the digit, then report the overflow of the
  multiplication, add.
\<close>

fun radix_loop :: "nat \<Rightarrow> string \<Rightarrow> (nat, IntErrorKind) res" where
  "radix_loop acc [] = Ok acc"
| "radix_loop acc (c # s) =
     (case to_digit16 c of
        None \<Rightarrow> Err InvalidDigit
      | Some x \<Rightarrow>
          if acc * 16 \<ge> 2 ^ 64 then Err PosOverflow
          else if acc * 16 + x \<ge> 2 ^ 64 then Err PosOverflow
          else radix_loop (acc * 16 + x) s)"

definition u64_from_str_radix16 :: "string \<Rightarrow> (u64, IntErrorKind) res" where
  "u64_from_str_radix16 src =
     (if src = [] then Err Empty
      else if src = ''+'' \<or> src = ''-'' then Err InvalidDigit
      else map_ok word_of_nat (radix_loop 0 (if hd src = CHR ''+'' then tl src else src)))"

subsection \<open>Reading back what was written\<close>

lemma digits_chars: "set (digits 16 n) \<subseteq> set ''0123456789abcdef''"
proof (induction n rule: less_induct)
  case (less n)
  have "hex_digit_char (n mod 16) \<in> set ''0123456789abcdef''" by (rule hex_digit_char_in) simp
  with less [of "n div 16"] show ?case by (subst digits.simps) auto
qed

lemma digits_not_Nil [simp]: "digits 16 n \<noteq> []"
  by (subst digits.simps) simp

lemma to_digit16_nth: "k < 16 \<Longrightarrow> to_digit16 (hex_digit_char k) = Some k"
proof -
  assume "k < 16"
  then have "k \<in> set [0..<16]" by simp
  then show ?thesis by (auto simp: upt_rec to_digit16_def hex_digit_char_def)
qed

lemma radix_loop_append:
  "radix_loop acc (s @ t) = and_then (radix_loop acc s) (\<lambda>acc. radix_loop acc t)"
  by (induction acc s rule: radix_loop.induct) (auto split: option.splits)

lemma radix_loop_digits: "n < 2 ^ 64 \<Longrightarrow> radix_loop 0 (digits 16 n) = Ok n"
proof (induction n rule: less_induct)
  case (less n)
  have k: "to_digit16 (hex_digit_char (n mod 16)) = Some (n mod 16)"
    by (rule to_digit16_nth) simp
  have prefix: "radix_loop 0 (if n < 16 then [] else digits 16 (n div 16)) = Ok (n div 16)"
    using less by auto
  have n: "n div 16 * 16 + n mod 16 = n" by simp
  then have "n div 16 * 16 < 2 ^ 64" using less.prems by linarith
  then have last_digit: "radix_loop (n div 16) [hex_digit_char (n mod 16)] = Ok n"
    using less.prems by (simp only: radix_loop.simps k option.case n not_le [symmetric] if_False)
  have "digits 16 n = (if n < 16 then [] else digits 16 (n div 16)) @ [hex_digit_char (n mod 16)]"
    by (subst digits.simps) simp
  then show ?case by (simp only: radix_loop_append prefix and_then.simps last_digit)
qed

lemma trim_0x_hex: "set s \<subseteq> set ''0123456789abcdef'' \<Longrightarrow> trim_0x s = s"
  by (cases s rule: trim_0x.cases) auto

lemma trim_0x_prefixed: "set s \<subseteq> set ''0123456789abcdef'' \<Longrightarrow> trim_0x (''0x'' @ s) = s"
  by (simp add: trim_0x_hex)

lemma hex_u64_roundtrip: "u64_from_str_radix16 (trim_0x (fmt_hex n)) = Ok n"
proof -
  have trim: "trim_0x (fmt_hex n) = digits 16 (unat n)"
    unfolding fmt_hex_def by (rule trim_0x_prefixed [OF digits_chars])
  have "hd (digits 16 (unat n)) \<in> set (digits 16 (unat n))" by simp
  then have "hd (digits 16 (unat n)) \<in> set ''0123456789abcdef''" using digits_chars by blast
  then have "hd (digits 16 (unat n)) \<noteq> CHR ''+''" "hd (digits 16 (unat n)) \<noteq> CHR ''-''" by auto
  then have "digits 16 (unat n) \<noteq> ''+''" "digits 16 (unat n) \<noteq> ''-''"
    and "(if hd (digits 16 (unat n)) = CHR ''+'' then tl (digits 16 (unat n)) else digits 16 (unat n))
      = digits 16 (unat n)"
    by auto
  moreover have "unat n < 2 ^ LENGTH(64)" by (rule unsigned_less)
  ultimately show ?thesis
    by (simp add: u64_from_str_radix16_def trim radix_loop_digits)
qed

interpretation rpc_u64: codec fmt_hex "\<lambda>s. u64_from_str_radix16 (trim_0x s)"
  by unfold_locales (rule hex_u64_roundtrip)

text \<open>Parsing never panics, and a text longer than sixteen digits without leading zero overflows.\<close>

lemma radix_loop_total: "\<not> is_panic (radix_loop acc s)"
  by (induction acc s rule: radix_loop.induct) (auto split: option.splits)

lemma u64_from_str_radix16_total: "\<not> is_panic (u64_from_str_radix16 s)"
  using radix_loop_total by (auto simp: u64_from_str_radix16_def is_panic_iff)

text \<open>Different numbers have different texts, in every base up to sixteen.\<close>

lemma digits_value:
  assumes "2 \<le> b" "b \<le> 16"
  shows "foldl (\<lambda>acc c. acc * b + the (to_digit16 c)) 0 (digits b n) = n"
proof (induction n rule: less_induct)
  case (less n)
  have "n mod b < 16" using assms mod_less_divisor [of b n] by linarith
  then have k: "to_digit16 (hex_digit_char (n mod b)) = Some (n mod b)"
    by (rule to_digit16_nth)
  have "foldl (\<lambda>acc c. acc * b + the (to_digit16 c)) 0 (if n < b then [] else digits b (n div b)) = n div b"
    using less [of "n div b"] assms by auto
  moreover have "digits b n = (if n < b then [] else digits b (n div b)) @ [hex_digit_char (n mod b)]"
    using assms by (subst digits.simps) simp
  ultimately show ?case by (simp only: foldl_append foldl.simps k option.sel div_mult_mod_eq)
qed

lemma digits_inject:
  assumes "2 \<le> b" "b \<le> 16" "digits b m = digits b n"
  shows "m = n"
  using digits_value [OF assms(1,2), of m] digits_value [OF assms(1,2), of n]
  unfolding assms(3) by (rule trans [OF sym])

lemma fmt_dec_inject: "fmt_dec m = fmt_dec n \<longleftrightarrow> m = n"
  unfolding fmt_dec_def word_unat_eq_iff by (auto dest: digits_inject [rotated 2])

subsection \<open>Quantities wider than 64 bits\<close>

text \<open>
  A quantity is written without leading zeros; padded to an even number of digits it is the
  hexadecimal form of its big-endian bytes.
\<close>

definition pad_even :: "string \<Rightarrow> string" where
  "pad_even s = (if length s mod 2 = 1 then ''0'' @ s else s)"

fun be_bytes :: "nat \<Rightarrow> bytes" where
  "be_bytes n = (if n < 256 then [] else be_bytes (n div 256)) @ [word_of_nat (n mod 256)]"

declare be_bytes.simps [simp del]

lemma digits_unfold:
  "digits 16 n = (if n < 16 then [] else digits 16 (n div 16)) @ [hex_digit_char (n mod 16)]"
  by (subst digits.simps) simp

lemma pad_even_append: "length t = 2 \<Longrightarrow> pad_even (s @ t) = pad_even s @ t"
  by (simp add: pad_even_def)

lemma pad_even_digits: "pad_even (digits 16 n) = hex_pairs (be_bytes n)"
proof (induction n rule: less_induct)
  case (less n)
  have low: "unat (word_of_nat (n mod 256) :: byte) = n mod 256"
    by (simp add: unat_of_nat)
  have pair: "n mod 256 div 16 = n div 16 mod 16" "n mod 256 mod 16 = n mod 16"
    using mod_mult2_eq [of n 16 16] mod_mod_cancel [of 16 256 n] by simp_all
  show ?case
  proof (cases "n < 256")
    case True
    then have byte: "unat (word_of_nat n :: byte) = n" using low by simp
    have zero: "hex_digit_char 0 = CHR ''0''" by (simp add: hex_digit_char_def)
    show ?thesis
    proof (cases "n < 16")
      case True
      then show ?thesis
        using byte zero by (simp add: digits_unfold [of n] be_bytes.simps [of n] pad_even_def)
    next
      case False
      with \<open>n < 256\<close> show ?thesis
        using byte by (simp add: digits_unfold [of n] digits_unfold [of "n div 16"] be_bytes.simps [of n]
            pad_even_def)
    qed
  next
    case False
    then have "\<not> n < 16" "\<not> n div 16 < 16" by simp_all
    then have "digits 16 n = digits 16 (n div 256) @ [hex_digit_char (n div 16 mod 16), hex_digit_char (n mod 16)]"
      using div_mult2_eq [of n 16 16] by (simp add: digits_unfold [of n] digits_unfold [of "n div 16"])
    then have "pad_even (digits 16 n)
        = hex_pairs (be_bytes (n div 256)) @ [hex_digit_char (n div 16 mod 16), hex_digit_char (n mod 16)]"
      using less [of "n div 256"] False by (simp add: pad_even_append)
    then show ?thesis using False by (simp add: be_bytes.simps [of n] low pair)
  qed
qed

lemma length_be_bytes: "n < 256 ^ k \<Longrightarrow> 0 < k \<Longrightarrow> length (be_bytes n) \<le> k"
proof (induction k arbitrary: n)
  case (Suc k)
  show ?case
  proof (cases "n < 256")
    case True
    then show ?thesis by (simp add: be_bytes.simps)
  next
    case False
    then have "n div 256 < 256 ^ k" "0 < k" using Suc.prems by (cases k; simp)+
    then show ?thesis using Suc.IH False by (simp add: be_bytes.simps [of n])
  qed
qed simp

definition u256_from_be_bytes :: "bytes \<Rightarrow> u256" where
  "u256_from_be_bytes bs = from_le (rev bs)"

lemma from_le_zeros: "from_le (bs @ replicate k 0) = from_le bs"
  by (induction bs) (induction k; simp)+

lemma from_le_be_bytes: "from_le (rev (be_bytes n)) = (word_of_nat n :: 'a::len word)"
proof (induction n rule: less_induct)
  case (less n)
  have rest: "from_le (rev (if n < 256 then [] else be_bytes (n div 256))) = (word_of_nat (n div 256) :: 'a word)"
    using less [of "n div 256"] by simp
  have "from_le (rev (be_bytes n))
      = ucast (word_of_nat (n mod 256) :: byte) OR push_bit 8 (word_of_nat (n div 256) :: 'a word)"
    by (subst be_bytes.simps) (simp add: rest)
  also have "\<dots> = (word_of_nat n :: 'a word)"
  proof (rule bit_word_eqI)
    fix i assume i: "i < LENGTH('a)"
    have "n mod 256 = take_bit 8 n" "n div 256 = drop_bit 8 n"
      by (simp_all add: take_bit_eq_mod drop_bit_eq_div)
    then show "bit (ucast (word_of_nat (n mod 256) :: byte) OR push_bit 8 (word_of_nat (n div 256) :: 'a word)) i
        = bit (word_of_nat n :: 'a word) i"
      using i by (auto simp: bit_simps)
  qed
  finally show ?case .
qed

end
