(* ===== verification/Data_Sources.thy ===== *)
theory Data_Sources
  imports Verifier_Api Consensus_Decode Rpc_Text
begin

text \<open>
  The data sources that fetch ready-made content: the two Portal sidecars
  (\<open>src/sources/portal.rs\<close>, \<open>src/sources/portal_beacon.rs\<close>), the Era1 scaffold
  (\<open>src/sources/era1.rs\<close>) and the beacon-API client (\<open>src/sources/beacon_rpc.rs\<close>).

  A client of \<open>reqwest\<close> is a function from a request to its answer; the answer is the parsed JSON
  document or the error of the transport (\<open>send\<close>, \<open>error_for_status\<close> and \<open>json\<close> end in one
  conversion).  The clock and the environment are arguments.
\<close>

subsection \<open>JSON-RPC\<close>

datatype json_param = JStr string | JBool bool

record JsonRpcError =
  je_code :: "64 word"
  je_message :: string

record 'r JsonRpcResponse =
  jr_result :: "'r option"
  jr_error :: "JsonRpcError option"

record GetContentResult =
  gc_content :: string
  gc_utp_transfer :: bool

type_synonym 'r rpc_client =
  "string \<Rightarrow> string \<Rightarrow> json_param list \<Rightarrow> ('r JsonRpcResponse, msg) res"

text \<open>What \<open>to_string\<close> gives for the errors of the crate \<open>hex\<close>.\<close>

fun hex_error_text :: "FromHexError \<Rightarrow> msg" where
  "hex_error_text (InvalidHexCharacter c i) =
     Msg ''Invalid character {c:?} at position {index}'' [AStr [c], ANat i]"
| "hex_error_text OddLength = lit ''Odd number of digits''"
| "hex_error_text InvalidStringLength = lit ''Invalid string length''"

definition hex_decode_or :: "hex_api \<Rightarrow> string \<Rightarrow> (bytes, Error) res" where
  "hex_decode_or X s = map_err (\<lambda>e. error_from_hex (hex_error_text e)) (hex_crate_decode X s)"

subsection \<open>The Portal history sidecar\<close>

definition SELECTOR_BLOCK_HEADER_BY_HASH :: byte where "SELECTOR_BLOCK_HEADER_BY_HASH = 0x00"
definition SELECTOR_BLOCK_HEADER_BY_NUMBER :: byte where "SELECTOR_BLOCK_HEADER_BY_NUMBER = 0x03"

record PortalSidecarSource =
  ps_rpc_url :: string
  ps_http :: "GetContentResult rpc_client"

definition portal_new ::
  "(GetContentResult rpc_client, msg) res \<Rightarrow> string \<Rightarrow> (PortalSidecarSource, Error) res" where
  "portal_new built rpc_url =
     and_then (map_err error_from_reqwest built) (\<lambda>http.
     Ok \<lparr>ps_rpc_url = rpc_url, ps_http = http\<rparr>)"

definition portal_get_content ::
  "hex_api \<Rightarrow> PortalSidecarSource \<Rightarrow> bytes \<Rightarrow> (bytes, Error) res" where
  "portal_get_content X self content_key =
     (let key_hex = ''0x'' @ hex_crate_encode X content_key
      in and_then (map_err error_from_reqwest
           (ps_http self (ps_rpc_url self) ''portal_legacyHistoryGetContent'' [JStr key_hex])) (\<lambda>parsed.
         case jr_error parsed of
           Some err \<Rightarrow> Err (DataSource (Msg ''Portal RPC error {}: {}''
                          [AInt (sint (je_code err)), AStr (je_message err)]))
         | None \<Rightarrow>
             and_then (ok_or (jr_result parsed)
               (DataSource (Msg ''Portal returned no result for {}'' [AStr key_hex]))) (\<lambda>result.
             hex_decode_or X (trim_0x (gc_content result)))))"

definition header_by_number_key :: "u64 \<Rightarrow> bytes" where
  "header_by_number_key block_number =
     (let key = []; key = key @ [SELECTOR_BLOCK_HEADER_BY_NUMBER]
      in key @ u64_to_le_bytes block_number)"

definition header_by_hash_key :: "b256 \<Rightarrow> bytes" where
  "header_by_hash_key block_hash =
     (let key = []; key = key @ [SELECTOR_BLOCK_HEADER_BY_HASH] in key @ block_hash)"

definition portal_source :: "hex_api \<Rightarrow> PortalSidecarSource \<Rightarrow> data_source" where
  "portal_source X self =
     \<lparr>fetch_header_with_proof_by_number = (\<lambda>n. portal_get_content X self (header_by_number_key n)),
      fetch_header_with_proof_by_hash = (\<lambda>h. portal_get_content X self (header_by_hash_key h)),
      source_name = ''portal-sidecar''\<rparr>"

subsection \<open>The Portal beacon sidecar\<close>

definition SELECTOR_HISTORICAL_SUMMARIES_WITH_PROOF :: byte where
  "SELECTOR_HISTORICAL_SUMMARIES_WITH_PROOF = 0x14"

definition PORTAL_BEACON_GENESIS_TIMESTAMP :: u64 where
  "PORTAL_BEACON_GENESIS_TIMESTAMP = 1606824023"

text \<open>The answer is declared once more here, with the same fields.\<close>

type_synonym PortalBeaconJsonRpcResponse = "GetContentResult JsonRpcResponse"

record PortalBeaconSidecarSource =
  pb_rpc_url :: string
  pb_http :: "string \<Rightarrow> string \<Rightarrow> json_param list \<Rightarrow> (PortalBeaconJsonRpcResponse, msg) res"

record HistoricalSummariesWithProof =
  hs_epoch :: u64
  hs_historical_summaries :: HistoricalSummaries
  hs_proof :: "b256 list"

definition portal_beacon_new ::
  "(GetContentResult rpc_client, msg) res \<Rightarrow> string \<Rightarrow> (PortalBeaconSidecarSource, Error) res" where
  "portal_beacon_new built rpc_url =
     and_then (map_err error_from_reqwest built) (\<lambda>http.
     Ok \<lparr>pb_rpc_url = rpc_url, pb_http = http\<rparr>)"

definition portal_beacon_get_content ::
  "hex_api \<Rightarrow> PortalBeaconSidecarSource \<Rightarrow> bytes \<Rightarrow> (bytes, Error) res" where
  "portal_beacon_get_content X self content_key =
     (let key_hex = ''0x'' @ hex_crate_encode X content_key
      in and_then (map_err error_from_reqwest
           (pb_http self (pb_rpc_url self) ''portal_beaconGetContent'' [JStr key_hex])) (\<lambda>parsed.
         case jr_error parsed of
           Some err \<Rightarrow> Err (DataSource (Msg ''Portal beacon RPC error {}: {}''
                          [AInt (sint (je_code err)), AStr (je_message err)]))
         | None \<Rightarrow>
             and_then (ok_or (jr_result parsed)
               (DataSource (Msg ''Portal beacon returned no result for {}'' [AStr key_hex]))) (\<lambda>result.
             hex_decode_or X (trim_0x (gc_content result)))))"

definition historical_summaries_key :: "u64 \<Rightarrow> bytes" where
  "historical_summaries_key ep =
     (let key = []; key = key @ [SELECTOR_HISTORICAL_SUMMARIES_WITH_PROOF]
      in key @ u64_to_le_bytes ep)"

text \<open>\<open>from_ssz\<close> is the derived decoder of the struct.\<close>

definition fetch_historical_summaries_with_proof ::
  "hex_api \<Rightarrow> (bytes \<Rightarrow> (HistoricalSummariesWithProof, DecodeError) res)
     \<Rightarrow> PortalBeaconSidecarSource \<Rightarrow> u64 \<Rightarrow> (HistoricalSummariesWithProof, Error) res" where
  "fetch_historical_summaries_with_proof X from_ssz self ep =
     (let content_key = historical_summaries_key ep
      in and_then (portal_beacon_get_content X self content_key) (\<lambda>bs.
         map_err (\<lambda>e. SszDecode 0 (Msg ''HistoricalSummariesWithProof at epoch {}: {:?}''
                    [ANat (unat ep)]))
           (from_ssz bs)))"

text \<open>\<open>now\<close> is the seconds since the Unix epoch, or \<open>None\<close> for a clock before it.\<close>

definition current_beacon_epoch :: "u64 option \<Rightarrow> u64" where
  "current_beacon_epoch now =
     (let now = (case now of Some secs \<Rightarrow> secs | None \<Rightarrow> PORTAL_BEACON_GENESIS_TIMESTAMP);
          elapsed = saturating_sub now PORTAL_BEACON_GENESIS_TIMESTAMP;
          sl = elapsed div SECONDS_PER_SLOT
      in sl div SLOTS_PER_EPOCH)"

definition current_historical_summaries_epoch :: "u64 option \<Rightarrow> u64" where
  "current_historical_summaries_epoch now =
     (let HISTORICAL_ROOT_BOUNDARY = 256
      in (current_beacon_epoch now div HISTORICAL_ROOT_BOUNDARY) * HISTORICAL_ROOT_BOUNDARY)"

definition fetch_latest_historical_summaries ::
  "hex_api \<Rightarrow> (bytes \<Rightarrow> (HistoricalSummariesWithProof, DecodeError) res)
     \<Rightarrow> PortalBeaconSidecarSource \<Rightarrow> u64 option \<Rightarrow> (HistoricalSummaries, Error) res" where
  "fetch_latest_historical_summaries X from_ssz self now =
     (let ep = current_historical_summaries_epoch now
      in and_then (fetch_historical_summaries_with_proof X from_ssz self ep) (\<lambda>with_proof.
         Ok (hs_historical_summaries with_proof)))"

subsection \<open>The Era1 scaffold\<close>

definition era1_source :: "string \<Rightarrow> data_source" where
  "era1_source root =
     \<lparr>fetch_header_with_proof_by_number = (\<lambda>_. Err (DataSource (Msg
        (''Era1FileSource at {} '' @ [CHR 0xE2, CHR 0x80, CHR 0x94] @
         '' Era1 file reading is not yet implemented; see https://github.com/willow-network/eth-historian/issues/13'')
        [AStr root]))),
      fetch_header_with_proof_by_hash = (\<lambda>_. Err (DataSource (lit
        ''Era1FileSource: lookup by hash not implemented''))),
      source_name = ''era1-file''\<rparr>"

subsection \<open>The beacon API\<close>

record HttpResponse =
  hr_success :: bool
  hr_status :: string
  hr_body :: "(bytes, msg) res"

record BeaconRpcSource =
  br_base_url :: string
  br_client :: "string \<Rightarrow> (HttpResponse, msg) res"

record BeaconDataProvider =
  fetch_signed_beacon_block :: "u64 \<Rightarrow> (SignedBeaconBlock, Error) res"
  fetch_historical_batch :: "u64 \<Rightarrow> (HistoricalBatch, Error) res"
  provider_name :: string

text \<open>The label of a provider that does not give one.\<close>

definition provider_name_default :: string where
  "provider_name_default = ''BeaconDataProvider''"

definition beacon_new :: "(string \<Rightarrow> (HttpResponse, msg) res) \<Rightarrow> string \<Rightarrow> BeaconRpcSource" where
  "beacon_new client base_url = \<lparr>br_base_url = trim_slashes base_url, br_client = client\<rparr>"

definition beacon_with_client ::
  "BeaconRpcSource \<Rightarrow> (string \<Rightarrow> (HttpResponse, msg) res) \<Rightarrow> BeaconRpcSource" where
  "beacon_with_client self client = self\<lparr>br_client := client\<rparr>"

definition fetch_block_ssz :: "BeaconRpcSource \<Rightarrow> u64 \<Rightarrow> (bytes, Error) res" where
  "fetch_block_ssz self sl =
     (let url = br_base_url self @ ''/eth/v2/beacon/blocks/'' @ fmt_dec sl
      in and_then (map_err Http (br_client self url)) (\<lambda>resp.
         if \<not> hr_success resp
         then Err (DataSource (Msg ''beacon block at slot {slot}: HTTP {}''
                [ANat (unat sl), AStr (hr_status resp)]))
         else map_err Http (hr_body resp)))"

definition fetch_state_ssz :: "BeaconRpcSource \<Rightarrow> u64 \<Rightarrow> (bytes, Error) res" where
  "fetch_state_ssz self state_id =
     (let url = br_base_url self @ ''/eth/v2/debug/beacon/states/'' @ fmt_dec state_id
      in and_then (map_err Http (br_client self url)) (\<lambda>resp.
         if \<not> hr_success resp
         then Err (DataSource (Msg ''beacon state at slot {state_id}: HTTP {}''
                [ANat (unat state_id), AStr (hr_status resp)]))
         else map_err Http (hr_body resp)))"

definition beacon_fetch_signed_beacon_block ::
  "consensus_ssz \<Rightarrow> BeaconRpcSource \<Rightarrow> u64 \<Rightarrow> (SignedBeaconBlock, Error) res" where
  "beacon_fetch_signed_beacon_block K self sl =
     and_then (fetch_block_ssz self sl) (\<lambda>bs.
     let fork = fork_for_slot sl
     in map_err (\<lambda>e. DataSource (Msg
            ''decoding SignedBeaconBlock at slot {slot} (fork={fork:?}): {e:?}''
            [ANat (unat sl), AStr (as_capitalized_str fork)]))
          (signed_block_from_ssz_bytes K bs fork))"

text \<open>\<open>era_start + SLOTS_PER_HISTORICAL_ROOT - 1\<close> is added first.\<close>

definition beacon_fetch_historical_batch ::
  "consensus_ssz \<Rightarrow> BeaconRpcSource \<Rightarrow> u64 \<Rightarrow> (HistoricalBatch, Error) res" where
  "beacon_fetch_historical_batch K self sl =
     (let era_start = (sl div SLOTS_PER_HISTORICAL_ROOT) * SLOTS_PER_HISTORICAL_ROOT
      in and_then (checked_add era_start SLOTS_PER_HISTORICAL_ROOT) (\<lambda>next_era.
         let era_end = next_era - 1
         in and_then (fetch_state_ssz self era_end) (\<lambda>bs.
            let state_fork = fork_for_slot era_end
            in and_then (map_err (\<lambda>e. DataSource (Msg
                   ''decoding BeaconState at slot {era_end} (fork={state_fork:?}): {e:?}''
                   [ANat (unat era_end), AStr (as_capitalized_str state_fork)]))
                 (state_from_ssz_bytes K bs state_fork)) (\<lambda>state.
               Ok \<lparr>hb_block_roots = state_block_roots state, hb_state_roots = state_state_roots state\<rparr>))))"

definition beacon_provider :: "consensus_ssz \<Rightarrow> BeaconRpcSource \<Rightarrow> BeaconDataProvider" where
  "beacon_provider K self =
     \<lparr>fetch_signed_beacon_block = beacon_fetch_signed_beacon_block K self,
      fetch_historical_batch = beacon_fetch_historical_batch K self,
      provider_name = ''BeaconRpcSource''\<rparr>"

subsection \<open>What a sidecar serves\<close>

text \<open>
  The contract of both sidecars: the content under a key is what the client's answer says, in
  hexadecimal; an error in the answer wins over a result.
\<close>

locale content_router =
  fixes X :: hex_api
    and request :: "string \<Rightarrow> (GetContentResult JsonRpcResponse, msg) res"
    and get :: "bytes \<Rightarrow> (bytes, Error) res"
  assumes get_Ok_iff: "get key = Ok bs \<longleftrightarrow>
      (\<exists>answer result. request (''0x'' @ hex_crate_encode X key) = Ok answer \<and>
         jr_error answer = None \<and> jr_result answer = Some result \<and>
         hex_crate_decode X (trim_0x (gc_content result)) = Ok bs)"
    and get_panic: "is_panic (get key) \<Longrightarrow>
      is_panic (request (''0x'' @ hex_crate_encode X key)) \<or> (\<exists>s. is_panic (hex_crate_decode X s))"
begin

lemma served:
  assumes "hex_ok X" "request (''0x'' @ hex_pairs key) = Ok answer" "jr_error answer = None"
    and "jr_result answer = Some result" "gc_content result = hex_encode X bs"
  shows "get key = Ok bs"
proof -
  have "trim_0x (hex_encode X bs) = hex_pairs bs"
    using trim_0x_prefixed [OF hex_pairs_chars] by (simp add: hex_encode_def hex_okD [OF assms(1)])
  then show ?thesis using assms by (auto simp: get_Ok_iff hex_okD)
qed

lemma no_panic: "hex_ok X \<Longrightarrow> (\<And>s. \<not> is_panic (request s)) \<Longrightarrow> \<not> is_panic (get key)"
  using get_panic hex_okD(3) by blast

end

lemma hex_decode_or_iffs [simp]:
  "hex_decode_or X s = Ok bs \<longleftrightarrow> hex_crate_decode X s = Ok bs"
  "is_panic (hex_decode_or X s) \<longleftrightarrow> is_panic (hex_crate_decode X s)"
  by (simp_all add: hex_decode_or_def)

interpretation portal: content_router X
  "\<lambda>key_hex. ps_http self (ps_rpc_url self) ''portal_legacyHistoryGetContent'' [JStr key_hex]"
  "portal_get_content X self" for X self
proof unfold_locales
  fix key bs
  show "portal_get_content X self key = Ok bs \<longleftrightarrow>
      (\<exists>answer result. ps_http self (ps_rpc_url self) ''portal_legacyHistoryGetContent''
           [JStr (''0x'' @ hex_crate_encode X key)] = Ok answer \<and>
         jr_error answer = None \<and> jr_result answer = Some result \<and>
         hex_crate_decode X (trim_0x (gc_content result)) = Ok bs)"
    unfolding portal_get_content_def Let_def
    by (fastforce simp: and_then_Ok_iff split: option.splits)
qed (auto simp: portal_get_content_def is_panic_and_then ok_or_def Let_def split: option.splits)

interpretation portal_beacon: content_router X
  "\<lambda>key_hex. pb_http self (pb_rpc_url self) ''portal_beaconGetContent'' [JStr key_hex]"
  "portal_beacon_get_content X self" for X self
proof unfold_locales
  fix key bs
  show "portal_beacon_get_content X self key = Ok bs \<longleftrightarrow>
      (\<exists>answer result. pb_http self (pb_rpc_url self) ''portal_beaconGetContent''
           [JStr (''0x'' @ hex_crate_encode X key)] = Ok answer \<and>
         jr_error answer = None \<and> jr_result answer = Some result \<and>
         hex_crate_decode X (trim_0x (gc_content result)) = Ok bs)"
    unfolding portal_beacon_get_content_def Let_def
    by (fastforce simp: and_then_Ok_iff split: option.splits)
qed (auto simp: portal_beacon_get_content_def is_panic_and_then ok_or_def Let_def split: option.splits)

subsection \<open>Content keys\<close>

lemma content_keys_inject [simp]:
  "header_by_number_key m = header_by_number_key n \<longleftrightarrow> m = n"
  "header_by_hash_key g = header_by_hash_key h \<longleftrightarrow> g = h"
  "historical_summaries_key e = historical_summaries_key f \<longleftrightarrow> e = f"
  "header_by_number_key n \<noteq> header_by_hash_key h"
  by (simp_all add: header_by_number_key_def header_by_hash_key_def historical_summaries_key_def
      u64_le.enc_inject SELECTOR_BLOCK_HEADER_BY_NUMBER_def SELECTOR_BLOCK_HEADER_BY_HASH_def)

subsection \<open>Epochs of the summaries\<close>

lemma unat_beacon_epoch:
  "unat (current_beacon_epoch now)
     = (case now of None \<Rightarrow> 0 | Some t \<Rightarrow> (unat t - 1606824023) div 384)"
proof (cases now)
  case (Some t)
  have "unat (saturating_sub t 1606824023) = unat t - 1606824023"
    by (simp add: saturating_sub_def unat_sub word_le_nat_alt)
  then show ?thesis
    using Some div_mult2_eq [of "unat t - 1606824023" 12 32]
    by (simp add: current_beacon_epoch_def PORTAL_BEACON_GENESIS_TIMESTAMP_def network_constants
        unat_div Let_def)
qed (simp add: current_beacon_epoch_def PORTAL_BEACON_GENESIS_TIMESTAMP_def saturating_sub_def
    network_constants Let_def)

lemma unat_rollover_epoch:
  "unat (current_historical_summaries_epoch now) = unat (current_beacon_epoch now) div 256 * 256"
proof -
  have "unat (current_beacon_epoch now) < 2 ^ LENGTH(64)" by (rule unsigned_less)
  then have "unat (current_beacon_epoch now) div 256 * 256 < 2 ^ 64"
    using div_mult_mod_eq [of "unat (current_beacon_epoch now)" 256] by simp
  then show ?thesis
    by (simp add: current_historical_summaries_epoch_def unat_div unat_word_ariths)
qed

subsection \<open>The era of a slot\<close>

lemma checked_era_end:
  assumes "unat sl div 8192 < 2 ^ 51 - 1"
  shows "checked_add ((sl div SLOTS_PER_HISTORICAL_ROOT) * SLOTS_PER_HISTORICAL_ROOT)
      SLOTS_PER_HISTORICAL_ROOT = Ok (((sl div 8192) * 8192) + 8192)"
    and "unat (((sl div 8192) * 8192) + 8192 - 1) = unat sl div 8192 * 8192 + 8191"
proof -
  have start: "unat ((sl div 8192) * 8192) = unat sl div 8192 * 8192"
    using assms by (simp add: unat_word_ariths unat_div)
  then show "checked_add ((sl div SLOTS_PER_HISTORICAL_ROOT) * SLOTS_PER_HISTORICAL_ROOT)
      SLOTS_PER_HISTORICAL_ROOT = Ok (((sl div 8192) * 8192) + 8192)"
    using assms by (simp add: checked_add_def SLOTS_PER_HISTORICAL_ROOT_def)
  have "((sl div 8192) * 8192) + 8192 - 1 = (sl div 8192) * 8192 + 8191" by simp
  then show "unat (((sl div 8192) * 8192) + 8192 - 1) = unat sl div 8192 * 8192 + 8191"
    using assms start by (simp only: unat_word_ariths start) simp
qed

text \<open>All fork boundaries lie between eras, so an era belongs to one fork.\<close>

lemma fork_constant_in_era:
  "unat a div 8192 = unat b div 8192 \<Longrightarrow> fork_for_slot a = fork_for_slot b"
proof -
  assume era: "unat a div 8192 = unat b div 8192"
  have "8192 * k \<le> unat a \<longleftrightarrow> 8192 * k \<le> unat b" for k
    using era by (metis less_eq_div_iff_mult_less_eq mult.commute zero_less_numeral)
  from this [of 758] this [of 1053] this [of 1422] show ?thesis
    by (simp add: fork_for_slot_unat)
qed

end
