(* ===== verification/Sample_Hex.thy ===== *)
theory Sample_Hex
  imports Hex_Bytes
begin

text \<open>
  A concrete instance of the parameter \<open>hex_api\<close>: lower-case digits out, digits of either case in,
  as the crate \<open>hex\<close> documents, on which the theorems about any such codec are applied.
\<close>

fun char_nibble :: "char \<Rightarrow> byte option" where
  "char_nibble c =
     (let n = (of_char c :: nat)
      in if 48 \<le> n \<and> n \<le> 57 then Some (word_of_nat (n - 48))
         else if 97 \<le> n \<and> n \<le> 102 then Some (word_of_nat (n - 87))
         else if 65 \<le> n \<and> n \<le> 70 then Some (word_of_nat (n - 55))
         else None)"

fun sample_hex_decode :: "string \<Rightarrow> nat \<Rightarrow> (bytes, FromHexError) res" where
  "sample_hex_decode [] i = Ok []"
| "sample_hex_decode [c] i = Err OddLength"
| "sample_hex_decode (c # d # s) i =
     (case char_nibble c of
        None \<Rightarrow> Err (InvalidHexCharacter c i)
      | Some hi \<Rightarrow>
          (case char_nibble d of
             None \<Rightarrow> Err (InvalidHexCharacter d (i + 1))
           | Some lo \<Rightarrow> map_ok (\<lambda>bs. (push_bit 4 hi OR lo) # bs) (sample_hex_decode s (i + 2))))"

definition sample_hex :: hex_api where
  "sample_hex =
     \<lparr>hex_crate_encode = hex_pairs,
      hex_crate_decode = (\<lambda>s. if odd (length s) then Err OddLength else sample_hex_decode s 0)\<rparr>"

lemma char_nibble_digit: "k < 16 \<Longrightarrow> char_nibble (hex_digit_char k) = Some (word_of_nat k)"
proof -
  assume "k < 16"
  then have "k \<in> set [0..<16]" by simp
  then show ?thesis by (auto simp: upt_rec hex_digit_char_def)
qed

lemma byte_nibbles:
  "unat b div 16 < 16" "push_bit 4 (word_of_nat (unat b div 16)) OR word_of_nat (unat b mod 16) = (b :: byte)"
proof -
  have "unat b < 2 ^ LENGTH(8)" by (rule unsigned_less)
  then show small: "unat b div 16 < 16" by simp
  have "unat (word_of_nat (unat b div 16) :: byte) = unat b div 16"
    "unat (word_of_nat (unat b mod 16) :: byte) = unat b mod 16"
    using small by (simp_all add: unat_of_nat)
  then have "word_of_nat (unat b div 16) = drop_bit 4 b" "word_of_nat (unat b mod 16) = b AND mask 4"
    by (simp_all add: word_unat_eq_iff unat_div drop_bit_eq_div unat_mod
        take_bit_eq_mask [symmetric] take_bit_eq_mod)
  then show "push_bit 4 (word_of_nat (unat b div 16)) OR word_of_nat (unat b mod 16) = b"
    by (auto intro!: bit_word_eqI simp: bit_simps)
qed

lemma sample_hex_decode_pairs: "sample_hex_decode (hex_pairs bs) i = Ok bs"
  by (induction bs arbitrary: i)
    (simp_all add: char_nibble_digit byte_nibbles del: char_nibble.simps)

lemma sample_hex_decode_length: "sample_hex_decode s i = Ok bs \<Longrightarrow> length s = 2 * length bs"
  by (induction s i arbitrary: bs rule: sample_hex_decode.induct)
    (auto simp: map_ok_Ok_iff simp del: char_nibble.simps split: option.splits)

lemma sample_hex_decode_total: "\<not> is_panic (sample_hex_decode s i)"
  by (induction s i rule: sample_hex_decode.induct)
    (auto simp: is_panic_iff simp del: char_nibble.simps split: option.splits)

lemma hex_ok_sample [simp]: "hex_ok sample_hex"
proof -
  have "length s = 2 * length bs" if "hex_crate_decode sample_hex s = Ok bs" for s bs
    using that sample_hex_decode_length [of s 0 bs] by (auto simp: sample_hex_def split: if_splits)
  moreover have "\<not> is_panic (hex_crate_decode sample_hex s)" for s
    using sample_hex_decode_total by (simp add: sample_hex_def)
  ultimately show ?thesis
    unfolding hex_ok_def by (auto simp: sample_hex_def sample_hex_decode_pairs)
qed

end
