(* ===== verification/Source_Properties.thy ===== *)
theory Source_Properties
  imports Data_Sources Sample_Hex Post_Merge_Properties
begin

text \<open>
  The claims about the sources of summaries and beacon data: what the snapshot fetched at a rollover
  covers, and what the beacon-API client returns for a slot.
\<close>

subsection \<open>The latest summaries\<close>

text \<open>A sidecar that has the summaries of an epoch and answers the request for them.\<close>

definition serves_summaries ::
  "hex_api \<Rightarrow> (bytes \<Rightarrow> (HistoricalSummariesWithProof, DecodeError) res) \<Rightarrow> PortalBeaconSidecarSource
     \<Rightarrow> u64 \<Rightarrow> HistoricalSummaries \<Rightarrow> bool" where
  "serves_summaries X from_ssz self ep summaries \<longleftrightarrow>
     (\<exists>content utp hsw.
        pb_http self (pb_rpc_url self) ''portal_beaconGetContent''
            [JStr (''0x'' @ hex_pairs (historical_summaries_key ep))]
          = Ok \<lparr>jr_result = Some \<lparr>gc_content = hex_encode X content, gc_utp_transfer = utp\<rparr>,
                jr_error = None\<rparr> \<and>
        from_ssz content = Ok hsw \<and> hs_historical_summaries hsw = summaries)"

lemma fetch_latest_served:
  assumes "hex_ok X" "serves_summaries X from_ssz self (current_historical_summaries_epoch now) summaries"
  shows "fetch_latest_historical_summaries X from_ssz self now = Ok summaries"
proof -
  obtain content utp hsw where
    answer: "pb_http self (pb_rpc_url self) ''portal_beaconGetContent''
        [JStr (''0x'' @ hex_pairs (historical_summaries_key (current_historical_summaries_epoch now)))]
      = Ok \<lparr>jr_result = Some \<lparr>gc_content = hex_encode X content, gc_utp_transfer = utp\<rparr>, jr_error = None\<rparr>"
    and dec: "from_ssz content = Ok hsw" "hs_historical_summaries hsw = summaries"
    using assms(2) by (auto simp: serves_summaries_def)
  have "portal_beacon_get_content X self (historical_summaries_key (current_historical_summaries_epoch now))
      = Ok content"
    using answer by (intro portal_beacon.served [OF assms(1)]) (assumption | simp)+
  then show ?thesis
    using dec by (simp add: fetch_latest_historical_summaries_def
        fetch_historical_summaries_with_proof_def)
qed

lemma covered_slots:
  assumes "length (read_summaries st p) = k - 758"
  shows "is_Ok (get_historical_summary st p sl) \<longleftrightarrow> 6209536 \<le> unat sl \<and> unat sl < 8192 * k"
proof (cases "historical_summary_index sl")
  case None
  then have "\<not> 6209536 \<le> unat sl" by (simp add: historical_summary_index_unat split: if_splits)
  then show ?thesis using None by (simp add: is_Ok_iff get_historical_summary_Ok_iff)
next
  case (Some i)
  then have sl: "6209536 \<le> unat sl" "unat i = (unat sl - 6209536) div 8192"
    using unat_summary_index [OF Some] by (simp_all add: historical_summary_index_unat split: if_splits)
  have "unat i < k - 758 \<longleftrightarrow> unat sl - 6209536 < (k - 758) * 8192"
    unfolding sl(2) by (simp add: div_less_iff_less_mult)
  also have "\<dots> \<longleftrightarrow> unat sl < 8192 * k" using sl(1) by arith
  finally show ?thesis using sl(1) assms by (simp add: is_Ok_iff get_historical_summary_Ok_iff Some)
qed

text \<open>
  C29.  The snapshot of the latest rollover: the epoch asked for is the multiple of 256 at most
  255 epochs back, a sidecar that answers for it determines the result, and if the answer has one
  summary for each era complete at that epoch, then the summaries found in the snapshot are those
  of the slots from Capella on and before that epoch, no others.
\<close>

theorem rollover_snapshot_covers:
  assumes "hex_ok X" "ep = current_historical_summaries_epoch now"
    and "serves_summaries X from_ssz self ep summaries"
    and "length summaries = (32 * unat ep - 6209536) div 8192"
    and "provider_new summaries st = (p, st')"
  shows "unat ep mod 256 = 0 \<and> unat ep \<le> unat (current_beacon_epoch now) \<and>
    unat (current_beacon_epoch now) < unat ep + 256 \<and>
    fetch_latest_historical_summaries X from_ssz self now = Ok summaries \<and>
    (is_Ok (get_historical_summary st' p sl) \<longleftrightarrow> 6209536 \<le> unat sl \<and> unat sl < 32 * unat ep)"
proof -
  define k where "k = unat (current_beacon_epoch now) div 256"
  have ep: "unat ep = k * 256" by (simp add: assms(2) unat_rollover_epoch k_def)
  have "length summaries = k - 758" using assms(4) by (simp add: ep)
  then have "is_Ok (get_historical_summary st' p sl) \<longleftrightarrow> 6209536 \<le> unat sl \<and> unat sl < 8192 * k"
    using summaries_store.alloc_read [OF assms(5)] by (intro covered_slots) simp
  moreover have "unat ep \<le> unat (current_beacon_epoch now)" "unat (current_beacon_epoch now) < unat ep + 256"
    unfolding ep k_def using div_mult_mod_eq [of "unat (current_beacon_epoch now)" 256] by linarith+
  moreover have "fetch_latest_historical_summaries X from_ssz self now = Ok summaries"
    using assms(2,3) by (intro fetch_latest_served [OF assms(1)]) simp
  ultimately show ?thesis by (simp add: ep)
qed

text \<open>A clock at the start of epoch 1234 * 256 + 7 and 476 summaries.\<close>

definition sample_now :: "u64 option" where
  "sample_now = Some (1606824023 + 384 * (1234 * 256 + 7))"

definition sample_sidecar :: PortalBeaconSidecarSource where
  "sample_sidecar =
     \<lparr>pb_rpc_url = ''http://trin'',
      pb_http = (\<lambda>_ _ _. Ok \<lparr>jr_result = Some \<lparr>gc_content = hex_encode sample_hex [7], gc_utp_transfer = False\<rparr>,
        jr_error = None\<rparr>)\<rparr>"

definition sample_summaries :: HistoricalSummaries where
  "sample_summaries = replicate 476 sample_deneb_summary"

theorem rollover_snapshot_covers_witness:
  "\<not> is_Ok (get_historical_summary [sample_summaries] (Provider 0) 10108928) \<and>
   is_Ok (get_historical_summary [sample_summaries] (Provider 0) 10108927) \<and>
   fetch_latest_historical_summaries sample_hex
     (\<lambda>_. Ok \<lparr>hs_epoch = 0, hs_historical_summaries = sample_summaries, hs_proof = []\<rparr>) sample_sidecar sample_now
     = Ok sample_summaries"
proof -
  let ?ssz = "\<lambda>_. Ok \<lparr>hs_epoch = 0, hs_historical_summaries = sample_summaries, hs_proof = []\<rparr>
    :: (HistoricalSummariesWithProof, DecodeError) res"
  let ?ep = "current_historical_summaries_epoch sample_now"
  have ep: "unat ?ep = 315904" by (simp add: unat_rollover_epoch unat_beacon_epoch sample_now_def)
  have "serves_summaries sample_hex ?ssz sample_sidecar ?ep sample_summaries"
    by (auto simp: serves_summaries_def sample_sidecar_def)
  moreover have "length sample_summaries = (32 * unat ?ep - 6209536) div 8192"
    by (simp add: ep sample_summaries_def)
  moreover have "provider_new sample_summaries [] = (Provider 0, [sample_summaries])"
    by (simp add: provider_new_def)
  note covers = rollover_snapshot_covers [OF hex_ok_sample refl calculation this]
  show ?thesis using covers [of 10108928] covers [of 10108927] by (simp add: ep)
qed

subsection \<open>The beacon API\<close>

definition answers_ssz :: "BeaconRpcSource \<Rightarrow> string \<Rightarrow> u64 \<Rightarrow> bytes \<Rightarrow> bool" where
  "answers_ssz self path n bs \<longleftrightarrow>
     (\<exists>status. br_client self (br_base_url self @ path @ fmt_dec n)
        = Ok \<lparr>hr_success = True, hr_status = status, hr_body = Ok bs\<rparr>)"

lemma fetch_ssz_answers:
  "answers_ssz self ''/eth/v2/beacon/blocks/'' n bs \<Longrightarrow> fetch_block_ssz self n = Ok bs"
  "answers_ssz self ''/eth/v2/debug/beacon/states/'' n bs \<Longrightarrow> fetch_state_ssz self n = Ok bs"
  by (auto simp: answers_ssz_def fetch_block_ssz_def fetch_state_ssz_def)

lemma batch_at_era_end:
  assumes "unat sl div 8192 < 2 ^ 51 - 1" "unat era_end = unat sl div 8192 * 8192 + 8191"
  shows "beacon_fetch_historical_batch K self sl =
    and_then (fetch_state_ssz self era_end) (\<lambda>bs.
    and_then (map_err (\<lambda>e. DataSource (Msg
        ''decoding BeaconState at slot {era_end} (fork={state_fork:?}): {e:?}''
        [ANat (unat era_end), AStr (as_capitalized_str (fork_for_slot sl))]))
      (state_from_ssz_bytes K bs (fork_for_slot sl))) (\<lambda>state.
    Ok \<lparr>hb_block_roots = state_block_roots state, hb_state_roots = state_state_roots state\<rparr>))"
proof -
  have "(sl div 8192) * 8192 + 8192 - 1 = era_end"
    using checked_era_end(2) [OF assms(1)] assms(2) by (simp only: word_unat_eq_iff)
  moreover have "fork_for_slot era_end = fork_for_slot sl"
    by (rule fork_constant_in_era) (simp add: assms(2))
  ultimately show ?thesis
    by (simp add: beacon_fetch_historical_batch_def Let_def checked_era_end(1) [OF assms(1)])
qed

text \<open>
  The beacon-API client as a provider: if the node answers the block of a slot with the SSZ
  bytes of a signed block that decode under the fork of the slot, and the state of the last slot of
  its era with bytes that decode under the same fork, then the provider returns that block with its
  signature and the two root vectors of that state.  The fork by which the state is decoded is
  computed from the last slot; no era crosses a fork, so it is the one of the block.
\<close>

theorem beacon_rpc_serves_slot:
  assumes "signed_items_ok K" "length sig = 96" "length message < 2 ^ 31"
    and "answers_ssz self ''/eth/v2/beacon/blocks/'' sl (signed_block_bytes message sig)"
    and "block_from_ssz_bytes K message (fork_for_slot sl) = Ok block"
    and "unat sl div 8192 < 2 ^ 51 - 1" "unat era_end = unat sl div 8192 * 8192 + 8191"
    and "answers_ssz self ''/eth/v2/debug/beacon/states/'' era_end state_bytes"
    and "state_from_ssz_bytes K state_bytes (fork_for_slot sl) = Ok state"
  shows "fetch_signed_beacon_block (beacon_provider K self) sl = Ok (from_block block (BlsSignature sig)) \<and>
    fetch_historical_batch (beacon_provider K self) sl
      = Ok \<lparr>hb_block_roots = state_block_roots state, hb_state_roots = state_state_roots state\<rparr>"
proof
  have "signed_block_items K (signed_block_bytes message sig) = Ok (message, sig)"
    using assms(1-3) by (simp add: signed_items_ok_def)
  then have "signed_block_from_ssz_bytes K (signed_block_bytes message sig) (fork_for_slot sl)
      = Ok (from_block block (BlsSignature sig))"
    using assms(5) by (simp add: signed_block_Ok_iff [OF assms(1)])
  then show "fetch_signed_beacon_block (beacon_provider K self) sl = Ok (from_block block (BlsSignature sig))"
    using fetch_ssz_answers(1) [OF assms(4)]
    by (simp add: beacon_provider_def beacon_fetch_signed_beacon_block_def)
  show "fetch_historical_batch (beacon_provider K self) sl
      = Ok \<lparr>hb_block_roots = state_block_roots state, hb_state_roots = state_state_roots state\<rparr>"
    using fetch_ssz_answers(2) [OF assms(8)] assms(9)
    by (simp add: beacon_provider_def batch_at_era_end [OF assms(6,7)])
qed

text \<open>A codec that cuts a signed block in two and decodes Deneb only, and a node with one document.\<close>

definition refused :: "bytes \<Rightarrow> ('a, DecodeError) res" where
  "refused _ = Err (OtherDecodeError 0)"

definition sample_consensus :: "BeaconStateDeneb \<Rightarrow> consensus_ssz" where
  "sample_consensus s =
     \<lparr>dec_block_bellatrix = refused, dec_block_capella = refused,
      dec_block_deneb = (\<lambda>_. Ok sample_deneb_block), dec_block_electra = refused,
      dec_body_bellatrix = refused, dec_body_capella = refused, dec_body_deneb = refused,
      dec_body_electra = refused, dec_payload_bellatrix = refused,
      dec_payload_capella = refused, dec_payload_deneb = refused,
      dec_payload_electra = refused, dec_payload_header_bellatrix = refused,
      dec_payload_header_capella = refused, dec_payload_header_deneb = refused,
      dec_payload_header_electra = refused, dec_state_bellatrix = refused,
      dec_state_capella = refused, dec_state_deneb = (\<lambda>_. Ok s),
      dec_state_electra = refused,
      signed_block_items = (\<lambda>bs. if length bs < 100 then Err (OtherDecodeError (length bs))
            else Ok (drop 100 bs, take 96 (drop 4 bs)))\<rparr>"

definition sample_node :: BeaconRpcSource where
  "sample_node = beacon_new (\<lambda>_. Ok \<lparr>hr_success = True, hr_status = ''200 OK'',
     hr_body = Ok (signed_block_bytes [1, 2, 3] (replicate 96 7))\<rparr>) ''http://node///''"

lemma sample_consensus_simps [simp]:
  "dec_block_deneb (sample_consensus s) bs = Ok sample_deneb_block"
  "dec_state_deneb (sample_consensus s) bs = Ok s"
  by (simp_all add: sample_consensus_def)

lemma signed_items_ok_sample: "signed_items_ok (sample_consensus s)"
  by (simp add: signed_items_ok_def sample_consensus_def signed_block_bytes_def Let_def)

theorem beacon_rpc_serves_slot_witness:
  "\<forall>s. fetch_signed_beacon_block (beacon_provider (sample_consensus s) sample_node) 9431331
      = Ok (Signed_Deneb \<lparr>sb_message = sample_deneb_block, sb_signature = BlsSignature (replicate 96 7)\<rparr>) \<and>
    fetch_historical_batch (beacon_provider (sample_consensus s) sample_node) 9431331
      = Ok \<lparr>hb_block_roots = bs_block_roots s, hb_state_roots = bs_state_roots s\<rparr>"
proof
  fix s
  have "answers_ssz sample_node path n (signed_block_bytes [1, 2, 3] (replicate 96 7))" for path n
    by (simp add: answers_ssz_def sample_node_def beacon_new_def)
  moreover have "fork_for_slot 9431331 = Deneb" by (simp add: fork_for_slot_unat)
  ultimately show "fetch_signed_beacon_block (beacon_provider (sample_consensus s) sample_node) 9431331
      = Ok (Signed_Deneb \<lparr>sb_message = sample_deneb_block, sb_signature = BlsSignature (replicate 96 7)\<rparr>) \<and>
    fetch_historical_batch (beacon_provider (sample_consensus s) sample_node) 9431331
      = Ok \<lparr>hb_block_roots = bs_block_roots s, hb_state_roots = bs_state_roots s\<rparr>"
    using beacon_rpc_serves_slot [OF signed_items_ok_sample [of s], where sl = 9431331 and sig = "replicate 96 7"
        and message = "[1, 2, 3]" and block = "Block_Deneb sample_deneb_block" and self = sample_node
        and era_end = 9437183 and state = "State_Deneb s"
        and state_bytes = "signed_block_bytes [1, 2, 3] (replicate 96 7)"]
    by (simp add: block_from_ssz_bytes_def state_from_ssz_bytes_def)
qed

end
