(* ===== verification/Archive_Source.thy ===== *)
theory Archive_Source
  imports Data_Sources Proof_Construction Consensus_Proofs
begin

text \<open>
  The archive source (\<open>src/sources/archive_rpc.rs\<close>): it asks an execution node for a raw block, parses
  the header out of its JSON strings, and constructs the proof locally, before the Merge from an
  epoch accumulator and after it from a beacon block and a historical batch.
\<close>

subsection \<open>Epoch providers\<close>

type_synonym EpochProvider = "u64 \<Rightarrow> (EpochAccumulator, Error) res"

text \<open>\<open>PathBuf::join\<close> of a relative file name.\<close>

definition path_join :: "string \<Rightarrow> string \<Rightarrow> string" where
  "path_join root name =
     (if root = [] \<or> last root = CHR ''/'' then root @ name else root @ ''/'' @ name)"

definition filesystem_epoch_provider ::
  "(string \<Rightarrow> (bytes, string) res) \<Rightarrow> (bytes \<Rightarrow> (EpochAccumulator, DecodeError) res) \<Rightarrow> string
     \<Rightarrow> EpochProvider" where
  "filesystem_epoch_provider fs_read epoch_from_ssz root epoch_index =
     (let candidate = path_join root (''epoch_'' @ fmt_dec epoch_index @ ''.bin'')
      in and_then (map_err (\<lambda>e. DataSource (Msg ''no EpochAccumulator at {}: {}''
                       [AStr candidate, AStr e])) (fs_read candidate)) (\<lambda>bs.
         decode_epoch_accumulator epoch_from_ssz bs))"

subsection \<open>Raw blocks\<close>

record RawBlock =
  rb_number :: string
  rb_hash :: string
  rb_parent_hash :: string
  rb_uncles_hash :: string
  rb_miner :: string
  rb_state_root :: string
  rb_transactions_root :: string
  rb_receipts_root :: string
  rb_logs_bloom :: string
  rb_difficulty :: string
  rb_gas_limit :: string
  rb_gas_used :: string
  rb_timestamp :: string
  rb_extra_data :: string
  rb_mix_hash :: string
  rb_nonce :: string
  rb_base_fee_per_gas :: "string option"
  rb_withdrawals_root :: "string option"
  rb_blob_gas_used :: "string option"
  rb_excess_blob_gas :: "string option"
  rb_parent_beacon_block_root :: "string option"

subsection \<open>Parsing the fields\<close>

fun int_error_text :: "IntErrorKind \<Rightarrow> string" where
  "int_error_text Empty = ''cannot parse integer from empty string''"
| "int_error_text InvalidDigit = ''invalid digit found in string''"
| "int_error_text PosOverflow = ''number too large to fit in target type''"

definition parse_b256 :: "hex_api \<Rightarrow> string \<Rightarrow> string \<Rightarrow> (b256, Error) res" where
  "parse_b256 X s field =
     (let trimmed = trim_0x s
      in and_then (hex_decode_or X trimmed) (\<lambda>bs.
         if length bs \<noteq> 32
         then Err (DataSource (Msg ''expected 32-byte hex for {}, got {} bytes''
                [AStr field, ANat (length bs)]))
         else b256_from_slice bs))"

definition parse_u64 :: "string \<Rightarrow> string \<Rightarrow> (u64, Error) res" where
  "parse_u64 s field =
     map_err (\<lambda>e. DataSource (Msg ''parsing u64 for {}: {}'' [AStr field, AStr (int_error_text e)]))
       (u64_from_str_radix16 (trim_0x s))"

text \<open>\<open>32 - raw.len()\<close> is checked; without the check the slice index behind it panics.\<close>

definition parse_u256 :: "hex_api \<Rightarrow> string \<Rightarrow> (u256, Error) res" where
  "parse_u256 X s =
     (let trimmed = trim_0x s
      in if trimmed = [] then Ok 0
         else
           let padded = pad_even trimmed
           in and_then (hex_decode_or X padded) (\<lambda>raw.
              if length raw > 32 then Panic ''attempt to subtract with overflow''
              else let offset = 32 - length raw
                   in Ok (u256_from_be_bytes (replicate offset 0 @ raw))))"

definition parse_addr :: "hex_api \<Rightarrow> string \<Rightarrow> (address, Error) res" where
  "parse_addr X s =
     (let trimmed = trim_0x s
      in and_then (hex_decode_or X trimmed) (\<lambda>bs.
         if length bs \<noteq> 20
         then Err (DataSource (Msg ''expected 20-byte hex for address, got {} bytes''
                [ANat (length bs)]))
         else fixed_from_slice 20 bs))"

definition parse_bytes :: "hex_api \<Rightarrow> string \<Rightarrow> (bytes, Error) res" where
  "parse_bytes X s = hex_decode_or X (trim_0x s)"

definition parse_bloom :: "hex_api \<Rightarrow> string \<Rightarrow> (bytes, Error) res" where
  "parse_bloom X s =
     (let trimmed = trim_0x s
      in and_then (hex_decode_or X trimmed) (\<lambda>raw.
         if length raw \<noteq> 256
         then Err (DataSource (Msg ''expected 256-byte hex for logs_bloom, got {} bytes''
                [ANat (length raw)]))
         else copy_from_slice 256 raw))"

definition parse_b64 :: "hex_api \<Rightarrow> string \<Rightarrow> (bytes, Error) res" where
  "parse_b64 X s =
     (let trimmed = trim_0x s
      in and_then (hex_decode_or X trimmed) (\<lambda>raw.
         if length raw \<noteq> 8
         then Err (DataSource (Msg ''expected 8-byte hex for nonce, got {} bytes''
                [ANat (length raw)]))
         else copy_from_slice 8 raw))"

text \<open>\<open>field.map(parse).transpose()?\<close>\<close>

definition transpose_map :: "('a \<Rightarrow> ('b, 'e) res) \<Rightarrow> 'a option \<Rightarrow> ('b option, 'e) res" where
  "transpose_map f x = (case x of None \<Rightarrow> Ok None | Some a \<Rightarrow> map_ok Some (f a))"

definition raw_block_to_alloy_header :: "hex_api \<Rightarrow> RawBlock \<Rightarrow> (Header, Error) res" where
  "raw_block_to_alloy_header X raw =
     and_then (parse_b256 X (rb_parent_hash raw) ''parent_hash'') (\<lambda>v_parent_hash.
     and_then (parse_b256 X (rb_uncles_hash raw) ''uncles_hash'') (\<lambda>v_ommers_hash.
     and_then (parse_addr X (rb_miner raw)) (\<lambda>v_beneficiary.
     and_then (parse_b256 X (rb_state_root raw) ''state_root'') (\<lambda>v_state_root.
     and_then (parse_b256 X (rb_transactions_root raw) ''transactions_root'') (\<lambda>v_transactions_root.
     and_then (parse_b256 X (rb_receipts_root raw) ''receipts_root'') (\<lambda>v_receipts_root.
     and_then (parse_bloom X (rb_logs_bloom raw)) (\<lambda>v_logs_bloom.
     and_then (parse_u256 X (rb_difficulty raw)) (\<lambda>v_difficulty.
     and_then (parse_u64 (rb_number raw) ''number'') (\<lambda>v_number.
     and_then (parse_u64 (rb_gas_limit raw) ''gas_limit'') (\<lambda>v_gas_limit.
     and_then (parse_u64 (rb_gas_used raw) ''gas_used'') (\<lambda>v_gas_used.
     and_then (parse_u64 (rb_timestamp raw) ''timestamp'') (\<lambda>v_timestamp.
     and_then (parse_bytes X (rb_extra_data raw)) (\<lambda>v_extra_data.
     and_then (parse_b256 X (rb_mix_hash raw) ''mix_hash'') (\<lambda>v_mix_hash.
     and_then (parse_b64 X (rb_nonce raw)) (\<lambda>v_nonce.
     and_then (transpose_map (\<lambda>s. parse_u64 s ''base_fee_per_gas'')
        (rb_base_fee_per_gas raw)) (\<lambda>v_base_fee_per_gas.
     and_then (transpose_map (\<lambda>s. parse_b256 X s ''withdrawals_root'')
        (rb_withdrawals_root raw)) (\<lambda>v_withdrawals_root.
     and_then (transpose_map (\<lambda>s. parse_u64 s ''blob_gas_used'')
        (rb_blob_gas_used raw)) (\<lambda>v_blob_gas_used.
     and_then (transpose_map (\<lambda>s. parse_u64 s ''excess_blob_gas'')
        (rb_excess_blob_gas raw)) (\<lambda>v_excess_blob_gas.
     and_then (transpose_map (\<lambda>s. parse_b256 X s ''parent_beacon_block_root'')
        (rb_parent_beacon_block_root raw)) (\<lambda>v_parent_beacon_block_root.
     Ok \<lparr>parent_hash = v_parent_hash, ommers_hash = v_ommers_hash, beneficiary = v_beneficiary,
         state_root = v_state_root, transactions_root = v_transactions_root,
         receipts_root = v_receipts_root, logs_bloom = v_logs_bloom, difficulty = v_difficulty,
         number = v_number, gas_limit = v_gas_limit, gas_used = v_gas_used,
         timestamp = v_timestamp, extra_data = v_extra_data, mix_hash = v_mix_hash,
         nonce = v_nonce, base_fee_per_gas = v_base_fee_per_gas,
         withdrawals_root = v_withdrawals_root, blob_gas_used = v_blob_gas_used,
         excess_blob_gas = v_excess_blob_gas,
         parent_beacon_block_root = v_parent_beacon_block_root,
         requests_hash = None\<rparr>))))))))))))))))))))"

subsection \<open>The source\<close>

text \<open>The answer to \<open>eth_getBlockByNumber\<close>.\<close>

type_synonym 'r ArchiveJsonRpcResponse = "'r JsonRpcResponse"

record ArchiveRpcSource =
  ar_rpc_url :: string
  ar_http :: "string \<Rightarrow> string \<Rightarrow> json_param list \<Rightarrow> (RawBlock ArchiveJsonRpcResponse, msg) res"
  ar_epoch_provider :: "EpochProvider option"
  ar_beacon_provider :: "BeaconDataProvider option"

definition archive_new :: "(RawBlock rpc_client, msg) res \<Rightarrow> string \<Rightarrow> (ArchiveRpcSource, 'e) res" where
  "archive_new built rpc_url =
     and_then (expect ''reqwest::Client::builder default config should not fail'' built) (\<lambda>http.
     Ok \<lparr>ar_rpc_url = rpc_url, ar_http = http, ar_epoch_provider = None, ar_beacon_provider = None\<rparr>)"

definition with_epoch_provider :: "ArchiveRpcSource \<Rightarrow> EpochProvider \<Rightarrow> ArchiveRpcSource" where
  "with_epoch_provider self provider = self\<lparr>ar_epoch_provider := Some provider\<rparr>"

definition with_beacon_provider :: "ArchiveRpcSource \<Rightarrow> BeaconDataProvider \<Rightarrow> ArchiveRpcSource" where
  "with_beacon_provider self provider = self\<lparr>ar_beacon_provider := Some provider\<rparr>"

definition build_post_merge_hwp ::
  "hashing \<Rightarrow> tree_hash \<Rightarrow> alloy_api \<Rightarrow> ssz_api \<Rightarrow> ArchiveRpcSource \<Rightarrow> Header \<Rightarrow> (bytes, Error) res" where
  "build_post_merge_hwp H T A S self h =
     and_then (ok_or (ar_beacon_provider self) (DataSource (lit
       ''ArchiveRpcSource: post-merge block requested but no BeaconDataProvider configured. Call .with_beacon_provider(..)'')))
       (\<lambda>provider.
     and_then (ok_or (slot_for_execution_timestamp (timestamp h)) (DataSource (Msg
       ''post-merge block {} has timestamp {} before beacon genesis (mainnet only is supported)''
       [ANat (unat (number h)), ANat (unat (timestamp h))]))) (\<lambda>sl.
     and_then (fetch_signed_beacon_block provider sl) (\<lambda>signed_block.
     and_then (fetch_historical_batch provider sl) (\<lambda>historical_batch.
     and_then
       (case signed_block of
          Signed_Bellatrix b \<Rightarrow> map_ok HistoricalRoots
            (build_historical_roots_proof H T sl historical_batch (sb_message b))
        | Signed_Capella b \<Rightarrow> map_ok HistoricalSummariesCapella
            (build_capella_historical_summaries_proof H T sl (hb_block_roots historical_batch) (sb_message b))
        | Signed_Deneb b \<Rightarrow> map_ok HistoricalSummariesDeneb
            (build_deneb_historical_summaries_proof H T sl (hb_block_roots historical_batch) (sb_message b))
        | Signed_Electra b \<Rightarrow> map_ok HistoricalSummariesDeneb
            (build_electra_historical_summaries_proof H T sl (hb_block_roots historical_batch) (sb_message b)))
       (\<lambda>proof. Ok (hwp_as_ssz_bytes A S \<lparr>header = h, hwp_proof = proof\<rparr>))))))"

definition fetch_raw_block_by_number :: "ArchiveRpcSource \<Rightarrow> u64 \<Rightarrow> (RawBlock, Error) res" where
  "fetch_raw_block_by_number self block_number =
     and_then (map_err error_from_reqwest (ar_http self (ar_rpc_url self) ''eth_getBlockByNumber''
       [JStr (fmt_hex block_number), JBool False])) (\<lambda>parsed.
     case jr_error parsed of
       Some err \<Rightarrow> Err (DataSource (Msg ''RPC eth_getBlockByNumber error {}: {}''
                      [AInt (sint (je_code err)), AStr (je_message err)]))
     | None \<Rightarrow> ok_or (jr_result parsed) (BlockNotFound block_number))"

definition archive_fetch_by_number ::
  "hex_api \<Rightarrow> hashing \<Rightarrow> tree_hash \<Rightarrow> alloy_api \<Rightarrow> ssz_api \<Rightarrow> ArchiveRpcSource \<Rightarrow> u64
     \<Rightarrow> (bytes, Error) res" where
  "archive_fetch_by_number X H T A S self block_number =
     and_then (fetch_raw_block_by_number self block_number) (\<lambda>raw.
     and_then (raw_block_to_alloy_header X raw) (\<lambda>h.
     if number h \<ge> 15537394 then build_post_merge_hwp H T A S self h
     else
       and_then (ok_or (ar_epoch_provider self) (DataSource (lit
         ''ArchiveRpcSource: pre-merge block requested but no EpochProvider configured. Call .with_epoch_provider(..)'')))
         (\<lambda>provider.
       let epoch_index = epoch_index_of_block (number h)
       in and_then (provider epoch_index) (\<lambda>epoch_acc.
          and_then (construct_pre_merge_proof H A h epoch_acc) (\<lambda>proof.
          Ok (hwp_as_ssz_bytes A S \<lparr>header = h, hwp_proof = HistoricalHashes proof\<rparr>))))))"

definition archive_source ::
  "hex_api \<Rightarrow> hashing \<Rightarrow> tree_hash \<Rightarrow> alloy_api \<Rightarrow> ssz_api \<Rightarrow> ArchiveRpcSource \<Rightarrow> data_source" where
  "archive_source X H T A S self =
     \<lparr>fetch_header_with_proof_by_number = archive_fetch_by_number X H T A S self,
      fetch_header_with_proof_by_hash = (\<lambda>_. Err (DataSource (lit
        ''ArchiveRpcSource: lookup by hash not implemented (use eth_getBlockByHash if added)''))),
      source_name = ''archive-rpc''\<rparr>"

end
