(* ===== verification/Archive_Properties.thy ===== *)
theory Archive_Properties
  imports Archive_Source Sample_Hex Verifier_Properties
begin

text \<open>
  The claims about the archive source's parser: it inverts the JSON-RPC encoding of a header except
  for one field, and when it panics.
\<close>

subsection \<open>The JSON-RPC form of a header\<close>

definition rpc_data :: "bytes \<Rightarrow> string" where
  "rpc_data bs = ''0x'' @ hex_pairs bs"

definition rpc_quantity :: "nat \<Rightarrow> string" where
  "rpc_quantity n = ''0x'' @ digits 16 n"

definition rpc_block :: "string \<Rightarrow> Header \<Rightarrow> RawBlock" where
  "rpc_block h_text h =
     \<lparr>rb_number = rpc_quantity (unat (number h)), rb_hash = h_text,
      rb_parent_hash = rpc_data (parent_hash h), rb_uncles_hash = rpc_data (ommers_hash h),
      rb_miner = rpc_data (beneficiary h), rb_state_root = rpc_data (state_root h),
      rb_transactions_root = rpc_data (transactions_root h),
      rb_receipts_root = rpc_data (receipts_root h), rb_logs_bloom = rpc_data (logs_bloom h),
      rb_difficulty = rpc_quantity (unat (difficulty h)),
      rb_gas_limit = rpc_quantity (unat (gas_limit h)),
      rb_gas_used = rpc_quantity (unat (gas_used h)),
      rb_timestamp = rpc_quantity (unat (timestamp h)), rb_extra_data = rpc_data (extra_data h),
      rb_mix_hash = rpc_data (mix_hash h), rb_nonce = rpc_data (nonce h),
      rb_base_fee_per_gas = map_option (rpc_quantity \<circ> unat) (base_fee_per_gas h),
      rb_withdrawals_root = map_option rpc_data (withdrawals_root h),
      rb_blob_gas_used = map_option (rpc_quantity \<circ> unat) (blob_gas_used h),
      rb_excess_blob_gas = map_option (rpc_quantity \<circ> unat) (excess_blob_gas h),
      rb_parent_beacon_block_root = map_option rpc_data (parent_beacon_block_root h)\<rparr>"

text \<open>The sizes of \<open>alloy\<close>'s types.\<close>

definition opt_b256 :: "b256 option \<Rightarrow> bool" where
  "opt_b256 x \<longleftrightarrow> (case x of None \<Rightarrow> True | Some b \<Rightarrow> is_b256 b)"

lemma opt_b256_simps [simp]: "opt_b256 None" "opt_b256 (Some b) \<longleftrightarrow> is_b256 b"
  by (simp_all add: opt_b256_def)

definition header_wf :: "Header \<Rightarrow> bool" where
  "header_wf h \<longleftrightarrow>
     is_b256 (parent_hash h) \<and> is_b256 (ommers_hash h) \<and> length (beneficiary h) = 20 \<and>
     is_b256 (state_root h) \<and> is_b256 (transactions_root h) \<and> is_b256 (receipts_root h) \<and>
     length (logs_bloom h) = 256 \<and> is_b256 (mix_hash h) \<and> length (nonce h) = 8 \<and>
     opt_b256 (withdrawals_root h) \<and> opt_b256 (parent_beacon_block_root h) \<and>
     opt_b256 (requests_hash h)"

subsection \<open>Parsing what was written\<close>

lemma trim_rpc_data [simp]: "trim_0x (rpc_data bs) = hex_pairs bs"
  unfolding rpc_data_def by (rule trim_0x_prefixed [OF hex_pairs_chars])

lemma trim_rpc_quantity [simp]: "trim_0x (rpc_quantity n) = digits 16 n"
  unfolding rpc_quantity_def by (rule trim_0x_prefixed [OF digits_chars])

lemma parse_rpc_data:
  assumes "hex_ok X"
  shows "is_b256 bs \<Longrightarrow> parse_b256 X (rpc_data bs) f = Ok bs"
    and "length bs = 20 \<Longrightarrow> parse_addr X (rpc_data bs) = Ok bs"
    and "length bs = 256 \<Longrightarrow> parse_bloom X (rpc_data bs) = Ok bs"
    and "length bs = 8 \<Longrightarrow> parse_b64 X (rpc_data bs) = Ok bs"
    and "parse_bytes X (rpc_data bs) = Ok bs"
  by (simp_all add: parse_b256_def parse_addr_def parse_bloom_def parse_b64_def parse_bytes_def
      hex_decode_or_def hex_okD [OF assms] copy_from_slice_def Let_def)

lemma parse_rpc_u64: "parse_u64 (rpc_quantity (unat n)) f = Ok n"
  using hex_u64_roundtrip [of n] by (simp add: parse_u64_def rpc_quantity_def fmt_hex_def)

lemma parse_rpc_u256:
  assumes "hex_ok X"
  shows "parse_u256 X (rpc_quantity (unat (n :: u256))) = Ok n"
proof -
  have "unat n < 2 ^ LENGTH(256)" by (rule unsigned_less)
  then have "length (be_bytes (unat n)) \<le> 32" by (intro length_be_bytes) simp_all
  moreover have "u256_from_be_bytes (replicate k 0 @ be_bytes (unat n)) = n" for k
    by (simp add: u256_from_be_bytes_def from_le_zeros from_le_be_bytes)
  ultimately show ?thesis
    by (simp add: parse_u256_def pad_even_digits hex_decode_or_def hex_okD [OF assms])
qed

lemma transpose_map_rpc:
  "(\<And>a. x = Some a \<Longrightarrow> f (g a) = Ok a) \<Longrightarrow> transpose_map f (map_option g x) = Ok x"
  by (cases x) (simp_all add: transpose_map_def)

lemma rpc_block_parses:
  assumes "hex_ok X" "header_wf h"
  shows "raw_block_to_alloy_header X (rpc_block t h) = Ok (h\<lparr>requests_hash := None\<rparr>)"
proof -
  note wf = assms(2) [unfolded header_wf_def opt_b256_def]
  have opt: "transpose_map (\<lambda>s. parse_u64 s f) (map_option (rpc_quantity \<circ> unat) x) = Ok x" for f x
    by (rule transpose_map_rpc) (simp add: parse_rpc_u64)
  have opt': "transpose_map (\<lambda>s. parse_b256 X s f) (map_option rpc_data x) = Ok x"
    if "opt_b256 x" for f x
    by (rule transpose_map_rpc) (use that in \<open>simp add: parse_rpc_data [OF assms(1)] opt_b256_def\<close>)
  show ?thesis
    using wf
    by (cases h) (simp add: raw_block_to_alloy_header_def rpc_block_def parse_rpc_data [OF assms(1)]
        parse_rpc_u64 parse_rpc_u256 [OF assms(1)] opt opt' opt_b256_def)
qed

subsection \<open>Panics of the parser\<close>

lemma parse_no_panic:
  assumes "hex_ok X"
  shows "\<not> is_panic (parse_b256 X s f)" "\<not> is_panic (parse_addr X s)"
    "\<not> is_panic (parse_bloom X s)" "\<not> is_panic (parse_b64 X s)" "\<not> is_panic (parse_bytes X s)"
    "\<not> is_panic (parse_u64 s f)"
    "is_panic (parse_u256 X s) \<Longrightarrow> \<exists>raw. hex_crate_decode X (pad_even (trim_0x s)) = Ok raw \<and> 32 < length raw"
  by (auto simp: parse_b256_def parse_addr_def parse_bloom_def parse_b64_def parse_bytes_def parse_u64_def
      parse_u256_def is_panic_and_then hex_okD [OF assms] copy_from_slice_def u64_from_str_radix16_total
      Let_def split: if_splits)

lemma transpose_no_panic: "(\<And>a. \<not> is_panic (f a)) \<Longrightarrow> \<not> is_panic (transpose_map f x)"
  by (auto simp: transpose_map_def is_panic_iff split: option.splits)

subsection \<open>Claims\<close>

text \<open>
  C15.  The parser of raw blocks inverts the JSON-RPC encoding: from the hexadecimal data and
  minimal quantities of a well-formed header it rebuilds that header, except that the requests
  hash is dropped.  So a header with a requests hash (every block from Prague on) is rebuilt as a
  different header.
\<close>

theorem archive_header_roundtrip:
  assumes "hex_ok X" "header_wf h"
  shows "raw_block_to_alloy_header X (rpc_block t h) = Ok (h\<lparr>requests_hash := None\<rparr>) \<and>
    (raw_block_to_alloy_header X (rpc_block t h) = Ok h \<longleftrightarrow> requests_hash h = None)"
proof -
  have "h\<lparr>requests_hash := None\<rparr> = h \<longleftrightarrow> requests_hash h = None" by (cases h) auto
  then show ?thesis using rpc_block_parses [OF assms] by simp
qed

lemma sample_header_wf [simp]: "header_wf (sample_header n ts)"
  by (simp add: header_wf_def sample_header_def opt_b256_def)

theorem archive_header_roundtrip_witness:
  "raw_block_to_alloy_header sample_hex (rpc_block '''' ((sample_header 23000000 1750000000)
      \<lparr>base_fee_per_gas := Some 7, requests_hash := Some b256_ZERO\<rparr>))
    = Ok ((sample_header 23000000 1750000000)\<lparr>base_fee_per_gas := Some 7\<rparr>)"
proof -
  let ?h = "(sample_header 23000000 1750000000)\<lparr>base_fee_per_gas := Some 7, requests_hash := Some b256_ZERO\<rparr>"
  have "header_wf ?h" by (simp add: header_wf_def sample_header_def opt_b256_def)
  from archive_header_roundtrip [OF hex_ok_sample this, of "''''"] show ?thesis
    by (simp add: sample_header_def)
qed

text \<open>
  C24.  The parser of an untrusted answer panics on one cause only, a difficulty of more than
  32 bytes, and it does so for every otherwise well-formed block: the difference \<open>32 - raw.len()\<close>
  underflows.  No error is returned, although every other malformed field gives one.
\<close>

theorem oversized_difficulty_panics:
  assumes "hex_ok X"
  shows "(is_panic (raw_block_to_alloy_header X raw) \<longrightarrow>
      (\<exists>bs. hex_crate_decode X (pad_even (trim_0x (rb_difficulty raw))) = Ok bs \<and> 32 < length bs)) \<and>
    (header_wf h \<and> 32 < length bs \<longrightarrow>
      is_panic (raw_block_to_alloy_header X ((rpc_block t h)\<lparr>rb_difficulty := rpc_data bs\<rparr>)))"
proof (intro conjI impI)
  assume "is_panic (raw_block_to_alloy_header X raw)"
  then have "is_panic (parse_u256 X (rb_difficulty raw))"
    unfolding raw_block_to_alloy_header_def
    by (auto simp: is_panic_and_then parse_no_panic [OF assms] transpose_no_panic)
  then show "\<exists>bs. hex_crate_decode X (pad_even (trim_0x (rb_difficulty raw))) = Ok bs \<and> 32 < length bs"
    by (rule parse_no_panic(7) [OF assms])
next
  assume wf: "header_wf h \<and> 32 < length bs"
  then have "pad_even (hex_pairs bs) = hex_pairs bs" "hex_pairs bs \<noteq> []"
    by (simp_all add: pad_even_def flip: length_greater_0_conv)
  then have "parse_u256 X (rpc_data bs) = Panic ''attempt to subtract with overflow''"
    using wf by (simp add: parse_u256_def hex_decode_or_def hex_okD [OF assms])
  then show "is_panic (raw_block_to_alloy_header X ((rpc_block t h)\<lparr>rb_difficulty := rpc_data bs\<rparr>))"
    using wf unfolding header_wf_def
    by (simp add: raw_block_to_alloy_header_def rpc_block_def parse_rpc_data [OF assms])
qed

theorem oversized_difficulty_panics_witness:
  "is_panic (raw_block_to_alloy_header sample_hex
     ((rpc_block '''' (sample_header 1 2))\<lparr>rb_difficulty := rpc_data (replicate 33 0)\<rparr>))"
  using oversized_difficulty_panics [OF hex_ok_sample, THEN conjunct2, of "sample_header 1 2"
      "replicate 33 0" "''''"]
  by simp

end
