(* ===== verification/Fork_Properties.thy ===== *)
theory Fork_Properties
  imports Post_Merge_Properties Consensus_Decode
begin

text \<open>
  The post-Merge proofs of all four forks at once: a signed beacon block of any fork determines the
  builder, the kind of proof and the generalized indices.  What the builder makes is accepted, and
  what is accepted is the header of the payload.
\<close>

subsection \<open>What a fork determines\<close>

text \<open>The execution block hash, the root and the era of a signed beacon block.\<close>

fun signed_payload_hash :: "SignedBeaconBlock \<Rightarrow> b256" where
  "signed_payload_hash (Signed_Bellatrix b) = ep_block_hash (bd_execution_payload (bb_body (sb_message b)))"
| "signed_payload_hash (Signed_Capella b) = ep_block_hash (bd_execution_payload (bb_body (sb_message b)))"
| "signed_payload_hash (Signed_Deneb b) = ep_block_hash (bd_execution_payload (bb_body (sb_message b)))"
| "signed_payload_hash (Signed_Electra b) = ep_block_hash (bd_execution_payload (bb_body (sb_message b)))"

fun signed_root :: "tree_hash \<Rightarrow> SignedBeaconBlock \<Rightarrow> b256" where
  "signed_root T (Signed_Bellatrix b) = T (VContainer (block_fields body_bellatrix_fields (sb_message b)))"
| "signed_root T (Signed_Capella b) = T (VContainer (block_fields body_capella_fields (sb_message b)))"
| "signed_root T (Signed_Deneb b) = T (VContainer (block_fields body_deneb_fields (sb_message b)))"
| "signed_root T (Signed_Electra b) = T (VContainer (block_fields body_electra_fields (sb_message b)))"

fun signed_era :: "SignedBeaconBlock \<Rightarrow> AuthPath" where
  "signed_era (Signed_Bellatrix _) = AuthHistoricalRoots"
| "signed_era (Signed_Capella _) = AuthHistoricalSummariesCapella"
| "signed_era (Signed_Deneb _) = AuthHistoricalSummariesDeneb"
| "signed_era (Signed_Electra _) = AuthHistoricalSummariesDeneb"

fun fork_proof :: "SignedBeaconBlock \<Rightarrow> BlockProofHistorical \<Rightarrow> BlockHeaderProof" where
  "fork_proof (Signed_Bellatrix _) p = HistoricalRoots p"
| "fork_proof (Signed_Capella _) p = HistoricalSummariesCapella p"
| "fork_proof (Signed_Deneb _) p = HistoricalSummariesDeneb p"
| "fork_proof (Signed_Electra _) p = HistoricalSummariesDeneb p"

lemma fork_proof_fun:
  "fork_proof (Signed_Bellatrix b) = HistoricalRoots"
  "fork_proof (Signed_Capella c) = HistoricalSummariesCapella"
  "fork_proof (Signed_Deneb d) = HistoricalSummariesDeneb"
  "fork_proof (Signed_Electra e) = HistoricalSummariesDeneb"
  by (simp_all add: fun_eq_iff)

text \<open>The builder of the fork, the proof it makes, and where the two branches lead.\<close>

fun build_fork_proof ::
  "hashing \<Rightarrow> tree_hash \<Rightarrow> u64 \<Rightarrow> HistoricalBatch \<Rightarrow> SignedBeaconBlock \<Rightarrow> (BlockProofHistorical, 'e) res" where
  "build_fork_proof H T sl batch (Signed_Bellatrix b) =
     build_historical_roots_proof H T sl batch (sb_message b)"
| "build_fork_proof H T sl batch (Signed_Capella b) =
     build_capella_historical_summaries_proof H T sl (hb_block_roots batch) (sb_message b)"
| "build_fork_proof H T sl batch (Signed_Deneb b) =
     build_deneb_historical_summaries_proof H T sl (hb_block_roots batch) (sb_message b)"
| "build_fork_proof H T sl batch (Signed_Electra b) =
     build_electra_historical_summaries_proof H T sl (hb_block_roots batch) (sb_message b)"

fun fork_built ::
  "hashing \<Rightarrow> tree_hash \<Rightarrow> u64 \<Rightarrow> HistoricalBatch \<Rightarrow> SignedBeaconBlock \<Rightarrow> BlockProofHistorical" where
  "fork_built H T sl batch (Signed_Bellatrix b) = built_roots_proof H T sl batch (sb_message b)"
| "fork_built H T sl batch (Signed_Capella b) =
     built_capella_proof H T sl (hb_block_roots batch) (sb_message b)"
| "fork_built H T sl batch (Signed_Deneb b) =
     built_deneb_proof H T sl (hb_block_roots batch) (sb_message b)"
| "fork_built H T sl batch (Signed_Electra b) =
     built_electra_proof H T sl (hb_block_roots batch) (sb_message b)"

definition exec_gindex :: "AuthPath \<Rightarrow> nat" where
  "exec_gindex era = (if era = AuthHistoricalSummariesDeneb then 6444 else 3228)"

definition beacon_gindex :: "AuthPath \<Rightarrow> u64 \<Rightarrow> nat" where
  "beacon_gindex era sl = (if era = AuthHistoricalRoots then 16384 else 8192) + unat sl mod 8192"

definition era_root :: "tree_hash \<Rightarrow> AuthPath \<Rightarrow> HistoricalBatch \<Rightarrow> b256" where
  "era_root T era batch =
     (if era = AuthHistoricalRoots then T (historical_batch_value batch)
      else T (roots_value (hb_block_roots batch)))"

text \<open>
  What the validator must hold: for a Bellatrix slot the root of the batch among the historical
  roots, later the root of the block roots in the summary of the slot's era.
\<close>

definition era_recorded ::
  "tree_hash \<Rightarrow> snapshots \<Rightarrow> HeaderValidator \<Rightarrow> u64 \<Rightarrow> AuthPath \<Rightarrow> HistoricalBatch \<Rightarrow> bool" where
  "era_recorded T st v sl era batch \<longleftrightarrow>
     (if era = AuthHistoricalRoots
      then unat sl div 8192 < length (historical_roots (historical_roots_acc v)) \<and>
        historical_roots (historical_roots_acc v) ! (unat sl div 8192) = T (historical_batch_value batch)
      else \<exists>s. get_historical_summary st (historical_summaries_provider v) sl = Ok s \<and>
        block_summary_root s = T (roots_value (hb_block_roots batch)))"

text \<open>A batch that holds a block at a slot.\<close>

definition batch_holds :: "tree_hash \<Rightarrow> HistoricalBatch \<Rightarrow> u64 \<Rightarrow> SignedBeaconBlock \<Rightarrow> bool" where
  "batch_holds T batch sl sb \<longleftrightarrow>
     is_b256 (signed_payload_hash sb) \<and> roots_wf (hb_block_roots batch) \<and>
     hb_block_roots batch ! (unat sl mod 8192) = signed_root T sb"

lemma era_guards:
  "era_of h = AuthHistoricalRoots \<Longrightarrow>
    is_paris_active_at_block (number h) \<and> \<not> is_shanghai_active_at_timestamp (timestamp h)"
  "era_of h = AuthHistoricalSummariesCapella \<Longrightarrow>
    is_shanghai_active_at_timestamp (timestamp h) \<and> \<not> is_cancun_active_at_timestamp (timestamp h)"
  "era_of h = AuthHistoricalSummariesDeneb \<Longrightarrow> is_cancun_active_at_timestamp (timestamp h)"
  by (auto simp: era_of_def split: if_splits)

lemma era_of_fork_guard: "era_of h = signed_era sb \<Longrightarrow> era_guard (fork_proof sb p) h"
  by (cases sb) (auto dest: era_guards)

lemma auth_path_fork [simp]: "auth_path_for (fork_proof sb p) = signed_era sb"
  by (cases sb) simp_all

subsection \<open>The built proof and the accepted proof\<close>

text \<open>A proof for the slot of a signed block, whose branches climb from \<open>x\<close> to \<open>root\<close>.\<close>

definition fork_climbs :: "hashing \<Rightarrow> SignedBeaconBlock \<Rightarrow> BlockProofHistorical \<Rightarrow> b256 \<Rightarrow> b256 \<Rightarrow> bool" where
  "fork_climbs H sb p x root \<longleftrightarrow>
     climb (node_hash H) x (execution_block_proof p) (exec_gindex (signed_era sb)) = beacon_block_root p \<and>
     climb (node_hash H) (beacon_block_root p) (beacon_block_proof p)
       (beacon_gindex (signed_era sb) (slot p)) = root"

lemma fork_built_facts:
  assumes "hashing_ok H" "tree_hash_ok H T" "batch_holds T batch sl sb"
  shows "build_fork_proof H T sl batch sb = Ok (fork_built H T sl batch sb)"
    and "proof_wf (fork_proof sb (fork_built H T sl batch sb))"
    and "slot (fork_built H T sl batch sb) = sl"
    and "fork_climbs H sb (fork_built H T sl batch sb) (signed_payload_hash sb)
      (era_root T (signed_era sb) batch)"
proof -
  note roots = built_roots_proof_facts [OF assms(1,2)]
  note capella = built_capella_proof_facts [OF assms(1,2) _ _ _ refl]
  note deneb = built_deneb_proof_facts [OF assms(1,2) _ _ _ refl]
  note electra = built_electra_proof_facts [OF assms(1,2) _ _ _ refl]
  have sl: "slot (built_roots_proof H T sl batch b) = sl" for b
    by (simp add: built_roots_proof_def built_def)
  note unfolds = batch_holds_def fork_climbs_def exec_gindex_def beacon_gindex_def era_root_def
  show "build_fork_proof H T sl batch sb = Ok (fork_built H T sl batch sb)"
    using assms(3) by (cases sb) (simp_all add: batch_holds_def roots(1) capella(1) deneb(1) electra(1))
  show "slot (fork_built H T sl batch sb) = sl"
    using assms(3) by (cases sb) (simp_all add: batch_holds_def sl capella(3) deneb(3) electra(3))
  show "proof_wf (fork_proof sb (fork_built H T sl batch sb))"
    using assms(3) by (cases sb) (simp_all add: batch_holds_def roots(2) capella(2) deneb(2) electra(2))
  show "fork_climbs H sb (fork_built H T sl batch sb) (signed_payload_hash sb)
      (era_root T (signed_era sb) batch)"
    using assms(3)
    by (cases sb) (simp_all add: unfolds sl roots(3,4) capella(3-5) deneb(3-5) electra(3-5))
qed

lemma fork_validate_iff:
  assumes "hashing_ok H" "alloy_ok A" "proof_wf (fork_proof sb p)"
    and "era_recorded T st v (slot p) (signed_era sb) batch"
  shows "validate_header_with_proof H A st v \<lparr>header = h, hwp_proof = fork_proof sb p\<rparr> = Ok u \<longleftrightarrow>
    era_guard (fork_proof sb p) h \<and>
    fork_climbs H sb p (hash_slow A h) (era_root T (signed_era sb) batch)"
  using assms(3,4)
  by (cases sb) (auto simp: validate_Ok_iff [OF assms(1,2)] era_recorded_def era_root_def
      fork_climbs_def exec_gindex_def beacon_gindex_def)

lemma built_fork_accepted:
  assumes "hashing_ok H" "alloy_ok A" "tree_hash_ok H T" "batch_holds T batch sl sb"
    and "signed_payload_hash sb = hash_slow A h" "era_of h = signed_era sb"
    and "era_recorded T st v sl (signed_era sb) batch"
  shows "validate_header_with_proof H A st v
    \<lparr>header = h, hwp_proof = fork_proof sb (fork_built H T sl batch sb)\<rparr> = Ok ()"
proof -
  note facts = fork_built_facts [OF assms(1,3,4)]
  show ?thesis
    using facts(4) assms(5-7)
    by (simp add: fork_validate_iff [OF assms(1,2) facts(2), of T st v batch] facts(3) era_of_fork_guard)
qed

subsection \<open>Claims\<close>

text \<open>
  C12.  The four proof builders implement what the validator checks.  For a
  signed beacon block of any fork that a batch holds at a slot, the builder of the fork succeeds with
  a well-sized proof of that slot, and the validator accepts the execution header of the block with
  it, when the header belongs to the era of the fork and the validator holds the root of the era.
\<close>

theorem fork_proof_accepted:
  assumes "hashing_ok H" "alloy_ok A" "tree_hash_ok H T" "batch_holds T batch sl sb"
    and "signed_payload_hash sb = hash_slow A h" "era_of h = signed_era sb"
    and "era_recorded T st v sl (signed_era sb) batch"
  shows "\<exists>p. build_fork_proof H T sl batch sb = Ok p \<and> slot p = sl \<and> proof_wf (fork_proof sb p) \<and>
    validate_header_with_proof H A st v \<lparr>header = h, hwp_proof = fork_proof sb p\<rparr> = Ok ()"
  by (intro exI [of _ "fork_built H T sl batch sb"] conjI fork_built_facts [OF assms(1,3,4)]
      built_fork_accepted [OF assms])

definition sample_signed :: "'b \<Rightarrow> 'b SignedBeaconBlockOf" where
  "sample_signed block = \<lparr>sb_message = block, sb_signature = sample_sig\<rparr>"

lemma sample_signed_message [simp]: "sb_message (sample_signed block) = block"
  by (simp add: sample_signed_def)

lemma sample_header_eras:
  "era_of sample_merge_header = AuthHistoricalRoots"
  "era_of sample_electra_header = AuthHistoricalSummariesDeneb"
  by (simp_all add: era_of_def sample_merge_header_def sample_electra_header_def activation_unat)

definition sample_electra_batch :: HistoricalBatch where
  "sample_electra_batch = \<lparr>hb_block_roots = sample_electra_roots, hb_state_roots = []\<rparr>"

theorem fork_proof_accepted_witness:
  "(\<exists>p. build_fork_proof sample_hashing sample_tree_hash 5 sample_batch
       (Signed_Bellatrix (sample_signed sample_bellatrix_block)) = Ok p \<and> slot p = 5 \<and>
      validate_header_with_proof sample_hashing sample_alloy [] sample_bellatrix_validator
        \<lparr>header = sample_merge_header, hwp_proof = HistoricalRoots p\<rparr> = Ok ()) \<and>
   (\<exists>p. build_fork_proof sample_hashing sample_tree_hash 11649029 sample_electra_batch
       (Signed_Electra (sample_signed sample_electra_block)) = Ok p \<and> slot p = 11649029 \<and>
      validate_header_with_proof sample_hashing sample_alloy [replicate 1000 sample_electra_summary]
        (sample_validator [] [])
        \<lparr>header = sample_electra_header, hwp_proof = HistoricalSummariesDeneb p\<rparr> = Ok ())"
proof -
  note ok = hashing_ok_sample alloy_ok_sample sample_tree_hash_ok
  have "batch_holds sample_tree_hash sample_batch 5 (Signed_Bellatrix (sample_signed sample_bellatrix_block))"
    "era_recorded sample_tree_hash [] sample_bellatrix_validator 5 AuthHistoricalRoots sample_batch"
    using sample_bellatrix_facts
    by (simp_all add: batch_holds_def era_recorded_def del: tree_hash_of.simps)
  note roots = fork_proof_accepted [OF ok this(1), of sample_merge_header "[]" sample_bellatrix_validator,
      simplified signed_era.simps, OF _ sample_header_eras(1) this(2)]
  have "batch_holds sample_tree_hash sample_electra_batch 11649029
      (Signed_Electra (sample_signed sample_electra_block))"
    "era_recorded sample_tree_hash [replicate 1000 sample_electra_summary] (sample_validator [] [])
      11649029 AuthHistoricalSummariesDeneb sample_electra_batch"
    using sample_electra_facts
    by (simp_all add: batch_holds_def era_recorded_def sample_electra_batch_def del: tree_hash_of.simps)
  note electra = fork_proof_accepted [OF ok this(1), of sample_electra_header
      "[replicate 1000 sample_electra_summary]" "sample_validator [] []",
      simplified signed_era.simps, OF _ sample_header_eras(2) this(2)]
  show ?thesis
    using roots electra by (simp add: sample_bellatrix_facts sample_electra_facts) blast
qed

text \<open>
  Acceptance says which block a header is from, for all four forks: when a
  batch holds a signed beacon block at the slot of an accepted proof of the fork's kind, and the
  validator holds the root of that era, the accepted header has the block hash of that block's
  payload, or the accepted branches and the built ones contain an explicit pair of 64-byte inputs
  with one digest.
\<close>

theorem fork_header_in_block:
  assumes "hashing_ok H" "alloy_ok A" "tree_hash_ok H T" "proof_wf (fork_proof sb p)"
    and "batch_holds T batch (slot p) sb"
    and "era_recorded T st v (slot p) (signed_era sb) batch"
    and "validate_header_with_proof H A st v \<lparr>header = h, hwp_proof = fork_proof sb p\<rparr> = Ok ()"
    and "q = fork_built H T (slot p) batch sb"
  shows "hash_slow A h = signed_payload_hash sb \<or>
    collides H (find_collision (node_hash H) (exec_gindex (signed_era sb)) (hash_slow A h)
      (execution_block_proof p) (signed_payload_hash sb) (execution_block_proof q)) \<or>
    collides H (find_collision (node_hash H) (beacon_gindex (signed_era sb) (slot p))
      (beacon_block_root p) (beacon_block_proof p) (beacon_block_root q) (beacon_block_proof q))"
proof -
  note facts = fork_built_facts [OF assms(1,3,5), folded assms(8)]
  from assms(7) have climbs: "fork_climbs H sb p (hash_slow A h) (era_root T (signed_era sb) batch)"
    by (simp add: fork_validate_iff [OF assms(1,2,4,6)])
  obtain nb ne where wf: "historical_proof_wf nb ne p" "historical_proof_wf nb ne q"
    using assms(4) facts(2) by (cases sb) auto
  have hashes: "is_b256 (hash_slow A h)" "is_b256 (signed_payload_hash sb)"
    using assms(2,5) by (simp_all add: alloy_ok_def batch_holds_def)
  from climbs facts(4) show ?thesis
    unfolding fork_climbs_def facts(3)
    by (elim conjE) (rule chain_binding [OF assms(1) hashes wf])
qed

theorem fork_header_in_block_witness:
  "\<exists>p. p = fork_built sample_hashing sample_tree_hash 11649029 sample_electra_batch
      (Signed_Electra (sample_signed sample_electra_block)) \<and>
    (hash_slow sample_alloy sample_electra_header
      = ep_block_hash (bd_execution_payload (bb_body sample_electra_block)) \<or>
    collides sample_hashing (find_collision (node_hash sample_hashing) 6444
      (hash_slow sample_alloy sample_electra_header) (execution_block_proof p)
      (ep_block_hash (bd_execution_payload (bb_body sample_electra_block))) (execution_block_proof p)) \<or>
    collides sample_hashing (find_collision (node_hash sample_hashing)
      (beacon_gindex AuthHistoricalSummariesDeneb 11649029)
      (beacon_block_root p) (beacon_block_proof p) (beacon_block_root p) (beacon_block_proof p)))"
proof -
  let ?sb = "Signed_Electra (sample_signed sample_electra_block)"
  let ?st = "[replicate 1000 sample_electra_summary]"
  let ?v = "sample_validator [] []"
  let ?p = "fork_built sample_hashing sample_tree_hash 11649029 sample_electra_batch ?sb"
  note ok = hashing_ok_sample alloy_ok_sample sample_tree_hash_ok
  have holds: "batch_holds sample_tree_hash sample_electra_batch 11649029 ?sb"
    and recorded: "era_recorded sample_tree_hash ?st ?v 11649029 (signed_era ?sb) sample_electra_batch"
    using sample_electra_facts
    by (simp_all add: batch_holds_def era_recorded_def sample_electra_batch_def del: tree_hash_of.simps)
  note facts = fork_built_facts [OF ok(1,3) holds]
  have accepted: "validate_header_with_proof sample_hashing sample_alloy ?st ?v
      \<lparr>header = sample_electra_header, hwp_proof = fork_proof ?sb ?p\<rparr> = Ok ()"
    by (rule built_fork_accepted [OF ok holds _ _ recorded])
      (simp_all only: signed_payload_hash.simps sample_signed_message sample_electra_facts(1)
        sample_header_eras signed_era.simps)
  from fork_header_in_block [OF ok facts(2), unfolded facts(3), OF holds recorded accepted refl]
  show ?thesis by (simp add: exec_gindex_def)
qed

end
