(* ===== verification/Archive_Pipeline.thy ===== *)
theory Archive_Pipeline
  imports Archive_Properties Fork_Properties
begin

text \<open>
  The archive source end to end: from the answers of an execution node, an epoch provider and a
  beacon provider, all untrusted, to the block that \<open>verify_block_by_number\<close> returns.  Before the
  Merge the proof comes out of an epoch accumulator, after it out of a beacon block and the block
  roots of its era.
\<close>

subsection \<open>From a node's answer to a verified block\<close>

text \<open>What an honest execution node answers for a header.\<close>

definition node_answers :: "ArchiveRpcSource \<Rightarrow> Header \<Rightarrow> bool" where
  "node_answers self h \<longleftrightarrow> (\<exists>t.
     ar_http self (ar_rpc_url self) ''eth_getBlockByNumber'' [JStr (fmt_hex (number h)), JBool False]
       = Ok \<lparr>jr_result = Some (rpc_block t h), jr_error = None\<rparr>)"

text \<open>
  Headers for which the RLP crate round-trips and whose SSZ form fits the container.  A requests hash
  (a header from Prague on has one) is allowed here.
\<close>

definition header_codec_ok :: "alloy_api \<Rightarrow> Header \<Rightarrow> bool" where
  "header_codec_ok A h \<longleftrightarrow> header_wf h \<and> header_rlp_ok A h \<and>
     length (rlp_encode_header A h) \<le> 2048"

text \<open>What the parser rebuilds from that answer: \<open>RawBlock\<close> has no requests hash.\<close>

definition without_requests :: "Header \<Rightarrow> Header" where
  "without_requests h = h\<lparr>requests_hash := None\<rparr>"

lemma without_requests_simps [simp]:
  "number (without_requests h) = number h" "timestamp (without_requests h) = timestamp h"
  "era_of (without_requests h) = era_of h"
  "requests_hash h = None \<Longrightarrow> without_requests h = h"
  by (simp_all add: without_requests_def era_of_def)

lemma node_answers_parse:
  assumes "hex_ok X" "header_wf h" "node_answers self h"
  shows "\<exists>raw. fetch_raw_block_by_number self (number h) = Ok raw \<and>
    raw_block_to_alloy_header X raw = Ok (without_requests h)"
proof -
  obtain t where t: "ar_http self (ar_rpc_url self) ''eth_getBlockByNumber''
      [JStr (fmt_hex (number h)), JBool False] = Ok \<lparr>jr_result = Some (rpc_block t h), jr_error = None\<rparr>"
    using assms(3) by (auto simp: node_answers_def)
  then show ?thesis
    using rpc_block_parses [OF assms(1,2), of t]
    by (simp add: fetch_raw_block_by_number_def without_requests_def)
qed

lemma archive_delivers:
  assumes "hex_ok X" "ssz_ok S" "header_codec_ok A h"
    and "data_sources V = pre @ archive_source X H T A S self # post"
    and "\<forall>s \<in> set pre. \<exists>e. number_attempt H A S st V (number h) s = Err e"
    and "archive_fetch_by_number X H T A S self (number h)
      = Ok (hwp_as_ssz_bytes A S \<lparr>header = h, hwp_proof = p\<rparr>)"
    and "proof_wf p" "auth_path_for p = era_of h"
    and "validate_header_with_proof H A st (validator V) \<lparr>header = h, hwp_proof = p\<rparr> = Ok ()"
  shows "verify_block_by_number H A S st V (number h) = Ok \<lparr>vb_header = h, vb_auth_path = era_of h\<rparr>"
proof -
  have "hwp_from_ssz_bytes A S (hwp_as_ssz_bytes A S \<lparr>header = h, hwp_proof = p\<rparr>)
      = Ok \<lparr>header = h, hwp_proof = p\<rparr>"
    using assms(2,3,7,8) by (intro hwp_ssz_roundtrip) (simp_all add: header_codec_ok_def)
  then show ?thesis
    using verify_by_number_delivered [OF assms(4,5), of "\<lparr>header = h, hwp_proof = p\<rparr>"] assms(6,8,9)
    by (simp add: archive_source_def)
qed

subsection \<open>Sample parts\<close>

definition sample_archive ::
  "Header \<Rightarrow> EpochProvider option \<Rightarrow> BeaconDataProvider option \<Rightarrow> ArchiveRpcSource" where
  "sample_archive h epochs beacon =
     \<lparr>ar_rpc_url = ''http://node'',
      ar_http = (\<lambda>url method params.
        if params = [JStr (fmt_hex (number h)), JBool False]
        then Ok \<lparr>jr_result = Some (rpc_block '''' h), jr_error = None\<rparr> else Err (lit ''refused'')),
      ar_epoch_provider = epochs, ar_beacon_provider = beacon\<rparr>"

lemma sample_archive_simps [simp]:
  "node_answers (sample_archive h epochs beacon) h"
  "ar_epoch_provider (sample_archive h epochs beacon) = epochs"
  "ar_beacon_provider (sample_archive h epochs beacon) = beacon"
  by (auto simp: sample_archive_def node_answers_def)

definition sample_archive_verifier :: "HeaderValidator \<Rightarrow> ArchiveRpcSource \<Rightarrow> Verifier" where
  "sample_archive_verifier v self =
     \<lparr>validator = v, data_sources =
        [archive_source sample_hex sample_hashing sample_tree_hash sample_alloy sample_ssz self]\<rparr>"

lemma sample_header_requests [simp]: "requests_hash (sample_header n ts) = None"
  by (simp add: sample_header_def)

lemma sample_header_codec: "header_codec_ok sample_alloy (sample_header n ts)"
  by (simp add: header_codec_ok_def)

subsection \<open>Before the Merge\<close>

text \<open>
  C9.  The pre-merge path as a whole: if an execution node answers with the header of a block
  before the Merge, the epoch provider has the epoch accumulator that records it, and the
  validator holds that accumulator's root, then the archive source, tried after sources that fail,
  makes \<open>verify_block_by_number\<close> return that header.  Nothing else about node or provider is used.
  Headers of that time have no requests hash, which the statement asks for.
\<close>

theorem archive_serves_pre_merge:
  assumes "hex_ok X" "ssz_ok S" "hashing_ok H" "alloy_ok A" "header_codec_ok A h"
    and "requests_hash h = None" "era_of h = AuthHistoricalHashes"
    and "data_sources V = pre @ archive_source X H T A S self # post"
    and "\<forall>s \<in> set pre. \<exists>e. number_attempt H A S st V (number h) s = Err e"
    and "node_answers self h"
    and "ar_epoch_provider self = Some provider"
    and "provider (epoch_index_of_block (number h)) = Ok acc" "epoch_acc_wf acc"
    and "unat (number h) mod 8192 < length acc"
    and "block_hash (acc ! (unat (number h) mod 8192)) = hash_slow A h"
    and "unat (epoch_index_of_block (number h)) < length (historical_epochs (pre_merge_acc (validator V)))"
    and "historical_epochs (pre_merge_acc (validator V)) ! unat (epoch_index_of_block (number h))
      = epoch_root H acc"
  shows "verify_block_by_number H A S st V (number h)
    = Ok \<lparr>vb_header = h, vb_auth_path = AuthHistoricalHashes\<rparr>"
proof -
  obtain raw where raw: "fetch_raw_block_by_number self (number h) = Ok raw"
      "raw_block_to_alloy_header X raw = Ok h"
    using node_answers_parse [OF assms(1) _ assms(10)] assms(5,6) by (force simp: header_codec_ok_def)
  define p where "p = constructed_proof H acc (unat (number h) mod 8192)"
  have paris: "\<not> is_paris_active_at_block (number h)"
    using assms(7) by (auto simp: era_of_def split: if_splits)
  have built: "construct_pre_merge_proof H A h acc = Ok p"
    using assms(14,15) by (simp add: construct_pre_merge_proof_eq [OF assms(3,13)] p_def Let_def)
  have "fixed_vector_wf 15 p"
    using constructed_proof_wf [OF assms(3,14)] assms(13) by (simp add: p_def epoch_acc_wf_def)
  moreover have "archive_fetch_by_number X H T A S self (number h)
      = Ok (hwp_as_ssz_bytes A S \<lparr>header = h, hwp_proof = HistoricalHashes p\<rparr>)"
    using raw built assms(11,12) paris
    by (simp add: archive_fetch_by_number_def activation_unat word_le_nat_alt)
  moreover have "validate_header_with_proof H A st (validator V) \<lparr>header = h, hwp_proof = HistoricalHashes p\<rparr> = Ok ()"
    by (rule constructed_accepted [OF assms(3,4,13) paris assms(16,17) built])
  ultimately show ?thesis
    using archive_delivers [OF assms(1,2,5,8,9), of "HistoricalHashes p"] assms(7) by simp
qed

theorem archive_serves_pre_merge_witness:
  "verify_block_by_number sample_hashing sample_alloy sample_ssz [] (sample_archive_verifier
      (sample_validator [epoch_root sample_hashing sample_epoch] [])
      (sample_archive (sample_header 0 0) (Some (\<lambda>_. Ok sample_epoch)) None)) 0
    = Ok \<lparr>vb_header = sample_header 0 0, vb_auth_path = AuthHistoricalHashes\<rparr>"
proof -
  let ?self = "sample_archive (sample_header 0 0) (Some (\<lambda>_. Ok sample_epoch)) None"
  let ?V = "sample_archive_verifier (sample_validator [epoch_root sample_hashing sample_epoch] []) ?self"
  have "verify_block_by_number sample_hashing sample_alloy sample_ssz [] ?V (number (sample_header 0 0))
      = Ok \<lparr>vb_header = sample_header 0 0, vb_auth_path = AuthHistoricalHashes\<rparr>"
  proof (rule archive_serves_pre_merge [OF hex_ok_sample ssz_ok_sample hashing_ok_sample alloy_ok_sample])
    show "data_sources ?V = [] @ archive_source sample_hex sample_hashing sample_tree_hash
        sample_alloy sample_ssz ?self # []" by (simp add: sample_archive_verifier_def)
    show "unat (number (sample_header 0 0)) mod 8192 < length sample_epoch"
      by (simp add: sample_epoch_def)
    show "block_hash (sample_epoch ! (unat (number (sample_header 0 0)) mod 8192))
        = hash_slow sample_alloy (sample_header 0 0)" by (simp add: sample_epoch_def)
  qed (simp_all add: sample_archive_verifier_def sample_validator_def era_of_def
      activation_unat epoch_index_of_block_def sample_header_codec)
  then show ?thesis by simp
qed

subsection \<open>After the Merge\<close>

text \<open>The two answers of a beacon provider for a slot, consistent with each other and the header.\<close>

definition beacon_answers ::
  "tree_hash \<Rightarrow> alloy_api \<Rightarrow> BeaconDataProvider \<Rightarrow> Header \<Rightarrow> u64 \<Rightarrow> SignedBeaconBlock \<Rightarrow> HistoricalBatch
     \<Rightarrow> bool" where
  "beacon_answers T A provider h sl sb batch \<longleftrightarrow>
     fetch_signed_beacon_block provider sl = Ok sb \<and> fetch_historical_batch provider sl = Ok batch \<and>
     signed_payload_hash sb = hash_slow A h \<and> roots_wf (hb_block_roots batch) \<and>
     hb_block_roots batch ! (unat sl mod 8192) = signed_root T sb"

lemma fork_dispatch:
  "(case sb of
      Signed_Bellatrix b \<Rightarrow> map_ok HistoricalRoots (build_historical_roots_proof H T sl batch (sb_message b))
    | Signed_Capella b \<Rightarrow> map_ok HistoricalSummariesCapella
        (build_capella_historical_summaries_proof H T sl (hb_block_roots batch) (sb_message b))
    | Signed_Deneb b \<Rightarrow> map_ok HistoricalSummariesDeneb
        (build_deneb_historical_summaries_proof H T sl (hb_block_roots batch) (sb_message b))
    | Signed_Electra b \<Rightarrow> map_ok HistoricalSummariesDeneb
        (build_electra_historical_summaries_proof H T sl (hb_block_roots batch) (sb_message b)))
   = map_ok (fork_proof sb) (build_fork_proof H T sl batch sb)"
  by (cases sb) (simp_all add: fork_proof_fun)

text \<open>
  What the source hands out after the Merge: the rebuilt header with the proof of the beacon block.
\<close>

lemma post_merge_fetched:
  assumes "hex_ok X" "hashing_ok H" "alloy_ok A" "tree_hash_ok H T" "header_wf h"
    and "is_paris_active_at_block (number h)" "node_answers self h"
    and "ar_beacon_provider self = Some provider"
    and "slot_for_execution_timestamp (timestamp h) = Some sl"
    and "beacon_answers T A provider h sl sb batch"
  shows "batch_holds T batch sl sb"
    and "archive_fetch_by_number X H T A S self (number h) = Ok (hwp_as_ssz_bytes A S
      \<lparr>header = without_requests h, hwp_proof = fork_proof sb (fork_built H T sl batch sb)\<rparr>)"
proof -
  show holds: "batch_holds T batch sl sb"
    using assms(3,10) by (auto simp: batch_holds_def beacon_answers_def alloy_ok_def)
  obtain raw where raw: "fetch_raw_block_by_number self (number h) = Ok raw"
      "raw_block_to_alloy_header X raw = Ok (without_requests h)"
    using node_answers_parse [OF assms(1,5,7)] by blast
  have "build_post_merge_hwp H T A S self (without_requests h) = Ok (hwp_as_ssz_bytes A S
      \<lparr>header = without_requests h, hwp_proof = fork_proof sb (fork_built H T sl batch sb)\<rparr>)"
    using assms(10)
    by (simp add: build_post_merge_hwp_def assms(8,9) beacon_answers_def fork_dispatch
        fork_built_facts(1) [OF assms(2,4) holds])
  then show "archive_fetch_by_number X H T A S self (number h) = Ok (hwp_as_ssz_bytes A S
      \<lparr>header = without_requests h, hwp_proof = fork_proof sb (fork_built H T sl batch sb)\<rparr>)"
    using raw assms(6) by (simp add: archive_fetch_by_number_def activation_unat word_le_nat_alt)
qed

lemma post_merge_served:
  assumes "hex_ok X" "ssz_ok S" "hashing_ok H" "alloy_ok A" "tree_hash_ok H T" "header_codec_ok A h"
    and "requests_hash h = None" "is_paris_active_at_block (number h)"
    and "data_sources V = pre @ archive_source X H T A S self # post"
    and "\<forall>s \<in> set pre. \<exists>e. number_attempt H A S st V (number h) s = Err e"
    and "node_answers self h"
    and "ar_beacon_provider self = Some provider"
    and "slot_for_execution_timestamp (timestamp h) = Some sl"
    and "beacon_answers T A provider h sl sb batch"
    and "era_of h = signed_era sb" "era_recorded T st (validator V) sl (signed_era sb) batch"
  shows "verify_block_by_number H A S st V (number h)
    = Ok \<lparr>vb_header = h, vb_auth_path = signed_era sb\<rparr>"
proof -
  have wf: "header_wf h" using assms(6) by (simp add: header_codec_ok_def)
  note fetched = post_merge_fetched [OF assms(1,3-5) wf assms(8,11-14)]
  let ?p = "fork_proof sb (fork_built H T sl batch sb)"
  have "signed_payload_hash sb = hash_slow A h" using assms(14) by (simp add: beacon_answers_def)
  note accepted = built_fork_accepted [OF assms(3-5) fetched(1) this assms(15,16)]
  have "archive_fetch_by_number X H T A S self (number h)
      = Ok (hwp_as_ssz_bytes A S \<lparr>header = h, hwp_proof = ?p\<rparr>)"
    using fetched(2) assms(7) by simp
  from archive_delivers [OF assms(1,2,6,9,10) this _ _ accepted] fork_built_facts(2) [OF assms(3,5) fetched(1)]
    assms(15) show ?thesis by simp
qed

text \<open>
  C10.  The post-Merge path as a whole, for headers without a requests hash,
  that is for blocks before Prague (Bellatrix, Capella and Deneb; no mainnet block of Electra is
  among them, and the last claim of this theory says what becomes of those): if an execution node
  answers with the header, the beacon provider answers with the beacon block that carries it and with
  block roots that hold that block at its slot, the era of the header (from its number and timestamp)
  is that of the fork of the block, and the validator holds the root of that era, then the archive
  source, tried after sources that fail, makes \<open>verify_block_by_number\<close> return the header under
  its era.
\<close>

theorem archive_serves_post_merge:
  assumes "hex_ok X" "ssz_ok S" "hashing_ok H" "alloy_ok A" "tree_hash_ok H T" "header_codec_ok A h"
    and "requests_hash h = None" "is_paris_active_at_block (number h)"
    and "data_sources V = pre @ archive_source X H T A S self # post"
    and "\<forall>s \<in> set pre. \<exists>e. number_attempt H A S st V (number h) s = Err e"
    and "node_answers self h"
    and "ar_beacon_provider self = Some provider"
    and "slot_for_execution_timestamp (timestamp h) = Some sl"
    and "beacon_answers T A provider h sl sb batch"
    and "era_of h = signed_era sb" "era_recorded T st (validator V) sl (signed_era sb) batch"
  shows "verify_block_by_number H A S st V (number h)
    = Ok \<lparr>vb_header = h, vb_auth_path = signed_era sb\<rparr>"
  by (rule post_merge_served [OF assms])

definition sample_beacon_provider :: "SignedBeaconBlock \<Rightarrow> HistoricalBatch \<Rightarrow> BeaconDataProvider" where
  "sample_beacon_provider sb batch =
     \<lparr>fetch_signed_beacon_block = (\<lambda>_. Ok sb), fetch_historical_batch = (\<lambda>_. Ok batch),
      provider_name = provider_name_default\<rparr>"

definition sample_signed_deneb :: SignedBeaconBlock where
  "sample_signed_deneb = Signed_Deneb \<lparr>sb_message = sample_deneb_block, sb_signature = sample_sig\<rparr>"

definition sample_deneb_batch :: HistoricalBatch where
  "sample_deneb_batch = \<lparr>hb_block_roots = sample_deneb_roots, hb_state_roots = []\<rparr>"

theorem archive_serves_post_merge_witness:
  "verify_block_by_number sample_hashing sample_alloy sample_ssz [replicate 1000 sample_deneb_summary]
      (sample_archive_verifier (sample_validator [] []) (sample_archive sample_deneb_header None
        (Some (sample_beacon_provider sample_signed_deneb sample_deneb_batch)))) 20000000
    = Ok \<lparr>vb_header = sample_deneb_header, vb_auth_path = AuthHistoricalSummariesDeneb\<rparr>"
proof -
  let ?provider = "sample_beacon_provider sample_signed_deneb sample_deneb_batch"
  let ?self = "sample_archive sample_deneb_header None (Some ?provider)"
  let ?V = "sample_archive_verifier (sample_validator [] []) ?self"
  let ?st = "[replicate 1000 sample_deneb_summary]"
  have h: "sample_deneb_header = sample_header 20000000 1720000000" by (simp add: sample_deneb_header_def)
  have "verify_block_by_number sample_hashing sample_alloy sample_ssz ?st ?V (number sample_deneb_header)
      = Ok \<lparr>vb_header = sample_deneb_header, vb_auth_path = signed_era sample_signed_deneb\<rparr>"
  proof (rule archive_serves_post_merge [OF hex_ok_sample ssz_ok_sample hashing_ok_sample
        alloy_ok_sample sample_tree_hash_ok])
    show "data_sources ?V = [] @ archive_source sample_hex sample_hashing sample_tree_hash
        sample_alloy sample_ssz ?self # []" by (simp add: sample_archive_verifier_def)
    show "slot_for_execution_timestamp (timestamp sample_deneb_header) = Some 9431331"
      by (simp add: h slot_for_execution_timestamp_unat)
    show "beacon_answers sample_tree_hash sample_alloy ?provider sample_deneb_header 9431331
        sample_signed_deneb sample_deneb_batch"
      using sample_deneb_facts
      by (simp add: beacon_answers_def sample_beacon_provider_def sample_signed_deneb_def
          sample_deneb_batch_def sample_deneb_roots_def sample_roots_nth del: tree_hash_of.simps)
    show "era_recorded sample_tree_hash ?st (validator ?V) 9431331 (signed_era sample_signed_deneb)
        sample_deneb_batch"
      using sample_deneb_facts(5)
      by (simp add: era_recorded_def sample_signed_deneb_def sample_deneb_batch_def
          sample_archive_verifier_def sample_validator_def get_historical_summary_Ok_iff
          historical_summary_index_unat del: tree_hash_of.simps)
  qed (simp_all add: sample_archive_verifier_def h sample_signed_deneb_def
      era_of_def activation_unat sample_header_codec)
  then show ?thesis by (simp add: h sample_signed_deneb_def)
qed

subsection \<open>From Prague on\<close>

text \<open>The message of the first check of a post-Merge proof.\<close>

fun exec_failure :: "SignedBeaconBlock \<Rightarrow> string" where
  "exec_failure (Signed_Bellatrix _) = ''Execution block proof verification failed for Merge-Capella header''"
| "exec_failure (Signed_Capella _) = ''Execution block proof verification failed for Capella-Deneb header''"
| "exec_failure (Signed_Deneb _) = ''Execution block proof verification failed for post-Deneb header''"
| "exec_failure (Signed_Electra _) = ''Execution block proof verification failed for post-Deneb header''"

lemma fork_validate_exec_failure:
  assumes "hashing_ok H" "alloy_ok A" "proof_wf (fork_proof sb p)" "era_of h = signed_era sb"
    and "climb (node_hash H) (hash_slow A h) (execution_block_proof p) (exec_gindex (signed_era sb))
      \<noteq> beacon_block_root p"
  shows "validate_header_with_proof H A st v \<lparr>header = h, hwp_proof = fork_proof sb p\<rparr> = Err (lit (exec_failure sb))"
proof -
  have x: "is_b256 (hash_slow A h)" using assms(2) by (simp add: alloy_ok_def)
  have len: "length (execution_block_proof p) \<le> 64"
    using assms(3) by (cases sb) (simp_all add: historical_proof_wf_def fixed_vector_wf_def)
  show ?thesis
    using assms(4,5) era_guards [of h]
    by (cases sb) (simp_all add: validate_header_with_proof.simps execution_branch_climb [OF assms(1) x] len
        verify_merge_to_capella_header_def verify_capella_to_deneb_header_def
        verify_post_deneb_header_def exec_gindex_def)
qed

text \<open>The proof of one header's block with another header.\<close>

lemma built_fork_other_header:
  assumes "hashing_ok H" "alloy_ok A" "tree_hash_ok H T" "batch_holds T batch sl sb"
    and "signed_payload_hash sb = hash_slow A h" "era_of g = signed_era sb"
    and "q = fork_built H T sl batch sb"
  shows "validate_header_with_proof H A st v \<lparr>header = g, hwp_proof = fork_proof sb q\<rparr> = Err (lit (exec_failure sb)) \<or>
    hash_slow A g = hash_slow A h \<or>
    collides H (find_collision (node_hash H) (exec_gindex (signed_era sb))
      (hash_slow A g) (execution_block_proof q) (hash_slow A h) (execution_block_proof q))"
proof (cases "climb (node_hash H) (hash_slow A g) (execution_block_proof q) (exec_gindex (signed_era sb))
    = beacon_block_root q")
  case True
  note facts = fork_built_facts [OF assms(1,3,4), folded assms(7)]
  obtain n where wf: "fixed_vector_wf n (execution_block_proof q)"
    using facts(2) by (cases sb) (auto simp: historical_proof_wf_def)
  have "climb (node_hash H) (hash_slow A h) (execution_block_proof q) (exec_gindex (signed_era sb))
      = beacon_block_root q"
    using facts(4) assms(5) by (simp add: fork_climbs_def)
  from climbs_binding [OF assms(1) _ _ wf wf True this] show ?thesis
    using assms(2) by (auto simp: alloy_ok_def)
next
  case False
  from fork_validate_exec_failure [OF assms(1,2) _ assms(6) this]
    fork_built_facts(2) [OF assms(1,3,4)] assms(7) show ?thesis by simp
qed

text \<open>
  C37.  From Prague on the archive source cannot serve a block, however honest
  the nodes are.  A header with a requests hash is rebuilt from the node's answer without it (and still encodes); the
  proof that the source builds from the right beacon block belongs to the real header; so the
  validator refuses the pair at the execution branch, and when the source is the last one and the
  sources before it fail, \<open>verify_block_by_number\<close> returns that error.  The only ways out are explicit:
  the header and the header without requests hash are two headers with one block hash, or the
  execution branch yields a pair of 64-byte inputs with one digest.
\<close>

theorem archive_refuses_prague:
  assumes "hex_ok X" "ssz_ok S" "hashing_ok H" "alloy_ok A" "tree_hash_ok H T"
    and "header_wf h" "header_codec_ok A (without_requests h)"
    and "requests_hash h \<noteq> None" "is_paris_active_at_block (number h)"
    and "data_sources V = pre @ [archive_source X H T A S self]"
    and "\<forall>s \<in> set pre. \<exists>e. number_attempt H A S st V (number h) s = Err e"
    and "node_answers self h"
    and "ar_beacon_provider self = Some provider"
    and "slot_for_execution_timestamp (timestamp h) = Some sl"
    and "beacon_answers T A provider h sl sb batch" "era_of h = signed_era sb"
    and "q = fork_built H T sl batch sb"
  shows "verify_block_by_number H A S st V (number h)
      = Err (VerificationFailed (number h) (lit (exec_failure sb))) \<or>
    (without_requests h \<noteq> h \<and> hash_slow A (without_requests h) = hash_slow A h) \<or>
    collides H (find_collision (node_hash H) (exec_gindex (signed_era sb))
      (hash_slow A (without_requests h)) (execution_block_proof q) (hash_slow A h) (execution_block_proof q))"
proof -
  let ?g = "without_requests h"
  let ?hwp = "\<lparr>header = ?g, hwp_proof = fork_proof sb q\<rparr>"
  have other: "?g \<noteq> h" using assms(8) by (cases h) (auto simp: without_requests_def)
  note fetched = post_merge_fetched [OF assms(1,3-6,9,12-15), folded assms(17)]
  have "signed_payload_hash sb = hash_slow A h" using assms(15) by (simp add: beacon_answers_def)
  note refused = built_fork_other_header [OF assms(3-5) fetched(1) this, of ?g, simplified, OF assms(16,17)]
  have dec: "hwp_from_ssz_bytes A S (hwp_as_ssz_bytes A S ?hwp) = Ok ?hwp"
    using assms(2,7,16) fork_built_facts(2) [OF assms(3,5) fetched(1), folded assms(17)]
    by (intro hwp_ssz_roundtrip) (simp_all add: header_codec_ok_def)
  have "number_attempt H A S st V (number h) (archive_source X H T A S self)
      = map_err (VerificationFailed (number h)) (map_ok (\<lambda>_. \<lparr>vb_header = ?g, vb_auth_path = signed_era sb\<rparr>)
          (validate_header_with_proof H A st (validator V) ?hwp))"
    using fetched(2) dec
    by (cases "validate_header_with_proof H A st (validator V) ?hwp")
      (simp_all add: number_attempt_def archive_source_def verify_def)
  moreover have "verify_block_by_number H A S st V (number h) = Err e"
    if "number_attempt H A S st V (number h) (archive_source X H T A S self) = Err e" for e
    using that assms(10,11)
    by (simp add: verify_block_by_number_def by_number.chain_Err_iff by_number.fails_def
        del: by_number_loop.simps)
  ultimately show ?thesis using refused [of st "validator V"] other by auto
qed

text \<open>
  A digest that adds the two halves of its input, so that no branch yields a collision, and a block
  hash that depends on the requests hash.
\<close>

definition mix_halves :: "bytes \<Rightarrow> bytes" where
  "mix_halves bs = map2 (+) (take 32 (bs @ replicate 32 0)) (take 32 (drop 32 bs @ replicate 32 0))"

definition mixing_hashing :: hashing where
  "mixing_hashing =
     \<lparr>hash = mix_halves, hash32_concat = (\<lambda>a b. mix_halves (a @ b)), ZERO_HASHES = replicate 49 b256_ZERO,
      rs_merkle_proof_hashes = (\<lambda>xs is.
        mpath (\<lambda>a b. mix_halves (a @ b)) (log2_ceil (length xs)) ((!) xs) (hd is))\<rparr>"

lemma mix_halves_ZERO: "mix_halves (b256_ZERO @ b256_ZERO) = b256_ZERO"
  by (simp add: mix_halves_def b256_ZERO_def zip_replicate)

lemma length_mix_halves: "length (mix_halves bs) = 32"
  by (simp add: mix_halves_def)

lemma hashing_ok_mixing: "hashing_ok mixing_hashing"
  by (simp add: hashing_ok_def mixing_hashing_def mix_halves_ZERO length_mix_halves log2_ceil_pow2)

lemma node_hash_mixing: "is_b256 a \<Longrightarrow> is_b256 b \<Longrightarrow> node_hash mixing_hashing a b = map2 (+) a b"
  by (simp add: node_hash_def mixing_hashing_def mix_halves_def)

lemma map2_add_inject:
  assumes "length (x :: byte list) = length s" "length y = length s"
  shows "map2 (+) x s = map2 (+) y s \<longleftrightarrow> x = y" "map2 (+) s x = map2 (+) s y \<longleftrightarrow> x = y"
  using assms by (auto simp: list_eq_iff_nth_eq)

lemma mixing_no_collision:
  "is_b256 x \<Longrightarrow> is_b256 y \<Longrightarrow> \<forall>s \<in> set ss. is_b256 s \<Longrightarrow>
    find_collision (node_hash mixing_hashing) i x ss y ss = None"
  by (induction ss arbitrary: i x y)
    (auto simp: node_hash_mixing map2_add_inject Let_def)

definition sample_prague_header :: Header where
  "sample_prague_header = sample_electra_header\<lparr>requests_hash := Some b256_ZERO\<rparr>"

definition sample_prague_alloy :: alloy_api where
  "sample_prague_alloy = sample_alloy\<lparr>hash_slow := (\<lambda>h. to_le 8 (number h) @ to_le 8 (timestamp h)
     @ replicate 16 (if requests_hash h = None then 1 else 0))\<rparr>"

definition sample_prague_batch :: HistoricalBatch where
  "sample_prague_batch = \<lparr>hb_block_roots = sample_roots (tree_hash_of mixing_hashing
     (VContainer (block_fields body_electra_fields sample_electra_block))), hb_state_roots = []\<rparr>"

lemma sample_prague_facts:
  "alloy_ok sample_prague_alloy" "header_wf sample_prague_header"
  "without_requests sample_prague_header = sample_electra_header"
  "header_codec_ok sample_prague_alloy sample_electra_header"
  "requests_hash sample_prague_header \<noteq> None"
  "number sample_prague_header = 23000000" "timestamp sample_prague_header = 1750000000"
  "hash_slow sample_prague_alloy sample_prague_header = hash_slow sample_alloy sample_electra_header"
  "hash_slow sample_prague_alloy sample_electra_header \<noteq> hash_slow sample_alloy sample_electra_header"
proof -
  have h: "sample_electra_header = sample_header 23000000 1750000000" by (simp add: sample_electra_header_def)
  show "alloy_ok sample_prague_alloy" by (simp add: alloy_ok_def sample_prague_alloy_def)
  show "header_wf sample_prague_header"
    using sample_header_wf [of 23000000 1750000000] by (simp add: sample_prague_header_def h header_wf_def)
  show wo: "without_requests sample_prague_header = sample_electra_header"
    by (simp add: without_requests_def sample_prague_header_def h sample_header_def)
  show "header_codec_ok sample_prague_alloy sample_electra_header"
    using sample_header_codec [of 23000000 1750000000]
    by (simp add: header_codec_ok_def header_rlp_ok_def sample_prague_alloy_def h)
  show "requests_hash sample_prague_header \<noteq> None"
    and n: "number sample_prague_header = 23000000" and t: "timestamp sample_prague_header = 1750000000"
    by (simp_all add: sample_prague_header_def h)
  show "hash_slow sample_prague_alloy sample_prague_header = hash_slow sample_alloy sample_electra_header"
    and "hash_slow sample_prague_alloy sample_electra_header \<noteq> hash_slow sample_alloy sample_electra_header"
    by (simp_all add: sample_prague_alloy_def sample_alloy_def sample_prague_header_def h numeral_eq_Suc)
qed

theorem archive_refuses_prague_witness:
  "verify_block_by_number mixing_hashing sample_prague_alloy sample_ssz [] \<lparr>validator = sample_validator [] [],
      data_sources = [archive_source sample_hex mixing_hashing (tree_hash_of mixing_hashing) sample_prague_alloy
        sample_ssz (sample_archive sample_prague_header None (Some (sample_beacon_provider
          (Signed_Electra (sample_signed sample_electra_block)) sample_prague_batch)))]\<rparr> 23000000
    = Err (VerificationFailed 23000000 (lit ''Execution block proof verification failed for post-Deneb header''))"
proof -
  let ?T = "tree_hash_of mixing_hashing" and ?A = sample_prague_alloy
  let ?sb = "Signed_Electra (sample_signed sample_electra_block)"
  let ?provider = "sample_beacon_provider ?sb sample_prague_batch"
  let ?self = "sample_archive sample_prague_header None (Some ?provider)"
  let ?src = "archive_source sample_hex mixing_hashing ?T ?A sample_ssz ?self"
  let ?V = "\<lparr>validator = sample_validator [] [], data_sources = [?src]\<rparr>"
  let ?q = "fork_built mixing_hashing ?T 11931331 sample_prague_batch ?sb"
  note T = tree_hash_of_ok [OF hashing_ok_mixing]
  have sources: "data_sources ?V = [] @ [?src]" by simp
  have sl: "slot_for_execution_timestamp (timestamp sample_prague_header) = Some 11931331"
    by (simp add: sample_prague_facts slot_for_execution_timestamp_unat)
  have answers: "beacon_answers ?T ?A ?provider sample_prague_header 11931331 ?sb sample_prague_batch"
    using sample_electra_facts(1)
    by (simp add: beacon_answers_def sample_beacon_provider_def sample_prague_batch_def sample_prague_facts
        sample_roots_wf sample_roots_nth length_tree_hash_of hashing_ok_mixing del: tree_hash_of.simps)
  have era: "era_of sample_prague_header = signed_era ?sb"
    by (simp add: era_of_def sample_prague_facts activation_unat)
  have holds: "batch_holds ?T sample_prague_batch 11931331 ?sb"
    using answers sample_prague_facts(1)
    by (auto simp: batch_holds_def beacon_answers_def alloy_ok_def simp del: tree_hash_of.simps signed_payload_hash.simps)
  have "\<forall>s \<in> set (execution_block_proof ?q). is_b256 s"
    using fork_built_facts(2) [OF hashing_ok_mixing T holds]
    by (simp add: historical_proof_wf_def fixed_vector_wf_def del: fork_built.simps)
  then have "find_collision (node_hash mixing_hashing) (exec_gindex (signed_era ?sb))
      (hash_slow ?A sample_electra_header) (execution_block_proof ?q)
      (hash_slow ?A sample_prague_header) (execution_block_proof ?q) = None"
    using sample_prague_facts(1) by (intro mixing_no_collision) (simp_all add: alloy_ok_def)
  then show ?thesis
    using archive_refuses_prague [OF hex_ok_sample ssz_ok_sample hashing_ok_mixing sample_prague_facts(1) T
        sample_prague_facts(2) _ sample_prague_facts(5) _ sources _ sample_archive_simps(1)
        sample_archive_simps(3) sl answers era refl, of "[]"]
    by (simp add: sample_prague_facts activation_unat collides_def del: fork_built.simps)
qed

end
