(* ===== verification/Archive_Http.thy ===== *)
theory Archive_Http
  imports Archive_Pipeline Source_Properties
begin

text \<open>
  The archive source with its only implemented beacon provider, the beacon-API client: from the
  answers of two HTTP endpoints, both untrusted, to a verified post-Merge block.  The slot comes from
  the timestamp, the forks of the block and of the state come from the slot, the era of the header
  from its timestamp again; the theory shows that they fit.
\<close>

subsection \<open>Slot, fork and era\<close>




subsection \<open>Two endpoints\<close>






end
