(* ===== verification/Wasm_Target.thy ===== *)
theory Wasm_Target
  imports Verifier_Api
begin

text \<open>
  The verifier on a target with pointers of 32 bits, as WebAssembly is.  Elsewhere in the development
  \<open>usize\<close> has 64 bits and \<open>as usize\<close> keeps a \<open>u64\<close>.  Here the conversions of
  \<open>src/header_validator.rs\<close> and \<open>src/portal_types/consensus/historical_summaries.rs\<close> cut a \<open>u64\<close> to its
  32 low bits.  The other values of type \<open>usize\<close> are lengths, depths and shift distances of branches of
  at most 15 nodes, the same on both targets.
\<close>

subsection \<open>The conversion\<close>

definition as_usize_32 :: "u64 \<Rightarrow> usize" where
  "as_usize_32 w = ucast (ucast w :: 32 word)"

lemma unat_as_usize_32: "unat (as_usize_32 w) = unat w mod 2 ^ 32"
proof -
  have "unat (as_usize_32 w) = take_bit 32 (unat w)"
    by (simp only: as_usize_32_def unsigned_ucast_eq take_bit_take_bit) (simp add: unsigned_take_bit_eq)
  then show ?thesis by (simp only: take_bit_eq_mod)
qed

lemma unat_take_bit_45: "unat (take_bit 45 w :: u64) = unat w mod 2 ^ 45"
proof -
  have "unat (take_bit 45 w) = take_bit 45 (unat w)" by (rule unsigned_take_bit_eq)
  then show ?thesis by (simp only: take_bit_eq_mod)
qed

lemma as_usize_32_small [simp]: "unat w < 2 ^ 32 \<Longrightarrow> as_usize_32 w = w"
  by (rule word_unat_eq_iff [THEN iffD2]) (simp add: unat_as_usize_32)

subsection \<open>The summaries\<close>

definition wasm_historical_summary_index :: "u64 \<Rightarrow> usize option" where
  "wasm_historical_summary_index sl =
     (let capella_slot = CAPELLA_FORK_EPOCH * SLOTS_PER_EPOCH
      in if sl < capella_slot then None
         else Some (as_usize_32 ((sl - capella_slot) div SLOTS_PER_HISTORICAL_ROOT)))"

definition wasm_get_historical_summary ::
  "snapshots \<Rightarrow> HistoricalSummariesProvider \<Rightarrow> u64 \<Rightarrow> (HistoricalSummary, msg) res" where
  "wasm_get_historical_summary st p sl =
     and_then (ok_or (wasm_historical_summary_index sl)
        (lit ''Can't provide Historical Summary for slot before Capella'')) (\<lambda>index.
     let summaries = read_summaries st p in
     if unat index < length summaries then Ok (summaries ! unat index)
     else Err (Msg ''Historical summary index out of bounds: {historical_summary_index}''
                   [ANat (unat index)]))"

subsection \<open>The validator\<close>

definition wasm_verify_historical_roots_beacon_block_proof ::
  "hashing \<Rightarrow> HeaderValidator \<Rightarrow> u64 \<Rightarrow> b256 \<Rightarrow> b256 list \<Rightarrow> (bool, 'e) res" where
  "wasm_verify_historical_roots_beacon_block_proof H self sl block_root proof =
     (let block_root_index = sl mod SLOTS_PER_HISTORICAL_ROOT;
          gen_index = 2 * SLOTS_PER_HISTORICAL_ROOT + block_root_index;
          historical_root_index = sl div SLOTS_PER_HISTORICAL_ROOT
      in and_then (index_list (historical_roots (historical_roots_acc self))
            (unat (as_usize_32 historical_root_index))) (\<lambda>historical_root.
         verify_merkle_proof H block_root proof 14 (as_usize_32 gen_index) historical_root))"

definition wasm_verify_historical_summaries_beacon_block_proof ::
  "hashing \<Rightarrow> snapshots \<Rightarrow> HeaderValidator \<Rightarrow> u64 \<Rightarrow> b256 \<Rightarrow> b256 list \<Rightarrow> (bool, 'e) res" where
  "wasm_verify_historical_summaries_beacon_block_proof H st self sl block_root proof =
     (case wasm_get_historical_summary st (historical_summaries_provider self) sl of
        Ok historical_summary \<Rightarrow>
          verify_merkle_proof H block_root proof 13
            (as_usize_32 (SLOTS_PER_HISTORICAL_ROOT + (sl mod SLOTS_PER_HISTORICAL_ROOT)))
            (block_summary_root historical_summary)
      | Err _ \<Rightarrow> Ok False
      | Panic p \<Rightarrow> Panic p)"

definition wasm_verify_pre_merge_header ::
  "hashing \<Rightarrow> alloy_api \<Rightarrow> HeaderValidator \<Rightarrow> Header \<Rightarrow> b256 list \<Rightarrow> (unit, msg) res" where
  "wasm_verify_pre_merge_header H A self h proof =
     (if is_paris_active_at_block (number h)
      then Err (lit ''Invalid proof type found for post-merge header.'')
      else
        let header_index = number h mod SLOTS_PER_HISTORICAL_ROOT;
            gen_index = (SLOTS_PER_HISTORICAL_ROOT * 2 * 2) + (header_index * 2);
            epoch_index = as_usize_32 (get_epoch_index_of_header (pre_merge_acc self) h)
        in and_then (index_list (historical_epochs (pre_merge_acc self)) (unat epoch_index))
            (\<lambda>epoch_hash.
             bail_unless (verify_merkle_proof H (hash_slow A h) proof 15 (as_usize_32 gen_index) epoch_hash)
               ''Execution block proof verification failed for pre-Merge header''))"

definition wasm_verify_merge_to_capella_header ::
  "hashing \<Rightarrow> HeaderValidator \<Rightarrow> u64 \<Rightarrow> u64 \<Rightarrow> b256 \<Rightarrow> BlockProofHistorical \<Rightarrow> (unit, msg) res" where
  "wasm_verify_merge_to_capella_header H self block_number block_timestamp header_hash p =
     (if \<not> is_paris_active_at_block block_number
      then Err (lit ''Invalid BlockProofHistoricalRoots found for pre-Merge header.'')
      else if is_shanghai_active_at_timestamp block_timestamp
      then Err (lit ''Invalid BlockProofHistoricalRoots found for post-Shanghai header.'')
      else
        and_then (bail_unless
          (verify_bellatrix_to_deneb_execution_block_proof H header_hash
             (execution_block_proof p) (beacon_block_root p))
          ''Execution block proof verification failed for Merge-Capella header'') (\<lambda>_.
        bail_unless
          (wasm_verify_historical_roots_beacon_block_proof H self (slot p) (beacon_block_root p)
             (beacon_block_proof p))
          ''Beacon block proof verification failed for Merge-Capella header''))"

definition wasm_verify_capella_to_deneb_header ::
  "hashing \<Rightarrow> snapshots \<Rightarrow> HeaderValidator \<Rightarrow> u64 \<Rightarrow> b256 \<Rightarrow> BlockProofHistorical \<Rightarrow> (unit, msg) res" where
  "wasm_verify_capella_to_deneb_header H st self block_timestamp header_hash p =
     (if \<not> is_shanghai_active_at_timestamp block_timestamp
      then Err (lit ''Invalid BlockProofHistoricalSummariesCapella found for pre-Shanghai header.'')
      else if is_cancun_active_at_timestamp block_timestamp
      then Err (lit ''Invalid BlockProofHistoricalSummariesCapella found for post-Cancun header.'')
      else
        and_then (bail_unless
          (verify_bellatrix_to_deneb_execution_block_proof H header_hash
             (execution_block_proof p) (beacon_block_root p))
          ''Execution block proof verification failed for Capella-Deneb header'') (\<lambda>_.
        bail_unless
          (wasm_verify_historical_summaries_beacon_block_proof H st self (slot p) (beacon_block_root p)
             (beacon_block_proof p))
          ''Beacon block proof verification failed for Capella-Deneb header''))"

definition wasm_verify_post_deneb_header ::
  "hashing \<Rightarrow> snapshots \<Rightarrow> HeaderValidator \<Rightarrow> u64 \<Rightarrow> b256 \<Rightarrow> BlockProofHistorical \<Rightarrow> (unit, msg) res" where
  "wasm_verify_post_deneb_header H st self block_timestamp header_hash p =
     (if \<not> is_cancun_active_at_timestamp block_timestamp
      then Err (lit ''Invalid BlockProofHistoricalSummariesDeneb found for pre-Cancun header.'')
      else
        and_then (bail_unless
          (verify_post_deneb_execution_block_proof H header_hash
             (execution_block_proof p) (beacon_block_root p))
          ''Execution block proof verification failed for post-Deneb header'') (\<lambda>_.
        bail_unless
          (wasm_verify_historical_summaries_beacon_block_proof H st self (slot p) (beacon_block_root p)
             (beacon_block_proof p))
          ''Beacon block proof verification failed for post-Deneb header''))"

fun wasm_validate_header_with_proof ::
  "hashing \<Rightarrow> alloy_api \<Rightarrow> snapshots \<Rightarrow> HeaderValidator \<Rightarrow> HeaderWithProof \<Rightarrow> (unit, msg) res" where
  "wasm_validate_header_with_proof H A st self hwp =
     (let h = header hwp in
      case hwp_proof hwp of
        HistoricalHashes p \<Rightarrow> wasm_verify_pre_merge_header H A self h p
      | HistoricalRoots p \<Rightarrow>
          wasm_verify_merge_to_capella_header H self (number h) (timestamp h) (hash_slow A h) p
      | HistoricalSummariesCapella p \<Rightarrow>
          wasm_verify_capella_to_deneb_header H st self (timestamp h) (hash_slow A h) p
      | HistoricalSummariesDeneb p \<Rightarrow>
          wasm_verify_post_deneb_header H st self (timestamp h) (hash_slow A h) p)"

definition wasm_verify ::
  "hashing \<Rightarrow> alloy_api \<Rightarrow> snapshots \<Rightarrow> Verifier \<Rightarrow> HeaderWithProof \<Rightarrow> (VerifiedBlock, Error) res" where
  "wasm_verify H A st self hwp =
     and_then (map_err (VerificationFailed (number (header hwp)))
                 (wasm_validate_header_with_proof H A st (validator self) hwp)) (\<lambda>_.
     Ok \<lparr>vb_header = header hwp, vb_auth_path = auth_path_for (hwp_proof hwp)\<rparr>)"

subsection \<open>What a slot becomes\<close>

text \<open>
  An index of 32 bits wraps after \<open>2 ^ 32\<close> eras of \<open>2 ^ 13\<close> slots, counted from slot 0 for the
  historical roots and from Capella for the summaries.
\<close>

definition wrap_roots :: "BlockProofHistorical \<Rightarrow> BlockProofHistorical" where
  "wrap_roots p = p\<lparr>slot := take_bit 45 (slot p)\<rparr>"

definition wrap_summaries :: "BlockProofHistorical \<Rightarrow> BlockProofHistorical" where
  "wrap_summaries p = p\<lparr>slot := if slot p < 6209536 then slot p else 6209536 + take_bit 45 (slot p - 6209536)\<rparr>"

fun wrap_proof :: "BlockHeaderProof \<Rightarrow> BlockHeaderProof" where
  "wrap_proof (HistoricalHashes p) = HistoricalHashes p"
| "wrap_proof (HistoricalRoots p) = HistoricalRoots (wrap_roots p)"
| "wrap_proof (HistoricalSummariesCapella p) = HistoricalSummariesCapella (wrap_summaries p)"
| "wrap_proof (HistoricalSummariesDeneb p) = HistoricalSummariesDeneb (wrap_summaries p)"

definition wasm_view :: "HeaderWithProof \<Rightarrow> HeaderWithProof" where
  "wasm_view hwp = hwp\<lparr>hwp_proof := wrap_proof (hwp_proof hwp)\<rparr>"

lemma wrap_simps [simp]:
  "beacon_block_proof (wrap_roots p) = beacon_block_proof p"
  "beacon_block_root (wrap_roots p) = beacon_block_root p"
  "execution_block_proof (wrap_roots p) = execution_block_proof p"
  "beacon_block_proof (wrap_summaries p) = beacon_block_proof p"
  "beacon_block_root (wrap_summaries p) = beacon_block_root p"
  "execution_block_proof (wrap_summaries p) = execution_block_proof p"
  "slot (wrap_roots p) = take_bit 45 (slot p)"
  "slot (wrap_summaries p) = (if slot p < 6209536 then slot p else 6209536 + take_bit 45 (slot p - 6209536))"
  by (simp_all add: wrap_roots_def wrap_summaries_def)

lemma wrap_view: "hwp_proof (wasm_view hwp) = wrap_proof (hwp_proof hwp)"
  by (simp add: wasm_view_def)

lemma wasm_view_simps [simp]:
  "header (wasm_view hwp) = header hwp"
  "proof_wf (hwp_proof (wasm_view hwp)) = proof_wf (hwp_proof hwp)"
  "auth_path_for (hwp_proof (wasm_view hwp)) = auth_path_for (hwp_proof hwp)"
  by (cases "hwp_proof hwp"; simp add: wasm_view_def historical_proof_wf_def)+

lemma era_index_wraps: "unat (as_usize_32 (sl div 8192)) = unat (take_bit 45 sl) div 8192"
proof -
  have "x div 2 ^ 13 mod 2 ^ 32 = x mod 2 ^ 45 div 2 ^ 13" for x :: nat
    using take_bit_drop_bit [of 32 13 x] drop_bit_take_bit [of 13 45 x]
    by (simp add: drop_bit_eq_div take_bit_eq_mod)
  from this [of "unat sl"] show ?thesis
    by (simp add: unat_as_usize_32 unat_div unat_take_bit_45)
qed

lemma block_index_wraps: "take_bit 45 sl mod 8192 = (sl mod 8192 :: u64)"
proof -
  have "x mod 2 ^ 45 mod 2 ^ 13 = x mod 2 ^ 13" for x :: nat
    by (rule mod_mod_cancel) (simp add: le_imp_power_dvd)
  from this [of "unat sl"] show ?thesis
    by (intro word_unat_eq_iff [THEN iffD2]) (simp add: unat_mod unat_take_bit_45)
qed

lemma index_wraps_word: "as_usize_32 (sl div 8192) = take_bit 45 sl div 8192"
  by (rule word_unat_eq_iff [THEN iffD2]) (simp add: era_index_wraps unat_div)

lemma small_indices [simp]:
  "as_usize_32 (2 * SLOTS_PER_HISTORICAL_ROOT + sl mod SLOTS_PER_HISTORICAL_ROOT)
    = 2 * SLOTS_PER_HISTORICAL_ROOT + sl mod SLOTS_PER_HISTORICAL_ROOT"
  "as_usize_32 (SLOTS_PER_HISTORICAL_ROOT + sl mod SLOTS_PER_HISTORICAL_ROOT)
    = SLOTS_PER_HISTORICAL_ROOT + sl mod SLOTS_PER_HISTORICAL_ROOT"
  "as_usize_32 (SLOTS_PER_HISTORICAL_ROOT * 2 * 2 + sl mod SLOTS_PER_HISTORICAL_ROOT * 2)
    = SLOTS_PER_HISTORICAL_ROOT * 2 * 2 + sl mod SLOTS_PER_HISTORICAL_ROOT * 2"
  using unat_block_index [of sl] unat_pre_merge_index [of sl]
  by (auto simp: validator_constants intro!: as_usize_32_small)

lemma wasm_roots_branch:
  "wasm_verify_historical_roots_beacon_block_proof H v sl x p
    = verify_historical_roots_beacon_block_proof H v (take_bit 45 sl) x p"
  unfolding wasm_verify_historical_roots_beacon_block_proof_def Let_def small_indices
    verify_historical_roots_beacon_block_proof_def
  by (simp only: validator_constants index_wraps_word block_index_wraps)

lemma wasm_summary_index:
  "wasm_historical_summary_index sl
    = historical_summary_index (if sl < 6209536 then sl else 6209536 + take_bit 45 (sl - 6209536))"
proof (cases "sl < 6209536")
  case False
  let ?t = "take_bit 45 (sl - 6209536)"
  have "unat (6209536 + ?t) = 6209536 + unat ?t"
    by (subst unat_add_lem [THEN iffD1]) (simp_all add: unat_take_bit_45)
  then have "\<not> 6209536 + ?t < 6209536" by (simp add: word_less_nat_alt)
  with False show ?thesis
    by (simp add: wasm_historical_summary_index_def historical_summary_index_def network_constants index_wraps_word)
qed (simp add: wasm_historical_summary_index_def historical_summary_index_def network_constants)

lemma unat_add_mod: "unat (c + w :: u64) mod 8192 = (unat c + unat w) mod 8192"
  by (simp add: unat_word_ariths mod_mod_cancel)

lemma add_take_bit_mod: "(c + take_bit 45 w) mod 8192 = ((c + w) mod 8192 :: u64)"
proof -
  have "unat (take_bit 45 w) mod 8192 = unat w mod 8192"
    using arg_cong [OF block_index_wraps [of w], of unat] by (simp add: unat_mod)
  then have "(unat c + unat (take_bit 45 w)) mod 8192 = (unat c + unat w) mod 8192"
    by (metis mod_add_right_eq)
  then have "unat (c + take_bit 45 w) mod 8192 = unat (c + w) mod 8192"
    by (simp only: unat_add_mod)
  then show ?thesis by (intro word_unat_eq_iff [THEN iffD2]) (simp add: unat_mod)
qed

lemma summary_block_wraps: "(6209536 + take_bit 45 (sl - 6209536)) mod 8192 = (sl mod 8192 :: u64)"
  by (simp only: add_take_bit_mod) simp

lemma wasm_summaries_branch:
  "wasm_verify_historical_summaries_beacon_block_proof H st v sl x p
    = verify_historical_summaries_beacon_block_proof H st v
        (if sl < 6209536 then sl else 6209536 + take_bit 45 (sl - 6209536)) x p"
proof -
  have "wasm_get_historical_summary st q sl = get_historical_summary st q
      (if sl < 6209536 then sl else 6209536 + take_bit 45 (sl - 6209536))" for q
    by (simp only: wasm_get_historical_summary_def get_historical_summary_def wasm_summary_index)
  moreover have "(if sl < 6209536 then sl else 6209536 + take_bit 45 (sl - 6209536)) mod 8192 = sl mod 8192"
    by (cases "sl < 6209536") (simp_all only: summary_block_wraps if_True if_False simp_thms)
  ultimately show ?thesis
    unfolding wasm_verify_historical_summaries_beacon_block_proof_def
      verify_historical_summaries_beacon_block_proof_def small_indices
    by (simp only: validator_constants(2))
qed

text \<open>The verifier of the 32-bit target is the verifier on the wrapped slots.\<close>

lemma wasm_pre_merge:
  "wasm_verify_pre_merge_header H A v h p = verify_pre_merge_header H A v h p"
proof (cases "is_paris_active_at_block (number h)")
  case False
  then have "as_usize_32 (get_epoch_index_of_header (pre_merge_acc v) h) = get_epoch_index_of_header (pre_merge_acc v) h"
    by (intro as_usize_32_small) (simp add: activation_unat get_epoch_index_of_header_def validator_constants unat_div)
  then show ?thesis
    by (simp only: wasm_verify_pre_merge_header_def verify_pre_merge_header_def small_indices Let_def)
qed (simp add: wasm_verify_pre_merge_header_def verify_pre_merge_header_def)

lemma wasm_merge_to_capella:
  "wasm_verify_merge_to_capella_header H v n t hh p = verify_merge_to_capella_header H v n t hh (wrap_roots p)"
  by (simp only: wasm_verify_merge_to_capella_header_def verify_merge_to_capella_header_def
      wasm_roots_branch wrap_simps)

lemma wasm_capella_to_deneb:
  "wasm_verify_capella_to_deneb_header H st v t hh p
    = verify_capella_to_deneb_header H st v t hh (wrap_summaries p)"
  by (simp only: wasm_verify_capella_to_deneb_header_def verify_capella_to_deneb_header_def
      wasm_summaries_branch wrap_simps)

lemma wasm_post_deneb:
  "wasm_verify_post_deneb_header H st v t hh p = verify_post_deneb_header H st v t hh (wrap_summaries p)"
  by (simp only: wasm_verify_post_deneb_header_def verify_post_deneb_header_def
      wasm_summaries_branch wrap_simps)

lemma wasm_validate:
  "wasm_validate_header_with_proof H A st v hwp = validate_header_with_proof H A st v (wasm_view hwp)"
  by (cases "hwp_proof hwp")
    (simp_all only: wasm_validate_header_with_proof.simps validate_header_with_proof.simps
      wasm_view_simps wrap_view wrap_proof.simps BlockHeaderProof.case Let_def
      wasm_pre_merge wasm_merge_to_capella wasm_capella_to_deneb wasm_post_deneb)

lemma wasm_verify_eq: "wasm_verify H A st V hwp = verify H A st V (wasm_view hwp)"
  by (simp only: wasm_verify_def verify_def wasm_validate wasm_view_simps)

text \<open>Slots below \<open>2 ^ 45\<close>, the real ones included, are left as they are.\<close>

fun slot_fits :: "BlockHeaderProof \<Rightarrow> bool" where
  "slot_fits (HistoricalHashes _) \<longleftrightarrow> True"
| "slot_fits (HistoricalRoots p) \<longleftrightarrow> unat (slot p) < 2 ^ 45"
| "slot_fits (HistoricalSummariesCapella p) \<longleftrightarrow> unat (slot p) < 2 ^ 45"
| "slot_fits (HistoricalSummariesDeneb p) \<longleftrightarrow> unat (slot p) < 2 ^ 45"

lemma take_bit_45_small: "unat w < 2 ^ 45 \<Longrightarrow> take_bit 45 w = (w :: u64)"
  by (intro word_unat_eq_iff [THEN iffD2]) (simp add: unat_take_bit_45)

lemma wrap_summaries_small:
  assumes "unat (slot p) < 2 ^ 45"
  shows "wrap_summaries p = p"
proof (cases "slot p < 6209536")
  case False
  then have "unat (slot p - 6209536) \<le> unat (slot p)"
    by (simp add: unat_sub word_less_nat_alt word_le_nat_alt)
  then have "take_bit 45 (slot p - 6209536) = slot p - 6209536"
    using assms by (intro take_bit_45_small) simp
  with False show ?thesis by (simp add: wrap_summaries_def)
qed (simp add: wrap_summaries_def)

lemma wrap_proof_small: "slot_fits q \<Longrightarrow> wrap_proof q = q"
  by (cases q) (simp_all add: wrap_summaries_small wrap_roots_def take_bit_45_small)

lemma wasm_view_small: "slot_fits (hwp_proof hwp) \<Longrightarrow> wasm_view hwp = hwp"
  by (simp add: wasm_view_def wrap_proof_small)

end
