(* ===== verification/Bindings.thy ===== *)
theory Bindings
  imports Verifier_Properties Sample_Hex Rpc_Text Wasm_Target
begin

text \<open>
  The language bindings: the C interface for Go (\<open>bindings/go/src/lib.rs\<close>), the Python module
  (\<open>bindings/python/src/lib.rs\<close>) and the WebAssembly module (\<open>bindings/ts/src/lib.rs\<close>).  All three
  build a verifier with \<open>Verifier::new()\<close> for every call and report the verified header.

  A raw pointer is null or the list of the elements that can be read from its address on; reading
  more is undefined behaviour, kept apart as a panic with a text of its own.  A C string is a
  string or null.  How an error is printed, and how a value becomes a JavaScript value, are
  parameters.  A panic passes through: Rust aborts at \<open>extern "C"\<close>, PyO3 raises, WebAssembly traps.
  The C interface and the Python module are those of a host with a \<open>usize\<close> of 64 bits; the WebAssembly
  module calls the verifier of \<open>Wasm_Target\<close>, where it has 32.
\<close>

subsection \<open>Parameters\<close>

record text_api =
  display_error :: "Error \<Rightarrow> string"
  debug_decode :: "DecodeError \<Rightarrow> string"

fun auth_path_debug :: "AuthPath \<Rightarrow> string" where
  "auth_path_debug AuthHistoricalHashes = ''HistoricalHashes''"
| "auth_path_debug AuthHistoricalRoots = ''HistoricalRoots''"
| "auth_path_debug AuthHistoricalSummariesCapella = ''HistoricalSummariesCapella''"
| "auth_path_debug AuthHistoricalSummariesDeneb = ''HistoricalSummariesDeneb''"

definition hex0x :: "hex_api \<Rightarrow> bytes \<Rightarrow> string" where
  "hex0x X bs = ''0x'' @ hex_crate_encode X bs"

subsection \<open>Go: memory\<close>

type_synonym 'a ptr = "'a list option"

definition from_raw_parts :: "'a ptr \<Rightarrow> usize \<Rightarrow> ('a list, 'e) res" where
  "from_raw_parts p len =
     (case p of
        Some mem \<Rightarrow>
          if unat len \<le> length mem then Ok (take (unat len) mem)
          else Panic ''undefined behaviour: read past the end''
      | None \<Rightarrow> Panic ''undefined behaviour: null slice'')"

text \<open>\<open>CString::new\<close> refuses a text with a zero byte.\<close>

definition err_cstring :: "string \<Rightarrow> string option" where
  "err_cstring m =
     Some (if CHR 0x00 \<in> set m then ''internal: unencodable error message'' else m)"

subsection \<open>Go: verification\<close>

fun ffi_auth_path :: "AuthPath \<Rightarrow> byte" where
  "ffi_auth_path AuthHistoricalHashes = 0"
| "ffi_auth_path AuthHistoricalRoots = 1"
| "ffi_auth_path AuthHistoricalSummariesCapella = 2"
| "ffi_auth_path AuthHistoricalSummariesDeneb = 3"

record FfiVerifyResult =
  ffi_ok :: byte
  ffi_block_number :: u64
  ffi_timestamp :: u64
  ffi_block_hash :: b256
  ffi_state_root :: b256
  ffi_receipts_root :: b256
  ffi_transactions_root :: b256
  ffi_parent_hash :: b256
  ffi_path :: byte
  ffi_error :: "string option"

definition ffi_default :: FfiVerifyResult where
  "ffi_default =
     \<lparr>ffi_ok = 0, ffi_block_number = 0, ffi_timestamp = 0, ffi_block_hash = b256_ZERO,
      ffi_state_root = b256_ZERO, ffi_receipts_root = b256_ZERO,
      ffi_transactions_root = b256_ZERO, ffi_parent_hash = b256_ZERO, ffi_path = 0,
      ffi_error = None\<rparr>"

definition make_error :: "string \<Rightarrow> FfiVerifyResult" where
  "make_error m = (let r = ffi_default in r\<lparr>ffi_error := err_cstring m\<rparr>)"

text \<open>The arrays are copied from values of type \<open>B256\<close>, so the copies have their length.\<close>

definition ffi_success :: "alloy_api \<Rightarrow> VerifiedBlock \<Rightarrow> FfiVerifyResult" where
  "ffi_success A verified =
     (let h = vb_header verified
      in \<lparr>ffi_ok = 1, ffi_block_number = number h, ffi_timestamp = timestamp h,
          ffi_block_hash = hash_slow A h, ffi_state_root = state_root h,
          ffi_receipts_root = receipts_root h, ffi_transactions_root = transactions_root h,
          ffi_parent_hash = parent_hash h, ffi_path = ffi_auth_path (vb_auth_path verified),
          ffi_error = None\<rparr>)"

definition go_verify_header_with_proof ::
  "text_api \<Rightarrow> assets_api \<Rightarrow> hashing \<Rightarrow> alloy_api \<Rightarrow> ssz_api \<Rightarrow> snapshots \<Rightarrow> byte ptr \<Rightarrow> usize
     \<Rightarrow> (FfiVerifyResult, unit) res" where
  "go_verify_header_with_proof F E H A S st bs len =
     (if bs = None \<and> len \<noteq> 0
      then Ok (make_error ''eth_historian: null bytes pointer with non-zero len'')
      else
        and_then (if len = 0 then Ok [] else from_raw_parts bs len) (\<lambda>slice.
        case hwp_from_ssz_bytes A S slice of
          Err e \<Rightarrow> Ok (make_error (''SSZ decode failed: '' @ debug_decode F e))
        | Panic p \<Rightarrow> Panic p
        | Ok hwp \<Rightarrow>
            and_then (verifier_new E st) (\<lambda>(verifier, st').
            case verify H A st' verifier hwp of
              Err e \<Rightarrow> Ok (make_error (''verification failed: '' @ display_error F e))
            | Panic p \<Rightarrow> Panic p
            | Ok verified \<Rightarrow> Ok (ffi_success A verified))))"

subsection \<open>Go: inclusion\<close>

fun node_slices_loop :: "(byte ptr \<times> usize) list \<Rightarrow> bytes list \<Rightarrow> (bytes list, string) res" where
  "node_slices_loop [] out = Ok out"
| "node_slices_loop ((p, l) # rest) out =
     (if l = 0 then node_slices_loop rest (out @ [[]])
      else if p = None then Err ''null proof-node pointer with non-zero len''
      else and_then (from_raw_parts p l) (\<lambda>slice. node_slices_loop rest (out @ [slice])))"

definition proof_node_slices ::
  "byte ptr ptr \<Rightarrow> usize ptr \<Rightarrow> usize \<Rightarrow> (bytes list, string) res" where
  "proof_node_slices node_ptrs node_lens num_nodes =
     (if num_nodes = 0 then Ok []
      else if node_ptrs = None \<or> node_lens = None then Err ''null proof-nodes ptr/len array''
      else
        and_then (from_raw_parts node_ptrs num_nodes) (\<lambda>ptrs.
        and_then (from_raw_parts node_lens num_nodes) (\<lambda>lens.
        node_slices_loop (zip ptrs lens) [])))"

definition read_root :: "byte ptr \<Rightarrow> (b256, string) res" where
  "read_root p =
     (if p = None then Err ''null root pointer''
      else and_then (from_raw_parts p 32) b256_from_slice)"

text \<open>The answer is null when the value is included, else a message.\<close>

definition go_verify_transaction_inclusion ::
  "text_api \<Rightarrow> trie_api \<Rightarrow> rlp_api \<Rightarrow> byte ptr \<Rightarrow> u64 \<Rightarrow> byte ptr \<Rightarrow> usize \<Rightarrow> byte ptr ptr \<Rightarrow> usize ptr
     \<Rightarrow> usize \<Rightarrow> (string option, unit) res" where
  "go_verify_transaction_inclusion F M R root_bytes tx_index raw_tx raw_tx_len node_ptrs
      node_lens num_nodes =
     (case read_root root_bytes of
        Err e \<Rightarrow> Ok (err_cstring e)
      | Panic p \<Rightarrow> Panic p
      | Ok root \<Rightarrow>
          if raw_tx_len \<noteq> 0 \<and> raw_tx = None
          then Ok (err_cstring ''null raw_tx pointer with non-zero len'')
          else
            and_then (if raw_tx_len = 0 then Ok [] else from_raw_parts raw_tx raw_tx_len) (\<lambda>raw.
            case proof_node_slices node_ptrs node_lens num_nodes of
              Err e \<Rightarrow> Ok (err_cstring e)
            | Panic p \<Rightarrow> Panic p
            | Ok nodes \<Rightarrow>
                (case verify_transaction_inclusion M R root tx_index raw nodes of
                   Ok _ \<Rightarrow> Ok None
                 | Err e \<Rightarrow> Ok (err_cstring (''verifyTransactionInclusion: '' @ display_error F e))
                 | Panic p \<Rightarrow> Panic p)))"

definition go_verify_receipt_inclusion ::
  "text_api \<Rightarrow> trie_api \<Rightarrow> rlp_api \<Rightarrow> byte ptr \<Rightarrow> u64 \<Rightarrow> byte ptr \<Rightarrow> usize \<Rightarrow> byte ptr ptr \<Rightarrow> usize ptr
     \<Rightarrow> usize \<Rightarrow> (string option, unit) res" where
  "go_verify_receipt_inclusion F M R root_bytes receipt_index raw_receipt raw_receipt_len node_ptrs
      node_lens num_nodes =
     (case read_root root_bytes of
        Err e \<Rightarrow> Ok (err_cstring e)
      | Panic p \<Rightarrow> Panic p
      | Ok root \<Rightarrow>
          if raw_receipt_len \<noteq> 0 \<and> raw_receipt = None
          then Ok (err_cstring ''null raw_receipt pointer with non-zero len'')
          else
            and_then (if raw_receipt_len = 0 then Ok [] else from_raw_parts raw_receipt raw_receipt_len)
              (\<lambda>raw.
            case proof_node_slices node_ptrs node_lens num_nodes of
              Err e \<Rightarrow> Ok (err_cstring e)
            | Panic p \<Rightarrow> Panic p
            | Ok nodes \<Rightarrow>
                (case verify_receipt_inclusion M R root receipt_index raw nodes of
                   Ok _ \<Rightarrow> Ok None
                 | Err e \<Rightarrow> Ok (err_cstring (''verifyReceiptInclusion: '' @ display_error F e))
                 | Panic p \<Rightarrow> Panic p)))"

text \<open>The two output buffers after the call; each is written when it is not null.\<close>

definition go_canonized_fingerprints :: "byte ptr \<Rightarrow> byte ptr \<Rightarrow> byte ptr \<times> byte ptr" where
  "go_canonized_fingerprints merge_macc_out historical_roots_out =
     (map_option (\<lambda>mem. take 32 MERGE_MACC_BIN_SHA256 @ drop 32 mem) merge_macc_out,
      map_option (\<lambda>mem. take 32 HISTORICAL_ROOTS_SSZ_SHA256 @ drop 32 mem) historical_roots_out)"

subsection \<open>Python\<close>

datatype PyErr = PyValueError string

record PyVerifiedBlock =
  py_block_number :: u64
  py_block_hash :: string
  py_state_root :: string
  py_receipts_root :: string
  py_transactions_root :: string
  py_parent_hash :: string
  py_timestamp :: u64
  py_auth_path :: string

text \<open>
  \<open>{:?}\<close> of a string puts it in double quotes; the strings of a verified block (hexadecimal, names
  of variants) have nothing to escape.
\<close>

definition quoted :: "string \<Rightarrow> string" where "quoted s = [CHR 0x22] @ s @ [CHR 0x22]"

definition py_repr :: "PyVerifiedBlock \<Rightarrow> string" where
  "py_repr self =
     ''VerifiedBlock(block_number='' @ fmt_dec (py_block_number self) @
     '', auth_path='' @ quoted (py_auth_path self) @
     '', block_hash='' @ quoted (py_block_hash self) @ '')''"

definition py_success :: "hex_api \<Rightarrow> alloy_api \<Rightarrow> VerifiedBlock \<Rightarrow> PyVerifiedBlock" where
  "py_success X A verified =
     (let h = vb_header verified
      in \<lparr>py_block_number = number h, py_block_hash = hex0x X (hash_slow A h),
          py_state_root = hex0x X (state_root h), py_receipts_root = hex0x X (receipts_root h),
          py_transactions_root = hex0x X (transactions_root h),
          py_parent_hash = hex0x X (parent_hash h), py_timestamp = timestamp h,
          py_auth_path = auth_path_debug (vb_auth_path verified)\<rparr>)"

definition py_verify_header_with_proof ::
  "text_api \<Rightarrow> hex_api \<Rightarrow> assets_api \<Rightarrow> hashing \<Rightarrow> alloy_api \<Rightarrow> ssz_api \<Rightarrow> snapshots \<Rightarrow> bytes
     \<Rightarrow> (PyVerifiedBlock, PyErr) res" where
  "py_verify_header_with_proof F X E H A S st bs =
     and_then (verifier_new E st) (\<lambda>(verifier, st').
     and_then (map_err (\<lambda>e. PyValueError (''SSZ decode failed: '' @ debug_decode F e))
       (hwp_from_ssz_bytes A S bs)) (\<lambda>hwp.
     and_then (map_err (\<lambda>e. PyValueError (''verification failed: '' @ display_error F e))
       (verify H A st' verifier hwp)) (\<lambda>verified.
     Ok (py_success X A verified))))"

definition py_parse_root :: "bytes \<Rightarrow> string \<Rightarrow> (b256, PyErr) res" where
  "py_parse_root bs field =
     (if length bs \<noteq> 32
      then Err (PyValueError (field @ '' must be 32 bytes, got '' @ digits 10 (length bs)))
      else b256_from_slice bs)"

definition py_verify_transaction_inclusion ::
  "text_api \<Rightarrow> trie_api \<Rightarrow> rlp_api \<Rightarrow> bytes \<Rightarrow> u64 \<Rightarrow> bytes \<Rightarrow> bytes list \<Rightarrow> (unit, PyErr) res" where
  "py_verify_transaction_inclusion F M R root_bytes tx_index raw_tx proof_nodes =
     and_then (py_parse_root root_bytes ''transactions_root'') (\<lambda>root.
     map_err (\<lambda>e. PyValueError (''verify_transaction_inclusion: '' @ display_error F e))
       (verify_transaction_inclusion M R root tx_index raw_tx proof_nodes))"

definition py_verify_receipt_inclusion ::
  "text_api \<Rightarrow> trie_api \<Rightarrow> rlp_api \<Rightarrow> bytes \<Rightarrow> u64 \<Rightarrow> bytes \<Rightarrow> bytes list \<Rightarrow> (unit, PyErr) res" where
  "py_verify_receipt_inclusion F M R root_bytes receipt_index raw_receipt proof_nodes =
     and_then (py_parse_root root_bytes ''receipts_root'') (\<lambda>root.
     map_err (\<lambda>e. PyValueError (''verify_receipt_inclusion: '' @ display_error F e))
       (verify_receipt_inclusion M R root receipt_index raw_receipt proof_nodes))"

text \<open>The dictionary, as the list of its items in order.\<close>

definition py_canonized_fingerprints :: "hex_api \<Rightarrow> (string \<times> string) list" where
  "py_canonized_fingerprints X =
     [(''merge_macc_bin_sha256'', hex0x X MERGE_MACC_BIN_SHA256),
      (''historical_roots_ssz_sha256'', hex0x X HISTORICAL_ROOTS_SSZ_SHA256)]"

subsection \<open>WebAssembly\<close>

datatype JsError = JsError string

record VerifiedBlockJs =
  js_block_number :: u64
  js_block_hash :: string
  js_state_root :: string
  js_receipts_root :: string
  js_transactions_root :: string
  js_parent_hash :: string
  js_timestamp :: u64
  js_auth_path :: string

definition js_block :: "hex_api \<Rightarrow> alloy_api \<Rightarrow> VerifiedBlock \<Rightarrow> VerifiedBlockJs" where
  "js_block X A verified =
     (let h = vb_header verified
      in \<lparr>js_block_number = number h, js_block_hash = hex0x X (hash_slow A h),
          js_state_root = hex0x X (state_root h), js_receipts_root = hex0x X (receipts_root h),
          js_transactions_root = hex0x X (transactions_root h),
          js_parent_hash = hex0x X (parent_hash h), js_timestamp = timestamp h,
          js_auth_path = auth_path_debug (vb_auth_path verified)\<rparr>)"

text \<open>\<open>to_value\<close> is \<open>serde_wasm_bindgen::to_value\<close>, with the text of its error.\<close>

definition js_verify_header_with_proof ::
  "(VerifiedBlockJs \<Rightarrow> ('js, string) res) \<Rightarrow> text_api \<Rightarrow> hex_api \<Rightarrow> assets_api \<Rightarrow> hashing \<Rightarrow> alloy_api
     \<Rightarrow> ssz_api \<Rightarrow> snapshots \<Rightarrow> bytes \<Rightarrow> ('js, JsError) res" where
  "js_verify_header_with_proof to_value F X E H A S st bs =
     and_then (verifier_new E st) (\<lambda>(verifier, st').
     and_then (map_err (\<lambda>e. JsError (''SSZ decode failed: '' @ debug_decode F e))
       (hwp_from_ssz_bytes A S bs)) (\<lambda>hwp.
     and_then (map_err (\<lambda>e. JsError (''verification failed: '' @ display_error F e))
       (wasm_verify H A st' verifier hwp)) (\<lambda>verified.
     map_err (\<lambda>e. JsError (''serialization failed: '' @ e)) (to_value (js_block X A verified)))))"

definition js_parse_root :: "bytes \<Rightarrow> string \<Rightarrow> (b256, JsError) res" where
  "js_parse_root bs field =
     (if length bs \<noteq> 32
      then Err (JsError (field @ '' must be 32 bytes, got '' @ digits 10 (length bs)))
      else b256_from_slice bs)"

text \<open>\<open>uint8array\<close> is \<open>js_sys::Uint8Array::new(..).to_vec()\<close>.\<close>

fun parse_nodes_loop :: "('js \<Rightarrow> bytes) \<Rightarrow> 'js list \<Rightarrow> bytes list \<Rightarrow> bytes list" where
  "parse_nodes_loop uint8array [] out = out"
| "parse_nodes_loop uint8array (v # vs) out = parse_nodes_loop uint8array vs (out @ [uint8array v])"

definition parse_proof_nodes :: "('js \<Rightarrow> bytes) \<Rightarrow> 'js list \<Rightarrow> (bytes list, JsError) res" where
  "parse_proof_nodes uint8array arr = Ok (parse_nodes_loop uint8array arr [])"

definition js_verify_transaction_inclusion ::
  "('js \<Rightarrow> bytes) \<Rightarrow> text_api \<Rightarrow> trie_api \<Rightarrow> rlp_api \<Rightarrow> bytes \<Rightarrow> u64 \<Rightarrow> bytes \<Rightarrow> 'js list
     \<Rightarrow> (unit, JsError) res" where
  "js_verify_transaction_inclusion uint8array F M R root_bytes tx_index raw_tx proof_nodes =
     and_then (js_parse_root root_bytes ''transactionsRoot'') (\<lambda>root.
     and_then (parse_proof_nodes uint8array proof_nodes) (\<lambda>proof.
     map_err (\<lambda>e. JsError (''verifyTransactionInclusion: '' @ display_error F e))
       (verify_transaction_inclusion M R root tx_index raw_tx proof)))"

definition js_verify_receipt_inclusion ::
  "('js \<Rightarrow> bytes) \<Rightarrow> text_api \<Rightarrow> trie_api \<Rightarrow> rlp_api \<Rightarrow> bytes \<Rightarrow> u64 \<Rightarrow> bytes \<Rightarrow> 'js list
     \<Rightarrow> (unit, JsError) res" where
  "js_verify_receipt_inclusion uint8array F M R root_bytes receipt_index raw_receipt proof_nodes =
     and_then (js_parse_root root_bytes ''receiptsRoot'') (\<lambda>root.
     and_then (parse_proof_nodes uint8array proof_nodes) (\<lambda>proof.
     map_err (\<lambda>e. JsError (''verifyReceiptInclusion: '' @ display_error F e))
       (verify_receipt_inclusion M R root receipt_index raw_receipt proof)))"

record Fingerprints =
  fp_merge_macc_bin_sha256 :: string
  fp_historical_roots_ssz_sha256 :: string

definition js_canonized_fingerprints ::
  "(Fingerprints \<Rightarrow> ('js, string) res) \<Rightarrow> hex_api \<Rightarrow> ('js, 'e) res" where
  "js_canonized_fingerprints to_value X =
     expect ''called `Result::unwrap()` on an `Err` value''
       (to_value \<lparr>fp_merge_macc_bin_sha256 = hex0x X MERGE_MACC_BIN_SHA256,
                  fp_historical_roots_ssz_sha256 = hex0x X HISTORICAL_ROOTS_SSZ_SHA256\<rparr>)"

subsection \<open>What a call verifies\<close>

text \<open>
  A verifier fresh from \<open>Verifier::new()\<close>, without the type of the errors it never returns, and
  the block that it verifies in encoded bytes.  The target's view of a decoded header comes in between:
  itself where \<open>usize\<close> has 64 bits, with its slot wrapped where it has 32.
\<close>

definition new_verifier :: "assets_api \<Rightarrow> snapshots \<Rightarrow> Verifier \<Rightarrow> snapshots \<Rightarrow> bool" where
  "new_verifier E st V st' \<longleftrightarrow>
     fingerprinted E \<and>
     (\<exists>macc raw acc roots p. embedded E macc raw acc roots \<and> provider_new [] st = (p, st') \<and>
        V = \<lparr>validator = \<lparr>pre_merge_acc = acc, historical_roots_acc = \<lparr>historical_roots = roots\<rparr>,
               historical_summaries_provider = p\<rparr>, data_sources = []\<rparr>)"

lemma verifier_new_Ok_iff: "verifier_new E st = Ok (V, st') \<longleftrightarrow> new_verifier E st V st'"
  by (simp add: verifier_new_def builder_build_Ok_iff new_verifier_def builder_new_def)

lemma new_verifier_snapshot:
  "new_verifier E st V st' \<Longrightarrow>
    read_summaries st' (historical_summaries_provider (validator V)) = []"
  by (auto simp: new_verifier_def summaries_store.alloc_read)

definition library_verifies ::
  "(HeaderWithProof \<Rightarrow> HeaderWithProof) \<Rightarrow> assets_api \<Rightarrow> hashing \<Rightarrow> alloy_api \<Rightarrow> ssz_api \<Rightarrow> snapshots \<Rightarrow> bytes \<Rightarrow> VerifiedBlock \<Rightarrow> bool" where
  "library_verifies view E H A S st bs vb \<longleftrightarrow>
     (\<exists>V st' hwp. new_verifier E st V st' \<and> hwp_from_ssz_bytes A S bs = Ok hwp \<and>
        verify H A st' V (view hwp) = Ok vb)"

definition view_ok :: "(HeaderWithProof \<Rightarrow> HeaderWithProof) \<Rightarrow> bool" where
  "view_ok view \<longleftrightarrow> (\<forall>hwp. header (view hwp) = header hwp \<and>
     proof_wf (hwp_proof (view hwp)) = proof_wf (hwp_proof hwp) \<and>
     auth_path_for (hwp_proof (view hwp)) = auth_path_for (hwp_proof hwp))"

lemma view_ok_simps [simp]: "view_ok (\<lambda>hwp. hwp)" "view_ok wasm_view"
  by (simp_all add: view_ok_def)

lemma library_verifies_era:
  assumes "hashing_ok H" "alloy_ok A" "ssz_ok S" "view_ok view" "library_verifies view E H A S st bs vb"
  shows "vb_auth_path vb = era_of (vb_header vb)"
    and "vb_auth_path vb \<in> {AuthHistoricalHashes, AuthHistoricalRoots}"
    and "map_ok header (hwp_from_ssz_bytes A S bs) = Ok (vb_header vb)"
proof -
  from assms(5) obtain V st' hwp where V: "new_verifier E st V st'"
    and dec: "hwp_from_ssz_bytes A S bs = Ok hwp" and ok: "verify H A st' V (view hwp) = Ok vb"
    by (auto simp: library_verifies_def)
  from hwp_from_ssz_Ok [OF dec] assms(3)
  have wf: "proof_wf (hwp_proof hwp)" and era: "auth_path_for (hwp_proof hwp) = era_of (header hwp)"
    by blast+
  have view: "header (view hwp) = header hwp" "proof_wf (hwp_proof (view hwp))"
      "auth_path_for (hwp_proof (view hwp)) = auth_path_for (hwp_proof hwp)"
    using assms(4) wf by (auto simp: view_ok_def)
  have vb: "vb = \<lparr>vb_header = header hwp, vb_auth_path = auth_path_for (hwp_proof hwp)\<rparr>"
    and acc: "validate_header_with_proof H A st' (validator V) (view hwp) = Ok ()"
    using ok view by (simp_all add: verify_Ok_iff)
  show "vb_auth_path vb = era_of (vb_header vb)" using era vb by simp
  show "map_ok header (hwp_from_ssz_bytes A S bs) = Ok (vb_header vb)" using dec vb by simp
  have "\<nexists>s. get_historical_summary st' (historical_summaries_provider (validator V)) sl = Ok s" for sl
    using new_verifier_snapshot [OF V] by (simp add: get_historical_summary_Ok_iff)
  then have "auth_path_for (hwp_proof (view hwp)) \<in> {AuthHistoricalHashes, AuthHistoricalRoots}"
    using acc validate_Ok_iff [OF assms(1,2) view(2), of st' "validator V" "()"]
    by (cases "hwp_proof (view hwp)") (auto split: res.splits)
  then show "vb_auth_path vb \<in> {AuthHistoricalHashes, AuthHistoricalRoots}" using vb view(3) by simp
qed

subsection \<open>The contract of a binding\<close>

locale library_binding =
  fixes view :: "HeaderWithProof \<Rightarrow> HeaderWithProof"
    and E :: assets_api and H :: hashing and A :: alloy_api and S :: ssz_api and st :: snapshots
    and run :: "'i \<Rightarrow> ('v, 'e) res" and input :: "'i \<Rightarrow> bytes option"
    and reports :: "VerifiedBlock \<Rightarrow> 'v \<Rightarrow> bool"
  assumes view: "view_ok view"
    and run_Ok_iff: "run i = Ok v \<longleftrightarrow>
    (\<exists>bs vb. input i = Some bs \<and> library_verifies view E H A S st bs vb \<and> reports vb v)"
begin

lemma reported_era:
  assumes "hashing_ok H" "alloy_ok A" "ssz_ok S" "run i = Ok v"
  shows "\<exists>vb. reports vb v \<and> vb_auth_path vb \<in> {AuthHistoricalHashes, AuthHistoricalRoots}"
  using assms library_verifies_era(2) [OF assms(1-3) view] by (auto simp: run_Ok_iff) blast+

lemma refuses_shanghai:
  assumes "hashing_ok H" "alloy_ok A" "ssz_ok S"
    and "input i = Some bs" "hwp_from_ssz_bytes A S bs = Ok hwp"
    and "is_shanghai_active_at_timestamp (timestamp (header hwp))"
  shows "run i \<noteq> Ok v"
proof
  assume "run i = Ok v"
  then obtain vb where vb: "library_verifies view E H A S st bs vb" using assms(4) by (auto simp: run_Ok_iff)
  then show False
    using library_verifies_era [OF assms(1-3) view vb] assms(5,6)
    by (auto simp: era_of_def split: if_splits)
qed

end

text \<open>How a caller in Go reads the struct, and the bytes that a pointer and a length denote.\<close>

definition go_run :: "(FfiVerifyResult, unit) res \<Rightarrow> (FfiVerifyResult, string option) res" where
  "go_run r =
     (case r of
        Ok x \<Rightarrow> if ffi_ok x = 1 then Ok x else Err (ffi_error x)
      | Err _ \<Rightarrow> Err None
      | Panic p \<Rightarrow> Panic p)"

definition denoted :: "byte ptr \<times> usize \<Rightarrow> bytes option" where
  "denoted = (\<lambda>(p, len).
     if len = 0 then Some []
     else case p of
       Some mem \<Rightarrow> if unat len \<le> length mem then Some (take (unat len) mem) else None
     | None \<Rightarrow> None)"

lemma ffi_ok_simps [simp]: "ffi_ok (make_error m) = 0" "ffi_ok (ffi_success A vb) = 1"
  by (simp_all add: make_error_def ffi_default_def ffi_success_def Let_def)

lemma go_run_Ok_iff [simp]: "go_run r = Ok x \<longleftrightarrow> r = Ok x \<and> ffi_ok x = 1"
  by (auto simp: go_run_def split: res.splits)

lemma go_input:
  "denoted (p, len) = Some bs \<Longrightarrow> go_verify_header_with_proof F E H A S st p len =
     (case hwp_from_ssz_bytes A S bs of
        Err e \<Rightarrow> Ok (make_error (''SSZ decode failed: '' @ debug_decode F e))
      | Panic p \<Rightarrow> Panic p
      | Ok hwp \<Rightarrow>
          and_then (verifier_new E st) (\<lambda>(verifier, st').
          case verify H A st' verifier hwp of
            Err e \<Rightarrow> Ok (make_error (''verification failed: '' @ display_error F e))
          | Panic p \<Rightarrow> Panic p
          | Ok verified \<Rightarrow> Ok (ffi_success A verified)))"
  by (auto simp: denoted_def go_verify_header_with_proof_def from_raw_parts_def
      split: if_splits option.splits)

lemma go_no_input:
  "denoted (p, len) = None \<Longrightarrow> go_verify_header_with_proof F E H A S st p len = Ok r \<Longrightarrow> ffi_ok r = 0"
  by (auto simp: denoted_def go_verify_header_with_proof_def from_raw_parts_def
      split: if_splits option.splits)

lemma go_success:
  assumes "denoted (p, len) = Some bs" "go_verify_header_with_proof F E H A S st p len = Ok r"
    and "ffi_ok r = 1"
  shows "\<exists>vb. library_verifies (\<lambda>hwp. hwp) E H A S st bs vb \<and> r = ffi_success A vb"
proof -
  obtain hwp where dec: "hwp_from_ssz_bytes A S bs = Ok hwp"
    using assms by (cases "hwp_from_ssz_bytes A S bs") (auto simp: go_input)
  obtain V st' where V: "verifier_new E st = (Ok (V, st') :: (_, unit) res)"
    using assms(2) by (cases "verifier_new E st :: (_, unit) res") (auto simp: go_input [OF assms(1)] dec)
  obtain vb where vb: "verify H A st' V hwp = Ok vb"
    using assms(2,3) by (cases "verify H A st' V hwp") (auto simp: go_input [OF assms(1)] dec V)
  have "new_verifier E st V st'" using V by (simp add: verifier_new_Ok_iff)
  moreover have "r = ffi_success A vb" using assms(2) by (simp add: go_input [OF assms(1)] dec V vb)
  ultimately show ?thesis using dec vb by (auto simp: library_verifies_def)
qed

lemma go_reports:
  assumes "denoted (p, len) = Some bs" "library_verifies (\<lambda>hwp. hwp) E H A S st bs vb"
  shows "go_verify_header_with_proof F E H A S st p len = Ok (ffi_success A vb)"
proof -
  obtain V st' hwp where V: "new_verifier E st V st'" and "hwp_from_ssz_bytes A S bs = Ok hwp"
      "verify H A st' V hwp = Ok vb"
    using assms(2) by (auto simp: library_verifies_def)
  moreover have "verifier_new E st = (Ok (V, st') :: (_, unit) res)"
    using V by (simp add: verifier_new_Ok_iff)
  ultimately show ?thesis by (simp add: go_input [OF assms(1)])
qed

interpretation go: library_binding "\<lambda>hwp. hwp" E H A S st
  "\<lambda>(p, len). go_run (go_verify_header_with_proof F E H A S st p len)" denoted
  "\<lambda>vb r. r = ffi_success A vb" for F E H A S st
proof unfold_locales
  show "view_ok (\<lambda>hwp. hwp)" by simp
next
  fix i :: "byte ptr \<times> usize" and r
  obtain p len where i: "i = (p, len)" by (cases i)
  show "(case i of (p, len) \<Rightarrow> go_run (go_verify_header_with_proof F E H A S st p len)) = Ok r \<longleftrightarrow>
      (\<exists>bs vb. denoted i = Some bs \<and> library_verifies (\<lambda>hwp. hwp) E H A S st bs vb \<and> r = ffi_success A vb)"
  proof (cases "denoted (p, len)")
    case None
    then show ?thesis using go_no_input [OF None, of F E H A S st r] by (auto simp: i)
  next
    case (Some bs)
    then show ?thesis using go_success [OF Some] go_reports [OF Some] by (auto simp: i)
  qed
qed

interpretation py: library_binding "\<lambda>hwp. hwp" E H A S st "py_verify_header_with_proof F X E H A S st" Some
  "\<lambda>vb v. v = py_success X A vb" for F X E H A S st
  by unfold_locales
    (auto simp: py_verify_header_with_proof_def library_verifies_def and_then_Ok_iff
      verifier_new_Ok_iff)

interpretation js: library_binding wasm_view E H A S st
  "js_verify_header_with_proof to_value F X E H A S st" Some
  "\<lambda>vb v. to_value (js_block X A vb) = Ok v" for to_value F X E H A S st
  by unfold_locales
    (auto simp: js_verify_header_with_proof_def library_verifies_def and_then_Ok_iff
      verifier_new_Ok_iff wasm_verify_eq)

text \<open>The struct of the C interface carries all that the other two bindings report.\<close>

lemma ffi_auth_path_inject [simp]: "ffi_auth_path a = ffi_auth_path b \<longleftrightarrow> a = b"
  by (cases a; cases b) simp_all

lemma ffi_determines:
  assumes "ffi_success A vb = ffi_success A vb'"
  shows "py_success X A vb = py_success X A vb'" "js_block X A vb = js_block X A vb'"
  using assms by (simp_all add: ffi_success_def py_success_def js_block_def Let_def)

lemma denoted_list: "length bs < 2 ^ 64 \<Longrightarrow> denoted (Some bs, word_of_nat (length bs)) = Some bs"
  by (auto simp: denoted_def unat_of_nat word_of_nat_eq_0_iff take_bit_nat_eq_self)

subsection \<open>Inclusion through pointers\<close>

lemma node_slices_loop_eq:
  "list_all2 (\<lambda>i n. denoted i = Some n) xs nodes \<Longrightarrow> node_slices_loop xs out = Ok (out @ nodes)"
proof (induction xs nodes arbitrary: out rule: list_all2_induct)
  case (Cons i xs n nodes)
  then show ?case
    by (cases i) (auto simp: denoted_def from_raw_parts_def split: if_splits option.splits)
qed simp

lemma parse_nodes_loop_eq [simp]: "parse_nodes_loop u vs out = out @ map u vs"
  by (induction vs arbitrary: out) simp_all

lemma proof_node_slices_eq:
  assumes "length ptrs = length lens" "length lens < 2 ^ 64"
    and "list_all2 (\<lambda>i n. denoted i = Some n) (zip ptrs lens) nodes"
  shows "proof_node_slices (Some ptrs) (Some lens) (word_of_nat (length lens)) = Ok nodes"
  using assms list_all2_lengthD [OF assms(3)]
  by (auto simp: proof_node_slices_def from_raw_parts_def node_slices_loop_eq unat_of_nat
      take_bit_nat_eq_self word_of_nat_eq_0_iff)

end
