(* ===== verification/Bindings_Properties.thy ===== *)
theory Bindings_Properties
  imports Bindings
begin

text \<open>
  The claims about the language bindings: they verify the same bytes and report the same block, and
  none of them can verify a block from Shanghai on.
\<close>

definition sample_text :: text_api where
  "sample_text = \<lparr>display_error = (\<lambda>_. ''error''), debug_decode = (\<lambda>_. ''decode'')\<rparr>"

definition sample_merge_assets :: assets_api where
  "sample_merge_assets = sample_assets\<lparr>roots_list_from_ssz := (\<lambda>_. Ok
     (historical_roots (historical_roots_acc sample_merge_validator)))\<rparr>"

definition encoded :: "HeaderWithProof \<Rightarrow> bytes" where
  "encoded hwp = hwp_as_ssz_bytes sample_alloy sample_ssz hwp"

lemma length_encoded: "proof_wf (hwp_proof hwp) \<Longrightarrow> length (encoded hwp) < 2 ^ 64"
  using proof_ssz_roundtrip(1) [OF ssz_ok_sample, of "hwp_proof hwp"]
  by (simp add: encoded_def hwp_as_ssz_bytes_def header_ssz_append_def)
    (simp add: sample_ssz_def sample_encode_pair_def)

abbreviation sample_merge_verifier :: Verifier where
  "sample_merge_verifier \<equiv> \<lparr>validator = sample_merge_validator, data_sources = []\<rparr>"

lemma sample_merge_new: "new_verifier sample_merge_assets [] sample_merge_verifier [[]]"
  by (simp add: new_verifier_def fingerprinted_def embedded_def sample_merge_assets_def
      sample_assets_def provider_new_def sample_merge_validator_def sample_validator_def)

lemma sample_merge_verifies:
  "library_verifies (\<lambda>hwp. hwp) sample_merge_assets sample_hashing sample_alloy sample_ssz []
     (encoded sample_merge_hwp) sample_verified"
proof -
  have "verify sample_hashing sample_alloy [[]] sample_merge_verifier sample_merge_hwp = Ok sample_verified"
    by (simp add: verify_Ok_iff sample_verified_def sample_merge_era sample_merge_hwp_def
        sample_merge_accepted [unfolded sample_merge_hwp_def])
  then show ?thesis
    using sample_merge_decodes sample_merge_new by (auto simp: library_verifies_def encoded_def)
qed

text \<open>The same proof with the slot \<open>2 ^ 45\<close> later: the era is \<open>2 ^ 32\<close>.\<close>

definition sample_far_hwp :: HeaderWithProof where
  "sample_far_hwp = \<lparr>header = sample_merge_header, hwp_proof = HistoricalRoots
     (sample_historical 14 11 3228 (hash_slow sample_alloy sample_merge_header) (2 ^ 45 + 5))\<rparr>"

lemma sample_far_decodes:
  "hwp_from_ssz_bytes sample_alloy sample_ssz (encoded sample_far_hwp) = Ok sample_far_hwp"
  unfolding encoded_def
  by (rule hwp_ssz_roundtrip) (simp_all add: sample_far_hwp_def sample_merge_header_def sample_merge_era [unfolded sample_merge_header_def])

lemma sample_far_view: "wasm_view sample_far_hwp = sample_merge_hwp"
  by (simp add: wasm_view_def wrap_roots_def sample_far_hwp_def sample_merge_hwp_def
      sample_historical_def)

lemma sample_far_panics:
  "is_panic (go_verify_header_with_proof sample_text sample_merge_assets sample_hashing sample_alloy
      sample_ssz [] (Some (encoded sample_far_hwp)) (word_of_nat (length (encoded sample_far_hwp))))"
proof -
  have wf: "proof_wf (hwp_proof sample_far_hwp)" by (simp add: sample_far_hwp_def)
  have "is_panic (validate_header_with_proof sample_hashing sample_alloy [[]] sample_merge_validator sample_far_hwp)"
    using validate_panic_iff [OF hashing_ok_sample alloy_ok_sample wf, of "[[]]" sample_merge_validator]
    by (simp add: sample_far_hwp_def sample_historical_def sample_root_def sample_merge_header_def
        activation_unat sample_merge_validator_def sample_validator_def)
  then obtain m where "validate_header_with_proof sample_hashing sample_alloy [[]] sample_merge_validator
      sample_far_hwp = Panic m"
    by (auto simp: is_panic_iff)
  then have "verify sample_hashing sample_alloy [[]] sample_merge_verifier sample_far_hwp = Panic m"
    by (simp add: verify_def)
  moreover have "verifier_new sample_merge_assets [] = (Ok (sample_merge_verifier, [[]]) :: (_, unit) res)"
    using sample_merge_new by (simp add: verifier_new_Ok_iff)
  moreover have "length (encoded sample_far_hwp) < 2 ^ 64"
    by (rule length_encoded) (simp add: sample_far_hwp_def)
  ultimately show ?thesis
    by (simp add: go_input [OF denoted_list] sample_far_decodes)
qed

lemma go_success_iff:
  assumes "length bs < 2 ^ 64"
  shows "go_verify_header_with_proof F E H A S st (Some bs) (word_of_nat (length bs)) = Ok (ffi_success A vb) \<longleftrightarrow>
    (\<exists>vb'. library_verifies (\<lambda>hwp. hwp) E H A S st bs vb' \<and> ffi_success A vb = ffi_success A vb')"
  using go.run_Ok_iff [of F E H A S st "(Some bs, word_of_nat (length bs))" "ffi_success A vb"]
  by (simp add: denoted_list [OF assms])

lemma js_go_iff:
  assumes "length bs' < 2 ^ 64"
    and "hwp_from_ssz_bytes A S bs' = map_ok wasm_view (hwp_from_ssz_bytes A S bs)"
  shows "js_verify_header_with_proof to_value F X E H A S st bs = Ok w \<longleftrightarrow>
      (\<exists>vb. go_verify_header_with_proof F E H A S st (Some bs') (word_of_nat (length bs'))
          = Ok (ffi_success A vb) \<and> to_value (js_block X A vb) = Ok w)"
proof -
  have "library_verifies wasm_view E H A S st bs vb \<longleftrightarrow> library_verifies (\<lambda>hwp. hwp) E H A S st bs' vb" for vb
    using assms(2) by (cases "hwp_from_ssz_bytes A S bs") (auto simp: library_verifies_def)
  then show ?thesis
    unfolding js.run_Ok_iff go_success_iff [OF assms(1)] by (auto dest: ffi_determines) (metis ffi_determines(2))
qed

subsection \<open>Claims\<close>

text \<open>
  C36.  What the bindings accept, compared with the C interface on a host whose \<open>usize\<close> has 64 bits.
  The Python module, on such a host too, returns a block for exactly the bytes for which the C
  interface fills in a success, and the same block.  The WebAssembly module runs with a \<open>usize\<close> of 32
  bits, to which the validator cuts the number of the era: it returns an object for exactly the
  bytes whose header and proof, with the slot reduced to 45 bits (counted from the start of Capella
  for the summaries), make the C interface succeed, and reports the same block.  For slots below
  \<open>2 ^ 45\<close> that is agreement on the same bytes.  Beyond, the module accepts what the others do not:
  the witness has one proof, for one block, with which WebAssembly reports the block although the C
  interface panics on it.
\<close>

theorem bindings_agree:
  assumes "length bs < 2 ^ 64" "length bs' < 2 ^ 64"
    and "hwp_from_ssz_bytes A S bs' = map_ok wasm_view (hwp_from_ssz_bytes A S bs)"
  shows "(py_verify_header_with_proof F X E H A S st bs = Ok v \<longleftrightarrow>
      (\<exists>vb. go_verify_header_with_proof F E H A S st (Some bs) (word_of_nat (length bs))
          = Ok (ffi_success A vb) \<and> v = py_success X A vb)) \<and>
    (js_verify_header_with_proof to_value F X E H A S st bs = Ok w \<longleftrightarrow>
      (\<exists>vb. go_verify_header_with_proof F E H A S st (Some bs') (word_of_nat (length bs'))
          = Ok (ffi_success A vb) \<and> to_value (js_block X A vb) = Ok w)) \<and>
    (map_ok (\<lambda>hwp. slot_fits (hwp_proof hwp)) (hwp_from_ssz_bytes A S bs) = Ok True \<longrightarrow>
      (js_verify_header_with_proof to_value F X E H A S st bs = Ok w \<longleftrightarrow>
        (\<exists>vb. go_verify_header_with_proof F E H A S st (Some bs) (word_of_nat (length bs))
            = Ok (ffi_success A vb) \<and> to_value (js_block X A vb) = Ok w)))"
proof (intro conjI impI)
  show "py_verify_header_with_proof F X E H A S st bs = Ok v \<longleftrightarrow>
      (\<exists>vb. go_verify_header_with_proof F E H A S st (Some bs) (word_of_nat (length bs))
          = Ok (ffi_success A vb) \<and> v = py_success X A vb)"
    unfolding py.run_Ok_iff go_success_iff [OF assms(1)] by (auto dest: ffi_determines)
  show js: "js_verify_header_with_proof to_value F X E H A S st bs = Ok w \<longleftrightarrow>
      (\<exists>vb. go_verify_header_with_proof F E H A S st (Some bs') (word_of_nat (length bs'))
          = Ok (ffi_success A vb) \<and> to_value (js_block X A vb) = Ok w)"
    by (rule js_go_iff [OF assms(2,3)])
  assume "map_ok (\<lambda>hwp. slot_fits (hwp_proof hwp)) (hwp_from_ssz_bytes A S bs) = Ok True"
  then have "hwp_from_ssz_bytes A S bs = map_ok wasm_view (hwp_from_ssz_bytes A S bs)"
    by (cases "hwp_from_ssz_bytes A S bs") (simp_all add: wasm_view_small)
  then show "js_verify_header_with_proof to_value F X E H A S st bs = Ok w \<longleftrightarrow>
      (\<exists>vb. go_verify_header_with_proof F E H A S st (Some bs) (word_of_nat (length bs))
          = Ok (ffi_success A vb) \<and> to_value (js_block X A vb) = Ok w)"
    by (rule js_go_iff [OF assms(1)])
qed

theorem bindings_agree_witness:
  "js_verify_header_with_proof Ok sample_text sample_hex sample_merge_assets sample_hashing sample_alloy
      sample_ssz [] (encoded sample_far_hwp) = Ok (js_block sample_hex sample_alloy sample_verified) \<and>
   is_panic (go_verify_header_with_proof sample_text sample_merge_assets sample_hashing sample_alloy
      sample_ssz [] (Some (encoded sample_far_hwp)) (word_of_nat (length (encoded sample_far_hwp)))) \<and>
   py_verify_header_with_proof sample_text sample_hex sample_merge_assets sample_hashing sample_alloy
      sample_ssz [] (encoded sample_far_hwp) \<noteq> Ok (py_success sample_hex sample_alloy sample_verified)"
proof -
  let ?far = "encoded sample_far_hwp" and ?near = "encoded sample_merge_hwp"
  have len: "length ?far < 2 ^ 64" "length ?near < 2 ^ 64"
    by (rule length_encoded; simp add: sample_far_hwp_def)+
  have dec: "hwp_from_ssz_bytes sample_alloy sample_ssz ?near
      = map_ok wasm_view (hwp_from_ssz_bytes sample_alloy sample_ssz ?far)"
    using sample_merge_decodes [folded encoded_def] by (simp add: sample_far_decodes sample_far_view)
  have "go_verify_header_with_proof sample_text sample_merge_assets sample_hashing sample_alloy sample_ssz []
      (Some ?near) (word_of_nat (length ?near)) = Ok (ffi_success sample_alloy sample_verified)"
    by (rule go_reports [OF denoted_list [OF len(2)] sample_merge_verifies])
  moreover note sample_far_panics
  ultimately show ?thesis
    using bindings_agree [OF len dec, of sample_text sample_hex sample_merge_assets sample_hashing "[]"
        _ Ok]
    by auto
qed

text \<open>
  C16.  The bindings cannot verify a block from Shanghai on, whatever its proof: they build the
  verifier without a snapshot of historical summaries and offer no way to set one.  A success of
  the C interface carries the authentication path 0 or 1; the values 2 and 3 are never returned.
\<close>

theorem bindings_stop_at_shanghai:
  assumes "hashing_ok H" "alloy_ok A" "ssz_ok S" "length bs < 2 ^ 64"
    and "hwp_from_ssz_bytes A S bs = Ok hwp" "is_shanghai_active_at_timestamp (timestamp (header hwp))"
  shows "\<not> is_Ok (go_run (go_verify_header_with_proof F E H A S st (Some bs) (word_of_nat (length bs)))) \<and>
    \<not> is_Ok (py_verify_header_with_proof F X E H A S st bs) \<and>
    \<not> is_Ok (js_verify_header_with_proof to_value F X E H A S st bs) \<and>
    (go_verify_header_with_proof F E H A S st p len = Ok r \<and> ffi_ok r = 1 \<longrightarrow> ffi_path r \<in> {0, 1})"
proof (intro conjI impI)
  show "\<not> is_Ok (go_run (go_verify_header_with_proof F E H A S st (Some bs) (word_of_nat (length bs))))"
    using go.refuses_shanghai [OF assms(1-3) denoted_list [OF assms(4)] assms(5,6), of F E st]
    by (auto simp: is_Ok_iff)
  show "\<not> is_Ok (py_verify_header_with_proof F X E H A S st bs)"
    using py.refuses_shanghai [OF assms(1-3) refl assms(5,6)] by (auto simp: is_Ok_iff)
  show "\<not> is_Ok (js_verify_header_with_proof to_value F X E H A S st bs)"
    by (auto simp: is_Ok_iff js.refuses_shanghai [OF assms(1-3) refl assms(5,6)])
  assume "go_verify_header_with_proof F E H A S st p len = Ok r \<and> ffi_ok r = 1"
  then show "ffi_path r \<in> {0, 1}"
    using go.reported_era [OF assms(1-3), of F E st "(p, len)" r]
    by (auto simp: ffi_success_def Let_def)
qed

theorem bindings_stop_at_shanghai_witness:
  "\<not> is_Ok (py_verify_header_with_proof sample_text sample_hex sample_merge_assets sample_hashing
      sample_alloy sample_ssz [] (encoded \<lparr>header = sample_header 20000000 1720000000,
        hwp_proof = HistoricalSummariesDeneb (sample_historical 13 12 6444 b256_ZERO 9431331)\<rparr>))"
proof -
  let ?hwp = "\<lparr>header = sample_header 20000000 1720000000,
    hwp_proof = HistoricalSummariesDeneb (sample_historical 13 12 6444 b256_ZERO 9431331)\<rparr>"
  have dec: "hwp_from_ssz_bytes sample_alloy sample_ssz (encoded ?hwp) = Ok ?hwp"
    unfolding encoded_def by (rule hwp_ssz_roundtrip) (simp_all add: era_of_def activation_unat)
  show ?thesis
    by (rule bindings_stop_at_shanghai [OF hashing_ok_sample alloy_ok_sample ssz_ok_sample
          length_encoded dec, THEN conjunct2, THEN conjunct1])
      (simp_all add: activation_unat)
qed

end
