(* ===== verification/Interleaved_Calls.thy ===== *)
theory Interleaved_Calls
  imports Verifier_Properties
begin

text \<open>
  A call of \<open>verify_block_by_number\<close> or \<open>verify_block_by_hash\<close> while other tasks refresh the snapshot
  (\<open>src/api.rs\<close>, \<open>src/historical_summaries_provider.rs\<close>).  The loop over the sources is suspended
  in every fetch, so a \<open>set_historical_summaries\<close> of another task can run between two attempts.  One
  attempt takes the read lock at most once, so it sees one snapshot.

  A configuration is the state of the call with the store of snapshots; a step is an attempt of the
  call or a refresh by anyone.  A run is labelled by its steps.

  The future of a fetch need not resolve: a node can accept a connection and never answer, and the
  loop has no timeout of its own (\<open>src/sources/beacon_rpc.rs\<close> has a client without one).  Which sources
  answer is a parameter, \<open>resolves\<close>; a call has no step for a source that does not.
\<close>

subsection \<open>Steps\<close>

datatype ('s, 'v, 'e) call = Running "'s list" "'e option" | Finished "('v, 'e) res"

datatype step_label = Attempt | Refresh

text \<open>
  \<open>attempt st s\<close> is the body of the loop for the source \<open>s\<close> on the store \<open>st\<close>, \<open>nothing\<close> the error of
  a call without attempts.
\<close>

inductive loop_step ::
  "('s \<Rightarrow> bool) \<Rightarrow> ('t \<Rightarrow> 's \<Rightarrow> ('v, 'e) res) \<Rightarrow> 'e \<Rightarrow> ('t \<Rightarrow> 't \<Rightarrow> bool) \<Rightarrow> step_label
     \<Rightarrow> ('s, 'v, 'e) call \<times> 't \<Rightarrow> ('s, 'v, 'e) call \<times> 't \<Rightarrow> bool"
  for resolves attempt nothing refresh where
  Attempt_Ok: "resolves s \<Longrightarrow> attempt st s = Ok v \<Longrightarrow>
    loop_step resolves attempt nothing refresh Attempt (Running (s # ss) prev, st) (Finished (Ok v), st)"
| Attempt_Err: "resolves s \<Longrightarrow> attempt st s = Err e \<Longrightarrow>
    loop_step resolves attempt nothing refresh Attempt (Running (s # ss) prev, st) (Running ss (Some e), st)"
| Attempt_Panic: "resolves s \<Longrightarrow> attempt st s = Panic p \<Longrightarrow>
    loop_step resolves attempt nothing refresh Attempt (Running (s # ss) prev, st) (Finished (Panic p), st)"
| Exhausted: "loop_step resolves attempt nothing refresh Attempt (Running [] prev, st)
    (Finished (Err (case prev of None \<Rightarrow> nothing | Some e \<Rightarrow> e)), st)"
| Refreshed: "refresh st st' \<Longrightarrow> loop_step resolves attempt nothing refresh Refresh (c, st) (c, st')"

inductive_cases attempt_stepE: "loop_step resolves attempt nothing refresh Attempt c c'"
inductive_simps finished_step_iff [simp]:
  "loop_step resolves attempt nothing refresh Attempt (Finished r, st) c'"

inductive loop_run ::
  "('s \<Rightarrow> bool) \<Rightarrow> ('t \<Rightarrow> 's \<Rightarrow> ('v, 'e) res) \<Rightarrow> 'e \<Rightarrow> ('t \<Rightarrow> 't \<Rightarrow> bool) \<Rightarrow> step_label list
     \<Rightarrow> ('s, 'v, 'e) call \<times> 't \<Rightarrow> ('s, 'v, 'e) call \<times> 't \<Rightarrow> bool"
  for resolves attempt nothing refresh where
  run_Nil: "loop_run resolves attempt nothing refresh [] c c"
| run_snoc: "loop_run resolves attempt nothing refresh ls c c' \<Longrightarrow> loop_step resolves attempt nothing refresh l c' c'' \<Longrightarrow>
    loop_run resolves attempt nothing refresh (ls @ [l]) c c''"

subsection \<open>The store and the start of a call\<close>

text \<open>A refresh through any verifier, of any task.\<close>

inductive refreshes :: "snapshots \<Rightarrow> snapshots \<Rightarrow> bool" where
  "refreshes st (set_historical_summaries W summaries st)"

text \<open>What is asked for decides the attempt, the default error and the loop.\<close>

datatype Request = ByNumber u64 | ByHash b256

fun request_attempt ::
  "hashing \<Rightarrow> alloy_api \<Rightarrow> ssz_api \<Rightarrow> snapshots \<Rightarrow> Verifier \<Rightarrow> Request \<Rightarrow> data_source
     \<Rightarrow> (VerifiedBlock, Error) res" where
  "request_attempt H A S st self (ByNumber n) source = number_attempt H A S st self n source"
| "request_attempt H A S st self (ByHash h) source = hash_attempt H A S st self h source"

fun request_fetch :: "Request \<Rightarrow> data_source \<Rightarrow> (bytes, Error) res" where
  "request_fetch (ByNumber n) source = fetch_header_with_proof_by_number source n"
| "request_fetch (ByHash h) source = fetch_header_with_proof_by_hash source h"

fun request_nothing :: "Request \<Rightarrow> Error" where
  "request_nothing (ByNumber n) = BlockNotFound n"
| "request_nothing (ByHash h) = DataSource (lit ''no source produced bytes'')"

fun request_loop ::
  "hashing \<Rightarrow> alloy_api \<Rightarrow> ssz_api \<Rightarrow> snapshots \<Rightarrow> Verifier \<Rightarrow> Request \<Rightarrow> data_source list
     \<Rightarrow> Error option \<Rightarrow> (VerifiedBlock, Error) res" where
  "request_loop H A S st self (ByNumber n) = by_number_loop H A S st self n"
| "request_loop H A S st self (ByHash h) = by_hash_loop H A S st self h"

fun verify_request ::
  "hashing \<Rightarrow> alloy_api \<Rightarrow> ssz_api \<Rightarrow> snapshots \<Rightarrow> Verifier \<Rightarrow> Request \<Rightarrow> (VerifiedBlock, Error) res" where
  "verify_request H A S st self (ByNumber n) = verify_block_by_number H A S st self n"
| "verify_request H A S st self (ByHash h) = verify_block_by_hash H A S st self h"

fun answers_request :: "alloy_api \<Rightarrow> Request \<Rightarrow> VerifiedBlock \<Rightarrow> bool" where
  "answers_request A (ByNumber n) vb \<longleftrightarrow> number (vb_header vb) = n"
| "answers_request A (ByHash h) vb \<longleftrightarrow> verified_block_hash A vb = h"

interpretation request:
  fallback "request_attempt H A S st self q" "request_loop H A S st self q" "request_nothing q"
  for H A S st self q
  by (unfold_locales; cases q)
    (simp_all add: by_number.chain_Cons by_hash.chain_Cons
      del: by_number_loop.simps(2) by_hash_loop.simps(2) cong: res.case_cong option.case_cong)

lemma verify_request_loop:
  "verify_request H A S st self q = (if data_sources self = [] then Err NoDataSource
     else request_loop H A S st self q (data_sources self) None)"
  by (cases q) (simp_all add: verify_block_by_number_def verify_block_by_hash_def)

lemma request_attempt_Ok:
  assumes "request_attempt H A S st self q source = Ok vb"
  obtains bs hwp where "request_fetch q source = Ok bs" "hwp_from_ssz_bytes A S bs = Ok hwp"
    and "answers_request A q vb"
    and "validate_header_with_proof H A st (validator self) hwp = Ok ()"
    and "vb = \<lparr>vb_header = header hwp, vb_auth_path = auth_path_for (hwp_proof hwp)\<rparr>"
  using assms
  by (cases q) (auto simp: number_attempt_Ok_iff hash_attempt_Ok_iff verified_block_hash_def)

definition start_call :: "Verifier \<Rightarrow> (data_source, VerifiedBlock, Error) call" where
  "start_call self =
     (if data_sources self = [] then Finished (Err NoDataSource) else Running (data_sources self) None)"

definition call_run ::
  "(data_source \<Rightarrow> bool) \<Rightarrow> hashing \<Rightarrow> alloy_api \<Rightarrow> ssz_api \<Rightarrow> Verifier \<Rightarrow> Request \<Rightarrow> step_label list
     \<Rightarrow> (data_source, VerifiedBlock, Error) call \<times> snapshots
     \<Rightarrow> (data_source, VerifiedBlock, Error) call \<times> snapshots \<Rightarrow> bool" where
  "call_run resolves H A S self q =
     loop_run resolves (\<lambda>st s. request_attempt H A S st self q s) (request_nothing q) refreshes"

subsection \<open>Invariants of a run\<close>

text \<open>How many attempts are left, and which sources the call can still ask.\<close>

fun fuel_left :: "('s, 'v, 'e) call \<Rightarrow> nat" where
  "fuel_left (Running ss prev) = length ss + 1"
| "fuel_left (Finished r) = 0"

fun attempts :: "step_label list \<Rightarrow> nat" where
  "attempts [] = 0"
| "attempts (l # ls) = (if l = Attempt then 1 else 0) + attempts ls"

lemma attempts_append [simp]: "attempts (ls @ ls') = attempts ls + attempts ls'"
  by (induction ls) simp_all

lemma step_fuel:
  "loop_step resolves attempt nothing refresh l (c, st) (c', st') \<Longrightarrow> fuel_left c' + attempts [l] \<le> fuel_left c"
  by (erule loop_step.cases) simp_all

lemma run_fuel:
  "loop_run resolves attempt nothing refresh ls c c' \<Longrightarrow> fuel_left (fst c') + attempts ls \<le> fuel_left (fst c)"
proof (induction rule: loop_run.induct)
  case (run_snoc ls c c' l c'')
  then show ?case using step_fuel [of resolves attempt nothing refresh l "fst c'" "snd c'" "fst c''" "snd c''"] by simp
qed simp

text \<open>A call can go on until it is finished or waits for a source that does not resolve.\<close>

fun waiting :: "('s \<Rightarrow> bool) \<Rightarrow> ('s, 'v, 'e) call \<Rightarrow> bool" where
  "waiting resolves (Running (s # ss) prev) \<longleftrightarrow> \<not> resolves s"
| "waiting resolves _ \<longleftrightarrow> False"

lemma progress:
  "(\<exists>c'. loop_step resolves attempt nothing refresh Attempt (c, st) c') \<longleftrightarrow>
    (\<forall>r. c \<noteq> Finished r) \<and> \<not> waiting resolves c"
proof (cases c)
  case (Running ss prev)
  show ?thesis
  proof (cases ss)
    case (Cons s ss')
    then show ?thesis
      by (cases "attempt st s") (auto simp: Running intro: loop_step.intros elim: attempt_stepE)
  qed (auto simp: Running intro: loop_step.intros)
qed simp

lemma run_cons:
  "loop_run resolves attempt nothing refresh ls c' c'' \<Longrightarrow> loop_step resolves attempt nothing refresh l c c' \<Longrightarrow>
    loop_run resolves attempt nothing refresh (l # ls) c c''"
proof (induction rule: loop_run.induct)
  case (run_Nil c')
  from loop_run.run_snoc [OF loop_run.run_Nil run_Nil] show ?case by simp
next
  case (run_snoc ls c' c1 l' c2)
  from loop_run.run_snoc [OF run_snoc.IH [OF run_snoc.prems] run_snoc.hyps(2)] show ?case by simp
qed

text \<open>A source that does not resolve, behind sources that fail, is never passed.\<close>

lemma blocked:
  assumes "loop_run resolves attempt nothing refresh ls c c'"
    and "fst c = Running (pre @ s # post) prev" "\<not> resolves s" "P (snd c)"
    and "\<And>st st'. refresh st st' \<Longrightarrow> P st \<Longrightarrow> P st'"
    and "\<And>st x. P st \<Longrightarrow> x \<in> set pre \<Longrightarrow> \<exists>e. attempt st x = Err e"
  shows "P (snd c') \<and> (\<exists>pre' prev'. fst c' = Running (pre' @ s # post) prev' \<and> set pre' \<subseteq> set pre)"
  using assms(1,2,4)
proof (induction rule: loop_run.induct)
  case (run_snoc ls c c' l c'')
  then obtain pre' prev' where P: "P (snd c')" and c': "fst c' = Running (pre' @ s # post) prev'" "set pre' \<subseteq> set pre"
    by blast
  from run_snoc.hyps(2) show ?case
  proof (cases rule: loop_step.cases)
    case (Refreshed st st' d)
    then show ?thesis using P c' assms(5) by auto
  next
    case (Attempt_Err x st e ss p)
    then show ?thesis using P c' assms(3) by (cases pre') auto
  qed (use P c' assms(3,6) in \<open>cases pre'; fastforce\<close>)+
qed auto

lemma quiet_steps:
  "loop_run resolves attempt nothing refresh ls c c' \<Longrightarrow> Refresh \<notin> set ls \<Longrightarrow>
    loop_run resolves attempt nothing (\<lambda>_ _. False) ls c c'"
proof (induction rule: loop_run.induct)
  case (run_snoc ls c c' l c'')
  from run_snoc.hyps(2) run_snoc.prems have "loop_step resolves attempt nothing (\<lambda>_ _. False) l c' c''"
    by (cases rule: loop_step.cases) (auto intro: loop_step.intros)
  with run_snoc show ?case by (auto intro: loop_run.run_snoc)
qed (rule loop_run.run_Nil)

text \<open>When every source that is reached resolves, the loop runs to its end.\<close>

lemma run_to_end:
  assumes "fallback (attempt st) chain nothing"
    and "\<forall>pre s post. ss = pre @ s # post \<and> (\<forall>x \<in> set pre. \<exists>e. attempt st x = Err e) \<longrightarrow> resolves s"
  shows "\<exists>ls. Refresh \<notin> set ls \<and>
    loop_run resolves attempt nothing refresh ls (Running ss prev, st) (Finished (chain ss prev), st)"
  using assms(2)
proof (induction ss arbitrary: prev)
  case Nil
  have "loop_step resolves attempt nothing refresh Attempt (Running [] prev, st) (Finished (chain [] prev), st)"
    by (simp add: fallback.chain_Nil [OF assms(1)] loop_step.Exhausted)
  from run_cons [OF loop_run.run_Nil this] show ?case by (intro exI [of _ "[Attempt]"]) simp
next
  case (Cons s ss)
  have s: "resolves s" using Cons.prems [rule_format, of "[]" s ss] by simp
  show ?case
  proof (cases "attempt st s")
    case (Err e)
    have "resolves x" if "ss = pre @ x # post" "\<forall>y \<in> set pre. \<exists>e. attempt st y = Err e" for pre x post
      using Cons.prems [rule_format, of "s # pre" x post] that Err by auto
    with Cons.IH [of "Some e"] obtain ls where "Refresh \<notin> set ls"
      and run: "loop_run resolves attempt nothing refresh ls (Running ss (Some e), st) (Finished (chain ss (Some e)), st)"
      by blast
    moreover from run_cons [where l = Attempt and c = "(Running (s # ss) prev, st)", OF run] s Err
    have "loop_run resolves attempt nothing refresh (Attempt # ls) (Running (s # ss) prev, st) (Finished (chain (s # ss) prev), st)"
      by (simp add: fallback.chain_Cons [OF assms(1)] loop_step.Attempt_Err)
    ultimately show ?thesis by (intro exI [of _ "Attempt # ls"]) simp
  next
    case (Ok v)
    with s have "loop_step resolves attempt nothing refresh Attempt (Running (s # ss) prev, st) (Finished (chain (s # ss) prev), st)"
      by (simp add: fallback.chain_Cons [OF assms(1)] loop_step.Attempt_Ok)
    from run_cons [OF loop_run.run_Nil this] show ?thesis by (intro exI [of _ "[Attempt]"]) simp
  next
    case (Panic p)
    with s have "loop_step resolves attempt nothing refresh Attempt (Running (s # ss) prev, st) (Finished (chain (s # ss) prev), st)"
      by (simp add: fallback.chain_Cons [OF assms(1)] loop_step.Attempt_Panic)
    from run_cons [OF loop_run.run_Nil this] show ?thesis by (intro exI [of _ "[Attempt]"]) simp
  qed
qed

text \<open>Where a success comes from: an attempt on a configuration of the run.\<close>

lemma success_origin:
  assumes "loop_run resolves attempt nothing refresh ls c c'" "fst c' = Finished (Ok v)" "\<forall>r. fst c \<noteq> Finished r"
  shows "\<exists>ls1 ls2 s ss prev st. ls = ls1 @ Attempt # ls2 \<and>
    loop_run resolves attempt nothing refresh ls1 c (Running (s # ss) prev, st) \<and> attempt st s = Ok v"
  using assms
proof (induction rule: loop_run.induct)
  case (run_snoc ls c c' l c'')
  show ?case
  proof (cases "fst c' = Finished (Ok v)")
    case True
    with run_snoc obtain ls1 ls2 s ss prev st where "ls = ls1 @ Attempt # ls2"
      "loop_run resolves attempt nothing refresh ls1 c (Running (s # ss) prev, st)" "attempt st s = Ok v" by blast
    then show ?thesis by (intro exI [of _ ls1] exI [of _ "ls2 @ [l]"]) auto
  next
    case False
    from run_snoc.hyps(2) False run_snoc.prems(1) obtain s ss prev st where
      "l = Attempt" "c' = (Running (s # ss) prev, st)" "attempt st s = Ok v"
      by (cases rule: loop_step.cases) auto
    then show ?thesis using run_snoc.hyps(1) by (intro exI [of _ ls] exI [of _ "[]"]) auto
  qed
qed auto

text \<open>The sources of the call are asked in order: what is left is a suffix.\<close>

lemma sources_left:
  assumes "loop_run resolves attempt nothing refresh ls c c'" "fst c = Running ss0 prev0" "fst c' = Running ss prev"
  shows "\<exists>asked. ss0 = asked @ ss \<and> attempts ls = length asked"
  using assms
proof (induction arbitrary: ss prev rule: loop_run.induct)
  case (run_snoc ls c c' l c'')
  from run_snoc.hyps(2) run_snoc.prems(2)
  consider s st prev' where "l = Attempt" "c' = (Running (s # ss) prev', st)"
    | st where "l = Refresh" "c' = (Running ss prev, st)"
    by (cases rule: loop_step.cases) auto
  then show ?case
  proof cases
    case 1
    then show ?thesis using run_snoc.IH [of "s # ss" prev'] run_snoc.prems(1) by auto
  next
    case 2
    then show ?thesis using run_snoc.IH [of ss prev] run_snoc.prems(1) by auto
  qed
qed auto

text \<open>Without a refresh the run is the loop.\<close>

lemma quiet_run:
  assumes "loop_run resolves attempt nothing refresh ls c c'"
    and "fallback (attempt st) chain nothing" "Refresh \<notin> set ls" "c = (Running ss prev, st)"
  shows "snd c' = st \<and> (case fst c' of Running ss' prev' \<Rightarrow> chain ss prev = chain ss' prev'
    | Finished r \<Rightarrow> r = chain ss prev)"
  using assms
proof (induction rule: loop_run.induct)
  case (run_snoc ls c c' l c'')
  then have "l = Attempt" by (cases l) auto
  with run_snoc have IH: "snd c' = st" "case fst c' of Running ss' prev' \<Rightarrow> chain ss prev = chain ss' prev'
      | Finished r \<Rightarrow> r = chain ss prev" and step: "loop_step resolves attempt nothing refresh Attempt c' c''" by auto
  from step IH show ?case
    by (elim attempt_stepE)
      (auto simp: fallback.chain_Cons [OF assms(2)] fallback.chain_Nil [OF assms(2)])
qed simp

lemma finished_stays:
  "loop_run resolves attempt nothing refresh ls c c' \<Longrightarrow> fst c = Finished r \<Longrightarrow> fst c' = Finished r"
  by (induction rule: loop_run.induct) (auto elim: loop_step.cases)

lemma start_call_unfinished:
  assumes "loop_run resolves attempt nothing refresh ls (start_call V, st0) (c, st1)"
    and "c \<noteq> Finished (Err NoDataSource)"
  shows "start_call V = Running (data_sources V) None"
  using finished_stays [OF assms(1), of "Err NoDataSource"] assms(2)
  by (cases "data_sources V = []") (simp_all add: start_call_def)

text \<open>What every refresh keeps holds of the store throughout.\<close>

lemma run_keeps:
  assumes "loop_run resolves attempt nothing refresh ls c c'" "P (snd c)"
    and "\<And>st st'. refresh st st' \<Longrightarrow> P st \<Longrightarrow> P st'"
  shows "P (snd c')"
  using assms(1,2)
proof (induction rule: loop_run.induct)
  case (run_snoc ls c c' l c'')
  from run_snoc.hyps(2) run_snoc.IH [OF run_snoc.prems] assms(3) show ?case
    by (cases rule: loop_step.cases) auto
qed

lemma success_attempt:
  assumes "loop_run resolves attempt nothing refresh ls (start_call V, st0) (Finished (Ok vb), st1)"
  obtains ls1 ls2 source rest prev st where "ls = ls1 @ Attempt # ls2"
    and "loop_run resolves attempt nothing refresh ls1 (start_call V, st0) (Running (source # rest) prev, st)"
    and "source \<in> set (data_sources V)" "attempt st source = Ok vb"
proof -
  have start: "start_call V = Running (data_sources V) None"
    by (rule start_call_unfinished [OF assms]) simp
  from success_origin [OF assms, of vb] obtain ls1 ls2 source rest prev st where
      "ls = ls1 @ Attempt # ls2" "attempt st source = Ok vb"
    and run: "loop_run resolves attempt nothing refresh ls1 (start_call V, st0) (Running (source # rest) prev, st)"
    by (auto simp: start)
  moreover have "source \<in> set (data_sources V)"
    using sources_left [OF run, of "data_sources V" None "source # rest" prev] by (auto simp: start)
  ultimately show thesis using that by blast
qed

subsection \<open>Claims\<close>

text \<open>A sample run: the first source fails, another task refreshes, the second source delivers.\<close>

definition sample_calls :: Verifier where
  "sample_calls = sample_verifier [failing_source ''a'', sample_source sample_merge_hwp]"

definition sample_refreshed :: snapshots where
  "sample_refreshed = set_historical_summaries sample_calls [] [[]]"

lemma sample_run:
  "call_run (\<lambda>_. True) sample_hashing sample_alloy sample_ssz sample_calls (ByNumber 15600000) [Attempt, Refresh, Attempt]
     (start_call sample_calls, [[]]) (Finished (Ok sample_verified), sample_refreshed)"
proof -
  let ?start = "(start_call sample_calls, [[]])"
  let ?run = "call_run (\<lambda>_. True) sample_hashing sample_alloy sample_ssz sample_calls (ByNumber 15600000)"
  have sources: "data_sources sample_calls = [failing_source ''a'', sample_source sample_merge_hwp]"
    by (simp add: sample_calls_def sample_verifier_def)
  have "?run ([] @ [Attempt]) ?start (Running [sample_source sample_merge_hwp] (Some (Http (lit ''a''))), [[]])"
    unfolding call_run_def start_call_def sources
    by (intro run_snoc [OF run_Nil]) (simp add: sample_calls_def sample_attempts loop_step.intros)
  then have "?run (([] @ [Attempt]) @ [Refresh]) ?start
      (Running [sample_source sample_merge_hwp] (Some (Http (lit ''a''))), sample_refreshed)"
    unfolding call_run_def sample_refreshed_def
    by (rule run_snoc) (intro Refreshed refreshes.intros)
  then have "?run ((([] @ [Attempt]) @ [Refresh]) @ [Attempt]) ?start
      (Finished (Ok sample_verified), sample_refreshed)"
    unfolding call_run_def
    by (rule run_snoc) (intro Attempt_Ok; simp add: sample_calls_def sample_attempts)
  then show ?thesis by simp
qed

text \<open>
  C14.  Refreshes by other tasks cannot make a wrong block come out.  Whatever runs between
  the attempts of a call, a success carries the requested number or hash and the era of its
  header, and some attempt of the run had the validator accept that header with a well-sized proof
  on the snapshots as they were at that moment, for a source of the call.
\<close>

theorem interleaved_success_authentic:
  assumes "ssz_ok S"
    and "call_run resolves H A S V q ls (start_call V, st0) (Finished (Ok vb), st1)"
  shows "answers_request A q vb \<and> vb_auth_path vb = era_of (vb_header vb) \<and>
    (\<exists>ls1 ls2 source rest prev st proof. ls = ls1 @ Attempt # ls2 \<and>
       call_run resolves H A S V q ls1 (start_call V, st0) (Running (source # rest) prev, st) \<and>
       source \<in> set (data_sources V) \<and> proof_wf proof \<and> auth_path_for proof = vb_auth_path vb \<and>
       validate_header_with_proof H A st (validator V) \<lparr>header = vb_header vb, hwp_proof = proof\<rparr> = Ok ())"
proof -
  obtain ls1 ls2 source rest prev st where ls: "ls = ls1 @ Attempt # ls2"
    and run: "call_run resolves H A S V q ls1 (start_call V, st0) (Running (source # rest) prev, st)"
    and "source \<in> set (data_sources V)" and ok: "request_attempt H A S st V q source = Ok vb"
    by (rule success_attempt [OF assms(2) [unfolded call_run_def], folded call_run_def])
  moreover obtain bs hwp where dec: "hwp_from_ssz_bytes A S bs = Ok hwp" and "answers_request A q vb"
    and "validate_header_with_proof H A st (validator V) hwp = Ok ()"
    and "vb = \<lparr>vb_header = header hwp, vb_auth_path = auth_path_for (hwp_proof hwp)\<rparr>"
    by (rule request_attempt_Ok [OF ok])
  moreover from hwp_from_ssz_Ok [OF dec] assms(1)
  have "auth_path_for (hwp_proof hwp) = era_of (header hwp)" "proof_wf (hwp_proof hwp)" by blast+
  moreover obtain hd pf where "hwp = \<lparr>header = hd, hwp_proof = pf\<rparr>" by (cases hwp)
  ultimately have "answers_request A q vb" "vb_auth_path vb = era_of (vb_header vb)"
    "source \<in> set (data_sources V) \<and> proof_wf pf \<and> auth_path_for pf = vb_auth_path vb \<and>
     validate_header_with_proof H A st (validator V) \<lparr>header = vb_header vb, hwp_proof = pf\<rparr> = Ok ()"
    by simp_all
  then show ?thesis using ls run by blast
qed

theorem interleaved_success_authentic_witness:
  "answers_request sample_alloy (ByNumber 15600000) sample_verified \<and>
   vb_auth_path sample_verified = era_of (vb_header sample_verified) \<and>
   (\<exists>ls1 ls2 source rest prev st proof. [Attempt, Refresh, Attempt] = ls1 @ Attempt # ls2 \<and>
      call_run (\<lambda>_. True) sample_hashing sample_alloy sample_ssz sample_calls (ByNumber 15600000) ls1
        (start_call sample_calls, [[]]) (Running (source # rest) prev, st) \<and>
      source \<in> set (data_sources sample_calls) \<and> proof_wf proof \<and>
      auth_path_for proof = vb_auth_path sample_verified \<and>
      validate_header_with_proof sample_hashing sample_alloy st (validator sample_calls)
        \<lparr>header = vb_header sample_verified, hwp_proof = proof\<rparr> = Ok ())"
  by (rule interleaved_success_authentic [OF ssz_ok_sample sample_run])

text \<open>A call on one store, and a call among refreshes, in terms of what is asked.\<close>

lemma quiet_call:
  "(\<exists>ls st1. Refresh \<notin> set ls \<and> call_run resolves H A S V q ls (start_call V, st0) (Finished r, st1)) \<longleftrightarrow>
    r = verify_request H A S st0 V q \<and>
    (\<forall>pre s post. data_sources V = pre @ s # post \<and>
      (\<forall>x \<in> set pre. \<exists>e. request_attempt H A S st0 V q x = Err e) \<longrightarrow> resolves s)"
  (is "?L \<longleftrightarrow> ?R")
proof (cases "data_sources V = []")
  case True
  then have start: "start_call V = Finished (Err NoDataSource)" by (simp add: start_call_def)
  have "?L" if "r = Err NoDataSource"
    using that run_Nil by (intro exI [of _ "[]"] exI [of _ st0]) (simp add: start call_run_def)
  then show ?thesis
    using True finished_stays by (fastforce simp: start call_run_def verify_request_loop)
next
  case False
  then have start: "start_call V = Running (data_sources V) None"
    and loop: "verify_request H A S st0 V q = request_loop H A S st0 V q (data_sources V) None"
    by (simp_all add: start_call_def verify_request_loop)
  show ?thesis
  proof
    assume ?L
    then obtain ls st1 where quiet: "Refresh \<notin> set ls"
      and run: "call_run resolves H A S V q ls (start_call V, st0) (Finished r, st1)" by blast
    have "resolves s" if "data_sources V = pre @ s # post"
      "\<forall>x \<in> set pre. \<exists>e. request_attempt H A S st0 V q x = Err e" for pre s post
      using blocked [OF quiet_steps [OF run [unfolded call_run_def] quiet], of pre s post None "\<lambda>st. st = st0"] that
      by (auto simp: start)
    moreover have "r = verify_request H A S st0 V q"
      using quiet_run [OF run [unfolded call_run_def] request.fallback_axioms quiet] by (simp add: start loop)
    ultimately show ?R by blast
  next
    assume ?R
    then show ?L
      using run_to_end [where ss = "data_sources V" and st = st0 and resolves = resolves and refresh = refreshes
          and prev = None and attempt = "\<lambda>st s. request_attempt H A S st V q s", OF request.fallback_axioms [of H A S st0 V q]]
      by (auto simp: start loop call_run_def)
  qed
qed

text \<open>
  C31.  When a call returns.  While no task refreshes, a call ends if and only if every
  source that it reaches (because all sources before it fail) answers its fetch at all, and then with
  the result of \<open>verify_block_by_number\<close> or \<open>verify_block_by_hash\<close>.  Among any refreshes it makes at
  most one attempt for each source and a last step, and while it is unfinished it has a next step
  unless it waits for a source that does not answer.  One such source behind sources that always fail
  keeps the call from ever returning, whatever sources come after it: the loop has no timeout.
\<close>

theorem call_returns_iff:
  "((\<exists>ls st1. Refresh \<notin> set ls \<and> call_run resolves H A S V q ls (start_call V, st0) (Finished r, st1)) \<longleftrightarrow>
      r = verify_request H A S st0 V q \<and>
      (\<forall>pre s post. data_sources V = pre @ s # post \<and>
        (\<forall>x \<in> set pre. \<exists>e. request_attempt H A S st0 V q x = Err e) \<longrightarrow> resolves s)) \<and>
    (call_run resolves H A S V q ls (start_call V, st0) (c, st1) \<longrightarrow>
      attempts ls \<le> length (data_sources V) + 1 \<and>
      ((\<exists>c'. loop_step resolves (\<lambda>st s. request_attempt H A S st V q s) (request_nothing q) refreshes Attempt (c, st1) c')
        \<longleftrightarrow> (\<forall>r. c \<noteq> Finished r) \<and> \<not> waiting resolves c) \<and>
      (data_sources V = pre @ s # post \<and> \<not> resolves s \<and>
        (\<forall>x \<in> set pre. \<forall>st. \<exists>e. request_attempt H A S st V q x = Err e) \<longrightarrow> (\<forall>r. c \<noteq> Finished r)))"
proof (intro conjI impI quiet_call progress)
  assume "call_run resolves H A S V q ls (start_call V, st0) (c, st1)"
  note run = this [unfolded call_run_def]
  show "attempts ls \<le> length (data_sources V) + 1"
    using run_fuel [OF run] by (simp add: start_call_def split: if_splits)
  assume "data_sources V = pre @ s # post \<and> \<not> resolves s \<and>
    (\<forall>x \<in> set pre. \<forall>st. \<exists>e. request_attempt H A S st V q x = Err e)"
  then show "\<forall>r. c \<noteq> Finished r"
    using blocked [OF run, of pre s post None "\<lambda>_. True"] by (auto simp: start_call_def)
qed

text \<open>
  The sample call ends when both sources answer.  When the first one hangs it never does, although
  the second source has the block.
\<close>

theorem call_returns_iff_witness:
  "(\<exists>ls st1. Refresh \<notin> set ls \<and> call_run (\<lambda>_. True) sample_hashing sample_alloy sample_ssz sample_calls
      (ByNumber 15600000) ls (start_call sample_calls, [[]]) (Finished (Ok sample_verified), st1)) \<and>
   \<not> (\<exists>ls r st1. call_run (\<lambda>s. is_Ok (fetch_header_with_proof_by_number s 15600000)) sample_hashing
      sample_alloy sample_ssz sample_calls (ByNumber 15600000) ls (start_call sample_calls, [[]]) (Finished r, st1))"
proof
  have sources: "data_sources sample_calls = [failing_source ''a'', sample_source sample_merge_hwp]"
    by (simp add: sample_calls_def sample_verifier_def)
  have "verify_request sample_hashing sample_alloy sample_ssz [[]] sample_calls (ByNumber 15600000) = Ok sample_verified"
    unfolding verify_request_loop sources
    by (simp add: by_number.chain_Cons sample_calls_def sample_attempts del: by_number_loop.simps)
  then show "\<exists>ls st1. Refresh \<notin> set ls \<and> call_run (\<lambda>_. True) sample_hashing sample_alloy sample_ssz sample_calls
      (ByNumber 15600000) ls (start_call sample_calls, [[]]) (Finished (Ok sample_verified), st1)"
    by (intro call_returns_iff [THEN conjunct1, THEN iffD2]) simp
  have hangs: "data_sources sample_calls = [] @ failing_source ''a'' # [sample_source sample_merge_hwp]"
    "\<not> is_Ok (fetch_header_with_proof_by_number (failing_source ''a'') 15600000)"
    by (simp_all add: sources failing_source_def)
  show "\<not> (\<exists>ls r st1. call_run (\<lambda>s. is_Ok (fetch_header_with_proof_by_number s 15600000)) sample_hashing
      sample_alloy sample_ssz sample_calls (ByNumber 15600000) ls (start_call sample_calls, [[]]) (Finished r, st1))"
    using call_returns_iff [THEN conjunct2, rule_format, THEN conjunct2, THEN conjunct2, rule_format,
        of "\<lambda>s. is_Ok (fetch_header_with_proof_by_number s 15600000)", OF _ conjI [OF hangs(1) conjI [OF hangs(2)]]]
    by fastforce
qed

end
