(* ===== verification/Evidence_Unique.thy ===== *)
theory Evidence_Unique
  imports Verifier_Properties Inclusion_Properties
begin

text \<open>
  What a receipt or a transaction means once it is verified: the bytes at one index of one block are
  unique, up to collisions that the evidence itself contains.  The theory composes the two layers of
  authentication of the crate, the header under a root of trust (\<open>src/header_validator.rs\<close>) and the
  bytes under a root of the header (\<open>src/inclusion.rs\<close>), each as an interface of binding proofs.
\<close>

subsection \<open>Binding proofs\<close>

text \<open>
  A proof system \<open>accepts root key x p\<close>: the proof \<open>p\<close> shows \<open>x\<close> at \<open>key\<close> under \<open>root\<close>.  It is binding
  when two accepted proofs show one value or \<open>clash\<close>, which is a fact about the two proofs.
\<close>

locale binding =
  fixes accepts :: "'r \<Rightarrow> 'k \<Rightarrow> 'x \<Rightarrow> 'p \<Rightarrow> bool"
    and clash :: "'k \<Rightarrow> 'x \<Rightarrow> 'p \<Rightarrow> 'x \<Rightarrow> 'p \<Rightarrow> bool"
  assumes binds: "accepts root key x p \<Longrightarrow> accepts root key y q \<Longrightarrow> x = y \<or> clash key x p y q"

text \<open>The value of the upper system carries the root of the lower one.\<close>

locale two_level = upper: binding accepts clash + lower: binding accepts' clash'
  for accepts :: "'r \<Rightarrow> 'k \<Rightarrow> 'x \<Rightarrow> 'p \<Rightarrow> bool"
    and clash :: "'k \<Rightarrow> 'x \<Rightarrow> 'p \<Rightarrow> 'x \<Rightarrow> 'p \<Rightarrow> bool"
    and accepts' :: "'s \<Rightarrow> 'l \<Rightarrow> 'v \<Rightarrow> 'q \<Rightarrow> bool"
    and clash' :: "'l \<Rightarrow> 'v \<Rightarrow> 'q \<Rightarrow> 'v \<Rightarrow> 'q \<Rightarrow> bool" +
  fixes root_in :: "'x \<Rightarrow> 's"
begin

lemma two_level_binds:
  assumes "accepts root key x p" "accepts root key y q"
    and "accepts' (root_in x) l v ns" "accepts' (root_in y) l w ms"
  shows "v = w \<or> clash key x p y q \<or> clash' l v ns w ms"
  using upper.binds [OF assms(1,2)] lower.binds [of "root_in x" l v ns w ms] assms(3,4) by auto

end

sublocale two_level \<subseteq> nested: binding
  "\<lambda>root (key, l) v (x, p, ns). accepts root key x p \<and> accepts' (root_in x) l v ns"
  "\<lambda>(key, l) v (x, p, ns) w (y, q, ms). clash key x p y q \<or> clash' l v ns w ms"
  by unfold_locales (clarsimp, blast dest: two_level_binds)

subsection \<open>Trie proofs\<close>

text \<open>
  What \<open>alloy_trie::proof::verify_proof\<close> gives: the nodes of an accepted proof are linked by their
  Keccak digests from the root, so two accepted proofs of different values under one root contain
  two different nodes with one digest.  The verifier compares the value with whatever the last node
  holds at the key, which may be a reference to a further node; a reference has at most 33 bytes
  (a digest with its RLP prefix), so the law is about values that are longer.  Every receipt is,
  since it holds a bloom of 256 bytes, and every transaction, since it holds a signature of 65.
\<close>

definition NODE_REF_MAX :: nat where "NODE_REF_MAX = 33"

definition nodes_collide :: "(bytes \<Rightarrow> b256) \<Rightarrow> bytes list \<Rightarrow> bytes list \<Rightarrow> bool" where
  "nodes_collide K ns ms \<longleftrightarrow> (\<exists>a \<in> set ns. \<exists>b \<in> set ms. a \<noteq> b \<and> K a = K b)"

definition trie_binding :: "trie_api \<Rightarrow> (bytes \<Rightarrow> b256) \<Rightarrow> bool" where
  "trie_binding M K \<longleftrightarrow>
     (\<forall>root key v w ns ms.
        NODE_REF_MAX < length v \<longrightarrow> NODE_REF_MAX < length w \<longrightarrow>
        verify_proof M root key (Some v) ns = Ok () \<longrightarrow> verify_proof M root key (Some w) ms = Ok () \<longrightarrow>
        v = w \<or> nodes_collide K ns ms)"

definition trie_accepts ::
  "trie_api \<Rightarrow> (bytes \<Rightarrow> b256) \<Rightarrow> b256 \<Rightarrow> bytes \<Rightarrow> bytes \<Rightarrow> bytes list \<Rightarrow> bool" where
  "trie_accepts M K root key v ns \<longleftrightarrow>
     trie_binding M K \<and> NODE_REF_MAX < length v \<and> verify_mpt_inclusion M root key v ns = Ok ()"

lemma verify_mpt_inclusion_Ok:
  "verify_mpt_inclusion M root key v ns = Ok () \<longleftrightarrow>
     ns \<noteq> [] \<and> verify_proof M root (nibbles_unpack M key) (Some v) ns = Ok ()"
  by (simp add: verify_mpt_inclusion_def Let_def)

interpretation trie: binding "trie_accepts M K" "\<lambda>key v ns w ms. nodes_collide K ns ms" for M K
  by unfold_locales (unfold trie_accepts_def trie_binding_def verify_mpt_inclusion_Ok, blast)

subsection \<open>Pre-merge header proofs\<close>

definition headers_collide :: "alloy_api \<Rightarrow> Header \<Rightarrow> Header \<Rightarrow> bool" where
  "headers_collide A h h' \<longleftrightarrow> h \<noteq> h' \<and> hash_slow A h = hash_slow A h'"

definition branches_collide ::
  "hashing \<Rightarrow> alloy_api \<Rightarrow> u64 \<Rightarrow> Header \<Rightarrow> b256 list \<Rightarrow> Header \<Rightarrow> b256 list \<Rightarrow> bool" where
  "branches_collide H A n h p h' q \<longleftrightarrow>
     collides H (find_collision (node_hash H) (32768 + 2 * (unat n mod 8192))
       (hash_slow A h) p (hash_slow A h') q)"

definition pre_merge_accepts ::
  "hashing \<Rightarrow> alloy_api \<Rightarrow> PreMergeAccumulator \<Rightarrow> u64 \<Rightarrow> Header \<Rightarrow> b256 list \<Rightarrow> bool" where
  "pre_merge_accepts H A acc n h p \<longleftrightarrow>
     hashing_ok H \<and> alloy_ok A \<and> fixed_vector_wf 15 p \<and> number h = n \<and>
     (\<exists>st v. pre_merge_acc v = acc \<and>
       validate_header_with_proof H A st v \<lparr>header = h, hwp_proof = HistoricalHashes p\<rparr> = Ok ())"

lemma pre_merge_accepts_climb:
  assumes "pre_merge_accepts H A acc n h p"
  shows "climb (node_hash H) (hash_slow A h) p (32768 + 2 * (unat n mod 8192))
    = historical_epochs acc ! (unat n div 8192)"
  using assms by (auto simp: pre_merge_accepts_def validate_Ok_iff Let_def split: if_splits)

interpretation pre_merge: binding "pre_merge_accepts H A"
  "\<lambda>n h p h' q. headers_collide A h h' \<or> branches_collide H A n h p h' q" for H A
proof unfold_locales
  fix acc n h p h' q
  assume "pre_merge_accepts H A acc n h p" "pre_merge_accepts H A acc n h' q"
  note climbs = this [THEN pre_merge_accepts_climb] and given = this [unfolded pre_merge_accepts_def]
  from given have "hash_slow A h = hash_slow A h' \<or> branches_collide H A n h p h' q"
    unfolding branches_collide_def
    by (intro climbs_binding [where n = 15, OF _ _ _ _ _ climbs(1,2)]) (simp_all add: alloy_ok_def)
  then show "h = h' \<or> headers_collide A h h' \<or> branches_collide H A n h p h' q"
    by (auto simp: headers_collide_def)
qed

interpretation block_trie: two_level "pre_merge_accepts H A"
  "\<lambda>n h p h' q. headers_collide A h h' \<or> branches_collide H A n h p h' q"
  "trie_accepts M K" "\<lambda>key v ns w ms. nodes_collide K ns ms" root_in
  for H A M K root_in
  by unfold_locales

subsection \<open>Verified blocks\<close>

text \<open>What the sources of a verifier deliver for a number.\<close>

definition delivers :: "alloy_api \<Rightarrow> ssz_api \<Rightarrow> Verifier \<Rightarrow> u64 \<Rightarrow> HeaderWithProof \<Rightarrow> bool" where
  "delivers A S V n hwp \<longleftrightarrow>
     (\<exists>source \<in> set (data_sources V). \<exists>bs.
        fetch_header_with_proof_by_number source n = Ok bs \<and> hwp_from_ssz_bytes A S bs = Ok hwp)"

lemma verified_pre_merge:
  assumes "hashing_ok H" "alloy_ok A" "ssz_ok S"
    and "verify_block_by_number H A S st V n = Ok vb" "vb_auth_path vb = AuthHistoricalHashes"
  obtains p where "delivers A S V n \<lparr>header = vb_header vb, hwp_proof = HistoricalHashes p\<rparr>"
    and "pre_merge_accepts H A (pre_merge_acc (validator V)) n (vb_header vb) p"
proof -
  from assms(4) have "by_number_loop H A S st V n (data_sources V) None = Ok vb"
    by (simp add: verify_block_by_number_def split: if_splits del: by_number_loop.simps)
  then obtain source where source: "source \<in> set (data_sources V)"
    and "number_attempt H A S st V n source = Ok vb"
    unfolding by_number.chain_Ok_iff by fastforce
  then obtain bs hwp where bs: "fetch_header_with_proof_by_number source n = Ok bs"
    and dec: "hwp_from_ssz_bytes A S bs = Ok hwp" and n: "number (header hwp) = n"
    and accepted: "validate_header_with_proof H A st (validator V) hwp = Ok ()"
    and vb: "vb = \<lparr>vb_header = header hwp, vb_auth_path = auth_path_for (hwp_proof hwp)\<rparr>"
    unfolding number_attempt_Ok_iff by blast
  from assms(5) vb obtain p where p: "hwp_proof hwp = HistoricalHashes p"
    by (cases "hwp_proof hwp") auto
  then have hwp: "hwp = \<lparr>header = vb_header vb, hwp_proof = HistoricalHashes p\<rparr>"
    unfolding vb by (cases hwp) simp
  from hwp_from_ssz_Ok [OF dec] assms(3) p have "fixed_vector_wf 15 p"
    by (metis proof_wf.simps(1))
  show thesis
  proof (rule that)
    show "delivers A S V n \<lparr>header = vb_header vb, hwp_proof = HistoricalHashes p\<rparr>"
      using source bs dec unfolding delivers_def hwp by blast
    show "pre_merge_accepts H A (pre_merge_acc (validator V)) n (vb_header vb) p"
      using assms(1,2) \<open>fixed_vector_wf 15 p\<close> n accepted [unfolded hwp]
      unfolding pre_merge_accepts_def vb by auto
  qed
qed

lemma verified_by_hash:
  "verify_block_by_hash H A S st V h = Ok vb \<Longrightarrow> hash_slow A (vb_header vb) = h"
  by (auto simp: verify_block_by_hash_def by_hash.chain_Ok_iff hash_attempt_Ok_iff split: if_splits)

lemma shown_in_block:
  "trie_binding M K \<Longrightarrow> NODE_REF_MAX < length raw \<Longrightarrow>
    vb_verify_transaction_inclusion M R vb i raw ns = Ok () \<Longrightarrow>
    trie_accepts M K (transactions_root (vb_header vb)) (rlp_encode_index R i) raw ns"
  "trie_binding M K \<Longrightarrow> NODE_REF_MAX < length raw \<Longrightarrow>
    vb_verify_receipt_inclusion M R vb i raw ns = Ok () \<Longrightarrow>
    trie_accepts M K (receipts_root (vb_header vb)) (rlp_encode_index R i) raw ns"
  by (simp_all add: trie_accepts_def vb_verify_transaction_inclusion_def
      vb_verify_receipt_inclusion_def verify_transaction_inclusion_def verify_receipt_inclusion_def)

text \<open>
  C7.  The receipt, or the transaction, at an index of a block is unique.  Take two
  verified blocks that were asked for by one hash, or by one number when both are labelled as
  pre-merge and the two verifiers hold the same accumulator, whatever their sources delivered.  Raw
  bytes verified in both at one index, longer than a node reference of the trie, are the same bytes,
  or the evidence contains a collision: two different headers with one hash, two different trie
  nodes with one digest, or, among the branches delivered, two different 64-byte inputs with one
  digest.
\<close>

theorem evidence_unique:
  assumes "hashing_ok H" "alloy_ok A" "ssz_ok S" "trie_binding M K"
    and "verify_block_by_hash H A S st V h = Ok vb \<and> verify_block_by_hash H A S st' V' h = Ok vb' \<or>
      verify_block_by_number H A S st V n = Ok vb \<and> verify_block_by_number H A S st' V' n = Ok vb' \<and>
      vb_auth_path vb = AuthHistoricalHashes \<and> vb_auth_path vb' = AuthHistoricalHashes \<and>
      pre_merge_acc (validator V) = pre_merge_acc (validator V')"
    and "vb_verify_transaction_inclusion M R vb i raw ns = Ok () \<and>
        vb_verify_transaction_inclusion M R vb' i raw' ms = Ok () \<or>
      vb_verify_receipt_inclusion M R vb i raw ns = Ok () \<and>
        vb_verify_receipt_inclusion M R vb' i raw' ms = Ok ()"
    and "NODE_REF_MAX < length raw" "NODE_REF_MAX < length raw'"
  shows "raw = raw' \<or> headers_collide A (vb_header vb) (vb_header vb') \<or> nodes_collide K ns ms \<or>
    (\<exists>p q. delivers A S V n \<lparr>header = vb_header vb, hwp_proof = HistoricalHashes p\<rparr> \<and>
       delivers A S V' n \<lparr>header = vb_header vb', hwp_proof = HistoricalHashes q\<rparr> \<and>
       branches_collide H A n (vb_header vb) p (vb_header vb') q)"
proof -
  from assms(4,6-8) obtain root_in where
    "trie_accepts M K (root_in (vb_header vb)) (rlp_encode_index R i) raw ns"
    "trie_accepts M K (root_in (vb_header vb')) (rlp_encode_index R i) raw' ms"
    using shown_in_block by blast
  note shown = this
  from assms(5) show ?thesis
  proof (elim disjE conjE)
    assume "verify_block_by_hash H A S st V h = Ok vb" "verify_block_by_hash H A S st' V' h = Ok vb'"
    then have "vb_header vb = vb_header vb' \<or> headers_collide A (vb_header vb) (vb_header vb')"
      by (auto simp: headers_collide_def dest: verified_by_hash)
    then show ?thesis using trie.binds [OF shown(1), of raw' ms] shown(2) by auto
  next
    assume "verify_block_by_number H A S st V n = Ok vb" "vb_auth_path vb = AuthHistoricalHashes"
    from verified_pre_merge [OF assms(1-3) this] obtain p
      where p: "delivers A S V n \<lparr>header = vb_header vb, hwp_proof = HistoricalHashes p\<rparr>"
        "pre_merge_accepts H A (pre_merge_acc (validator V)) n (vb_header vb) p" .
    assume "verify_block_by_number H A S st' V' n = Ok vb'" "vb_auth_path vb' = AuthHistoricalHashes"
    from verified_pre_merge [OF assms(1-3) this] obtain q
      where q: "delivers A S V' n \<lparr>header = vb_header vb', hwp_proof = HistoricalHashes q\<rparr>"
        "pre_merge_accepts H A (pre_merge_acc (validator V')) n (vb_header vb') q" .
    assume "pre_merge_acc (validator V) = pre_merge_acc (validator V')"
    with q(2) have "pre_merge_accepts H A (pre_merge_acc (validator V)) n (vb_header vb') q" by simp
    from block_trie.two_level_binds [OF p(2) this shown] p(1) q(1) show ?thesis by blast
  qed
qed

text \<open>A trie of one node: the key and the value, under a digest of the first 32 bytes.\<close>

definition sample_keccak :: "bytes \<Rightarrow> b256" where
  "sample_keccak bs = take 32 (bs @ replicate 32 0)"

definition sample_trie :: trie_api where
  "sample_trie =
     \<lparr>nibbles_unpack = (\<lambda>key. concat (map (\<lambda>b. [drop_bit 4 b, take_bit 4 b]) key)),
      verify_proof = (\<lambda>root key expected nodes.
        case nodes of [node] \<Rightarrow>
          if sample_keccak node = root \<and> take (length key) node = key \<and> expected = Some (drop (length key) node)
          then Ok () else Err (lit ''value mismatch'')
        | _ \<Rightarrow> Err (lit ''value mismatch''))\<rparr>"

lemma trie_binding_sample: "trie_binding sample_trie sample_keccak"
  by (auto simp: trie_binding_def sample_trie_def nodes_collide_def split: list.splits if_splits)

theorem evidence_unique_witness:
  "\<exists>raw vb. verify_block_by_hash sample_hashing sample_alloy sample_ssz []
      (sample_verifier [sample_source sample_merge_hwp]) (hash_slow sample_alloy sample_merge_header) = Ok vb \<and>
    vb_verify_receipt_inclusion sample_trie sample_rlp vb 0 raw [replicate 56 0] = Ok () \<and>
    (raw = raw \<or> headers_collide sample_alloy (vb_header vb) (vb_header vb) \<or>
     nodes_collide sample_keccak [replicate 56 0] [replicate 56 0] \<or>
     (\<exists>p q. delivers sample_alloy sample_ssz (sample_verifier [sample_source sample_merge_hwp]) 0
          \<lparr>header = vb_header vb, hwp_proof = HistoricalHashes p\<rparr> \<and>
        delivers sample_alloy sample_ssz (sample_verifier [sample_source sample_merge_hwp]) 0
          \<lparr>header = vb_header vb, hwp_proof = HistoricalHashes q\<rparr> \<and>
        branches_collide sample_hashing sample_alloy 0 (vb_header vb) p (vb_header vb) q))"
proof (intro exI conjI)
  let ?V = "sample_verifier [sample_source sample_merge_hwp]"
  let ?h = "hash_slow sample_alloy sample_merge_header"
  let ?raw = "replicate 40 0 :: bytes"
  have "data_sources ?V = [sample_source sample_merge_hwp]" by (simp add: sample_verifier_def)
  then show verified: "verify_block_by_hash sample_hashing sample_alloy sample_ssz [] ?V ?h = Ok sample_verified"
    by (simp add: verify_block_by_hash_def by_hash.chain_Cons sample_attempts del: by_hash_loop.simps)
  have "enc_u64 sample_rlp 0 = replicate 8 0"
    by (simp add: sample_rlp_def to_le_def numeral_eq_Suc)
  moreover have "receipts_root sample_merge_header = replicate 32 0"
    by (simp add: sample_merge_header_def sample_header_def b256_ZERO_def)
  ultimately show shown: "vb_verify_receipt_inclusion sample_trie sample_rlp sample_verified 0 ?raw [replicate 56 0] = Ok ()"
    by (simp add: vb_verify_receipt_inclusion_def verify_receipt_inclusion_def rlp_encode_index_def
        sample_verified_def verify_mpt_inclusion_Ok sample_trie_def sample_keccak_def numeral_eq_Suc)
  show "?raw = ?raw \<or> headers_collide sample_alloy (vb_header sample_verified) (vb_header sample_verified) \<or>
     nodes_collide sample_keccak [replicate 56 0] [replicate 56 0] \<or>
     (\<exists>p q. delivers sample_alloy sample_ssz ?V 0
          \<lparr>header = vb_header sample_verified, hwp_proof = HistoricalHashes p\<rparr> \<and>
        delivers sample_alloy sample_ssz ?V 0
          \<lparr>header = vb_header sample_verified, hwp_proof = HistoricalHashes q\<rparr> \<and>
        branches_collide sample_hashing sample_alloy 0 (vb_header sample_verified) p (vb_header sample_verified) q)"
    by (rule evidence_unique [where M = sample_trie and R = sample_rlp and i = 0 and h = ?h
          and st = "[]" and st' = "[]"])
      (use verified shown trie_binding_sample in \<open>simp_all add: NODE_REF_MAX_def\<close>)
qed

end
