(* ===== verification/Canonical_History.thy ===== *)
theory Canonical_History
  imports Fork_Properties Evidence_Unique Proof_Construction
begin

text \<open>
  What the library promises as a whole: relative to a history that the trusted roots commit to, a
  verified block is the block of that history.  The history is the abstract specification; the
  accumulators and the snapshot of a validator (\<open>src/header_validator.rs\<close>) are what it is compared to,
  and the verified block is what \<open>src/api.rs\<close> returns from untrusted bytes.
\<close>

subsection \<open>The specification\<close>

text \<open>
  A history: the execution header of each number, the epoch accumulators before the Merge, and for a
  slot after it the beacon block that the chain records there with the roots of its era.  An empty
  slot records the block before it, and a slot without an execution payload has no entry.  The
  receipts and the transactions of a block come with the trie nodes that show them.
\<close>

record History =
  ch_header :: "u64 \<Rightarrow> Header"
  ch_epoch :: "nat \<Rightarrow> EpochAccumulator"
  ch_block :: "u64 \<Rightarrow> SignedBeaconBlock option"
  ch_batch :: "u64 \<Rightarrow> HistoricalBatch"
  ch_receipts :: "u64 \<Rightarrow> (bytes \<times> bytes list) list"
  ch_transactions :: "u64 \<Rightarrow> (bytes \<times> bytes list) list"

text \<open>
  What is trusted must not contradict the history: each epoch root that the validator holds is the
  root of the epoch of the history, and so for the batch roots of the Merge-to-Capella era.  A
  history may go on where the trusted data ends.
\<close>

definition pre_merge_honest :: "hashing \<Rightarrow> alloy_api \<Rightarrow> History \<Rightarrow> b256 list \<Rightarrow> bool" where
  "pre_merge_honest H A C epochs \<longleftrightarrow>
     (\<forall>n. \<not> is_paris_active_at_block n \<longrightarrow> unat n div 8192 < length epochs \<longrightarrow>
        (let acc = ch_epoch C (unat n div 8192); i = unat n mod 8192
         in epoch_acc_wf acc \<and> epochs ! (unat n div 8192) = epoch_root H acc \<and>
            i < length acc \<and> block_hash (acc ! i) = hash_slow A (ch_header C n)))"

definition roots_honest :: "tree_hash \<Rightarrow> History \<Rightarrow> b256 list \<Rightarrow> bool" where
  "roots_honest T C roots \<longleftrightarrow>
     (\<forall>sl sb. ch_block C sl = Some sb \<longrightarrow> signed_era sb = AuthHistoricalRoots \<longrightarrow>
        unat sl div 8192 < length roots \<longrightarrow>
        roots ! (unat sl div 8192) = T (historical_batch_value (ch_batch C sl)))"

text \<open>The same for a snapshot of summaries, and for all snapshots of a store.\<close>

definition summaries_honest :: "tree_hash \<Rightarrow> History \<Rightarrow> HistoricalSummaries \<Rightarrow> bool" where
  "summaries_honest T C summaries \<longleftrightarrow>
     (\<forall>sl sb i. ch_block C sl = Some sb \<longrightarrow> signed_era sb \<noteq> AuthHistoricalRoots \<longrightarrow>
        historical_summary_index sl = Some i \<longrightarrow> unat i < length summaries \<longrightarrow>
        block_summary_root (summaries ! unat i) = T (roots_value (hb_block_roots (ch_batch C sl))))"

definition snapshots_honest :: "tree_hash \<Rightarrow> History \<Rightarrow> snapshots \<Rightarrow> bool" where
  "snapshots_honest T C st \<longleftrightarrow> (\<forall>summaries \<in> set st. summaries_honest T C summaries)"

text \<open>A history is consistent when its batches hold its blocks and its blocks carry its headers.\<close>

definition history_wf :: "alloy_api \<Rightarrow> tree_hash \<Rightarrow> History \<Rightarrow> bool" where
  "history_wf A T C \<longleftrightarrow> (\<forall>n. number (ch_header C n) = n) \<and>
     (\<forall>sl sb. ch_block C sl = Some sb \<longrightarrow> batch_holds T (ch_batch C sl) sl sb \<and>
        signed_payload_hash sb = hash_slow A (ch_header C (execution_block_number sb)))"

definition trusts :: "hashing \<Rightarrow> alloy_api \<Rightarrow> tree_hash \<Rightarrow> HeaderValidator \<Rightarrow> History \<Rightarrow> bool" where
  "trusts H A T v C \<longleftrightarrow> history_wf A T C \<and>
     pre_merge_honest H A C (historical_epochs (pre_merge_acc v)) \<and>
     roots_honest T C (historical_roots (historical_roots_acc v))"

lemma read_honest:
  "snapshots_honest T C st \<Longrightarrow> summaries_honest T C (read_summaries st p)"
  by (cases p) (auto simp: snapshots_honest_def summaries_honest_def)

text \<open>
  How a block outside the history could be accepted.  Either the proof names a slot at which the
  history has no block of the era of the proof: the validator does not compare the slot with the
  timestamp of the header.  Or the evidence contains a collision with what the history holds.
\<close>

fun historical_of :: "BlockHeaderProof \<Rightarrow> BlockProofHistorical option" where
  "historical_of (HistoricalHashes _) = None"
| "historical_of (HistoricalRoots p) = Some p"
| "historical_of (HistoricalSummariesCapella p) = Some p"
| "historical_of (HistoricalSummariesDeneb p) = Some p"

definition off_history :: "History \<Rightarrow> BlockHeaderProof \<Rightarrow> bool" where
  "off_history C pf \<longleftrightarrow>
     (\<exists>p. historical_of pf = Some p \<and>
        (\<forall>sb. ch_block C (slot p) = Some sb \<longrightarrow> signed_era sb \<noteq> auth_path_for pf))"

definition pre_merge_forged :: "hashing \<Rightarrow> alloy_api \<Rightarrow> History \<Rightarrow> Header \<Rightarrow> b256 list \<Rightarrow> bool" where
  "pre_merge_forged H A C h p \<longleftrightarrow>
     (let i = unat (number h) mod 8192; honest = ch_header C (number h)
      in headers_collide A h honest \<or>
         collides H (find_collision (node_hash H) (32768 + 2 * i) (hash_slow A h) p (hash_slow A honest)
           (constructed_proof H (ch_epoch C (unat (number h) div 8192)) i)))"

definition post_merge_forged ::
  "hashing \<Rightarrow> alloy_api \<Rightarrow> tree_hash \<Rightarrow> History \<Rightarrow> Header \<Rightarrow> BlockProofHistorical \<Rightarrow> SignedBeaconBlock \<Rightarrow> bool" where
  "post_merge_forged H A T C h p sb \<longleftrightarrow>
     (let q = fork_built H T (slot p) (ch_batch C (slot p)) sb
      in headers_collide A h (ch_header C (execution_block_number sb)) \<or>
         collides H (find_collision (node_hash H) (exec_gindex (signed_era sb)) (hash_slow A h)
           (execution_block_proof p) (signed_payload_hash sb) (execution_block_proof q)) \<or>
         collides H (find_collision (node_hash H) (beacon_gindex (signed_era sb) (slot p))
           (beacon_block_root p) (beacon_block_proof p) (beacon_block_root q) (beacon_block_proof q)))"

definition forged :: "hashing \<Rightarrow> alloy_api \<Rightarrow> tree_hash \<Rightarrow> History \<Rightarrow> HeaderWithProof \<Rightarrow> bool" where
  "forged H A T C hwp \<longleftrightarrow>
     (case hwp_proof hwp of
        HistoricalHashes p \<Rightarrow> pre_merge_forged H A C (header hwp) p
      | pf \<Rightarrow> \<exists>p sb. historical_of pf = Some p \<and> ch_block C (slot p) = Some sb \<and>
          post_merge_forged H A T C (header hwp) p sb)"

subsection \<open>Accepted headers are in the history\<close>

lemma same_hash: "hash_slow A h = hash_slow A h' \<Longrightarrow> h = h' \<or> headers_collide A h h'"
  by (auto simp: headers_collide_def)

lemma pre_merge_canonical:
  assumes "hashing_ok H" "alloy_ok A" "proof_wf (HistoricalHashes p)"
    and "pre_merge_honest H A C (historical_epochs (pre_merge_acc v))"
    and "validate_header_with_proof H A st v \<lparr>header = h, hwp_proof = HistoricalHashes p\<rparr> = Ok ()"
  shows "h = ch_header C (number h) \<or> pre_merge_forged H A C h p"
proof -
  let ?acc = "ch_epoch C (unat (number h) div 8192)" and ?i = "unat (number h) mod 8192"
  from assms(5) have "\<not> is_paris_active_at_block (number h)"
    "unat (number h) div 8192 < length (historical_epochs (pre_merge_acc v))"
    by (auto simp: validate_Ok_iff [OF assms(1,2)] assms(3) [simplified] Let_def split: if_splits)
  with assms(4) have acc: "epoch_acc_wf ?acc" "?i < length ?acc"
    "historical_epochs (pre_merge_acc v) ! (unat (number h) div 8192) = epoch_root H ?acc"
    and hash: "block_hash (?acc ! ?i) = hash_slow A (ch_header C (number h))"
    unfolding pre_merge_honest_def Let_def by blast+
  from pre_merge_header_in_epoch [OF assms(1,2) acc(1) assms(3) refl acc(2,3) assms(5)]
  show ?thesis
    using same_hash [of A h "ch_header C (number h)"] by (auto simp: pre_merge_forged_def hash)
qed

lemma fork_proof_of:
  "historical_of pf = Some p \<Longrightarrow> signed_era sb = auth_path_for pf \<Longrightarrow> pf = fork_proof sb p"
  by (cases pf; cases sb) auto

text \<open>An accepted proof has a root for its slot, and the root is honest.\<close>

lemma accepted_era_recorded:
  assumes "hashing_ok H" "alloy_ok A" "proof_wf pf" "historical_of pf = Some p"
    and "roots_honest T C (historical_roots (historical_roots_acc v))" "snapshots_honest T C st"
    and "ch_block C (slot p) = Some sb" "signed_era sb = auth_path_for pf"
    and "validate_header_with_proof H A st v \<lparr>header = h, hwp_proof = pf\<rparr> = Ok ()"
  shows "era_recorded T st v (slot p) (signed_era sb) (ch_batch C (slot p))"
proof -
  have "\<exists>root. trusted_root st v pf h = Some root"
    using assms(9) by (auto simp: validate_Ok_iff [OF assms(1,2)] assms(3))
  then show ?thesis
    using assms(4,5,7,8) read_honest [OF assms(6)]
    by (cases pf) (auto simp: era_recorded_def roots_honest_def summaries_honest_def
        get_historical_summary_Ok_iff Let_def split: res.splits if_splits)
qed

lemma post_merge_canonical:
  assumes "hashing_ok H" "alloy_ok A" "tree_hash_ok H T" "proof_wf pf" "historical_of pf = Some p"
    and "history_wf A T C" "roots_honest T C (historical_roots (historical_roots_acc v))"
    and "snapshots_honest T C st"
    and "ch_block C (slot p) = Some sb" "signed_era sb = auth_path_for pf"
    and "validate_header_with_proof H A st v \<lparr>header = h, hwp_proof = pf\<rparr> = Ok ()"
  shows "h = ch_header C (number h) \<or> post_merge_forged H A T C h p sb"
proof -
  note recorded = accepted_era_recorded [OF assms(1,2,4,5,7-11)]
  have pf: "pf = fork_proof sb p" by (rule fork_proof_of [OF assms(5,10)])
  have holds: "batch_holds T (ch_batch C (slot p)) (slot p) sb"
    and hash: "signed_payload_hash sb = hash_slow A (ch_header C (execution_block_number sb))"
    and numbers: "number (ch_header C n) = n" for n
    using assms(6,9) by (simp_all add: history_wf_def)
  from fork_header_in_block [OF assms(1-3) assms(4) [unfolded pf] holds recorded assms(11) [unfolded pf] refl]
  show ?thesis
    using same_hash [of A h "ch_header C (execution_block_number sb)"] numbers
    by (auto simp: post_merge_forged_def hash Let_def)
qed

lemma accepted_canonical:
  assumes "hashing_ok H" "alloy_ok A" "tree_hash_ok H T" "trusts H A T v C" "snapshots_honest T C st"
    and "proof_wf (hwp_proof hwp)" "validate_header_with_proof H A st v hwp = Ok ()"
  shows "header hwp = ch_header C (number (header hwp)) \<or> off_history C (hwp_proof hwp) \<or> forged H A T C hwp"
proof -
  obtain h pf where hwp: "hwp = \<lparr>header = h, hwp_proof = pf\<rparr>" by (cases hwp)
  note parts = assms(4) [unfolded trusts_def] assms(5)
  show ?thesis
  proof (cases "historical_of pf")
    case None
    then obtain p where pf: "pf = HistoricalHashes p" by (cases pf) auto
    have "h = ch_header C (number h) \<or> pre_merge_forged H A C h p"
      by (rule pre_merge_canonical [OF assms(1,2)]) (use parts assms(6,7) hwp pf in auto)
    then show ?thesis
      unfolding hwp pf forged_def by (simp only: HeaderWithProof.simps BlockHeaderProof.case) blast
  next
    case (Some p)
    show ?thesis
    proof (cases "off_history C pf")
      case False
      then obtain sb where sb: "ch_block C (slot p) = Some sb" "signed_era sb = auth_path_for pf"
        using Some by (auto simp: off_history_def)
      have "h = ch_header C (number h) \<or> post_merge_forged H A T C h p sb"
        by (rule post_merge_canonical [OF assms(1-3) _ Some _ _ _ sb]) (use parts assms(6,7) hwp in auto)
      then show ?thesis using Some sb(1) by (cases pf) (auto simp: hwp forged_def)
    qed (simp add: hwp)
  qed
qed

subsection \<open>Claims\<close>

lemma verified_delivered:
  assumes "verify_block_by_number H A S st V n = Ok vb \<and> fetch = (\<lambda>s. fetch_header_with_proof_by_number s n) \<or>
      verify_block_by_hash H A S st V h = Ok vb \<and> fetch = (\<lambda>s. fetch_header_with_proof_by_hash s h)"
  obtains source bs hwp where "source \<in> set (data_sources V)" "fetch source = Ok bs"
    and "hwp_from_ssz_bytes A S bs = Ok hwp"
    and "validate_header_with_proof H A st (validator V) hwp = Ok ()"
    and "vb = \<lparr>vb_header = header hwp, vb_auth_path = auth_path_for (hwp_proof hwp)\<rparr>"
  using assms
proof (elim disjE conjE)
  assume "verify_block_by_number H A S st V n = Ok vb"
    and fetch: "fetch = (\<lambda>s. fetch_header_with_proof_by_number s n)"
  then have "by_number_loop H A S st V n (data_sources V) None = Ok vb"
    by (simp add: verify_block_by_number_def split: if_splits del: by_number_loop.simps)
  then obtain source where "source \<in> set (data_sources V)" "number_attempt H A S st V n source = Ok vb"
    unfolding by_number.chain_Ok_iff by fastforce
  then show thesis unfolding number_attempt_Ok_iff using that fetch by blast
next
  assume "verify_block_by_hash H A S st V h = Ok vb"
    and fetch: "fetch = (\<lambda>s. fetch_header_with_proof_by_hash s h)"
  then have "by_hash_loop H A S st V h (data_sources V) None = Ok vb"
    by (simp add: verify_block_by_hash_def split: if_splits del: by_hash_loop.simps)
  then obtain source where "source \<in> set (data_sources V)" "hash_attempt H A S st V h source = Ok vb"
    unfolding by_hash.chain_Ok_iff by fastforce
  then show thesis unfolding hash_attempt_Ok_iff using that fetch by blast
qed

text \<open>
  C1.  A verified block is the block of the history.  When the accumulators of
  a verifier and its snapshot of summaries, however far it reaches, agree with a history, before and
  after the Merge, then for every block that is verified by number or by hash some source delivered the header with a proof, and the header
  is the one that the history has for its number; or that proof names a slot at which the history has
  no block of the claimed era, or the header and the delivered branches contain an explicit collision
  with the header and the branches of the history.
\<close>

theorem verified_block_canonical:
  assumes "hashing_ok H" "alloy_ok A" "tree_hash_ok H T" "ssz_ok S"
    and "trusts H A T (validator V) C" "snapshots_honest T C st"
    and "verify_block_by_number H A S st V n = Ok vb \<and> fetch = (\<lambda>s. fetch_header_with_proof_by_number s n) \<or>
      verify_block_by_hash H A S st V h = Ok vb \<and> fetch = (\<lambda>s. fetch_header_with_proof_by_hash s h)"
  shows "\<exists>source \<in> set (data_sources V). \<exists>bs hwp. fetch source = Ok bs \<and>
    hwp_from_ssz_bytes A S bs = Ok hwp \<and>
    vb = \<lparr>vb_header = header hwp, vb_auth_path = auth_path_for (hwp_proof hwp)\<rparr> \<and>
    (vb_header vb = ch_header C (number (vb_header vb)) \<or>
     off_history C (hwp_proof hwp) \<or> forged H A T C hwp)"
proof -
  obtain source bs hwp where given: "source \<in> set (data_sources V)" "fetch source = Ok bs"
      "hwp_from_ssz_bytes A S bs = Ok hwp"
    and accepted: "validate_header_with_proof H A st (validator V) hwp = Ok ()"
    and vb: "vb = \<lparr>vb_header = header hwp, vb_auth_path = auth_path_for (hwp_proof hwp)\<rparr>"
    by (rule verified_delivered [OF assms(7)])
  have "proof_wf (hwp_proof hwp)" using hwp_from_ssz_Ok [OF given(3)] assms(4) by blast
  note canonical = accepted_canonical [OF assms(1-3,5,6) this accepted]
  have "vb_header vb = header hwp" by (simp add: vb)
  with canonical given vb show ?thesis by metis
qed

text \<open>
  A history of one full epoch and one block of Electra, and a verifier that trusts the epoch.  Each
  block has one receipt and no transaction.
\<close>

definition sample_full_epoch :: "nat \<Rightarrow> EpochAccumulator" where
  "sample_full_epoch e =
     map (\<lambda>i. \<lparr>block_hash = hash_slow sample_alloy (sample_header (word_of_nat (8192 * e + i)) 0),
               total_difficulty = 1\<rparr>) [0..<8192]"

definition sample_signed_electra :: SignedBeaconBlock where
  "sample_signed_electra = Signed_Electra (sample_signed sample_electra_block)"

definition sample_history :: History where
  "sample_history = \<lparr>ch_header = (\<lambda>n. if n = 23000000 then sample_electra_header else sample_header n 0),
     ch_epoch = sample_full_epoch,
     ch_block = (\<lambda>sl. if sl = 11649029 then Some sample_signed_electra else None),
     ch_batch = (\<lambda>_. sample_electra_batch),
     ch_receipts = (\<lambda>_. [(replicate 40 0, [replicate 56 0])]), ch_transactions = (\<lambda>_. [])\<rparr>"

definition sample_epoch_validator :: HeaderValidator where
  "sample_epoch_validator = sample_validator [epoch_root sample_hashing (sample_full_epoch 0)] []"

definition sample_summaries_of_history :: HistoricalSummaries where
  "sample_summaries_of_history = replicate 1000 sample_electra_summary"

definition sample_full_hwp :: HeaderWithProof where
  "sample_full_hwp = \<lparr>header = sample_header 0 0,
     hwp_proof = HistoricalHashes (constructed_proof sample_hashing (sample_full_epoch 0) 0)\<rparr>"

lemma sample_full_epoch_facts:
  "epoch_acc_wf (sample_full_epoch e)" "length (sample_full_epoch e) = 8192"
  "i < 8192 \<Longrightarrow> block_hash (sample_full_epoch e ! i)
    = hash_slow sample_alloy (sample_header (word_of_nat (8192 * e + i)) 0)"
  using alloy_ok_sample by (simp_all add: epoch_acc_wf_def sample_full_epoch_def alloy_ok_def)

lemma sample_signed_electra_facts:
  "signed_era sample_signed_electra = AuthHistoricalSummariesDeneb"
  "signed_payload_hash sample_signed_electra = hash_slow sample_alloy sample_electra_header"
  "execution_block_number sample_signed_electra = 23000000"
  "batch_holds sample_tree_hash sample_electra_batch 11649029 sample_signed_electra"
  using sample_electra_facts
  by (simp_all add: sample_signed_electra_def batch_holds_def sample_electra_batch_def
      del: tree_hash_of.simps)
    (simp add: sample_electra_block_def sample_block_payload sample_payload_deneb_def
      sample_payload_capella_def sample_payload_bellatrix_def sample_electra_header_def
      ExecutionPayloadBellatrix.defs ExecutionPayloadCapella.defs)

lemma sample_trusts:
  "trusts sample_hashing sample_alloy sample_tree_hash sample_epoch_validator sample_history"
proof -
  have "(word_of_nat (8192 * (unat n div 8192) + unat n mod 8192) :: u64) = n" for n
    by (simp add: mult_div_mod_eq)
  moreover have "history_wf sample_alloy sample_tree_hash sample_history"
    using sample_signed_electra_facts
    by (simp add: history_wf_def sample_history_def sample_electra_header_def del: tree_hash_of.simps)
  ultimately show ?thesis
    by (auto simp: trusts_def pre_merge_honest_def roots_honest_def sample_history_def
        sample_epoch_validator_def sample_validator_def sample_full_epoch_facts
        sample_signed_electra_facts Let_def div_eq_0_iff activation_unat)
qed

lemma sample_summaries_honest:
  "summaries_honest sample_tree_hash sample_history []"
  "summaries_honest sample_tree_hash sample_history sample_summaries_of_history"
  using sample_electra_facts(5)
  by (simp_all add: summaries_honest_def sample_history_def sample_electra_batch_def
      sample_summaries_of_history_def del: tree_hash_of.simps)

lemma sample_full_accepted:
  "validate_header_with_proof sample_hashing sample_alloy st sample_epoch_validator sample_full_hwp = Ok ()"
proof -
  have i: "0 < length (sample_full_epoch 0)" by (simp add: sample_full_epoch_facts)
  note climb = constructed_proof_climb [OF hashing_ok_sample sample_full_epoch_facts(1) i]
  have "fixed_vector_wf 15 (constructed_proof sample_hashing (sample_full_epoch 0) 0)"
    using constructed_proof_wf [OF hashing_ok_sample i] by (simp add: sample_full_epoch_facts)
  then show ?thesis
    using climb by (simp add: validate_Ok_iff sample_full_hwp_def sample_epoch_validator_def
        sample_validator_def activation_unat sample_full_epoch_facts)
qed

theorem verified_block_canonical_witness:
  "\<exists>vb. verify_block_by_number sample_hashing sample_alloy sample_ssz []
      \<lparr>validator = sample_epoch_validator, data_sources = [sample_source sample_full_hwp]\<rparr> 0 = Ok vb \<and>
    (\<exists>source \<in> set [sample_source sample_full_hwp]. \<exists>bs hwp.
      fetch_header_with_proof_by_number source 0 = Ok bs \<and>
      hwp_from_ssz_bytes sample_alloy sample_ssz bs = Ok hwp \<and>
      vb = \<lparr>vb_header = header hwp, vb_auth_path = auth_path_for (hwp_proof hwp)\<rparr> \<and>
      (vb_header vb = ch_header sample_history (number (vb_header vb)) \<or>
       off_history sample_history (hwp_proof hwp) \<or>
       forged sample_hashing sample_alloy sample_tree_hash sample_history hwp))"
proof -
  let ?V = "\<lparr>validator = sample_epoch_validator, data_sources = [sample_source sample_full_hwp]\<rparr>"
  let ?vb = "\<lparr>vb_header = sample_header 0 0, vb_auth_path = AuthHistoricalHashes\<rparr>"
  have i: "0 < length (sample_full_epoch 0)" by (simp add: sample_full_epoch_facts)
  have "hwp_from_ssz_bytes sample_alloy sample_ssz (hwp_as_ssz_bytes sample_alloy sample_ssz sample_full_hwp)
      = Ok sample_full_hwp"
    using constructed_proof_wf [OF hashing_ok_sample i]
    by (intro hwp_ssz_roundtrip)
      (simp_all add: sample_full_hwp_def sample_full_epoch_facts era_of_def activation_unat)
  then have "verify_block_by_number sample_hashing sample_alloy sample_ssz [] ?V (number (header sample_full_hwp))
      = Ok \<lparr>vb_header = header sample_full_hwp, vb_auth_path = auth_path_for (hwp_proof sample_full_hwp)\<rparr>"
    by (intro verify_by_number_delivered [where pre = "[]" and post = "[]" and source = "sample_source sample_full_hwp"])
      (simp_all add: sample_source_def sample_full_accepted)
  then have verified: "verify_block_by_number sample_hashing sample_alloy sample_ssz [] ?V 0 = Ok ?vb"
    by (simp add: sample_full_hwp_def)
  have "snapshots_honest sample_tree_hash sample_history []" by (simp add: snapshots_honest_def)
  from verified_block_canonical [OF hashing_ok_sample alloy_ok_sample sample_tree_hash_ok ssz_ok_sample,
      of ?V sample_history "[]", OF _ this disjI1 [OF conjI [OF verified refl]]] sample_trusts
  show ?thesis using verified by simp
qed

end
