(* ===== verification/Canonical_Evidence.thy ===== *)
theory Canonical_Evidence
  imports Canonical_History Interleaved_Calls
begin

text \<open>
  The specification of \<open>Canonical_History\<close> carried through a running system: calls of
  \<open>src/api.rs\<close> on a store of snapshots that other tasks refresh, and the receipts and transactions
  that \<open>src/inclusion.rs\<close> shows in the block that a call returns.
\<close>

subsection \<open>Honest refreshes\<close>

text \<open>
  Any task may publish a snapshot through any verifier, with as many summaries as it has, as long as
  they are those of the history.
\<close>

inductive honest_refreshes :: "tree_hash \<Rightarrow> History \<Rightarrow> snapshots \<Rightarrow> snapshots \<Rightarrow> bool" for T C where
  "summaries_honest T C summaries \<Longrightarrow>
    honest_refreshes T C st (set_historical_summaries W summaries st)"

lemma honest_refreshes_refreshes: "honest_refreshes T C st st' \<Longrightarrow> refreshes st st'"
  by (auto elim: honest_refreshes.cases intro: refreshes.intros)

lemma honest_refresh_keeps:
  assumes "honest_refreshes T C st st'" "snapshots_honest T C st"
  shows "snapshots_honest T C st'"
  using assms(1)
proof (cases rule: honest_refreshes.cases)
  case (1 summaries W)
  obtain a where "historical_summaries_provider (validator W) = Provider a"
    by (cases "historical_summaries_provider (validator W)")
  then have "set st' \<subseteq> insert summaries (set st)"
    by (simp add: 1(1) set_historical_summaries_def set_update_subset_insert)
  then show ?thesis using 1(2) assms(2) by (auto simp: snapshots_honest_def)
qed

text \<open>A call while honest refreshes go on, with the sources whose fetches resolve.\<close>

definition honest_run ::
  "(data_source \<Rightarrow> bool) \<Rightarrow> hashing \<Rightarrow> alloy_api \<Rightarrow> ssz_api \<Rightarrow> tree_hash \<Rightarrow> History \<Rightarrow> Verifier \<Rightarrow> Request \<Rightarrow> step_label list
     \<Rightarrow> (data_source, VerifiedBlock, Error) call \<times> snapshots
     \<Rightarrow> (data_source, VerifiedBlock, Error) call \<times> snapshots \<Rightarrow> bool" where
  "honest_run resolves H A S T C self q =
     loop_run resolves (\<lambda>st s. request_attempt H A S st self q s) (request_nothing q) (honest_refreshes T C)"

text \<open>The invariant of the store: every snapshot that a call can see is honest.\<close>

lemma honest_run_keeps:
  "honest_run resolves H A S T C V q ls (c, st0) (c', st1) \<Longrightarrow> snapshots_honest T C st0 \<Longrightarrow>
    snapshots_honest T C st1"
  using run_keeps [of resolves _ _ "honest_refreshes T C" ls "(c, st0)" "(c', st1)" "snapshots_honest T C"]
  by (simp add: honest_run_def honest_refresh_keeps)

lemma honest_success:
  assumes "hashing_ok H" "alloy_ok A" "tree_hash_ok H T" "ssz_ok S"
    and "trusts H A T (validator V) C" "snapshots_honest T C st0"
    and "honest_run resolves H A S T C V q ls (start_call V, st0) (Finished (Ok vb), st1)"
  obtains source bs hwp where "source \<in> set (data_sources V)" "request_fetch q source = Ok bs"
    and "hwp_from_ssz_bytes A S bs = Ok hwp" "answers_request A q vb"
    and "vb = \<lparr>vb_header = header hwp, vb_auth_path = auth_path_for (hwp_proof hwp)\<rparr>"
    and "vb_header vb = ch_header C (number (vb_header vb)) \<or> off_history C (hwp_proof hwp) \<or> forged H A T C hwp"
proof -
  obtain ls1 source rest prev st where source: "source \<in> set (data_sources V)"
    and run: "honest_run resolves H A S T C V q ls1 (start_call V, st0) (Running (source # rest) prev, st)"
    and ok: "request_attempt H A S st V q source = Ok vb"
    by (rule success_attempt [OF assms(7) [unfolded honest_run_def], folded honest_run_def])
  obtain bs hwp where given: "request_fetch q source = Ok bs" "hwp_from_ssz_bytes A S bs = Ok hwp"
    "answers_request A q vb" and accepted: "validate_header_with_proof H A st (validator V) hwp = Ok ()"
    and vb: "vb = \<lparr>vb_header = header hwp, vb_auth_path = auth_path_for (hwp_proof hwp)\<rparr>"
    by (rule request_attempt_Ok [OF ok])
  have "proof_wf (hwp_proof hwp)" using hwp_from_ssz_Ok [OF given(2)] assms(4) by blast
  from accepted_canonical [OF assms(1-3,5) honest_run_keeps [OF run assms(6)] this accepted]
  have "vb_header vb = ch_header C (number (vb_header vb)) \<or> off_history C (hwp_proof hwp) \<or> forged H A T C hwp"
    by (simp add: vb)
  from that [OF source given vb this] show thesis .
qed

subsection \<open>The entries of a block\<close>

text \<open>
  The trie of a root holds a list of entries: each is shown at its index by its nodes, and is longer
  than a node reference.
\<close>

definition entries_held :: "trie_api \<Rightarrow> rlp_api \<Rightarrow> b256 \<Rightarrow> (bytes \<times> bytes list) list \<Rightarrow> bool" where
  "entries_held M R root entries \<longleftrightarrow>
     (\<forall>i. unat i < length entries \<longrightarrow> NODE_REF_MAX < length (fst (entries ! unat i)) \<and>
        verify_mpt_inclusion M root (rlp_encode_index R i) (fst (entries ! unat i)) (snd (entries ! unat i)) = Ok ())"

definition bodies_held :: "trie_api \<Rightarrow> rlp_api \<Rightarrow> History \<Rightarrow> bool" where
  "bodies_held M R C \<longleftrightarrow>
     (\<forall>n. entries_held M R (receipts_root (ch_header C n)) (ch_receipts C n) \<and>
        entries_held M R (transactions_root (ch_header C n)) (ch_transactions C n))"

lemma entry_canonical:
  assumes "trie_binding M K" "entries_held M R root entries" "unat i < length entries"
    and "trie_accepts M K root (rlp_encode_index R i) raw ns"
  shows "raw = fst (entries ! unat i) \<or> nodes_collide K ns (snd (entries ! unat i))"
proof -
  have "trie_accepts M K root (rlp_encode_index R i) (fst (entries ! unat i)) (snd (entries ! unat i))"
    using assms(1-3) by (simp add: trie_accepts_def entries_held_def)
  then show ?thesis by (rule trie.binds [OF assms(4)])
qed

lemma decoded_shown:
  "vb_verify_and_decode_receipt M R vb i raw ns = Ok d \<Longrightarrow> vb_verify_receipt_inclusion M R vb i raw ns = Ok ()"
  by (simp add: vb_verify_and_decode_receipt_def vb_verify_receipt_inclusion_def
      verify_and_decode_receipt_def and_then_Ok_iff)

subsection \<open>Claims\<close>

text \<open>
  C2.  Verified evidence is the evidence of the history.  While a call
  for a number or a hash runs, other tasks may publish any snapshots of honest summaries.  If it
  succeeds, and raw bytes are then verified, or verified and decoded, as the receipt (or the
  transaction) at an index of the block, the block is the one asked for, and the bytes are the receipt (the transaction) that the
  history has at that index of its block with that number; or the proof that some source delivered
  names a slot at which the history has no block of the claimed era, or header, branches or trie
  nodes contain an explicit collision with those of the history.
\<close>

theorem verified_evidence_canonical:
  assumes "hashing_ok H" "alloy_ok A" "tree_hash_ok H T" "ssz_ok S" "trie_binding M K"
    and "trusts H A T (validator V) C" "bodies_held M R C" "snapshots_honest T C st0"
    and "honest_run resolves H A S T C V q ls (start_call V, st0) (Finished (Ok vb), st1)"
    and "(vb_verify_receipt_inclusion M R vb i raw ns = Ok () \<or>
          vb_verify_and_decode_receipt M R vb i raw ns = Ok d) \<and>
        entries = ch_receipts C (number (vb_header vb)) \<or>
      vb_verify_transaction_inclusion M R vb i raw ns = Ok () \<and>
        entries = ch_transactions C (number (vb_header vb))"
    and "unat i < length entries" "NODE_REF_MAX < length raw"
  shows "answers_request A q vb \<and>
    (\<exists>source \<in> set (data_sources V). \<exists>bs hwp. request_fetch q source = Ok bs \<and>
      hwp_from_ssz_bytes A S bs = Ok hwp \<and> vb_header vb = header hwp \<and>
      (vb_header vb = ch_header C (number (vb_header vb)) \<and> raw = fst (entries ! unat i) \<or>
       off_history C (hwp_proof hwp) \<or> forged H A T C hwp \<or>
       nodes_collide K ns (snd (entries ! unat i))))"
proof -
  obtain source bs hwp where given: "source \<in> set (data_sources V)" "request_fetch q source = Ok bs"
      "hwp_from_ssz_bytes A S bs = Ok hwp" "answers_request A q vb"
    and vb: "vb = \<lparr>vb_header = header hwp, vb_auth_path = auth_path_for (hwp_proof hwp)\<rparr>"
    and canonical: "vb_header vb = ch_header C (number (vb_header vb)) \<or>
      off_history C (hwp_proof hwp) \<or> forged H A T C hwp"
    by (rule honest_success [OF assms(1-4,6,8,9)])
  have "raw = fst (entries ! unat i) \<or> nodes_collide K ns (snd (entries ! unat i))"
    if block: "vb_header vb = ch_header C (number (vb_header vb))"
  proof -
    from assms(7) block have "entries_held M R (receipts_root (vb_header vb)) (ch_receipts C (number (vb_header vb)))"
      "entries_held M R (transactions_root (vb_header vb)) (ch_transactions C (number (vb_header vb)))"
      unfolding bodies_held_def by metis+
    with assms(10) decoded_shown obtain root where "entries_held M R root entries"
      "trie_accepts M K root (rlp_encode_index R i) raw ns"
      using shown_in_block [OF assms(5,12)] by blast
    then show ?thesis using entry_canonical [OF assms(5) _ assms(11)] by blast
  qed
  moreover have "vb_header vb = header hwp" by (simp add: vb)
  ultimately show ?thesis using given canonical by blast
qed

text \<open>
  A run over a block of Electra: the first source fails while the snapshot is still empty, another
  task publishes the summaries of the history, and the second source delivers.
\<close>

definition sample_electra_hwp :: HeaderWithProof where
  "sample_electra_hwp = \<lparr>header = sample_electra_header,
     hwp_proof = fork_proof sample_signed_electra (fork_built sample_hashing sample_tree_hash 11649029
       sample_electra_batch sample_signed_electra)\<rparr>"

definition sample_history_verifier :: Verifier where
  "sample_history_verifier = \<lparr>validator = sample_epoch_validator,
     data_sources = [failing_source ''a'', sample_source sample_electra_hwp]\<rparr>"

definition sample_electra_verified :: VerifiedBlock where
  "sample_electra_verified =
     \<lparr>vb_header = sample_electra_header, vb_auth_path = AuthHistoricalSummariesDeneb\<rparr>"

lemma sample_electra_hwp_facts:
  "proof_wf (hwp_proof sample_electra_hwp)" "header sample_electra_hwp = sample_electra_header"
  "auth_path_for (hwp_proof sample_electra_hwp) = AuthHistoricalSummariesDeneb"
  using fork_built_facts(2) [OF hashing_ok_sample sample_tree_hash_ok sample_signed_electra_facts(4)]
  by (simp_all add: sample_electra_hwp_def sample_signed_electra_facts(1))

lemma sample_electra_accepted:
  "validate_header_with_proof sample_hashing sample_alloy [sample_summaries_of_history]
     sample_epoch_validator sample_electra_hwp = Ok ()"
proof -
  have "era_recorded sample_tree_hash [sample_summaries_of_history] sample_epoch_validator 11649029
      (signed_era sample_signed_electra) sample_electra_batch"
    using sample_electra_facts(4,5)
    by (simp add: era_recorded_def sample_signed_electra_facts sample_summaries_of_history_def
        sample_epoch_validator_def sample_validator_def sample_electra_batch_def del: tree_hash_of.simps)
  then show ?thesis
    unfolding sample_electra_hwp_def
    by (intro built_fork_accepted [OF hashing_ok_sample alloy_ok_sample sample_tree_hash_ok
        sample_signed_electra_facts(4)])
      (simp_all add: sample_signed_electra_facts sample_header_eras)
qed

lemma sample_electra_attempts:
  "request_attempt sample_hashing sample_alloy sample_ssz st V (ByNumber 23000000) (failing_source m)
     = Err (Http (lit m))"
  "request_attempt sample_hashing sample_alloy sample_ssz [sample_summaries_of_history]
     sample_history_verifier (ByNumber 23000000) (sample_source sample_electra_hwp) = Ok sample_electra_verified"
proof -
  have "hwp_from_ssz_bytes sample_alloy sample_ssz (hwp_as_ssz_bytes sample_alloy sample_ssz sample_electra_hwp)
      = Ok sample_electra_hwp"
    by (rule hwp_ssz_roundtrip)
      (simp_all add: sample_electra_hwp_facts sample_header_eras, simp add: sample_electra_header_def)
  then show "request_attempt sample_hashing sample_alloy sample_ssz [sample_summaries_of_history]
     sample_history_verifier (ByNumber 23000000) (sample_source sample_electra_hwp) = Ok sample_electra_verified"
    by (simp add: number_attempt_Ok_iff sample_source_def sample_electra_hwp_facts sample_electra_accepted
        sample_history_verifier_def sample_electra_verified_def)
      (simp add: sample_electra_header_def)
qed (simp add: number_attempt_def failing_source_def)

lemma sample_honest_run:
  "honest_run (\<lambda>_. True) sample_hashing sample_alloy sample_ssz sample_tree_hash sample_history sample_history_verifier
     (ByNumber 23000000) [Attempt, Refresh, Attempt] (start_call sample_history_verifier, [[]])
     (Finished (Ok sample_electra_verified), [sample_summaries_of_history])"
proof -
  let ?start = "(start_call sample_history_verifier, [[]])"
  let ?run = "honest_run (\<lambda>_. True) sample_hashing sample_alloy sample_ssz sample_tree_hash sample_history
    sample_history_verifier (ByNumber 23000000)"
  have sources: "data_sources sample_history_verifier = [failing_source ''a'', sample_source sample_electra_hwp]"
    by (simp add: sample_history_verifier_def)
  have published: "set_historical_summaries sample_history_verifier sample_summaries_of_history [[]]
      = [sample_summaries_of_history]"
    by (simp add: set_historical_summaries_def sample_history_verifier_def sample_epoch_validator_def
        sample_validator_def)
  have "?run ([] @ [Attempt]) ?start (Running [sample_source sample_electra_hwp] (Some (Http (lit ''a''))), [[]])"
    unfolding honest_run_def start_call_def sources
    by (intro run_snoc [OF run_Nil])
      (simp add: sample_electra_attempts loop_step.intros del: request_attempt.simps)
  then have "?run (([] @ [Attempt]) @ [Refresh]) ?start
      (Running [sample_source sample_electra_hwp] (Some (Http (lit ''a''))), [sample_summaries_of_history])"
    unfolding honest_run_def
    by (rule run_snoc) (intro Refreshed honest_refreshes.intros [OF sample_summaries_honest(2),
          of "[[]]" sample_history_verifier, unfolded published])
  then have "?run ((([] @ [Attempt]) @ [Refresh]) @ [Attempt]) ?start
      (Finished (Ok sample_electra_verified), [sample_summaries_of_history])"
    unfolding honest_run_def
    by (rule run_snoc) (intro Attempt_Ok sample_electra_attempts TrueI)
  then show ?thesis by simp
qed

lemma sample_bodies_held: "bodies_held sample_trie sample_rlp sample_history"
proof -
  have "enc_u64 sample_rlp 0 = replicate 8 0"
    by (simp add: sample_rlp_def to_le_def numeral_eq_Suc)
  then show ?thesis
    by (auto simp: bodies_held_def entries_held_def sample_history_def NODE_REF_MAX_def unat_eq_zero
        rlp_encode_index_def verify_mpt_inclusion_Ok sample_trie_def sample_keccak_def
        sample_electra_header_def sample_header_def b256_ZERO_def numeral_eq_Suc)
qed

theorem verified_evidence_canonical_witness:
  "\<exists>entries. entries = ch_receipts sample_history (number (vb_header sample_electra_verified)) \<and>
    length entries = 1 \<and>
    vb_verify_receipt_inclusion sample_trie sample_rlp sample_electra_verified 0 (replicate 40 0)
      [replicate 56 0] = Ok () \<and>
    answers_request sample_alloy (ByNumber 23000000) sample_electra_verified \<and>
    (\<exists>source \<in> set (data_sources sample_history_verifier). \<exists>bs hwp.
      request_fetch (ByNumber 23000000) source = Ok bs \<and>
      hwp_from_ssz_bytes sample_alloy sample_ssz bs = Ok hwp \<and>
      vb_header sample_electra_verified = header hwp \<and>
      (vb_header sample_electra_verified = ch_header sample_history (number (vb_header sample_electra_verified)) \<and>
         replicate 40 0 = fst (entries ! unat (0 :: u64)) \<or>
       off_history sample_history (hwp_proof hwp) \<or>
       forged sample_hashing sample_alloy sample_tree_hash sample_history hwp \<or>
       nodes_collide sample_keccak [replicate 56 0] (snd (entries ! unat (0 :: u64)))))"
proof -
  let ?entries = "ch_receipts sample_history (number (vb_header sample_electra_verified))"
  have held: "trusts sample_hashing sample_alloy sample_tree_hash (validator sample_history_verifier) sample_history"
    "snapshots_honest sample_tree_hash sample_history [[]]"
    using sample_trusts by (simp_all add: sample_history_verifier_def snapshots_honest_def sample_summaries_honest)
  have one: "length ?entries = 1" by (simp add: sample_history_def)
  have sizes: "unat (0 :: u64) < length ?entries" "NODE_REF_MAX < length (replicate 40 0 :: bytes)"
    by (simp_all add: NODE_REF_MAX_def one)
  have "entries_held sample_trie sample_rlp (receipts_root sample_electra_header) [(replicate 40 0, [replicate 56 0])]"
    using sample_bodies_held [unfolded bodies_held_def, THEN spec, of 23000000]
    by (simp add: sample_history_def)
  then have shown: "vb_verify_receipt_inclusion sample_trie sample_rlp sample_electra_verified 0
      (replicate 40 0) [replicate 56 0] = Ok ()"
    by (simp add: entries_held_def vb_verify_receipt_inclusion_def verify_receipt_inclusion_def
        sample_electra_verified_def)
  note canonical = verified_evidence_canonical [OF hashing_ok_sample alloy_ok_sample sample_tree_hash_ok
      ssz_ok_sample trie_binding_sample held(1) sample_bodies_held held(2) sample_honest_run
      disjI1 [OF conjI [OF disjI1 [OF shown] refl]] sizes]
  show ?thesis by (intro exI [of _ ?entries] conjI [OF refl] conjI [OF one] conjI [OF shown canonical])
qed

end
