(* ===== verification/Canonical_Liveness.thy ===== *)
theory Canonical_Liveness
  imports Canonical_History
begin

text \<open>
  The other direction of \<open>Canonical_History\<close>: what the crate's producers build for a block of the
  history (\<open>src/proof_construction.rs\<close>, \<open>src/portal_types/execution/header_with_proof.rs\<close>) makes its
  verifier (\<open>src/api.rs\<close>) return that block, whatever the sources before the one that delivers it do.
\<close>

subsection \<open>Proofs for a history\<close>

text \<open>The proofs that the producers build for block \<open>n\<close> from the history.\<close>

definition history_proof ::
  "hashing \<Rightarrow> alloy_api \<Rightarrow> tree_hash \<Rightarrow> History \<Rightarrow> u64 \<Rightarrow> BlockHeaderProof \<Rightarrow> bool" where
  "history_proof H A T C n pf \<longleftrightarrow>
     (\<exists>p. \<not> is_paris_active_at_block n \<and> pf = HistoricalHashes p \<and>
        construct_pre_merge_proof H A (ch_header C n) (ch_epoch C (unat n div 8192)) = Ok p) \<or>
     (\<exists>sl sb p. ch_block C sl = Some sb \<and> execution_block_number sb = n \<and> pf = fork_proof sb p \<and>
        build_fork_proof H T sl (ch_batch C sl) sb = (Ok p :: (BlockProofHistorical, Error) res))"

text \<open>
  What is trusted reaches block \<open>n\<close>: there is a root for its epoch, or for the slot of a beacon block
  that carries it, and the label of the block is the era of its header.
\<close>

definition pre_merge_reached :: "HeaderValidator \<Rightarrow> History \<Rightarrow> u64 \<Rightarrow> bool" where
  "pre_merge_reached v C n \<longleftrightarrow>
     \<not> is_paris_active_at_block n \<and> era_of (ch_header C n) = AuthHistoricalHashes \<and>
     unat n div 8192 < length (historical_epochs (pre_merge_acc v))"

definition slot_reached :: "snapshots \<Rightarrow> HeaderValidator \<Rightarrow> History \<Rightarrow> u64 \<Rightarrow> u64 \<Rightarrow> bool" where
  "slot_reached st v C n sl \<longleftrightarrow>
     (\<exists>sb. ch_block C sl = Some sb \<and> execution_block_number sb = n \<and>
        era_of (ch_header C n) = signed_era sb \<and>
        (if signed_era sb = AuthHistoricalRoots
         then unat sl div 8192 < length (historical_roots (historical_roots_acc v))
         else is_Ok (get_historical_summary st (historical_summaries_provider v) sl)))"

lemma pre_merge_history_proof:
  assumes "hashing_ok H" "alloy_ok A" "trusts H A T v C" "pre_merge_reached v C n"
  obtains p where "history_proof H A T C n (HistoricalHashes p)" "fixed_vector_wf 15 p"
    and "validate_header_with_proof H A st v \<lparr>header = ch_header C n, hwp_proof = HistoricalHashes p\<rparr> = Ok ()"
proof -
  let ?acc = "ch_epoch C (unat n div 8192)" and ?i = "unat n mod 8192"
  have n: "number (ch_header C n) = n" "\<not> is_paris_active_at_block n"
    and acc: "epoch_acc_wf ?acc" "historical_epochs (pre_merge_acc v) ! (unat n div 8192) = epoch_root H ?acc"
      "?i < length ?acc" "block_hash (?acc ! ?i) = hash_slow A (ch_header C n)"
    and len: "unat n div 8192 < length (historical_epochs (pre_merge_acc v))"
    using assms(3,4)
    by (auto simp: trusts_def history_wf_def pre_merge_honest_def pre_merge_reached_def Let_def)
  have built: "construct_pre_merge_proof H A (ch_header C n) ?acc = Ok (constructed_proof H ?acc ?i)"
    using acc by (simp add: construct_pre_merge_proof_eq [OF assms(1)] n)
  show thesis
  proof (rule that)
    show "history_proof H A T C n (HistoricalHashes (constructed_proof H ?acc ?i))"
      using built n(2) by (simp add: history_proof_def)
    show "fixed_vector_wf 15 (constructed_proof H ?acc ?i)"
      using constructed_proof_wf [OF assms(1) acc(3)] acc(1) by (simp add: epoch_acc_wf_def)
    show "validate_header_with_proof H A st v
        \<lparr>header = ch_header C n, hwp_proof = HistoricalHashes (constructed_proof H ?acc ?i)\<rparr> = Ok ()"
      using acc(2) len
      by (intro constructed_accepted [OF assms(1,2) acc(1) _ _ _ built])
        (simp_all add: n epoch_index_of_block_def unat_div SLOTS_PER_HISTORICAL_ROOT_def)
  qed
qed

lemma honest_era_recorded:
  assumes "roots_honest T C (historical_roots (historical_roots_acc v))" "snapshots_honest T C st"
    and "ch_block C sl = Some sb"
    and "if signed_era sb = AuthHistoricalRoots
         then unat sl div 8192 < length (historical_roots (historical_roots_acc v))
         else is_Ok (get_historical_summary st (historical_summaries_provider v) sl)"
  shows "era_recorded T st v sl (signed_era sb) (ch_batch C sl)"
  using assms(1,3,4) read_honest [OF assms(2)]
  by (auto simp: era_recorded_def roots_honest_def summaries_honest_def is_Ok_iff
      get_historical_summary_Ok_iff split: if_splits)

lemma slot_history_proof:
  assumes "hashing_ok H" "alloy_ok A" "tree_hash_ok H T" "trusts H A T v C" "snapshots_honest T C st"
    and "slot_reached st v C n sl"
  obtains pf where "history_proof H A T C n pf" "proof_wf pf" "auth_path_for pf = era_of (ch_header C n)"
    and "validate_header_with_proof H A st v \<lparr>header = ch_header C n, hwp_proof = pf\<rparr> = Ok ()"
proof -
  from assms(6) obtain sb where sb: "ch_block C sl = Some sb" "execution_block_number sb = n"
    and era: "era_of (ch_header C n) = signed_era sb"
    and reached: "if signed_era sb = AuthHistoricalRoots
         then unat sl div 8192 < length (historical_roots (historical_roots_acc v))
         else is_Ok (get_historical_summary st (historical_summaries_provider v) sl)"
    unfolding slot_reached_def by blast
  have holds: "batch_holds T (ch_batch C sl) sl sb" "signed_payload_hash sb = hash_slow A (ch_header C n)"
    and "roots_honest T C (historical_roots (historical_roots_acc v))"
    using assms(4) sb by (auto simp: trusts_def history_wf_def)
  note recorded = honest_era_recorded [OF this(3) assms(5) sb(1) reached]
  note facts = fork_built_facts [OF assms(1,3) holds(1)]
  show thesis
  proof (rule that)
    show "history_proof H A T C n (fork_proof sb (fork_built H T sl (ch_batch C sl) sb))"
      unfolding history_proof_def using sb facts(1) by blast
    show "validate_header_with_proof H A st v \<lparr>header = ch_header C n,
        hwp_proof = fork_proof sb (fork_built H T sl (ch_batch C sl) sb)\<rparr> = Ok ()"
      by (rule built_fork_accepted [OF assms(1-3) holds era recorded])
  qed (simp_all add: facts era)
qed

subsection \<open>Claims\<close>

text \<open>
  C3.  Every block of the history that the trusted data reaches can be verified.
  When the accumulators and the snapshots agree with a history, and hold the root of the epoch of a
  block (before the Merge) or of a slot that carries it, the producers of the crate build a proof
  from the history such that every verifier with these accumulators returns the block under the label
  of its era, as soon as one of its sources delivers the encoding of header and proof and the sources
  before it fail with errors.
\<close>

theorem history_verifiable:
  assumes "hashing_ok H" "alloy_ok A" "tree_hash_ok H T" "ssz_ok S"
    and "trusts H A T v C" "snapshots_honest T C st"
    and "header_rlp_ok A (ch_header C n)" "length (rlp_encode_header A (ch_header C n)) \<le> 2048"
    and "pre_merge_reached v C n \<or> slot_reached st v C n sl"
  shows "\<exists>pf. history_proof H A T C n pf \<and>
    (\<forall>V pre source post. validator V = v \<longrightarrow> data_sources V = pre @ source # post \<longrightarrow>
       (\<forall>s \<in> set pre. \<exists>e. number_attempt H A S st V n s = Err e) \<longrightarrow>
       fetch_header_with_proof_by_number source n
         = Ok (hwp_as_ssz_bytes A S \<lparr>header = ch_header C n, hwp_proof = pf\<rparr>) \<longrightarrow>
       verify_block_by_number H A S st V n
         = Ok \<lparr>vb_header = ch_header C n, vb_auth_path = era_of (ch_header C n)\<rparr>)"
proof -
  obtain pf where built: "history_proof H A T C n pf"
    and pf: "proof_wf pf" "auth_path_for pf = era_of (ch_header C n)"
    and accepted: "validate_header_with_proof H A st v \<lparr>header = ch_header C n, hwp_proof = pf\<rparr> = Ok ()"
    using assms(9)
  proof
    assume reached: "pre_merge_reached v C n"
    with pre_merge_history_proof [OF assms(1,2,5) this] that show thesis
      by (metis auth_path_for.simps(1) pre_merge_reached_def proof_wf.simps(1))
  qed (use slot_history_proof [OF assms(1-3,5,6)] that in blast)
  let ?hwp = "\<lparr>header = ch_header C n, hwp_proof = pf\<rparr>"
  have "hwp_from_ssz_bytes A S (hwp_as_ssz_bytes A S ?hwp) = Ok ?hwp"
    by (rule hwp_ssz_roundtrip) (simp_all add: assms(4,7,8) pf)
  moreover have "number (ch_header C n) = n" using assms(5) by (simp add: trusts_def history_wf_def)
  ultimately show ?thesis
    using built accepted pf(2) verify_by_number_delivered [where hwp = ?hwp] by fastforce
qed

text \<open>Block 0 and a block of Electra of the sample history, behind a source that fails.\<close>

lemma sample_reached:
  "pre_merge_reached sample_epoch_validator sample_history 0"
  "slot_reached [sample_summaries_of_history] sample_epoch_validator sample_history 23000000 11649029"
proof -
  show "pre_merge_reached sample_epoch_validator sample_history 0"
    by (simp add: pre_merge_reached_def sample_history_def sample_epoch_validator_def sample_validator_def
        era_of_def activation_unat)
  show "slot_reached [sample_summaries_of_history] sample_epoch_validator sample_history 23000000 11649029"
    using sample_electra_facts(4)
    by (simp add: slot_reached_def sample_history_def sample_signed_electra_facts sample_header_eras is_Ok_iff
        sample_summaries_of_history_def sample_epoch_validator_def sample_validator_def)
qed

theorem history_verifiable_witness:
  "\<exists>pf pf'. history_proof sample_hashing sample_alloy sample_tree_hash sample_history 0 pf \<and>
     history_proof sample_hashing sample_alloy sample_tree_hash sample_history 23000000 pf' \<and>
     verify_block_by_number sample_hashing sample_alloy sample_ssz [sample_summaries_of_history]
       \<lparr>validator = sample_epoch_validator, data_sources = [failing_source ''a'',
          sample_source \<lparr>header = ch_header sample_history 0, hwp_proof = pf\<rparr>]\<rparr> 0
       = Ok \<lparr>vb_header = ch_header sample_history 0, vb_auth_path = era_of (ch_header sample_history 0)\<rparr> \<and>
     verify_block_by_number sample_hashing sample_alloy sample_ssz [sample_summaries_of_history]
       \<lparr>validator = sample_epoch_validator, data_sources = [failing_source ''a'',
          sample_source \<lparr>header = ch_header sample_history 23000000, hwp_proof = pf'\<rparr>]\<rparr> 23000000
       = Ok \<lparr>vb_header = ch_header sample_history 23000000,
            vb_auth_path = era_of (ch_header sample_history 23000000)\<rparr>"
proof -
  have honest: "snapshots_honest sample_tree_hash sample_history [sample_summaries_of_history]"
    by (simp add: snapshots_honest_def sample_summaries_honest)
  have encodable: "header_rlp_ok sample_alloy (ch_header sample_history n)"
    "length (rlp_encode_header sample_alloy (ch_header sample_history n)) \<le> 2048" for n
    by (simp_all add: sample_history_def sample_electra_header_def)
  have "\<exists>pf. history_proof sample_hashing sample_alloy sample_tree_hash sample_history n pf \<and>
     verify_block_by_number sample_hashing sample_alloy sample_ssz [sample_summaries_of_history]
       \<lparr>validator = sample_epoch_validator, data_sources = [failing_source ''a'',
          sample_source \<lparr>header = ch_header sample_history n, hwp_proof = pf\<rparr>]\<rparr> n
       = Ok \<lparr>vb_header = ch_header sample_history n, vb_auth_path = era_of (ch_header sample_history n)\<rparr>"
    if reached: "pre_merge_reached sample_epoch_validator sample_history n \<or>
      slot_reached [sample_summaries_of_history] sample_epoch_validator sample_history n sl" for n sl
  proof -
    note history_verifiable [OF hashing_ok_sample alloy_ok_sample sample_tree_hash_ok ssz_ok_sample
        sample_trusts honest encodable reached]
    then obtain pf where pf: "history_proof sample_hashing sample_alloy sample_tree_hash sample_history n pf"
      and returned: "\<And>V pre source post. validator V = sample_epoch_validator \<Longrightarrow>
        data_sources V = pre @ source # post \<Longrightarrow>
        \<forall>s \<in> set pre. \<exists>e. number_attempt sample_hashing sample_alloy sample_ssz
          [sample_summaries_of_history] V n s = Err e \<Longrightarrow>
        fetch_header_with_proof_by_number source n = Ok (hwp_as_ssz_bytes sample_alloy sample_ssz
          \<lparr>header = ch_header sample_history n, hwp_proof = pf\<rparr>) \<Longrightarrow>
        verify_block_by_number sample_hashing sample_alloy sample_ssz [sample_summaries_of_history] V n
          = Ok \<lparr>vb_header = ch_header sample_history n, vb_auth_path = era_of (ch_header sample_history n)\<rparr>"
      by blast
    show ?thesis
      by (rule exI [of _ pf], rule conjI [OF pf], rule returned [of _ "[failing_source ''a'']"
          "sample_source \<lparr>header = ch_header sample_history n, hwp_proof = pf\<rparr>" "[]"])
        (simp_all add: sample_source_def number_attempt_def failing_source_def)
  qed
  from this [of 0, OF disjI1 [OF sample_reached(1)]] this [of 23000000, OF disjI2 [OF sample_reached(2)]]
  show ?thesis by blast
qed

end
