(* ===== verification/Serde_Helpers.thy ===== *)
theory Serde_Helpers
  imports Data_Sources Sample_Hex Proof_Construction Post_Merge_Properties
begin

text \<open>
  The serde helpers of the payload fields: \<open>src/portal_types/consensus/serde.rs\<close> and
  \<open>src/portal_types/utils/serde/\<close> (\<open>hex_fixed_vec.rs\<close>, \<open>hex_var_list.rs\<close>).  A serializer takes the
  string it is given, a deserializer calls a visitor; both, the visitor of \<open>serde_utils\<close>, and the
  decimal text of \<open>U256\<close> are parameters, and \<open>serde_ok\<close> states what is documented of them.
\<close>

subsection \<open>The libraries\<close>

text \<open>\<open>serde_json::Value\<close>.\<close>

datatype Value =
    VNull
  | VBool bool
  | VNumber string
  | VString string
  | VArray "Value list"
  | VObject "(string \<times> Value) list"

fun as_str :: "Value \<Rightarrow> string option" where
  "as_str (VString s) = Some s"
| "as_str _ = None"

record 'd deserializer =
  deserialize_string :: "'d \<Rightarrow> (string \<Rightarrow> (bytes, msg) res) \<Rightarrow> (bytes, msg) res"
  deserialize_str :: "'d \<Rightarrow> (string \<Rightarrow> (bytes, msg) res) \<Rightarrow> (bytes, msg) res"
  deserialize_value :: "'d \<Rightarrow> (Value, msg) res"
  deserialize_strings :: "'d \<Rightarrow> (string list, msg) res"

record serde_api =
  serde_hex_encode :: "bytes \<Rightarrow> string"
  PrefixedHexVisitor :: "string \<Rightarrow> (bytes, msg) res"
  u256_to_string :: "u256 \<Rightarrow> string"
  u256_from_str_radix :: "string \<Rightarrow> nat \<Rightarrow> (u256, msg) res"

text \<open>
  \<open>serde_utils::hex\<close> writes and reads \<open>0x\<close> and two digits for each byte; a decimal text of a number
  reads as this number.
\<close>

definition serde_ok :: "serde_api \<Rightarrow> bool" where
  "serde_ok P \<longleftrightarrow>
     (\<forall>bs. serde_hex_encode P bs = ''0x'' @ hex_pairs bs) \<and>
     (\<forall>bs. PrefixedHexVisitor P (''0x'' @ hex_pairs bs) = Ok bs) \<and>
     (\<forall>s. \<not> is_panic (PrefixedHexVisitor P s)) \<and>
     (\<forall>n. u256_from_str_radix P (u256_to_string P n) 10 = Ok n) \<and>
     (\<forall>s r. \<not> is_panic (u256_from_str_radix P s r))"

text \<open>A deserializer over a JSON value, as \<open>serde_json\<close> implements it.\<close>

definition value_deserializer_ok :: "Value deserializer \<Rightarrow> bool" where
  "value_deserializer_ok D \<longleftrightarrow>
     (\<forall>s visit. deserialize_string D (VString s) visit = visit s) \<and>
     (\<forall>s visit. deserialize_str D (VString s) visit = visit s) \<and>
     (\<forall>v. deserialize_value D v = Ok v) \<and>
     (\<forall>ss. deserialize_strings D (VArray (map VString ss)) = Ok ss)"

text \<open>\<open>FixedVector::new\<close> and \<open>VariableList::new\<close> of \<open>ssz_types\<close>.\<close>

datatype SszTypesError = OutOfBounds nat nat

definition FixedVector_new :: "nat \<Rightarrow> bytes \<Rightarrow> (bytes, SszTypesError) res" where
  "FixedVector_new n vec = (if length vec = n then Ok vec else Err (OutOfBounds (length vec) n))"

definition VariableList_new :: "nat \<Rightarrow> bytes \<Rightarrow> (bytes, SszTypesError) res" where
  "VariableList_new n vec = (if length vec \<le> n then Ok vec else Err (OutOfBounds (length vec) n))"

fun ssz_types_text :: "string \<Rightarrow> SszTypesError \<Rightarrow> msg" where
  "ssz_types_text what (OutOfBounds i n) =
     Msg ''invalid {}: OutOfBounds { i: {}, len: {} }'' [AStr what, ANat i, ANat n]"

subsection \<open>The code\<close>

definition hex_fixed_vec_serialize ::
  "(string \<Rightarrow> ('o, msg) res) \<Rightarrow> hex_api \<Rightarrow> bytes \<Rightarrow> ('o, msg) res" where
  "hex_fixed_vec_serialize serialize_str X bs = serialize_str (hex_encode X bs)"

definition hex_fixed_vec_deserialize ::
  "'d deserializer \<Rightarrow> serde_api \<Rightarrow> nat \<Rightarrow> 'd \<Rightarrow> (bytes, msg) res" where
  "hex_fixed_vec_deserialize D P n d =
     and_then (deserialize_string D d (PrefixedHexVisitor P)) (\<lambda>vec.
     map_err (ssz_types_text ''fixed vector'') (FixedVector_new n vec))"

definition hex_var_list_serialize ::
  "(string \<Rightarrow> ('o, msg) res) \<Rightarrow> serde_api \<Rightarrow> bytes \<Rightarrow> ('o, msg) res" where
  "hex_var_list_serialize serialize_str P bs = serialize_str (serde_hex_encode P bs)"

definition hex_var_list_deserialize ::
  "'d deserializer \<Rightarrow> serde_api \<Rightarrow> nat \<Rightarrow> 'd \<Rightarrow> (bytes, msg) res" where
  "hex_var_list_deserialize D P n d =
     and_then (deserialize_str D d (PrefixedHexVisitor P)) (\<lambda>bs.
     map_err (ssz_types_text ''variable list'') (VariableList_new n bs))"

definition se_hex_to_number ::
  "(string \<Rightarrow> ('o, msg) res) \<Rightarrow> serde_api \<Rightarrow> u256 \<Rightarrow> ('o, msg) res" where
  "se_hex_to_number serialize_str P v = serialize_str (u256_to_string P v)"

definition de_number_to_u256 :: "'d deserializer \<Rightarrow> serde_api \<Rightarrow> 'd \<Rightarrow> (u256, msg) res" where
  "de_number_to_u256 D P d =
     and_then (deserialize_value D d) (\<lambda>result.
     case as_str result of
       None \<Rightarrow> Err (lit ''Unable to deserialize u256'')
     | Some val \<Rightarrow> u256_from_str_radix P val 10)"

text \<open>The lengths of the two byte fields.\<close>

definition BLOOM_LEN :: nat where "BLOOM_LEN = 256"
definition EXTRA_DATA_MAX :: nat where "EXTRA_DATA_MAX = 32"

subsection \<open>What the helpers read back\<close>

text \<open>A codec of the values for which \<open>valid\<close> holds; other values of the type are refused.\<close>

locale valid_codec =
  fixes enc :: "'x \<Rightarrow> 'w" and dec :: "'w \<Rightarrow> ('x, 'e) res" and valid :: "'x \<Rightarrow> bool"
  assumes dec_enc: "valid x \<Longrightarrow> dec (enc x) = Ok x"
begin

lemma enc_inject: "valid x \<Longrightarrow> valid y \<Longrightarrow> enc x = enc y \<longleftrightarrow> x = y"
  by (metis dec_enc res.inject(1))

lemma dec_map: "\<forall>x \<in> set xs. valid x \<Longrightarrow> map (\<lambda>w. dec w) (map enc xs) = map Ok xs"
  by (simp add: dec_enc)

end

sublocale codec \<subseteq> all_valid: valid_codec enc dec "\<lambda>_. True"
  by unfold_locales (rule dec_enc)

text \<open>Over JSON values: what \<open>to_value\<close> writes, \<open>from_value\<close> reads.\<close>

definition json_str :: "string \<Rightarrow> (Value, msg) res" where
  "json_str s = Ok (VString s)"

definition written :: "(Value, msg) res \<Rightarrow> Value" where
  "written r = (case r of Ok v \<Rightarrow> v | _ \<Rightarrow> VNull)"

interpretation fixed_vec: valid_codec "\<lambda>bs. written (hex_fixed_vec_serialize json_str X bs)"
  "hex_fixed_vec_deserialize D P n"
  "\<lambda>bs. hex_ok X \<and> serde_ok P \<and> value_deserializer_ok D \<and> length bs = n" for X D P n
  by unfold_locales
    (simp add: hex_fixed_vec_serialize_def hex_fixed_vec_deserialize_def written_def json_str_def
      hex_encode_def hex_ok_def serde_ok_def value_deserializer_ok_def FixedVector_new_def)

interpretation var_list: valid_codec "\<lambda>bs. written (hex_var_list_serialize json_str P bs)"
  "hex_var_list_deserialize D P n"
  "\<lambda>bs. serde_ok P \<and> value_deserializer_ok D \<and> length bs \<le> n" for D P n
  by unfold_locales
    (simp add: hex_var_list_serialize_def hex_var_list_deserialize_def written_def json_str_def
      serde_ok_def value_deserializer_ok_def VariableList_new_def)

interpretation decimal: valid_codec "\<lambda>v. written (se_hex_to_number json_str P v)" "de_number_to_u256 D P"
  "\<lambda>_. serde_ok P \<and> value_deserializer_ok D" for D P
  by unfold_locales
    (simp add: se_hex_to_number_def de_number_to_u256_def written_def json_str_def serde_ok_def
      value_deserializer_ok_def)

interpretation tx_list: valid_codec "se_txs_to_hex X" "de_hex_to_txs X"
  "\<lambda>txs. hex_ok X \<and> (\<forall>tx \<in> set txs. length tx \<le> 2 ^ 30) \<and> length txs \<le> 2 ^ 20" for X
  by unfold_locales (simp add: txs_roundtrip)

text \<open>Bytes of another length are an error, and a JSON number is not a base fee.\<close>

lemma wrong_length_refused:
  assumes "hex_ok X" "serde_ok P" "value_deserializer_ok D"
  shows "length bs \<noteq> n \<Longrightarrow> hex_fixed_vec_deserialize D P n (written (hex_fixed_vec_serialize json_str X bs))
      = Err (ssz_types_text ''fixed vector'' (OutOfBounds (length bs) n))"
    and "n < length bs \<Longrightarrow> hex_var_list_deserialize D P n (written (hex_var_list_serialize json_str P bs))
      = Err (ssz_types_text ''variable list'' (OutOfBounds (length bs) n))"
  using assms
  by (simp_all add: hex_fixed_vec_serialize_def hex_fixed_vec_deserialize_def written_def json_str_def
      hex_var_list_serialize_def hex_var_list_deserialize_def hex_encode_def hex_ok_def serde_ok_def
      value_deserializer_ok_def FixedVector_new_def VariableList_new_def del: ssz_types_text.simps)

lemma number_refused:
  "value_deserializer_ok D \<Longrightarrow> de_number_to_u256 D P (VNumber s) = Err (lit ''Unable to deserialize u256'')"
  by (simp add: de_number_to_u256_def value_deserializer_ok_def)

subsection \<open>The custom fields of a payload\<close>

text \<open>
  The four fields of an execution payload that do not use the derived format: \<open>logs_bloom\<close>,
  \<open>extra_data\<close>, \<open>base_fee_per_gas\<close> and \<open>transactions\<close>.
\<close>

record payload_json =
  pj_logs_bloom :: Value
  pj_extra_data :: Value
  pj_base_fee_per_gas :: Value
  pj_transactions :: Value

definition payload_to_json ::
  "hex_api \<Rightarrow> serde_api \<Rightarrow> 'z ExecutionPayloadBellatrix_scheme \<Rightarrow> payload_json" where
  "payload_to_json X P p =
     \<lparr>pj_logs_bloom = written (hex_fixed_vec_serialize json_str X (ep_logs_bloom p)),
      pj_extra_data = written (hex_var_list_serialize json_str P (ep_extra_data p)),
      pj_base_fee_per_gas = written (se_hex_to_number json_str P (ep_base_fee_per_gas p)),
      pj_transactions = VArray (map VString (se_txs_to_hex X (ep_transactions p)))\<rparr>"

fun txs_error_text :: "TxsError \<Rightarrow> msg" where
  "txs_error_text (TxHex (WrongPrefix s)) = Msg ''Hex string starts with {first_two}, expected 0x'' [AStr s]"
| "txs_error_text (TxHex (HexDecode e s)) = Msg ''Unable to decode hex string {data} due to {source}'' (AStr s # (case hex_error_text e of Msg t args \<Rightarrow> AStr t # args))"
| "txs_error_text (TxHex (NoPrefix s)) = Msg ''Hex string is '{data}', expected to start with 0x'' [AStr s]"
| "txs_error_text UnableToDeserializeTxs = lit ''Unable to deserialize txs''"

definition payload_from_json ::
  "hex_api \<Rightarrow> serde_api \<Rightarrow> Value deserializer \<Rightarrow> payload_json
     \<Rightarrow> (bytes \<times> bytes \<times> u256 \<times> bytes list, msg) res" where
  "payload_from_json X P D j =
     and_then (hex_fixed_vec_deserialize D P BLOOM_LEN (pj_logs_bloom j)) (\<lambda>bloom.
     and_then (hex_var_list_deserialize D P EXTRA_DATA_MAX (pj_extra_data j)) (\<lambda>extra.
     and_then (de_number_to_u256 D P (pj_base_fee_per_gas j)) (\<lambda>fee.
     and_then (deserialize_strings D (pj_transactions j)) (\<lambda>ss.
     and_then (map_err txs_error_text (de_hex_to_txs X ss)) (\<lambda>txs.
     Ok (bloom, extra, fee, txs))))))"

text \<open>
  C40.  The hand-written JSON codecs of an execution payload agree with each
  other: a payload whose bloom, extra data, base fee and transactions fit their SSZ types is read back
  from what was written for these four fields.
\<close>

theorem payload_json_roundtrip:
  assumes "hex_ok X" "serde_ok P" "value_deserializer_ok D"
    and "length (ep_logs_bloom p) = BLOOM_LEN" "length (ep_extra_data p) \<le> EXTRA_DATA_MAX"
    and "\<forall>tx \<in> set (ep_transactions p). length tx \<le> 2 ^ 30" "length (ep_transactions p) \<le> 2 ^ 20"
  shows "payload_from_json X P D (payload_to_json X P p)
    = Ok (ep_logs_bloom p, ep_extra_data p, ep_base_fee_per_gas p, ep_transactions p)"
proof -
  have "deserialize_strings D (VArray (map VString ss)) = Ok ss" for ss
    using assms(3) by (simp add: value_deserializer_ok_def)
  then show ?thesis
    using fixed_vec.dec_enc [of X P D "ep_logs_bloom p" BLOOM_LEN]
      var_list.dec_enc [of P D "ep_extra_data p" EXTRA_DATA_MAX]
      decimal.dec_enc [of P D "ep_base_fee_per_gas p"] tx_list.dec_enc [of X "ep_transactions p"] assms
    by (simp add: payload_from_json_def payload_to_json_def)
qed

text \<open>An instance: numbers as the hexadecimal text of their bytes, and JSON values themselves.\<close>

definition sample_visitor :: "string \<Rightarrow> (bytes, msg) res" where
  "sample_visitor s = (if take 2 s = ''0x''
     then map_err (\<lambda>_. lit ''invalid hex'') (hex_crate_decode sample_hex (drop 2 s))
     else Err (lit ''missing 0x prefix''))"

definition sample_serde :: serde_api where
  "sample_serde =
     \<lparr>serde_hex_encode = (\<lambda>bs. ''0x'' @ hex_pairs bs), PrefixedHexVisitor = sample_visitor,
      u256_to_string = (\<lambda>n. hex_pairs (to_le 32 n)),
      u256_from_str_radix = (\<lambda>s r. map_ok from_le (map_err (\<lambda>_. lit ''invalid digit'')
        (hex_crate_decode sample_hex s)))\<rparr>"

fun value_string :: "Value \<Rightarrow> (string \<Rightarrow> (bytes, msg) res) \<Rightarrow> (bytes, msg) res" where
  "value_string (VString s) visit = visit s"
| "value_string _ visit = Err (lit ''invalid type'')"

fun value_strings :: "Value \<Rightarrow> (string list, msg) res" where
  "value_strings (VArray vs) = try_map (\<lambda>v. ok_or (as_str v) (lit ''invalid type'')) vs"
| "value_strings _ = Err (lit ''invalid type'')"

definition sample_value :: "Value deserializer" where
  "sample_value = \<lparr>deserialize_string = value_string, deserialize_str = value_string,
     deserialize_value = Ok, deserialize_strings = value_strings\<rparr>"

lemma sample_value_ok: "value_deserializer_ok sample_value"
proof -
  have "try_map (\<lambda>v. ok_or (as_str v) (lit ''invalid type'')) (map VString ss) = Ok ss" for ss
    by (induction ss) simp_all
  then show ?thesis by (simp add: value_deserializer_ok_def sample_value_def)
qed

lemma sample_serde_ok: "serde_ok sample_serde"
  using hex_ok_sample
  by (simp add: serde_ok_def sample_serde_def sample_visitor_def hex_ok_def from_le_to_le is_panic_iff)

definition sample_full_payload :: ExecutionPayloadDeneb where
  "sample_full_payload = (sample_payload_deneb sample_deneb_header)
     \<lparr>ep_extra_data := [1, 2, 255], ep_base_fee_per_gas := 7, ep_transactions := [[2, 248, 16], [9]]\<rparr>"

theorem payload_json_roundtrip_witness:
  "payload_from_json sample_hex sample_serde sample_value
     (payload_to_json sample_hex sample_serde sample_full_payload)
    = Ok (replicate 256 0, [1, 2, 255], 7, [[2, 248, 16], [9]])"
proof -
  have "ep_logs_bloom sample_full_payload = replicate 256 0"
    by (simp add: sample_full_payload_def sample_payload_deneb_def sample_payload_capella_def
        sample_payload_bellatrix_def ExecutionPayloadBellatrix.extend_def ExecutionPayloadCapella.extend_def
        ExecutionPayloadCapella.fields_def ExecutionPayloadDeneb.fields_def)
      (simp add: sample_deneb_header_def sample_header_def)
  moreover have "ep_extra_data sample_full_payload = [1, 2, 255]" "ep_base_fee_per_gas sample_full_payload = 7"
    "ep_transactions sample_full_payload = [[2, 248, 16], [9]]"
    by (simp_all add: sample_full_payload_def)
  ultimately show ?thesis
    using payload_json_roundtrip [OF hex_ok_sample sample_serde_ok sample_value_ok, of sample_full_payload]
    by (simp add: BLOOM_LEN_def EXTRA_DATA_MAX_def)
qed

end
