(* ===== verification/Ffi_Strings.thy ===== *)
theory Ffi_Strings
  imports Bindings_Properties Evidence_Unique "HOL-Library.Multiset"
begin

text \<open>
  Who owns the error texts of the C interface (\<open>bindings/go/src/lib.rs\<close>).  \<open>Bindings\<close> says which text a
  call reports; here the text is a C string in a heap, given to the caller by \<open>CString::into_raw\<close> and
  taken back by \<open>eth_historian_free_error\<close>.  An address is a number, null is 0, and the allocator is a
  parameter that picks a fresh address.
\<close>

type_synonym c_heap = "nat \<rightharpoonup> string"

definition alloc_ok :: "(c_heap \<Rightarrow> nat) \<Rightarrow> bool" where
  "alloc_ok alloc \<longleftrightarrow> (\<forall>heap. finite (dom heap) \<longrightarrow> alloc heap \<notin> dom heap \<and> alloc heap \<noteq> 0)"

subsection \<open>The code\<close>

definition into_raw :: "(c_heap \<Rightarrow> nat) \<Rightarrow> string \<Rightarrow> c_heap \<Rightarrow> nat \<times> c_heap" where
  "into_raw alloc s heap = (alloc heap, heap(alloc heap \<mapsto> s))"

text \<open>The pointer a call returns: null without an error.\<close>

definition hand_out :: "(c_heap \<Rightarrow> nat) \<Rightarrow> string option \<Rightarrow> c_heap \<Rightarrow> nat \<times> c_heap" where
  "hand_out alloc err heap =
     (case err of None \<Rightarrow> (0, heap) | Some m \<Rightarrow> into_raw alloc m heap)"

text \<open>\<open>CString::from_raw\<close> of an address that \<open>into_raw\<close> did not give out is undefined behaviour.\<close>

definition free_error :: "nat \<Rightarrow> c_heap \<Rightarrow> (c_heap, 'e) res" where
  "free_error error heap =
     (if error \<noteq> 0
      then if error \<in> dom heap then Ok (heap(error := None))
           else Panic ''undefined behaviour: not a string of into_raw''
      else Ok heap)"

subsection \<open>Calls of a client\<close>

text \<open>
  A client makes calls of the three verifying functions, one after the other, and keeps what it gets:
  the struct of a header call, of an inclusion call nothing but the pointer.
\<close>

datatype c_call =
  Verify_Header "byte ptr" usize
| Verify_Transaction "byte ptr" u64 "byte ptr" usize "byte ptr ptr" "usize ptr" usize
| Verify_Receipt "byte ptr" u64 "byte ptr" usize "byte ptr ptr" "usize ptr" usize

datatype c_answer = Header_Answer FfiVerifyResult | Inclusion_Answer "string option"

record c_library =
  lib_text :: text_api
  lib_assets :: assets_api
  lib_hashing :: hashing
  lib_alloy :: alloy_api
  lib_ssz :: ssz_api
  lib_trie :: trie_api
  lib_rlp :: rlp_api
  lib_snapshots :: snapshots

fun c_run :: "c_library \<Rightarrow> c_call \<Rightarrow> (c_answer, unit) res" where
  "c_run L (Verify_Header p len) =
     map_ok Header_Answer (go_verify_header_with_proof (lib_text L) (lib_assets L) (lib_hashing L)
       (lib_alloy L) (lib_ssz L) (lib_snapshots L) p len)"
| "c_run L (Verify_Transaction root i raw len ptrs lens n) =
     map_ok Inclusion_Answer (go_verify_transaction_inclusion (lib_text L) (lib_trie L) (lib_rlp L)
       root i raw len ptrs lens n)"
| "c_run L (Verify_Receipt root i raw len ptrs lens n) =
     map_ok Inclusion_Answer (go_verify_receipt_inclusion (lib_text L) (lib_trie L) (lib_rlp L)
       root i raw len ptrs lens n)"

fun answer_text :: "c_answer \<Rightarrow> string option" where
  "answer_text (Header_Answer r) = ffi_error r"
| "answer_text (Inclusion_Answer e) = e"

text \<open>Each call hands its text out; the client gets the answers with their pointers.\<close>

fun c_session ::
  "c_library \<Rightarrow> (c_heap \<Rightarrow> nat) \<Rightarrow> c_call list \<Rightarrow> c_heap \<Rightarrow> ((c_answer \<times> nat) list \<times> c_heap, unit) res" where
  "c_session L alloc [] heap = Ok ([], heap)"
| "c_session L alloc (c # cs) heap =
     and_then (c_run L c) (\<lambda>a.
     let (p, heap) = hand_out alloc (answer_text a) heap in
     and_then (c_session L alloc cs heap) (\<lambda>(as, heap). Ok ((a, p) # as, heap)))"

fun free_all :: "nat list \<Rightarrow> c_heap \<Rightarrow> (c_heap, 'e) res" where
  "free_all [] heap = Ok heap"
| "free_all (p # ps) heap = and_then (free_error p heap) (free_all ps)"

abbreviation non_null :: "nat list \<Rightarrow> nat list" where
  "non_null ps \<equiv> filter (\<lambda>p. p \<noteq> 0) ps"

subsection \<open>The answer of one call\<close>

text \<open>A success has no text; a failure has one, without a zero byte, so that C reads all of it.\<close>

definition answer_wf :: "c_answer \<Rightarrow> bool" where
  "answer_wf a \<longleftrightarrow> (\<forall>m. answer_text a = Some m \<longrightarrow> CHR 0x00 \<notin> set m) \<and>
     (case a of Header_Answer r \<Rightarrow> ffi_ok r \<in> {0, 1} \<and> (ffi_error r = None \<longleftrightarrow> ffi_ok r = 1)
      | Inclusion_Answer _ \<Rightarrow> True)"

lemma err_cstring_text: "\<exists>t. err_cstring m = Some t \<and> CHR 0x00 \<notin> set t"
  by (simp add: err_cstring_def)

lemma make_error_wf: "answer_wf (Header_Answer (make_error m))"
  using err_cstring_text [of m] by (auto simp: answer_wf_def make_error_def ffi_default_def Let_def)

lemma ffi_success_wf: "answer_wf (Header_Answer (ffi_success A vb))"
  by (simp add: answer_wf_def ffi_success_def Let_def)

lemma inclusion_wf: "answer_wf (Inclusion_Answer None)" "answer_wf (Inclusion_Answer (err_cstring m))"
  using err_cstring_text [of m] by (auto simp: answer_wf_def)

text \<open>What holds of every value that a computation returns, through its branches.\<close>

definition returns_only :: "('a \<Rightarrow> bool) \<Rightarrow> ('a, 'e) res \<Rightarrow> bool" where
  "returns_only P m \<longleftrightarrow> (\<forall>v. m = Ok v \<longrightarrow> P v)"

lemma returns_only_intros:
  "P v \<Longrightarrow> returns_only P (Ok v)" "returns_only P (Err e)" "returns_only P (Panic p)"
  "(\<And>x. returns_only P (f x)) \<Longrightarrow> returns_only P (and_then m f)"
  "(\<And>x. returns_only P (f x)) \<Longrightarrow> (\<And>x. returns_only P (g x)) \<Longrightarrow> (\<And>x. returns_only P (k x)) \<Longrightarrow>
    returns_only P (case n of Ok x \<Rightarrow> f x | Err x \<Rightarrow> g x | Panic x \<Rightarrow> k x)"
  "returns_only P m1 \<Longrightarrow> returns_only P m2 \<Longrightarrow> returns_only P (if b then m1 else m2)"
  "(\<And>x y. returns_only P (j x y)) \<Longrightarrow> returns_only P (case xy of (x, y) \<Rightarrow> j x y)"
  by (auto simp: returns_only_def and_then_Ok_iff split: res.splits prod.splits)

lemma go_header_wf:
  "returns_only (\<lambda>r. answer_wf (Header_Answer r)) (go_verify_header_with_proof F E H A S st p len)"
  unfolding go_verify_header_with_proof_def
  by (intro returns_only_intros make_error_wf ffi_success_wf)

lemma go_inclusion_wf:
  "returns_only (\<lambda>e. answer_wf (Inclusion_Answer e)) (go_verify_transaction_inclusion F M R root i raw len ptrs lens n)"
  "returns_only (\<lambda>e. answer_wf (Inclusion_Answer e)) (go_verify_receipt_inclusion F M R root i raw len ptrs lens n)"
  unfolding go_verify_transaction_inclusion_def go_verify_receipt_inclusion_def
  by (intro returns_only_intros inclusion_wf)+

lemma c_run_wf: "c_run L c = Ok a \<Longrightarrow> answer_wf a"
  using go_header_wf go_inclusion_wf by (cases c) (auto simp: map_ok_Ok_iff returns_only_def)

subsection \<open>The heap of a session\<close>

lemma hand_out_facts:
  assumes "alloc_ok alloc" "finite (dom heap)" "hand_out alloc e heap = (p, heap')"
  shows "finite (dom heap')" "dom heap' = dom heap \<union> set (non_null [p])" "dom heap \<inter> set (non_null [p]) = {}"
    "\<forall>x \<in> dom heap. heap' x = heap x" "p = 0 \<longleftrightarrow> e = None" "p \<noteq> 0 \<Longrightarrow> heap' p = e"
  using assms by (cases e; force simp: hand_out_def into_raw_def alloc_ok_def)+

definition answer_held :: "c_heap \<Rightarrow> c_answer \<times> nat \<Rightarrow> bool" where
  "answer_held heap = (\<lambda>(a, p). answer_wf a \<and> (p = 0 \<longleftrightarrow> answer_text a = None) \<and>
     (p \<noteq> 0 \<longrightarrow> heap p = answer_text a))"

lemma c_session_facts:
  assumes "alloc_ok alloc" "finite (dom heap)" "c_session L alloc cs heap = Ok (as, heap')"
  shows "dom heap' = dom heap \<union> set (non_null (map snd as)) \<and> dom heap \<inter> set (non_null (map snd as)) = {} \<and>
    (\<forall>x \<in> dom heap. heap' x = heap x) \<and> distinct (non_null (map snd as)) \<and>
    (\<forall>ap \<in> set as. answer_held heap' ap)"
  using assms(2,3)
proof (induction cs arbitrary: heap as)
  case Nil
  then show ?case by auto
next
  case (Cons c cs)
  from Cons.prems(2) obtain a where a: "c_run L c = Ok a" by (auto simp: and_then_Ok_iff)
  obtain p h1 where e: "hand_out alloc (answer_text a) heap = (p, h1)" by force
  from Cons.prems(2) a e obtain bs where rest: "c_session L alloc cs h1 = Ok (bs, heap')" and as: "as = (a, p) # bs"
    by (auto simp: and_then_Ok_iff)
  note one = hand_out_facts [OF assms(1) Cons.prems(1) e]
  note IH = Cons.IH [OF one(1) rest]
  have "answer_held heap' (a, p)"
    using IH one(2,5,6) c_run_wf [OF a] by (auto simp: answer_held_def)
  then show ?case using one(2-4) IH unfolding as by auto
qed

lemma free_all_restricts:
  assumes "distinct (non_null qs)" "set (non_null qs) \<subseteq> dom heap"
  shows "free_all qs heap = Ok (heap |` (- set (non_null qs)))"
  using assms
proof (induction qs arbitrary: heap)
  case (Cons q qs)
  show ?case
  proof (cases "q = 0")
    case False
    have "distinct (non_null qs)" "set (non_null qs) \<subseteq> dom (heap(q := None))"
      using False Cons.prems by auto
    note IH = Cons.IH [OF this]
    have restr: "heap(q := None) |` (- set (non_null qs)) = heap |` (- set (non_null (q # qs)))"
      using False by (auto simp: restrict_map_def fun_eq_iff)
    have "q \<in> dom heap" using False Cons.prems(2) by simp
    then show ?thesis using False by (simp only: free_all.simps free_error_def if_True
        not_False_eq_True and_then.simps IH restr)
  qed (use Cons in \<open>simp add: free_error_def\<close>)
qed (simp add: restrict_map_def)

text \<open>
  C39.  The error texts of the C interface, over any sequence of calls of its three
  verifying functions that returns.  The pointer of a header call is null exactly when its \<open>ok\<close> is 1, so
  a success never carries a text and a failure always does; every pointer that is not null reads, after all later
  calls, the text of its own call, and that text has no zero byte.  Freeing each pointer that is not
  null once, in any order, as the documentation allows (it forbids a free of null, which does not occur
  here), is never undefined and gives the heap back as it was: no text leaks or is freed twice.
\<close>

theorem error_strings_freed:
  assumes "alloc_ok alloc" "finite (dom heap)"
    and "c_session L alloc calls heap = Ok (answers, heap')"
    and "mset qs = mset (non_null (map snd answers))"
  shows "(\<forall>r p. (Header_Answer r, p) \<in> set answers \<longrightarrow> ffi_ok r \<in> {0, 1} \<and> (p = 0 \<longleftrightarrow> ffi_ok r = 1)) \<and>
    (\<forall>(a, p) \<in> set answers. p \<noteq> 0 \<longrightarrow>
      (\<exists>m. answer_text a = Some m \<and> CHR 0x00 \<notin> set m \<and> heap' p = Some m)) \<and>
    free_all qs heap' = Ok heap"
proof (intro conjI)
  note facts = c_session_facts [OF assms(1-3)]
  then show "\<forall>r p. (Header_Answer r, p) \<in> set answers \<longrightarrow> ffi_ok r \<in> {0, 1} \<and> (p = 0 \<longleftrightarrow> ffi_ok r = 1)"
    by (fastforce simp: answer_held_def answer_wf_def)
  from facts show "\<forall>(a, p) \<in> set answers. p \<noteq> 0 \<longrightarrow>
      (\<exists>m. answer_text a = Some m \<and> CHR 0x00 \<notin> set m \<and> heap' p = Some m)"
    by (fastforce simp: answer_held_def answer_wf_def)
  let ?ps = "map snd answers"
  have "set qs = set (non_null ?ps)" "distinct qs"
    using facts assms(4) by (metis set_mset_mset) (metis facts assms(4) mset_eq_imp_distinct_iff)
  moreover from this have "non_null qs = qs" by auto
  moreover have "heap' |` (- set (non_null ?ps)) = heap"
  proof
    fix x
    have "x \<notin> dom heap' \<Longrightarrow> heap' x = None" by (simp add: domIff)
    then show "(heap' |` (- set (non_null ?ps))) x = heap x"
      using facts by (cases "x \<in> dom heap") (auto simp: restrict_map_def domIff)
  qed
  ultimately show "free_all qs heap' = Ok heap" using free_all_restricts [of qs heap'] facts by simp
qed

text \<open>Three calls: a header that is verified, a null header of length 3, a transaction with a null root.\<close>

definition sample_library :: c_library where
  "sample_library = \<lparr>lib_text = sample_text, lib_assets = sample_merge_assets, lib_hashing = sample_hashing,
     lib_alloy = sample_alloy, lib_ssz = sample_ssz, lib_trie = sample_trie, lib_rlp = sample_rlp,
     lib_snapshots = []\<rparr>"

abbreviation sample_alloc :: "c_heap \<Rightarrow> nat" where
  "sample_alloc \<equiv> (\<lambda>heap. Suc (Max (insert 0 (dom heap))))"

lemma sample_alloc_ok: "alloc_ok sample_alloc"
  by (auto simp: alloc_ok_def) (metis Max_ge Suc_n_not_le_n domI finite_insert insertCI)

definition sample_session :: "c_call list" where
  "sample_session = [Verify_Header (Some (encoded sample_merge_hwp)) (word_of_nat (length (encoded sample_merge_hwp))),
     Verify_Header None 3, Verify_Transaction None 0 None 0 None None 0]"

lemma sample_session_run:
  "\<exists>answers heap. c_session sample_library sample_alloc sample_session Map.empty = Ok (answers, heap) \<and>
     map snd answers = [0, 1, 2]"
proof -
  have "length (encoded sample_merge_hwp) < 2 ^ 64" by (rule length_encoded) simp
  from go_reports [OF denoted_list [OF this] sample_merge_verifies, of sample_text]
  have "c_run sample_library (sample_session ! 0) = Ok (Header_Answer (ffi_success sample_alloy sample_verified))"
    by (simp add: sample_library_def sample_session_def)
  moreover have "c_run sample_library (sample_session ! 1)
      = Ok (Header_Answer (make_error ''eth_historian: null bytes pointer with non-zero len''))"
    by (simp add: sample_session_def go_verify_header_with_proof_def)
  moreover have "c_run sample_library (sample_session ! 2) = Ok (Inclusion_Answer (err_cstring ''null root pointer''))"
    by (simp add: sample_session_def go_verify_transaction_inclusion_def read_root_def)
  moreover have "c_session L alloc sample_session heap = c_session L alloc
      [sample_session ! 0, sample_session ! 1, sample_session ! 2] heap" for L alloc heap
    by (simp add: sample_session_def)
  ultimately show ?thesis
    by (simp add: hand_out_def into_raw_def err_cstring_def ffi_success_def make_error_def Let_def)
qed

theorem error_strings_freed_witness:
  "\<exists>answers heap. c_session sample_library sample_alloc sample_session Map.empty = Ok (answers, heap) \<and>
     map snd answers = [0, 1, 2] \<and> free_all [2, 1] heap = (Ok Map.empty :: (_, unit) res)"
proof -
  obtain answers heap where run: "c_session sample_library sample_alloc sample_session Map.empty = Ok (answers, heap)"
    and ps: "map snd answers = [0, 1, 2]" using sample_session_run by (elim exE conjE)
  have "free_all [2, 1] heap = (Ok Map.empty :: (_, unit) res)"
    by (rule error_strings_freed [OF sample_alloc_ok _ run, THEN conjunct2, THEN conjunct2]) (simp_all add: ps)
  with run ps show ?thesis by (intro exI [of _ answers] exI [of _ heap] conjI)
qed

text \<open>Freeing a text twice is undefined.\<close>

lemma double_free:
  "error \<noteq> 0 \<Longrightarrow> and_then (free_error error heap) (free_error error)
    = Panic ''undefined behaviour: not a string of into_raw''"
  by (simp add: free_error_def)

end
