(* ===== verification/Spec2Isabelle.thy ===== *)
theory Spec2Isabelle
  imports
    Merkle_Properties Proof_Construction Post_Merge_Properties Inclusion_Properties Verifier_Properties
    Checked_Arith Source_Properties Archive_Http Bindings_Properties Interleaved_Calls
    Evidence_Unique Canonical_Evidence Canonical_Liveness
    Serde_Helpers Ffi_Strings
begin

text \<open>
  A verification of eth-historian, a Rust library that authenticates historical blocks of Ethereum.
  An untrusted source delivers a header with a Merkle proof; the library checks the proof against
  accumulators built into it (before Capella) or against a snapshot of beacon-state summaries
  (from Capella on), and then checks transactions and receipts against the roots in the header.

  \<^bold>\<open>Conventions.\<close>  A Rust computation is a value of \<open>res\<close> (\<open>Hist_Prelude\<close>): \<open>Ok\<close>, \<open>Err\<close>, or \<open>Panic\<close>
  for a checked operation that fails.  Integers are words of their width, and where overflow is
  checked the check is written out.  \<open>usize\<close> has 64 bits; \<open>Wasm_Target\<close> is the verifier on a target
  where it has 32.  A struct is a record, an enum a datatype; a fixed-size array is
  a list whose length is part of a well-formedness predicate.  Code of other crates is a parameter,
  a record of functions: \<open>hashing\<close> (SHA-256, rs_merkle), \<open>tree_hash\<close>, \<open>alloy_api\<close>, \<open>ssz_api\<close>,
  \<open>consensus_ssz\<close>, \<open>assets_api\<close>, \<open>trie_api\<close>, \<open>rlp_api\<close>, \<open>hex_api\<close>, \<open>text_api\<close>, \<open>serde_api\<close>; a predicate
  ending in \<open>_ok\<close> (and \<open>trie_binding\<close>) states what that code documents, and the theories \<open>Sample_Hashing\<close>, \<open>Sample_Codecs\<close> and
  \<open>Sample_Hex\<close> give an instance of each on which the theorems are applied.  An asynchronous function
  is a function of the store at its call.  Only the loops over the sources have a suspension point
  between two reads of the shared snapshot; \<open>Interleaved_Calls\<close> treats these as runs of steps, and
  there a fetch need not resolve.  Elsewhere the function of a source stands for a fetch that does.

  \<^bold>\<open>Merkle trees.\<close>  \<open>Merkle_Spec\<close> is the abstract tree over a leaf function, its sibling paths, the
  climb from a leaf to the root and a search that turns two climbs to one root into a collision of
  the hash.  \<open>Merkle_Tree\<close> translates src/merkle/proof.rs and shows that it refines the abstract tree
  for depths up to 33, more than any caller uses (the deepest is 15).  \<open>Merkle_Provider\<close> states the
  contract of the two branch producers as the locale \<open>path_provider\<close>, interpreted on the crate's own
  tree and on src/portal_types/consensus/proof.rs.  \<open>Merkle_Properties\<close>: completeness, soundness up
  to a collision, irrelevance of the index bits above the depth, agreement of the producers.
  \<open>Checked_Arith\<close> is src/merkle/safe_arith.rs: the trait is the record \<open>SafeArith\<close>, implemented once
  for each signedness over words of any length; two locales, \<open>exact_op\<close> and \<open>exact_add\<close>, state that
  an operation is exact or refused; sums succeed when every running total fits; divisions are
  exact with their one overflowing pair, and shifts lose bits.

  \<^bold>\<open>Time, text and errors.\<close>  \<open>Network_Spec\<close>: network_spec.rs, constants.rs, fork.rs, the fork of a slot
  (sources/beacon_rpc.rs) and the index of a summary; the separately kept constants draw the same
  fork boundaries.  \<open>Hex_Bytes\<close>: utils/bytes.rs.  \<open>Rpc_Text\<close>: what the sources use of the standard
  library to write and read numbers; termination of the digit loops by the decreasing quotient.
  \<open>Hist_Errors\<close>: errors.rs.

  \<^bold>\<open>Headers, accumulators, validator.\<close>  \<open>Header_Proof\<close>: header_with_proof.rs and ssz_header.rs, the
  dispatch of the decoder on the era, with its round trip.  \<open>Accumulators\<close>: the embedded files, the
  fingerprint check (accumulator.rs, historical_roots_acc.rs, constants.rs, lib.rs), and the summaries
  provider as a cell of an explicit store (locale \<open>snapshot_store\<close>).  \<open>Header_Validator\<close>:
  header_validator.rs, with \<open>validate_Ok_iff\<close>, the exact condition of acceptance.
  \<open>Validator_Properties\<close>: that condition as a claim, uniqueness of the accepted header up to an
  explicit collision, the eras, and when validation panics.

  \<^bold>\<open>Producers of proofs.\<close>  \<open>Proof_Construction\<close>: proof_construction.rs and execution/accumulator.rs.
  \<open>Consensus_Bytes\<close>, \<open>Consensus_Types\<close>, \<open>Consensus_Proofs\<close>: the consensus containers per fork, their
  tree-hash shapes as one datatype of values, and the branches into payloads, bodies, blocks, batches
  and states.  \<open>Consensus_Decode\<close>: the fork-dependent decoders, signed blocks, the requests hash, the
  JSON form of transactions.  \<open>Serde_Helpers\<close>: consensus/serde.rs and utils/serde/, the other
  hand-written JSON codecs of a payload, as instances of the locale \<open>valid_codec\<close>.
  \<open>Post_Merge_Properties\<close>: what the builder of each fork makes, and the samples.  \<open>Fork_Properties\<close>
  treats the four forks at once: a built proof is accepted, and an accepted header is the one in
  the block of its slot, up to a collision.

  \<^bold>\<open>The public interface.\<close>  \<open>Verifier_Api\<close>: api.rs.  The two loops over the sources share the locale
  \<open>fallback\<close>.  \<open>Verifier_Properties\<close>: what is returned and from which source, which error is reported,
  what a built verifier trusts, who sees a refreshed snapshot.  \<open>Interleaved_Calls\<close>: both loops as a
  step relation in which other tasks refresh the snapshot between two attempts; a success still
  comes from an attempt accepted on the snapshots of its moment.  Which sources ever answer is the
  parameter \<open>resolves\<close>: an undisturbed call returns exactly when each source that it reaches answers,
  then with the result of the loop, and a source that hangs blocks the call for ever.  \<open>Inclusion\<close>, \<open>Inclusion_Properties\<close>: inclusion.rs; when a receipt
  and its bytes determine each other.  \<open>Evidence_Unique\<close> composes both layers of authentication,
  each an instance of the locale \<open>binding\<close>, in the locale \<open>two_level\<close>: the receipt or transaction at
  an index of a block is unique, or the evidence contains a collision.
  \<open>Canonical_History\<close> is the specification of the library as a whole: relative to a history that the
  accumulators and the snapshots agree with, as far as they reach, a verified block is the block of the history for its
  number, or its proof names a slot at which the history has no block of the era (the validator does
  not compare the slot with the timestamp of the header), or its evidence contains a collision with
  the history.  It rests on \<open>pre_merge_header_in_epoch\<close> (before the Merge) and \<open>fork_header_in_block\<close>
  (the forks after it).  \<open>Canonical_Evidence\<close> carries the specification through a call during which
  other tasks publish honest snapshots (an invariant of the store), and down to the receipts and
  transactions that are then verified in the block.
  \<open>Canonical_Liveness\<close> is the other direction: each block of the history that the trusted data reaches
  is returned, once a source delivers it with the proof that the crate's producers build.

  \<^bold>\<open>Sources.\<close>  \<open>Data_Sources\<close>: portal.rs, portal_beacon.rs, era1.rs, beacon_rpc.rs; the locale
  \<open>content_router\<close> is the contract of the two sidecars.  \<open>Source_Properties\<close>: which slots the snapshot
  of the latest rollover covers, and what the beacon client returns for a slot.  \<open>Archive_Source\<close>:
  archive_rpc.rs.  \<open>Archive_Properties\<close>: the parser of raw blocks against the JSON-RPC encoding.
  \<open>Archive_Pipeline\<close>: the whole way from the answers of an execution node and an epoch or beacon
  provider, through construction, encoding, decoding and validation, to the verified block, before
  the Merge and after it up to Prague.  From Prague on headers have a requests hash, which the
  source does not read, and verification of what it builds fails; that is a claim of its own.  \<open>Archive_Http\<close> closes the chain over the beacon-API
  client: from two HTTP endpoints to the verified block, with the agreement of timestamp, slot, fork
  and era proved and not assumed.

  \<^bold>\<open>Bindings.\<close>  \<open>Bindings\<close>: the C interface for Go, the Python and the WebAssembly modules, all
  instances of the locale \<open>library_binding\<close>.  WebAssembly has pointers of 32 bits: \<open>Wasm_Target\<close> translates
  the validator with its conversions to \<open>usize\<close> cut to that width, and shows that it is the validator
  on slots reduced to 45 bits.  \<open>Bindings_Properties\<close>: the C interface and the Python module accept the
  same bytes and report the same block, the WebAssembly module does so for slots below \<open>2 ^ 45\<close> and
  accepts more beyond; none verifies anything from Shanghai on.  \<open>Ffi_Strings\<close>: any sequence of calls
  of the C interface over an explicit heap; which calls hand out an error text, that each text stays
  readable, and that freeing each once, in any order, leaves nothing.

  \<^bold>\<open>Not modelled.\<close>  Transport and JSON parsing below the answer of a request, file access (its result is
  an argument), the wording of \<open>Display\<close> and \<open>Debug\<close> texts other than the templates kept in messages,
  the derived SSZ codecs and tree hashes of structs (parameters with laws; the type-level lengths of
  lists and vectors are numbers in the shapes and well-formedness predicates), the tokio runtimes and
  the module registration of the bindings, logging, tests and examples.  Loops recurse on lists, depths or decreasing
  numbers, so every definition is total and no fuel is used.
\<close>

end
